(* ===== verification/Prelude.thy ===== *)
theory Prelude
  imports Main "HOL-Library.Word"
begin

text \<open>
  Shared vocabulary of the development: the C integer types the vendor Bluetooth library
  uses, its byte-stream macros (hardware/bt/include/rtk_common.h), the theorem collections
  the component theories fill, and generic lemmas on words and lists.
\<close>

unbundle bit_operations_syntax

section \<open>Machine integers\<close>

type_synonym u8 = "8 word"
type_synonym u16 = "16 word"
type_synonym u32 = "32 word"

text \<open>Simplification sets filled by the components: frame facts of operations (the fields an
  operation leaves alone), invariant preservation, and list abstractions of buffers.\<close>

named_theorems frame_simps
named_theorems inv_intros
named_theorems bytes_simps

section \<open>Byte-stream macros\<close>

text \<open>\<open>STREAM_TO_UINT16(u16, p)\<close>: two bytes, least significant first. The result is the value
  of the macro's 16-bit variable; advancing the pointer is the caller's offset.\<close>

definition stream_to_uint16 :: "u8 \<Rightarrow> u8 \<Rightarrow> u16" where
  "stream_to_uint16 b0 b1 = ucast b0 + push_bit 8 (ucast b1)"

text \<open>\<open>UINT16_TO_STREAM(p, u16)\<close>: the two bytes the macro stores.\<close>

definition uint16_to_stream :: "u16 \<Rightarrow> u8 list" where
  "uint16_to_stream w = [ucast w, ucast (drop_bit 8 w)]"

lemma uint16_stream_roundtrip:
  "stream_to_uint16 (uint16_to_stream w ! 0) (uint16_to_stream w ! 1) = w"
proof -
  have disj: "bit (ucast (ucast w :: u8) :: u16) n \<Longrightarrow>
      \<not> bit (push_bit 8 (ucast (ucast (drop_bit 8 w) :: u8)) :: u16) n" for n
    by (auto simp: bit_simps)
  show ?thesis
    unfolding stream_to_uint16_def uint16_to_stream_def nth_Cons_0 One_nat_def nth_Cons_Suc
    by (subst disjunctive_add) (use disj in blast, rule bit_word_eqI, auto simp: bit_simps)
qed

lemma length_uint16_to_stream [simp]: "length (uint16_to_stream w) = 2"
  by (simp add: uint16_to_stream_def)

text \<open>\<open>STREAM_TO_UINT32\<close> and \<open>UINT32_TO_STREAM\<close>.\<close>

definition stream_to_uint32 :: "u8 \<Rightarrow> u8 \<Rightarrow> u8 \<Rightarrow> u8 \<Rightarrow> u32" where
  "stream_to_uint32 b0 b1 b2 b3 =
     ucast b0 + push_bit 8 (ucast b1) + push_bit 16 (ucast b2) + push_bit 24 (ucast b3)"

definition uint32_to_stream :: "u32 \<Rightarrow> u8 list" where
  "uint32_to_stream w = [ucast w, ucast (drop_bit 8 w), ucast (drop_bit 16 w), ucast (drop_bit 24 w)]"

lemma uint32_stream_roundtrip:
  "stream_to_uint32 (uint32_to_stream w ! 0) (uint32_to_stream w ! 1) (uint32_to_stream w ! 2) (uint32_to_stream w ! 3) = w"
proof -
  define b where "b i = (push_bit i (ucast (ucast (drop_bit i w) :: u8)) :: u32)" for i
  have b: "bit (b i) n \<longleftrightarrow> i \<le> n \<and> n < i + 8 \<and> n < 32 \<and> bit w n" for i n
    by (auto simp: b_def bit_simps)
  have "b 0 + b 8 = b 0 OR b 8" by (rule disjunctive_add) (auto simp: b)
  moreover have "(b 0 OR b 8) + b 16 = (b 0 OR b 8) OR b 16"
    by (rule disjunctive_add) (auto simp: b bit_or_iff)
  moreover have "((b 0 OR b 8) OR b 16) + b 24 = ((b 0 OR b 8) OR b 16) OR b 24"
    by (rule disjunctive_add) (auto simp: b bit_or_iff)
  moreover have "((b 0 OR b 8) OR b 16) OR b 24 = w"
    by (rule bit_word_eqI) (auto simp: b bit_or_iff)
  ultimately have "b 0 + b 8 + b 16 + b 24 = w" by simp
  then show ?thesis by (simp add: b_def stream_to_uint32_def uint32_to_stream_def eval_nat_numeral)
qed

text \<open>\<open>p[i]\<close> for a message whose bytes are given as a list. The messages are parsed in buffers that
  are longer than the message; what lies past its end reads as 0.\<close>

definition byte_at :: "u8 list \<Rightarrow> nat \<Rightarrow> u8" where
  "byte_at bs i = (if i < length bs then bs ! i else 0)"

definition uint16_at :: "u8 list \<Rightarrow> nat \<Rightarrow> u16" where
  "uint16_at bs i = stream_to_uint16 (byte_at bs i) (byte_at bs (i + 1))"

definition uint32_at :: "u8 list \<Rightarrow> nat \<Rightarrow> u32" where
  "uint32_at bs i = stream_to_uint32 (byte_at bs i) (byte_at bs (i + 1)) (byte_at bs (i + 2)) (byte_at bs (i + 3))"

text \<open>Opcodes of vendor commands that several components handle.\<close>

definition HCI_VSC_H5_INIT :: u16 where "HCI_VSC_H5_INIT = 0xFCEE"
definition HCI_VSC_UPDATE_BAUDRATE :: u16 where "HCI_VSC_UPDATE_BAUDRATE = 0xFC17"

section \<open>Pointer differences\<close>

text \<open>\<open>(uint32_t)(p - q)\<close> for two pointers into one block, given as offsets.\<close>

definition ptrdiff_u32 :: "nat \<Rightarrow> nat \<Rightarrow> u32" where
  "ptrdiff_u32 p q = word_of_int (int p - int q)"

lemma ptrdiff_u32_of_nat: "q \<le> p \<Longrightarrow> ptrdiff_u32 p q = of_nat (p - q)"
  by (simp add: ptrdiff_u32_def of_nat_diff)

lemma unat_ptrdiff_u32: "q \<le> p \<Longrightarrow> p < 2 ^ 32 \<Longrightarrow> unat (ptrdiff_u32 p q) = p - q"
  by (simp add: ptrdiff_u32_of_nat unat_of_nat take_bit_nat_eq_self del: of_nat_diff)

section \<open>Bits of small words\<close>

lemma small_bits: "(x :: 'a::len word) < 2 ^ k \<Longrightarrow> bit x n \<Longrightarrow> n < k"
  by (metis bit_take_bit_iff less_mask_eq take_bit_eq_mask take_bit_word_eq_self)

section \<open>Sequence numbers modulo 8\<close>

lemma uint_and7: "uint ((x :: u8) AND 7) = uint x mod 8"
proof -
  have m: "(7 :: u8) = mask 3" by (simp add: mask_eq_exp_minus_1)
  show ?thesis unfolding m take_bit_eq_mask [symmetric] unsigned_take_bit_eq by (simp add: take_bit_eq_mod)
qed

lemma and7_eq_iff: "(x :: u8) AND 7 = y AND 7 \<longleftrightarrow> uint x mod 8 = uint y mod 8"
  by (metis uint_and7 unsigned_word_eqI)

lemma uint_mod8: "uint ((x :: u8) + y) mod 8 = (uint x + uint y) mod 8"
  "uint ((x :: u8) - y) mod 8 = (uint x - uint y) mod 8"
  "uint (of_nat n :: u8) mod 8 = int n mod 8"
  by (simp_all add: uint_word_ariths mod_mod_cancel unsigned_of_nat take_bit_eq_mod zmod_int
      flip: of_nat_mod)

lemmas and7_simps = and7_eq_iff uint_mod8 uint_and7

lemma and7_cong: "((x :: u8) + y) AND 7 = ((x AND 7) + y) AND 7"
  by (simp add: and7_simps mod_simps)

lemma and7_less: "(x :: u8) AND 7 < 8"
  by (simp add: word_less_def uint_and7)

lemma and7_idem [simp]: "(x :: u8) < 8 \<Longrightarrow> x AND 7 = x"
  by (rule unsigned_word_eqI [where ?'a = int]) (simp add: uint_and7 word_less_def)

section \<open>Lists\<close>

lemma take_drop_update_snoc:
  assumes "i \<le> e" "e < length xs"
  shows "take (Suc e - i) (drop i (xs[e := x])) = take (e - i) (drop i xs) @ [x]"
proof -
  from assms have "Suc e - i = Suc (e - i)" by simp
  with assms show ?thesis
    by (simp add: take_Suc_conv_app_nth drop_update_swap)
qed

lemma last_notin_butlast: "distinct xs \<Longrightarrow> xs \<noteq> [] \<Longrightarrow> last xs \<notin> set (butlast xs)"
  by (metis append_butlast_last_id distinct_append distinct_butlast
      Int_iff empty_iff list.set_intros(1))

lemma butlast_append_last_eq: "xs \<noteq> [] \<Longrightarrow> butlast xs @ last xs # ys = xs @ ys"
  by (metis append.assoc append_Cons append_Nil append_butlast_last_id)

end
