(* ===== verification/BtList.thy ===== *)
theory BtList
  imports Prelude
begin

text \<open>
  The intrusive circular doubly-linked list of hardware/bt/src/bt_list.c. Every
  \<open>RT_LIST_ENTRY\<close> is an address; its \<open>Next\<close> and \<open>Prev\<close> pointers are two functions on addresses,
  so that two list heads may live in one store and an operation on one may alias the other.
  The abstraction \<open>ring st h xs\<close> says that the entries \<open>xs\<close> hang, in this order, on the header
  \<open>h\<close>; each operation of the file is shown to act on \<open>xs\<close> as the header comments promise.
\<close>

section \<open>Entries and operations\<close>

type_synonym addr = nat

text \<open>The C null pointer.\<close>

definition NULL :: addr where
  "NULL = 0"

record links =
  Next :: "addr \<Rightarrow> addr"
  Prev :: "addr \<Rightarrow> addr"

definition set_next :: "('a) links_scheme \<Rightarrow> addr \<Rightarrow> addr \<Rightarrow> ('a) links_scheme" where
  "set_next st a v = st\<lparr>Next := (Next st)(a := v)\<rparr>"

definition set_prev :: "('a) links_scheme \<Rightarrow> addr \<Rightarrow> addr \<Rightarrow> ('a) links_scheme" where
  "set_prev st a v = st\<lparr>Prev := (Prev st)(a := v)\<rparr>"

definition ListInitializeHeader :: "('a) links_scheme \<Rightarrow> addr \<Rightarrow> ('a) links_scheme" where
  "ListInitializeHeader st ListHead = set_prev (set_next st ListHead ListHead) ListHead ListHead"

definition ListIsEmpty :: "('a) links_scheme \<Rightarrow> addr \<Rightarrow> bool" where
  "ListIsEmpty st ListHead \<longleftrightarrow> Next st ListHead = ListHead"

definition ListAdd :: "('a) links_scheme \<Rightarrow> addr \<Rightarrow> addr \<Rightarrow> addr \<Rightarrow> ('a) links_scheme" where
  "ListAdd st n p x =
     (let st = set_prev st x n;
          st = set_next st n x;
          st = set_prev st n p
      in set_next st p n)"

definition ListAddToHead :: "('a) links_scheme \<Rightarrow> addr \<Rightarrow> addr \<Rightarrow> ('a) links_scheme" where
  "ListAddToHead st ListNew ListHead = ListAdd st ListNew ListHead (Next st ListHead)"

definition ListAddToTail :: "('a) links_scheme \<Rightarrow> addr \<Rightarrow> addr \<Rightarrow> ('a) links_scheme" where
  "ListAddToTail st ListNew ListHead = ListAdd st ListNew (Prev st ListHead) ListHead"

definition ListGetTop :: "('a) links_scheme \<Rightarrow> addr \<Rightarrow> addr" where
  "ListGetTop st ListHead = (if ListIsEmpty st ListHead then NULL else Next st ListHead)"

definition ListGetTail :: "('a) links_scheme \<Rightarrow> addr \<Rightarrow> addr" where
  "ListGetTail st ListHead = (if ListIsEmpty st ListHead then NULL else Prev st ListHead)"

definition ListDeleteNode :: "('a) links_scheme \<Rightarrow> addr \<Rightarrow> ('a) links_scheme" where
  "ListDeleteNode st d =
     (let st = set_prev st (Next st d) (Prev st d);
          st = set_next st (Prev st d) (Next st d);
          st = set_prev st d d
      in set_next st d (Prev st d))"

lemmas list_op_defs =
  set_next_def set_prev_def ListInitializeHeader_def ListIsEmpty_def ListAdd_def
  ListAddToHead_def ListAddToTail_def ListGetTop_def ListGetTail_def ListDeleteNode_def

lemma ListAdd_links:
  "Next (ListAdd st n p x) = (Next st)(n := x, p := n)"
  "Prev (ListAdd st n p x) = (Prev st)(x := n, n := p)"
  by (auto simp: list_op_defs Let_def)

lemma ListDeleteNode_links:
  assumes "d \<noteq> Prev st d" and "d \<noteq> Next st d"
  shows "Next (ListDeleteNode st d) = (Next st)(Prev st d := Next st d, d := d)"
    and "Prev (ListDeleteNode st d) = (Prev st)(Next st d := Prev st d, d := d)"
  using assms by (auto simp: list_op_defs Let_def)

section \<open>The list a header carries\<close>

text \<open>\<open>seg st a xs b\<close>: following \<open>Next\<close> from \<open>a\<close> visits exactly \<open>xs\<close> and then \<open>b\<close>, and
  \<open>Prev\<close> leads back along the same entries.\<close>

fun seg :: "('a) links_scheme \<Rightarrow> addr \<Rightarrow> addr list \<Rightarrow> addr \<Rightarrow> bool" where
  "seg st a [] b \<longleftrightarrow> Next st a = b \<and> Prev st b = a"
| "seg st a (x # xs) b \<longleftrightarrow> Next st a = x \<and> Prev st x = a \<and> seg st x xs b"

definition ring :: "('a) links_scheme \<Rightarrow> addr \<Rightarrow> addr list \<Rightarrow> bool" where
  "ring st h xs \<longleftrightarrow> distinct (h # xs) \<and> seg st h xs h"

lemma seg_append: "seg st a (xs @ x # ys) b \<longleftrightarrow> seg st a xs x \<and> seg st x ys b"
  by (induction xs arbitrary: a) auto

lemma seg_Next_last: "seg st a xs b \<Longrightarrow> Next st (last (a # xs)) = b"
  by (induction xs arbitrary: a) auto

lemma seg_Prev_end: "seg st a xs b \<Longrightarrow> Prev st b = last (a # xs)"
  by (induction xs arbitrary: a) auto

lemma seg_Next_hd: "seg st a xs b \<Longrightarrow> Next st a = hd (xs @ [b])"
  by (cases xs) auto

text \<open>A segment depends only on the \<open>Next\<close> of its start and inner entries and on the \<open>Prev\<close>
  of its inner entries and end.\<close>

lemma seg_cong:
  assumes "\<And>y. y = a \<or> y \<in> set xs \<Longrightarrow> Next st' y = Next st y"
    and "\<And>y. y = b \<or> y \<in> set xs \<Longrightarrow> Prev st' y = Prev st y"
  shows "seg st' a xs b = seg st a xs b"
  using assms by (induction xs arbitrary: a) auto

lemma ring_cong:
  assumes "\<And>y. y = h \<or> y \<in> set xs \<Longrightarrow> Next st' y = Next st y \<and> Prev st' y = Prev st y"
  shows "ring st' h xs = ring st h xs"
  unfolding ring_def using assms by (auto simp: seg_cong [of h xs st' st h])

lemma ring_Next: "ring st h xs \<Longrightarrow> Next st h = hd (xs @ [h])"
  by (auto simp: ring_def dest: seg_Next_hd)

lemma ring_Prev: "ring st h xs \<Longrightarrow> Prev st h = last (h # xs)"
  by (auto simp: ring_def dest: seg_Prev_end)

section \<open>What the operations do to the list\<close>

lemma ring_init: "ring (ListInitializeHeader st h) h []"
  by (simp add: ring_def list_op_defs)

lemma ListIsEmpty_ring: "ring st h xs \<Longrightarrow> ListIsEmpty st h \<longleftrightarrow> xs = []"
  by (cases xs) (auto simp: ListIsEmpty_def ring_def)

text \<open>How a store that differs at one gap (or one entry) carries the two halves of a segment.\<close>

lemma seg_front:
  assumes "seg st a (xs @ ys) b"
    and "\<And>y. y \<in> set (butlast (a # xs)) \<Longrightarrow> Next st' y = Next st y"
    and "\<And>y. y \<in> set xs \<Longrightarrow> Prev st' y = Prev st y"
    and "Next st' (last (a # xs)) = n" and "Prev st' n = last (a # xs)"
  shows "seg st' a xs n"
  using assms by (induction xs arbitrary: a) (auto split: if_splits)

lemma seg_back:
  assumes "seg st a (xs @ ys) b"
    and "\<And>y. y \<in> set ys \<Longrightarrow> Next st' y = Next st y"
    and "\<And>y. y \<in> set (tl (ys @ [b])) \<Longrightarrow> Prev st' y = Prev st y"
    and "Next st' n = hd (ys @ [b])" and "Prev st' (hd (ys @ [b])) = n"
  shows "seg st' n ys b"
proof (cases ys)
  case (Cons y zs)
  with assms(1) have "seg st y zs b" by (simp add: seg_append)
  moreover have "seg st' y zs b = seg st y zs b"
    using Cons assms(2,3) by (intro seg_cong) auto
  ultimately show ?thesis using Cons assms(4,5) by simp
qed (use assms(4,5) in simp)

lemma seg_bridge:
  assumes "seg st a (xs @ d # ys) b"
    and "\<And>y. y \<in> set (butlast (a # xs)) \<union> set ys \<Longrightarrow> Next st' y = Next st y"
    and "\<And>y. y \<in> set xs \<union> set (tl (ys @ [b])) \<Longrightarrow> Prev st' y = Prev st y"
    and "Next st' (last (a # xs)) = hd (ys @ [b])"
    and "Prev st' (hd (ys @ [b])) = last (a # xs)"
  shows "seg st' a (xs @ ys) b"
  using assms
proof (induction xs arbitrary: a)
  case Nil
  then show ?case using seg_back [of st a "[d]" ys b st' a] by simp
next
  case (Cons x xs)
  have "seg st' x (xs @ ys) b"
    using Cons.prems by (intro Cons.IH) (auto split: if_splits)
  with Cons.prems show ?case by (auto split: if_splits)
qed

text \<open>Inserting a new entry between two consecutive entries of a ring.\<close>

lemma ring_ListAdd:
  assumes r: "ring st h (as @ bs)" and n: "n \<notin> set (h # as @ bs)"
    and p: "p = last (h # as)" and x: "x = hd (bs @ [h])"
  shows "ring (ListAdd st n p x) h (as @ n # bs)"
proof -
  from r have d: "distinct (h # as @ bs)" and s: "seg st h (as @ bs) h"
    by (auto simp: ring_def)
  have p_in: "p \<in> set (h # as)" unfolding p by (rule last_in_set) simp
  have x_in: "x \<in> set (bs @ [h])" unfolding x by (rule hd_in_set) simp
  have n': "n \<notin> set as" "n \<notin> set bs" "n \<noteq> h" "n \<noteq> p" "n \<noteq> x"
    using n p_in x_in by auto
  have pb: "p \<notin> set (butlast (h # as))"
    unfolding p using d by (intro last_notin_butlast) auto
  have xt: "x \<notin> set (tl (bs @ [h]))" and nt: "n \<notin> set (tl (bs @ [h]))"
    and xas: "x \<notin> set as" using d n' by (cases bs; auto simp: x)+
  have pbs: "p \<notin> set bs" using d p_in by auto
  have nb: "n \<notin> set (butlast (h # as))" using n' by (auto dest: in_set_butlastD split: if_splits)
  have "seg (ListAdd st n p x) h as n"
    by (rule seg_front [OF s], unfold ListAdd_links p [symmetric])
      (use pb nb xas n' in \<open>auto\<close>)
  moreover have "seg (ListAdd st n p x) n bs h"
    by (rule seg_back [OF s], unfold ListAdd_links x [symmetric])
      (use pbs xt nt n' in \<open>auto\<close>)
  ultimately show ?thesis
    using d n by (auto simp: ring_def seg_append)
qed

lemma ring_ListAddToHead:
  "ring st h xs \<Longrightarrow> n \<notin> set (h # xs) \<Longrightarrow> ring (ListAddToHead st n h) h (n # xs)"
  using ring_ListAdd [of st h "[]" xs n, OF _ _ refl refl] by (simp add: ListAddToHead_def ring_Next)

lemma ring_ListAddToTail:
  "ring st h xs \<Longrightarrow> n \<notin> set (h # xs) \<Longrightarrow> ring (ListAddToTail st n h) h (xs @ [n])"
  using ring_ListAdd [of st h xs "[]" n, OF _ _ refl refl] by (simp add: ListAddToTail_def ring_Prev)

lemma ring_neighbours:
  assumes "ring st h (as @ d # bs)"
  shows "Prev st d = last (h # as)" and "Next st d = hd (bs @ [h])"
  using assms by (auto simp: ring_def seg_append dest: seg_Prev_end seg_Next_hd)

text \<open>Deleting an entry closes the gap and leaves the entry linked to itself.\<close>

lemma ring_ListDeleteNode:
  assumes r: "ring st h (as @ d # bs)"
  shows "ring (ListDeleteNode st d) h (as @ bs) \<and> ring (ListDeleteNode st d) d []"
proof -
  define p where "p = Prev st d"
  define x where "x = Next st d"
  have p: "p = last (h # as)" and x: "x = hd (bs @ [h])"
    using ring_neighbours [OF r] by (simp_all add: p_def x_def)
  from r have dist: "distinct (h # as @ d # bs)" and s: "seg st h (as @ d # bs) h"
    by (auto simp: ring_def)
  have p_in: "p \<in> set (h # as)" unfolding p by (rule last_in_set) simp
  have x_in: "x \<in> set (bs @ [h])" unfolding x by (rule hd_in_set) simp
  have dp: "d \<noteq> p" and dx: "d \<noteq> x" using dist p_in x_in by auto
  note links = ListDeleteNode_links [of d st, folded p_def x_def, OF dp dx]
  have pb: "p \<notin> set (butlast (h # as))"
    unfolding p using dist by (intro last_notin_butlast) auto
  have xt: "x \<notin> set (tl (bs @ [h]))" and dt: "d \<notin> set (tl (bs @ [h]))"
    and xas: "x \<notin> set as" using dist by (cases bs; auto simp: x)+
  have db: "d \<notin> set (butlast (h # as))" using dist by (auto dest: in_set_butlastD split: if_splits)
  have "seg (ListDeleteNode st d) h (as @ bs) h"
    by (rule seg_bridge [OF s], unfold links p [symmetric] x [symmetric])
      (use dist pb db xt dt xas p_in dp dx in auto)
  with dist show ?thesis by (auto simp: ring_def links)
qed

text \<open>Entries outside the ring and its new or deleted entry are not touched, so other rings of
  the store survive.\<close>

lemma ListAddToHead_frame:
  assumes "ring st h xs" and "y \<notin> set (n # h # xs)"
  shows "Next (ListAddToHead st n h) y = Next st y" and "Prev (ListAddToHead st n h) y = Prev st y"
  using assms ring_Next [of st h xs]
  by (cases xs; auto simp: ListAddToHead_def ListAdd_links)+

lemma ListAddToTail_frame:
  assumes "ring st h xs" and "y \<notin> set (n # h # xs)"
  shows "Next (ListAddToTail st n h) y = Next st y" and "Prev (ListAddToTail st n h) y = Prev st y"
  using assms ring_Prev [of st h xs] last_in_set [of "h # xs"]
  by (auto simp: ListAddToTail_def ListAdd_links simp del: last_ConsR last.simps)

lemma ListDeleteNode_frame:
  assumes r: "ring st h (as @ d # bs)" and y: "y \<notin> set (h # as @ d # bs)"
  shows "Next (ListDeleteNode st d) y = Next st y" and "Prev (ListDeleteNode st d) y = Prev st y"
proof -
  have p: "Prev st d \<in> set (h # as)" and x: "Next st d \<in> set (bs @ [h])"
    unfolding ring_neighbours [OF r] by (rule last_in_set, simp) (rule hd_in_set, simp)
  have "distinct (h # as @ d # bs)" using r by (simp add: ring_def)
  with p x have d: "d \<noteq> Prev st d" "d \<noteq> Next st d" by auto
  from y p x have "y \<noteq> Prev st d" "y \<noteq> Next st d" "y \<noteq> d" by auto
  then show "Next (ListDeleteNode st d) y = Next st y" and "Prev (ListDeleteNode st d) y = Prev st y"
    by (simp_all add: ListDeleteNode_links [OF d])
qed

lemma ListGetTop_ring: "ring st h xs \<Longrightarrow> ListGetTop st h = (if xs = [] then NULL else hd xs)"
  using ListIsEmpty_ring [of st h xs] ring_Next [of st h xs] by (cases xs) (auto simp: ListGetTop_def)

lemma ListGetTail_ring: "ring st h xs \<Longrightarrow> ListGetTail st h = (if xs = [] then NULL else last xs)"
  using ListIsEmpty_ring [of st h xs] ring_Prev [of st h xs] by (cases xs) (auto simp: ListGetTail_def)

end
