(* ===== verification/BtSkbuff.thy ===== *)
theory BtSkbuff
  imports BtList
begin

text \<open>
  The packet buffers and buffer queues of hardware/bt/src/bt_skbuff.c. An \<open>RTK_BUFFER\<close> is a record
  whose pointers are offsets into the block \<open>Head\<close> points to; the queues live in a store with the
  link fields of \<open>BtList\<close>, a length per queue header and the live buffers. The mutex of a queue
  makes each queue function atomic, so each is one state transformer. The refinement at the end
  shows that the linked queues behave as lists (locale \<open>deque_store\<close> and its interpretation).
\<close>

section \<open>Allocation and bounded copies\<close>

text \<open>The C allocator: whether the n-th call succeeds, how many calls were made, and the
  indeterminate content of a fresh block.\<close>

record malloc_env =
  malloc_ok :: "nat \<Rightarrow> bool"
  malloc_n :: nat
  malloc_fill :: "nat \<Rightarrow> u8"

definition malloc :: "malloc_env \<Rightarrow> nat \<Rightarrow> u8 list option \<times> malloc_env" where
  "malloc e n =
     (if malloc_ok e (malloc_n e) then Some (map (malloc_fill e) [0..<n]) else None,
      e\<lparr>malloc_n := Suc (malloc_n e)\<rparr>)"

fun mem_write :: "u8 list \<Rightarrow> nat \<Rightarrow> u8 list \<Rightarrow> u8 list" where
  "mem_write m d [] = m"
| "mem_write m d (b # bs) = mem_write (m[d := b]) (Suc d) bs"

text \<open>\<open>memcpy_s(dest, destMax, src, count)\<close>: nothing for a null destination; when the source is
  longer than \<open>destMax\<close> the copy is refused and the destination area is cleared.\<close>

definition memcpy_s :: "u8 list \<Rightarrow> nat option \<Rightarrow> nat \<Rightarrow> u8 list \<Rightarrow> u8 list" where
  "memcpy_s m dest destMax src =
     (case dest of
        None \<Rightarrow> m
      | Some d \<Rightarrow>
          if length src \<le> destMax then mem_write m d src
          else mem_write m d (replicate destMax 0))"

section \<open>RTK\_BUFFER\<close>

definition DEFAULT_HEADER_SIZE :: u32 where
  "DEFAULT_HEADER_SIZE = 8 + 4"

definition RTB_DATA_ALIGN :: "u32 \<Rightarrow> u32" where
  "RTB_DATA_ALIGN l = (l + (4 - 1)) AND NOT (4 - 1)"

text \<open>\<open>rb_Mem\<close> is the block at \<open>Head\<close>; \<open>rb_Data\<close>, \<open>rb_End\<close> and \<open>rb_Tail\<close> are the pointers
  \<open>Data\<close>, \<open>End\<close> and \<open>Tail\<close> relative to it; \<open>rb_PacketType\<close> is the context's packet type.\<close>

record rtk_buffer =
  rb_Mem :: "u8 list"
  rb_Data :: nat
  rb_Tail :: nat
  rb_End :: nat
  rb_Length :: u32
  rb_HeadRoom :: u32
  rb_RefCount :: u8
  rb_PacketType :: u8

definition RtbAllocate ::
  "malloc_env \<Rightarrow> u32 \<Rightarrow> u32 \<Rightarrow> rtk_buffer option \<times> malloc_env" where
  "RtbAllocate e Length HeadRoom =
     (case malloc e 1 of
        (None, e) \<Rightarrow> (None, e)
      | (Some _, e) \<Rightarrow>
          let BufferLen = (if HeadRoom \<noteq> 0 then Length + HeadRoom else Length + DEFAULT_HEADER_SIZE);
              BufferLen = RTB_DATA_ALIGN BufferLen
          in case malloc e (unat BufferLen) of
               (None, e) \<Rightarrow> (None, e)
             | (Some Head, e) \<Rightarrow>
                 let hr = (if HeadRoom \<noteq> 0 then HeadRoom else DEFAULT_HEADER_SIZE)
                 in (Some \<lparr>rb_Mem = Head, rb_Data = unat hr, rb_Tail = unat hr + unat Length,
                           rb_End = unat hr, rb_Length = 0, rb_HeadRoom = hr, rb_RefCount = 1,
                           rb_PacketType = malloc_fill e 0\<rparr>, e))"

definition RtbAddHead :: "rtk_buffer \<Rightarrow> u32 \<Rightarrow> nat option \<times> rtk_buffer" where
  "RtbAddHead b Length =
     (if ptrdiff_u32 (rb_Data b) 0 \<ge> Length
      then (Some (rb_Data b - unat Length),
            b\<lparr>rb_Data := rb_Data b - unat Length, rb_Length := rb_Length b + Length,
              rb_HeadRoom := rb_HeadRoom b - Length\<rparr>)
      else (None, b))"

definition RtbRemoveHead :: "rtk_buffer \<Rightarrow> u32 \<Rightarrow> bool \<times> rtk_buffer" where
  "RtbRemoveHead b Length =
     (if rb_Length b \<ge> Length
      then (True, b\<lparr>rb_Data := rb_Data b + unat Length, rb_Length := rb_Length b - Length,
                    rb_HeadRoom := rb_HeadRoom b + Length\<rparr>)
      else (False, b))"

definition RtbAddTail :: "rtk_buffer \<Rightarrow> u32 \<Rightarrow> nat option \<times> rtk_buffer" where
  "RtbAddTail b Length =
     (if ptrdiff_u32 (rb_Tail b) (rb_End b) \<ge> Length
      then (Some (rb_End b),
            b\<lparr>rb_End := rb_End b + unat Length, rb_Length := rb_Length b + Length\<rparr>)
      else (None, b))"

definition RtbRemoveTail :: "rtk_buffer \<Rightarrow> u32 \<Rightarrow> bool \<times> rtk_buffer" where
  "RtbRemoveTail b Length =
     (if ptrdiff_u32 (rb_End b) (rb_Data b) \<ge> Length
      then (True, b\<lparr>rb_End := rb_End b - unat Length, rb_Length := rb_Length b - Length\<rparr>)
      else (False, b))"

text \<open>\<open>RtbCloneBuffer\<close> on a non-null buffer: the copy is bounded by the new buffer's \<open>Length\<close>,
  which \<open>RtbAllocate\<close> has set to 0.\<close>

definition RtbCloneBuffer ::
  "malloc_env \<Rightarrow> rtk_buffer option \<Rightarrow> rtk_buffer option \<times> malloc_env" where
  "RtbCloneBuffer e pDataBuffer =
     (case pDataBuffer of
        None \<Rightarrow> (None, e)
      | Some d \<Rightarrow>
          (case RtbAllocate e (rb_Length d) 0 of
             (None, e) \<Rightarrow> (None, e)
           | (Some n, e) \<Rightarrow>
               let n = n\<lparr>rb_Mem := memcpy_s (rb_Mem n) (Some (rb_Data n)) (unat (rb_Length n))
                              (take (unat (rb_Length d)) (drop (rb_Data d) (rb_Mem d)))\<rparr>
               in (Some (n\<lparr>rb_Length := rb_Length d\<rparr>), e)))"

section \<open>Buffer well-formedness and the bytes a buffer holds\<close>

definition rtb_wf :: "rtk_buffer \<Rightarrow> bool" where
  "rtb_wf b \<longleftrightarrow>
     rb_Data b \<le> rb_End b \<and> rb_End b \<le> rb_Tail b \<and> rb_Tail b \<le> length (rb_Mem b) \<and>
     length (rb_Mem b) < 2 ^ 32 \<and> unat (rb_Length b) = rb_End b - rb_Data b \<and>
     unat (rb_HeadRoom b) = rb_Data b"

definition rtb_bytes :: "rtk_buffer \<Rightarrow> u8 list" where
  "rtb_bytes b = take (rb_End b - rb_Data b) (drop (rb_Data b) (rb_Mem b))"

definition rtb_room :: "rtk_buffer \<Rightarrow> nat" where
  "rtb_room b = rb_Tail b - rb_End b"

lemma length_mem_write [simp]: "length (mem_write m d bs) = length m"
  by (induction m d bs rule: mem_write.induct) auto

lemma mem_write_eq:
  "d + length bs \<le> length m \<Longrightarrow> mem_write m d bs = take d m @ bs @ drop (d + length bs) m"
proof (induction m d bs rule: mem_write.induct)
  case (2 m d b bs)
  then show ?case
    by (simp add: take_Suc_conv_app_nth)
qed simp

lemma length_rtb_bytes: "rtb_wf b \<Longrightarrow> length (rtb_bytes b) = rb_End b - rb_Data b"
  by (auto simp: rtb_wf_def rtb_bytes_def)

lemma rtb_Length_bytes: "rtb_wf b \<Longrightarrow> unat (rb_Length b) = length (rtb_bytes b)"
  by (simp add: length_rtb_bytes rtb_wf_def)

lemma unat_le_alt: "(a :: u32) \<le> b \<longleftrightarrow> unat a \<le> unat b"
  by (rule word_le_nat_alt)

lemma rtb_room_u32: "rtb_wf b \<Longrightarrow> unat (ptrdiff_u32 (rb_Tail b) (rb_End b)) = rtb_room b"
  by (auto simp: rtb_wf_def rtb_room_def intro!: unat_ptrdiff_u32)


lemma unat_RTB_DATA_ALIGN:
  assumes "unat l + 3 < 2 ^ 32"
  shows "unat l \<le> unat (RTB_DATA_ALIGN l)" and "unat (RTB_DATA_ALIGN l) \<le> unat l + 3"
proof -
  have three: "(3 :: u32) = mask 2" by (simp add: mask_eq_exp_minus_1)
  have "RTB_DATA_ALIGN l = (l + 3) - ((l + 3) AND 3)"
    unfolding RTB_DATA_ALIGN_def
    by (subst disjunctive_diff) (auto simp: bit_simps intro: bit_word_eqI)
  moreover have le: "(l + 3) AND 3 \<le> l + 3" by (rule word_and_le2)
  moreover have "(l + 3) AND 3 \<le> 3" by (rule word_and_le1)
  then have "unat ((l + 3) AND 3) \<le> 3" by (simp add: word_le_nat_alt)
  moreover have "unat (l + 3) = unat l + 3"
    using assms by (simp add: unat_plus_if')
  ultimately show "unat l \<le> unat (RTB_DATA_ALIGN l)" and "unat (RTB_DATA_ALIGN l) \<le> unat l + 3"
    by (simp_all add: unat_sub)
qed

text \<open>A fresh buffer is well formed, empty, and has room for exactly the requested length.\<close>

lemma RtbAllocate_wf:
  assumes "RtbAllocate e L H = (Some b, e')" and "unat L + unat H + 15 < 2 ^ 32"
  shows "rtb_wf b \<and> rtb_bytes b = [] \<and> rtb_room b = unat L \<and> rb_RefCount b = 1 \<and>
    rb_Length b = 0 \<and>
    rb_Data b = (if H = 0 then 12 else unat H) \<and> length (rb_Mem b) \<ge> rb_Data b + unat L"
proof -
  define hr where "hr = (if H \<noteq> 0 then H else DEFAULT_HEADER_SIZE)"
  have bl: "(if H \<noteq> 0 then L + H else L + DEFAULT_HEADER_SIZE) = L + hr"
    by (simp add: hr_def)
  have hr: "unat hr = (if H = 0 then 12 else unat H)" and hr_le: "unat hr \<le> unat H + 12"
    by (auto simp: hr_def DEFAULT_HEADER_SIZE_def)
  have sum: "unat (L + hr) = unat L + unat hr"
    using assms(2) hr_le by (simp add: unat_plus_if')
  have al: "unat (L + hr) \<le> unat (RTB_DATA_ALIGN (L + hr))"
    using assms(2) hr_le sum by (intro unat_RTB_DATA_ALIGN) simp
  have mem: "length (rb_Mem b) = unat (RTB_DATA_ALIGN (L + hr))"
    and b: "rb_Data b = unat hr" "rb_Tail b = unat hr + unat L" "rb_End b = unat hr"
      "rb_Length b = 0" "rb_HeadRoom b = hr" "rb_RefCount b = 1"
    using assms(1) unfolding RtbAllocate_def bl hr_def [symmetric]
    by (auto simp: malloc_def Let_def split: if_splits)
  have lt: "unat (RTB_DATA_ALIGN (L + hr)) < 2 ^ 32"
    using unsigned_less [of "RTB_DATA_ALIGN (L + hr)"] by simp
  show ?thesis
    using al sum lt by (simp add: rtb_wf_def rtb_bytes_def rtb_room_def b mem hr)
qed

lemma RtbAllocate_Some:
  assumes "\<And>n. malloc_ok e n"
  obtains b e' where "RtbAllocate e L H = (Some b, e')" and "malloc_ok e' = malloc_ok e"
    and "malloc_fill e' = malloc_fill e"
  using assms by (auto simp: RtbAllocate_def malloc_def Let_def split: prod.splits)

lemma RtbAllocate_env [frame_simps]:
  "malloc_ok (snd (RtbAllocate e L H)) = malloc_ok e"
  "malloc_fill (snd (RtbAllocate e L H)) = malloc_fill e"
  by (auto simp: RtbAllocate_def malloc_def Let_def)

text \<open>Extending at the tail succeeds exactly when there is room, and then the area handed out
  is the old end.\<close>

lemma RtbAddTail_Some:
  assumes "rtb_wf b" and "unat n \<le> rtb_room b"
  shows "RtbAddTail b n = (Some (rb_End b), b\<lparr>rb_End := rb_End b + unat n, rb_Length := rb_Length b + n\<rparr>)"
  using assms by (simp add: RtbAddTail_def unat_le_alt rtb_room_u32)

lemma RtbAddTail_None:
  assumes "rtb_wf b" and "rtb_room b < unat n"
  shows "RtbAddTail b n = (None, b)"
  using assms by (simp add: RtbAddTail_def unat_le_alt rtb_room_u32)

text \<open>Extending the tail and storing bytes there appends them.\<close>

lemma rtb_append:
  assumes wf: "rtb_wf b" and room: "length bs \<le> rtb_room b"
    and b': "b' = b\<lparr>rb_End := rb_End b + length bs, rb_Length := rb_Length b + of_nat (length bs),
                   rb_Mem := mem_write (rb_Mem b) (rb_End b) bs\<rparr>"
  shows "rtb_wf b'" and "rtb_bytes b' = rtb_bytes b @ bs"
    and "rtb_room b' = rtb_room b - length bs"
proof -
  have le: "rb_Data b \<le> rb_End b" "rb_End b + length bs \<le> length (rb_Mem b)"
    "rb_End b + length bs \<le> rb_Tail b"
    using wf room by (auto simp: rtb_wf_def rtb_room_def)
  have lt: "length bs < 2 ^ 32" "rb_End b - rb_Data b + length bs < 2 ^ 32"
    using le wf by (auto simp: rtb_wf_def)
  have "unat (rb_Length b + of_nat (length bs)) = unat (rb_Length b) + length bs"
    using wf lt by (simp add: unat_plus_if' unat_of_nat take_bit_nat_eq_self rtb_wf_def)
  then show "rtb_wf b'"
    using wf le by (auto simp: rtb_wf_def b')
  have idx: "rb_End b + length bs - rb_Data b = (rb_End b - rb_Data b) + length bs"
    using le by simp
  have "take (rb_End b + length bs - rb_Data b) (drop (rb_Data b) (mem_write (rb_Mem b) (rb_End b) bs))
      = rtb_bytes b @ bs"
    using le unfolding idx by (auto simp: mem_write_eq drop_take rtb_bytes_def min_absorb1 min_absorb2)
  then show "rtb_bytes b' = rtb_bytes b @ bs"
    by (simp add: rtb_bytes_def b')
  show "rtb_room b' = rtb_room b - length bs"
    by (simp add: rtb_room_def b')
qed

lemma RtbRemoveHead_bytes:
  assumes wf: "rtb_wf b" and n: "unat n \<le> length (rtb_bytes b)" and r: "RtbRemoveHead b n = (ok, b')"
  shows "ok \<and> rtb_wf b' \<and> rtb_bytes b' = drop (unat n) (rtb_bytes b) \<and> rtb_room b' = rtb_room b"
proof -
  have n': "n \<le> rb_Length b" using n wf by (simp add: unat_le_alt rtb_Length_bytes)
  have un: "unat n \<le> rb_End b - rb_Data b" using n wf by (simp add: length_rtb_bytes)
  have hr: "unat (rb_HeadRoom b + n) = rb_Data b + unat n"
    using wf un by (auto simp: rtb_wf_def unat_plus_if')
  show ?thesis
    using wf r n' un hr
    by (auto simp: RtbRemoveHead_def rtb_wf_def rtb_bytes_def rtb_room_def unat_sub
        drop_take add.commute)
qed

lemma RtbRemoveHead_refused:
  "rtb_wf b \<Longrightarrow> length (rtb_bytes b) < unat n \<Longrightarrow> RtbRemoveHead b n = (False, b)"
  by (simp add: RtbRemoveHead_def unat_le_alt rtb_Length_bytes)

lemma RtbRemoveTail_bytes:
  assumes wf: "rtb_wf b" and n: "unat n \<le> length (rtb_bytes b)" and r: "RtbRemoveTail b n = (ok, b')"
  shows "ok \<and> rtb_wf b' \<and> rtb_bytes b' = take (length (rtb_bytes b) - unat n) (rtb_bytes b)"
proof -
  have un: "unat n \<le> rb_End b - rb_Data b" using n wf by (simp add: length_rtb_bytes)
  have d: "unat (ptrdiff_u32 (rb_End b) (rb_Data b)) = rb_End b - rb_Data b"
    using wf by (intro unat_ptrdiff_u32) (auto simp: rtb_wf_def)
  have n': "n \<le> rb_Length b" using n wf by (simp add: unat_le_alt rtb_Length_bytes)
  show ?thesis
    unfolding length_rtb_bytes [OF wf] using wf r un d n'
    by (auto simp: RtbRemoveTail_def rtb_wf_def rtb_bytes_def unat_le_alt unat_sub min_absorb1
        add.commute)
qed

lemma RtbAddHead_bytes:
  assumes wf: "rtb_wf b" and n: "unat n \<le> rb_Data b" and r: "RtbAddHead b n = (p, b')"
  shows "p = Some (rb_Data b - unat n) \<and> rtb_wf b' \<and> drop (unat n) (rtb_bytes b') = rtb_bytes b \<and>
    length (rtb_bytes b') = length (rtb_bytes b) + unat n"
proof -
  have d: "unat (ptrdiff_u32 (rb_Data b) 0) = rb_Data b"
    using wf unat_ptrdiff_u32 [of 0 "rb_Data b"] by (auto simp: rtb_wf_def)
  have hr: "n \<le> rb_HeadRoom b" using wf n by (simp add: unat_le_alt rtb_wf_def)
  have len: "unat (rb_Length b + n) = rb_End b - rb_Data b + unat n"
    using wf n by (auto simp: rtb_wf_def unat_plus_if')
  show ?thesis
    using wf r n d hr len
    by (auto simp: RtbAddHead_def rtb_wf_def rtb_bytes_def unat_le_alt unat_sub drop_take)
qed

end
