(* ===== verification/BtQueue.thy ===== *)
theory BtQueue
  imports BtSkbuff
begin

text \<open>
  The buffer queues of hardware/bt/src/bt_skbuff.c, on the pointer store of \<open>BtList\<close>: a queue is
  the address of its \<open>RTB_QUEUE_HEAD\<close> (whose first field is the list header, so that the casts
  between entries and buffers keep the address), \<open>QueueLen\<close> is its 32-bit counter and \<open>rtb\<close> maps
  the addresses of live buffers to their contents. The locale \<open>deque_store\<close> states what a client
  of several queues relies on; the interpretation discharges it for this code.
\<close>

section \<open>State and operations\<close>

record queue_store = links +
  QueueLen :: "addr \<Rightarrow> u32"
  rtb :: "addr \<Rightarrow> rtk_buffer option"

definition set_queue_len :: "queue_store \<Rightarrow> addr \<Rightarrow> u32 \<Rightarrow> queue_store" where
  "set_queue_len st q n = st\<lparr>QueueLen := (QueueLen st)(q := n)\<rparr>"

definition RtbFree :: "queue_store \<Rightarrow> addr \<Rightarrow> queue_store" where
  "RtbFree st b = (if b = NULL then st else st\<lparr>rtb := (rtb st)(b := None)\<rparr>)"

definition RtbQueueIsEmpty :: "queue_store \<Rightarrow> addr \<Rightarrow> bool" where
  "RtbQueueIsEmpty st q \<longleftrightarrow> \<not> QueueLen st q > 0"

text \<open>\<open>a\<close> is what \<open>malloc\<close> returned for the header, \<open>ret\<close> what \<open>pthread_mutex_init\<close> returned.\<close>

definition RtbQueueInit :: "queue_store \<Rightarrow> addr \<Rightarrow> int \<Rightarrow> addr \<times> queue_store" where
  "RtbQueueInit st a ret =
     (if a \<noteq> NULL \<and> ret = 0
      then (a, set_queue_len (ListInitializeHeader st a) a 0)
      else (NULL, st))"

definition RtbQueueTail :: "queue_store \<Rightarrow> addr \<Rightarrow> addr \<Rightarrow> queue_store" where
  "RtbQueueTail st q b = (let st = ListAddToTail st b q in set_queue_len st q (QueueLen st q + 1))"

definition RtbQueueHead :: "queue_store \<Rightarrow> addr \<Rightarrow> addr \<Rightarrow> queue_store" where
  "RtbQueueHead st q b = (let st = ListAddToHead st b q in set_queue_len st q (QueueLen st q + 1))"

definition RtbInsertBefore :: "queue_store \<Rightarrow> addr \<Rightarrow> addr \<Rightarrow> addr \<Rightarrow> queue_store" where
  "RtbInsertBefore st q pOld pNew =
     (let st = ListAdd st pNew (Prev st pOld) pOld in set_queue_len st q (QueueLen st q + 1))"

definition RtbNodeIsLast :: "queue_store \<Rightarrow> addr \<Rightarrow> addr \<Rightarrow> bool" where
  "RtbNodeIsLast st q b \<longleftrightarrow> Prev st q = b"

definition RtbQueueNextNode :: "queue_store \<Rightarrow> addr \<Rightarrow> addr \<Rightarrow> addr" where
  "RtbQueueNextNode st q b = (if Prev st q = b then NULL else Next st b)"

definition RtbRemoveNode :: "queue_store \<Rightarrow> addr \<Rightarrow> addr \<Rightarrow> queue_store" where
  "RtbRemoveNode st q b = ListDeleteNode (set_queue_len st q (QueueLen st q - 1)) b"

definition RtbTopQueue :: "queue_store \<Rightarrow> addr \<Rightarrow> addr" where
  "RtbTopQueue st q = (if RtbQueueIsEmpty st q then NULL else Next st q)"

definition RtbDequeueTail :: "queue_store \<Rightarrow> addr \<Rightarrow> addr \<times> queue_store" where
  "RtbDequeueTail st q =
     (if RtbQueueIsEmpty st q then (NULL, st)
      else let b = Prev st q in (b, RtbRemoveNode st q b))"

definition RtbDequeueHead :: "queue_store \<Rightarrow> addr \<Rightarrow> addr \<times> queue_store" where
  "RtbDequeueHead st q =
     (if RtbQueueIsEmpty st q then (NULL, st)
      else let b = Next st q in (b, RtbRemoveNode st q b))"

definition RtbGetQueueLen :: "queue_store \<Rightarrow> addr \<Rightarrow> int" where
  "RtbGetQueueLen st q = uint (QueueLen st q)"

definition RtbCheckQueueLen :: "queue_store \<Rightarrow> addr \<Rightarrow> u8 \<Rightarrow> bool" where
  "RtbCheckQueueLen st q Len \<longleftrightarrow> QueueLen st q < ucast Len"

lemmas queue_op_defs = set_queue_len_def RtbQueueIsEmpty_def RtbQueueInit_def RtbQueueTail_def
  RtbQueueHead_def RtbInsertBefore_def RtbNodeIsLast_def RtbQueueNextNode_def RtbRemoveNode_def
  RtbTopQueue_def RtbDequeueTail_def RtbDequeueHead_def RtbGetQueueLen_def RtbFree_def

lemma QueueLen_links [simp]:
  "QueueLen (ListAdd st a b c) = QueueLen st" "QueueLen (ListDeleteNode st a) = QueueLen st"
  "QueueLen (ListAddToHead st a b) = QueueLen st" "QueueLen (ListAddToTail st a b) = QueueLen st"
  "QueueLen (ListInitializeHeader st a) = QueueLen st"
  "rtb (ListAdd st a b c) = rtb st" "rtb (ListDeleteNode st a) = rtb st"
  "rtb (ListAddToHead st a b) = rtb st" "rtb (ListAddToTail st a b) = rtb st"
  by (simp_all add: list_op_defs Let_def)

lemma RtbRemoveNode_QueueLen [simp]:
  "QueueLen (RtbRemoveNode st q b) = (QueueLen st)(q := QueueLen st q - 1)"
  by (simp add: RtbRemoveNode_def set_queue_len_def)

lemma RtbFree_QueueLen [simp]: "QueueLen (RtbFree st b) = QueueLen st"
  by (simp add: RtbFree_def)

text \<open>\<open>RtbEmptyQueue\<close>: the loop runs while \<open>QueueLen > 0\<close>, and every pass decrements it.\<close>

function RtbEmptyQueue :: "queue_store \<Rightarrow> addr \<Rightarrow> queue_store" where
  "RtbEmptyQueue st q =
     (if RtbQueueIsEmpty st q then st
      else let b = Next st q in RtbEmptyQueue (RtbFree (RtbRemoveNode st q b) b) q)"
  by pat_completeness auto
termination
  by (relation "measure (\<lambda>(st, q). unat (QueueLen st q))")
    (auto simp: RtbQueueIsEmpty_def intro!: measure_unat)

declare RtbEmptyQueue.simps [simp del]

definition RtbQueueFree :: "queue_store \<Rightarrow> addr \<Rightarrow> queue_store" where
  "RtbQueueFree st q = (if q \<noteq> NULL then RtbEmptyQueue st q else st)"

section \<open>The queues as lists\<close>

text \<open>\<open>queues st m\<close>: the store holds exactly the lists of \<open>m\<close> on their headers, with right
  counters, and no entry is linked into two of them.\<close>

definition nodes :: "addr \<Rightarrow> addr list \<Rightarrow> addr set" where
  "nodes q xs = insert q (set xs)"

definition queues :: "queue_store \<Rightarrow> (addr \<rightharpoonup> addr list) \<Rightarrow> bool" where
  "queues st m \<longleftrightarrow>
     (\<forall>q xs. m q = Some xs \<longrightarrow>
        ring st q xs \<and> QueueLen st q = of_nat (length xs) \<and> length xs < 2 ^ 32 \<and>
        NULL \<notin> nodes q xs) \<and>
     (\<forall>q xs q' ys. m q = Some xs \<longrightarrow> m q' = Some ys \<longrightarrow> q \<noteq> q' \<longrightarrow> nodes q xs \<inter> nodes q' ys = {})"

text \<open>A buffer that is in none of the queues (and is no header).\<close>

definition unlinked :: "(addr \<rightharpoonup> addr list) \<Rightarrow> addr \<Rightarrow> bool" where
  "unlinked m b \<longleftrightarrow> b \<noteq> NULL \<and> (\<forall>q xs. m q = Some xs \<longrightarrow> b \<notin> nodes q xs)"

definition to_option :: "addr \<times> 's \<Rightarrow> addr option \<times> 's" where
  "to_option r = (if fst r = NULL then None else Some (fst r), snd r)"

lemma queuesD:
  assumes "queues st m" and "m q = Some xs"
  shows "ring st q xs" and "QueueLen st q = of_nat (length xs)" and "length xs < 2 ^ 32"
    and "NULL \<notin> set xs" and "q \<noteq> NULL"
  using assms by (auto simp: queues_def nodes_def)

text \<open>Changing one ring keeps the others when the new ring's nodes are old ones or an unlinked
  one, and nothing outside is written.\<close>

lemma queues_update:
  assumes Q: "queues st m" and q: "m q = Some xs"
    and r: "ring st' q ys" and len: "QueueLen st' = (QueueLen st)(q := of_nat (length ys))"
    and lt: "length ys < 2 ^ 32"
    and sub: "\<And>y. y \<in> set ys \<Longrightarrow> y \<in> set xs \<or> unlinked m y"
    and fr: "\<And>q' zs y. m q' = Some zs \<Longrightarrow> q' \<noteq> q \<Longrightarrow> y \<in> nodes q' zs \<Longrightarrow>
      Next st' y = Next st y \<and> Prev st' y = Prev st y"
  shows "queues st' (m(q \<mapsto> ys))"
proof -
  have other: "ring st' q' zs" if "m q' = Some zs" "q' \<noteq> q" for q' zs
  proof -
    have "ring st q' zs" using Q that by (auto simp: queues_def)
    moreover have "ring st' q' zs = ring st q' zs"
      by (rule ring_cong) (use fr [OF that] in \<open>auto simp: nodes_def\<close>)
    ultimately show ?thesis by simp
  qed
  have disj: "nodes q ys \<inter> nodes q' zs = {}" if "m q' = Some zs" "q' \<noteq> q" for q' zs
  proof -
    have "nodes q xs \<inter> nodes q' zs = {}" using Q q that by (auto simp: queues_def)
    then show ?thesis using sub that by (fastforce simp: nodes_def unlinked_def)
  qed
  have nn: "NULL \<notin> nodes q ys"
    using sub queuesD [OF Q q] by (auto simp: nodes_def unlinked_def)
  show ?thesis
    unfolding queues_def
  proof (intro conjI allI impI)
    fix q' zs assume h: "(m(q \<mapsto> ys)) q' = Some zs"
    show "ring st' q' zs" using h r other by (auto split: if_splits)
    show "QueueLen st' q' = of_nat (length zs)"
      using h len queuesD(2) [OF Q] by (auto split: if_splits)
    show "length zs < 2 ^ 32" using h lt queuesD(3) [OF Q] by (auto split: if_splits)
    show "NULL \<notin> nodes q' zs"
      using h nn queuesD(4,5) [OF Q] by (auto simp: nodes_def split: if_splits)
  next
    fix q1 zs1 q2 zs2
    assume h: "(m(q \<mapsto> ys)) q1 = Some zs1" "(m(q \<mapsto> ys)) q2 = Some zs2" "q1 \<noteq> q2"
    show "nodes q1 zs1 \<inter> nodes q2 zs2 = {}"
    proof (cases "q1 = q \<or> q2 = q")
      case True
      with h disj show ?thesis by (auto split: if_splits)
    next
      case False
      with h Q show ?thesis by (auto simp: queues_def)
    qed
  qed
qed

lemma other_nodes:
  assumes "queues st m" and "m q = Some xs" and "m q' = Some zs" and "q' \<noteq> q" and "y \<in> nodes q' zs"
  shows "y \<notin> set (q # xs)"
  using assms by (fastforce simp: queues_def nodes_def)

lemma unlinked_other: "unlinked m b \<Longrightarrow> m q = Some xs \<Longrightarrow> y \<in> nodes q xs \<Longrightarrow> y \<noteq> b"
  by (auto simp: unlinked_def)

lemma unlinked_new: "unlinked m b \<Longrightarrow> m q = Some xs \<Longrightarrow> b \<notin> set (q # xs)"
  by (auto simp: unlinked_def nodes_def)


section \<open>Each queue operation on the lists\<close>

lemma set_queue_len_links [simp]:
  "Next (set_queue_len st q n) = Next st" "Prev (set_queue_len st q n) = Prev st"
  "QueueLen (set_queue_len st q n) = (QueueLen st)(q := n)"
  by (simp_all add: set_queue_len_def)

lemma ring_set_queue_len [simp]: "ring (set_queue_len st q n) h xs = ring st h xs"
  by (rule ring_cong) simp

lemma RtbQueueTail_queues:
  assumes Q: "queues st m" and q: "m q = Some xs" and b: "unlinked m b" and lt: "Suc (length xs) < 2 ^ 32"
  shows "queues (RtbQueueTail st q b) (m(q \<mapsto> xs @ [b]))"
proof (rule queues_update [OF Q q])
  show "ring (RtbQueueTail st q b) q (xs @ [b])"
    using ring_ListAddToTail [OF queuesD(1) [OF Q q] unlinked_new [OF b q]]
    by (simp add: RtbQueueTail_def Let_def)
  show "Next (RtbQueueTail st q b) y = Next st y \<and> Prev (RtbQueueTail st q b) y = Prev st y"
    if "m q' = Some zs" "q' \<noteq> q" "y \<in> nodes q' zs" for q' zs y
    using ListAddToTail_frame [OF queuesD(1) [OF Q q], of y b]
      other_nodes [OF Q q that] unlinked_other [OF b that(1,3)]
    by (simp add: RtbQueueTail_def Let_def)
qed (use b lt queuesD(2) [OF Q q] in \<open>auto simp: RtbQueueTail_def Let_def add.commute\<close>)

lemma RtbQueueHead_queues:
  assumes Q: "queues st m" and q: "m q = Some xs" and b: "unlinked m b" and lt: "Suc (length xs) < 2 ^ 32"
  shows "queues (RtbQueueHead st q b) (m(q \<mapsto> b # xs))"
proof (rule queues_update [OF Q q])
  show "ring (RtbQueueHead st q b) q (b # xs)"
    using ring_ListAddToHead [OF queuesD(1) [OF Q q] unlinked_new [OF b q]]
    by (simp add: RtbQueueHead_def Let_def)
  show "Next (RtbQueueHead st q b) y = Next st y \<and> Prev (RtbQueueHead st q b) y = Prev st y"
    if "m q' = Some zs" "q' \<noteq> q" "y \<in> nodes q' zs" for q' zs y
    using ListAddToHead_frame [OF queuesD(1) [OF Q q], of y b]
      other_nodes [OF Q q that] unlinked_other [OF b that(1,3)]
    by (simp add: RtbQueueHead_def Let_def)
qed (use b lt queuesD(2) [OF Q q] in \<open>auto simp: RtbQueueHead_def Let_def add.commute\<close>)

lemma RtbRemoveNode_queues:
  assumes Q: "queues st m" and q: "m q = Some (as @ d # bs)"
  shows "queues (RtbRemoveNode st q d) (m(q \<mapsto> as @ bs))"
proof (rule queues_update [OF Q q])
  let ?st = "set_queue_len st q (QueueLen st q - 1)"
  have r: "ring ?st q (as @ d # bs)" using queuesD(1) [OF Q q] by simp
  show "ring (RtbRemoveNode st q d) q (as @ bs)"
    using ring_ListDeleteNode [OF r] by (simp add: RtbRemoveNode_def)
  show "Next (RtbRemoveNode st q d) y = Next st y \<and> Prev (RtbRemoveNode st q d) y = Prev st y"
    if "m q' = Some zs" "q' \<noteq> q" "y \<in> nodes q' zs" for q' zs y
    using ListDeleteNode_frame [OF r other_nodes [OF Q q that]]
    by (simp add: RtbRemoveNode_def)
qed (use queuesD(2,3) [OF Q q] in auto)

lemma RtbQueueIsEmpty_queues:
  assumes "queues st m" and "m q = Some xs"
  shows "RtbQueueIsEmpty st q \<longleftrightarrow> xs = []"
proof -
  have "QueueLen st q = 0 \<longleftrightarrow> of_nat (length xs) = (0 :: u32)"
    using queuesD(2) [OF assms] by simp
  also have "\<dots> \<longleftrightarrow> length xs = 0"
  proof
    assume "of_nat (length xs) = (0 :: u32)"
    then have "unat (of_nat (length xs) :: u32) = 0" by simp
    then show "length xs = 0"
      using queuesD(3) [OF assms] by (simp add: unat_of_nat take_bit_nat_eq_self)
  qed simp
  finally show ?thesis by (simp add: RtbQueueIsEmpty_def word_gt_0)
qed

lemma RtbDequeueHead_queues:
  assumes Q: "queues st m" and q: "m q = Some (x # xs)"
  shows "RtbDequeueHead st q = (x, RtbRemoveNode st q x)"
    and "queues (RtbRemoveNode st q x) (m(q \<mapsto> xs))"
  using RtbQueueIsEmpty_queues [OF Q q] ring_Next [OF queuesD(1) [OF Q q]]
    RtbRemoveNode_queues [of st m q "[]" x xs] Q q
  by (simp_all add: RtbDequeueHead_def)

lemma RtbDequeueTail_queues:
  assumes Q: "queues st m" and q: "m q = Some (xs @ [x])"
  shows "RtbDequeueTail st q = (x, RtbRemoveNode st q x)"
    and "queues (RtbRemoveNode st q x) (m(q \<mapsto> xs))"
  using RtbQueueIsEmpty_queues [OF Q q] ring_Prev [OF queuesD(1) [OF Q q]]
    RtbRemoveNode_queues [of st m q xs x "[]"] Q q
  by (simp_all add: RtbDequeueTail_def)

lemma RtbTopQueue_queues:
  "queues st m \<Longrightarrow> m q = Some xs \<Longrightarrow> RtbTopQueue st q = (if xs = [] then NULL else hd xs)"
  using RtbQueueIsEmpty_queues [of st m q xs] ring_Next [OF queuesD(1), of st m q xs]
  by (cases xs) (auto simp: RtbTopQueue_def)

lemma RtbInsertBefore_queues:
  assumes Q: "queues st m" and q: "m q = Some (as @ d # bs)" and b: "unlinked m b"
    and lt: "Suc (length (as @ d # bs)) < 2 ^ 32"
  shows "queues (RtbInsertBefore st q d b) (m(q \<mapsto> as @ b # d # bs))"
proof (rule queues_update [OF Q q])
  note r = queuesD(1) [OF Q q]
  have p: "Prev st d = last (q # as)" by (rule ring_neighbours [OF r])
  show "ring (RtbInsertBefore st q d b) q (as @ b # d # bs)"
    using ring_ListAdd [OF r unlinked_new [OF b q] p] by (simp add: RtbInsertBefore_def Let_def)
  show "Next (RtbInsertBefore st q d b) y = Next st y \<and> Prev (RtbInsertBefore st q d b) y = Prev st y"
    if "m q' = Some zs" "q' \<noteq> q" "y \<in> nodes q' zs" for q' zs y
  proof -
    have "Prev st d \<in> set (q # as)" unfolding p by (rule last_in_set) simp
    then have "y \<noteq> Prev st d" and "y \<noteq> d" and "y \<noteq> b"
      using other_nodes [OF Q q that] unlinked_other [OF b that(1,3)] by auto
    then show ?thesis by (simp add: RtbInsertBefore_def Let_def ListAdd_links)
  qed
qed (use b lt queuesD(2) [OF Q q] in \<open>auto simp: RtbInsertBefore_def Let_def add.commute\<close>)

lemma RtbFree_queues: "queues (RtbFree st b) m = queues st m"
proof -
  have "ring (RtbFree st b) q xs = ring st q xs" for q xs
    by (rule ring_cong) (simp add: RtbFree_def)
  then show ?thesis by (simp add: queues_def)
qed

lemma RtbEmptyQueue_queues:
  "queues st m \<Longrightarrow> m q = Some xs \<Longrightarrow>
    queues (RtbEmptyQueue st q) (m(q \<mapsto> [])) \<and>
    (\<forall>b. rtb (RtbEmptyQueue st q) b = (if b \<in> set xs then None else rtb st b))"
proof (induction xs arbitrary: st m)
  case Nil
  then show ?case
    using RtbQueueIsEmpty_queues [of st m q "[]"] by (subst (1 2) RtbEmptyQueue.simps) (simp add: fun_upd_idem)
next
  case (Cons x xs)
  let ?st' = "RtbFree (RtbRemoveNode st q x) x"
  have x: "Next st q = x" "x \<noteq> NULL"
    using queuesD(1,4) [OF Cons.prems] ring_Next [of st q "x # xs"] by auto
  have unfold: "RtbEmptyQueue st q = RtbEmptyQueue ?st' q"
    using RtbQueueIsEmpty_queues [OF Cons.prems] x by (subst RtbEmptyQueue.simps) simp
  have "queues ?st' (m(q \<mapsto> xs))"
    using RtbDequeueHead_queues(2) [OF Cons.prems] by (simp add: RtbFree_queues)
  from Cons.IH [OF this fun_upd_same] have "queues (RtbEmptyQueue ?st' q) (m(q \<mapsto> []))"
    and fr: "\<forall>b. rtb (RtbEmptyQueue ?st' q) b = (if b \<in> set xs then None else rtb ?st' b)"
    unfolding fun_upd_upd by blast+
  moreover have "rtb ?st' b = (if b = x then None else rtb st b)" for b
    using x by (simp add: RtbFree_def RtbRemoveNode_def set_queue_len_def)
  ultimately show ?case unfolding unfold by (auto simp del: fun_upd_apply)
qed

section \<open>The interface a client of several queues uses\<close>

text \<open>\<open>holds s m\<close> relates a store to the lists its queues carry; \<open>free m b\<close> says that \<open>b\<close> may be
  linked; \<open>limit\<close> bounds the length of a queue.\<close>

locale deque_store =
  fixes holds :: "'s \<Rightarrow> ('q \<rightharpoonup> 'b list) \<Rightarrow> bool"
    and free :: "('q \<rightharpoonup> 'b list) \<Rightarrow> 'b \<Rightarrow> bool"
    and limit :: nat
    and put_tail :: "'s \<Rightarrow> 'q \<Rightarrow> 'b \<Rightarrow> 's"
    and put_head :: "'s \<Rightarrow> 'q \<Rightarrow> 'b \<Rightarrow> 's"
    and get_head :: "'s \<Rightarrow> 'q \<Rightarrow> 'b option \<times> 's"
    and get_tail :: "'s \<Rightarrow> 'q \<Rightarrow> 'b option \<times> 's"
  assumes put_tail_law: "holds s m \<Longrightarrow> m q = Some xs \<Longrightarrow> free m b \<Longrightarrow> Suc (length xs) < limit \<Longrightarrow>
      holds (put_tail s q b) (m(q \<mapsto> xs @ [b]))"
    and put_head_law: "holds s m \<Longrightarrow> m q = Some xs \<Longrightarrow> free m b \<Longrightarrow> Suc (length xs) < limit \<Longrightarrow>
      holds (put_head s q b) (m(q \<mapsto> b # xs))"
    and get_head_empty: "holds s m \<Longrightarrow> m q = Some [] \<Longrightarrow> get_head s q = (None, s)"
    and get_head_law: "holds s m \<Longrightarrow> m q = Some (x # xs) \<Longrightarrow>
      \<exists>s'. get_head s q = (Some x, s') \<and> holds s' (m(q \<mapsto> xs))"
    and get_tail_empty: "holds s m \<Longrightarrow> m q = Some [] \<Longrightarrow> get_tail s q = (None, s)"
    and get_tail_law: "holds s m \<Longrightarrow> m q = Some (xs @ [x]) \<Longrightarrow>
      \<exists>s'. get_tail s q = (Some x, s') \<and> holds s' (m(q \<mapsto> xs))"
    and removed_free: "holds s m \<Longrightarrow> m q = Some (xs @ x # ys) \<Longrightarrow> free (m(q \<mapsto> xs @ ys)) x"
    and still_free: "holds s m \<Longrightarrow> m q = Some xs \<Longrightarrow> free m c \<Longrightarrow> c \<noteq> b \<Longrightarrow> free (m(q \<mapsto> xs @ [b])) c"

text \<open>A client's loops: link a list of buffers at the tail; take \<open>n\<close> buffers from the head; and
  the retransmission loop, which moves \<open>n\<close> buffers from the tail of one queue to the head of
  another.\<close>

primrec put_all :: "('s \<Rightarrow> 'q \<Rightarrow> 'b \<Rightarrow> 's) \<Rightarrow> 's \<Rightarrow> 'q \<Rightarrow> 'b list \<Rightarrow> 's" where
  "put_all put s q [] = s"
| "put_all put s q (b # bs) = put_all put (put s q b) q bs"

primrec get_n :: "('s \<Rightarrow> 'q \<Rightarrow> 'b option \<times> 's) \<Rightarrow> nat \<Rightarrow> 's \<Rightarrow> 'q \<Rightarrow> 'b option list \<times> 's" where
  "get_n get 0 s q = ([], s)"
| "get_n get (Suc n) s q =
     (let (x, s') = get s q; (xs, s'') = get_n get n s' q in (x # xs, s''))"

primrec move_n ::
  "('s \<Rightarrow> 'q \<Rightarrow> 'b option \<times> 's) \<Rightarrow> ('s \<Rightarrow> 'q \<Rightarrow> 'b \<Rightarrow> 's) \<Rightarrow> nat \<Rightarrow> 's \<Rightarrow> 'q \<Rightarrow> 'q \<Rightarrow> 's" where
  "move_n get put 0 s u r = s"
| "move_n get put (Suc n) s u r =
     (case get s u of (None, s') \<Rightarrow> s' | (Some x, s') \<Rightarrow> move_n get put n (put s' r x) u r)"

context deque_store
begin

lemma put_all_queue:
  "holds s m \<Longrightarrow> m q = Some xs \<Longrightarrow> distinct bs \<Longrightarrow> \<forall>b\<in>set bs. free m b \<Longrightarrow>
    length xs + length bs < limit \<Longrightarrow> holds (put_all put_tail s q bs) (m(q \<mapsto> xs @ bs))"
proof (induction bs arbitrary: s m xs)
  case Nil
  then show ?case by (simp add: fun_upd_idem)
next
  case (Cons b bs)
  have h: "holds (put_tail s q b) (m(q \<mapsto> xs @ [b]))"
    using Cons.prems by (intro put_tail_law) auto
  have f: "\<forall>c\<in>set bs. free (m(q \<mapsto> xs @ [b])) c"
    using Cons.prems(3,4) by (intro ballI still_free [OF Cons.prems(1,2)]) auto
  have "holds (put_all put_tail (put_tail s q b) q bs) (m(q \<mapsto> xs @ [b], q \<mapsto> (xs @ [b]) @ bs))"
    using Cons.prems by (intro Cons.IH [OF h fun_upd_same _ f]) auto
  then show ?case by (simp del: fun_upd_apply)
qed

lemma get_n_queue:
  "holds s m \<Longrightarrow> m q = Some (xs @ ys) \<Longrightarrow>
    \<exists>s'. get_n get_head (length xs) s q = (map Some xs, s') \<and> holds s' (m(q \<mapsto> ys))"
proof (induction xs arbitrary: s m)
  case Nil
  then show ?case by (auto simp: fun_upd_idem)
next
  case (Cons x xs)
  obtain s1 where s1: "get_head s q = (Some x, s1)" "holds s1 (m(q \<mapsto> xs @ ys))"
    using get_head_law [OF Cons.prems(1)] Cons.prems(2) by fastforce
  from Cons.IH [OF s1(2) fun_upd_same] obtain s2 where
    "get_n get_head (length xs) s1 q = (map Some xs, s2)" "holds s2 (m(q \<mapsto> ys))"
    unfolding fun_upd_upd by blast
  with s1(1) show ?case by (auto simp del: fun_upd_apply)
qed

lemma move_n_queues:
  "holds s m \<Longrightarrow> m u = Some xs \<Longrightarrow> m r = Some ys \<Longrightarrow> u \<noteq> r \<Longrightarrow> length xs + length ys < limit \<Longrightarrow>
    holds (move_n get_tail put_head (length xs) s u r) (m(u \<mapsto> [], r \<mapsto> xs @ ys))"
proof (induction xs arbitrary: s m ys rule: rev_induct)
  case Nil
  then show ?case by (simp add: fun_upd_idem)
next
  case (snoc x xs)
  obtain s1 where s1: "get_tail s u = (Some x, s1)" "holds s1 (m(u \<mapsto> xs))"
    using get_tail_law [OF snoc.prems(1,2)] by auto
  have fr: "free (m(u \<mapsto> xs)) x"
    using removed_free [OF snoc.prems(1), of u xs x "[]"] snoc.prems(2) by simp
  have "holds (put_head s1 r x) (m(u \<mapsto> xs, r \<mapsto> x # ys))"
    using put_head_law [OF s1(2) _ fr, of r ys] snoc.prems by simp
  moreover have "(m(u \<mapsto> xs, r \<mapsto> x # ys)) u = Some xs" using snoc.prems(4) by simp
  moreover have "length xs + length (x # ys) < limit" using snoc.prems(5) by simp
  ultimately have "holds (move_n get_tail put_head (length xs) (put_head s1 r x) u r)
      (m(u \<mapsto> xs, r \<mapsto> x # ys, u \<mapsto> [], r \<mapsto> xs @ x # ys))"
    using snoc.prems(4) by (intro snoc.IH fun_upd_same)
  moreover have "m(u \<mapsto> xs, r \<mapsto> x # ys, u \<mapsto> [], r \<mapsto> xs @ x # ys) = m(u \<mapsto> [], r \<mapsto> xs @ x # ys)"
    using snoc.prems(4) by (intro ext) simp
  ultimately have "holds (move_n get_tail put_head (length xs) (put_head s1 r x) u r)
      (m(u \<mapsto> [], r \<mapsto> xs @ x # ys))"
    by simp
  with s1(1) show ?case by (simp del: fun_upd_apply)
qed

end

interpretation rtbq: deque_store queues unlinked "2 ^ 32" RtbQueueTail RtbQueueHead
  "\<lambda>st q. to_option (RtbDequeueHead st q)" "\<lambda>st q. to_option (RtbDequeueTail st q)"
proof unfold_locales
  fix s m q xs b
  assume "queues s m" "m q = Some xs" "unlinked m b" "Suc (length xs) < 2 ^ 32"
  then show "queues (RtbQueueTail s q b) (m(q \<mapsto> xs @ [b]))"
    and "queues (RtbQueueHead s q b) (m(q \<mapsto> b # xs))"
    by (auto intro: RtbQueueTail_queues RtbQueueHead_queues)
next
  fix s m q assume h: "queues s m" "m q = Some []"
  show "to_option (RtbDequeueHead s q) = (None, s)" "to_option (RtbDequeueTail s q) = (None, s)"
    using RtbQueueIsEmpty_queues [OF h]
    by (simp_all add: to_option_def RtbDequeueHead_def RtbDequeueTail_def)
next
  fix s m q x xs assume h: "queues s m" "m q = Some (x # xs)"
  show "\<exists>s'. to_option (RtbDequeueHead s q) = (Some x, s') \<and> queues s' (m(q \<mapsto> xs))"
    using RtbDequeueHead_queues [OF h] queuesD(4) [OF h] by (auto simp: to_option_def)
next
  fix s m q xs x assume h: "queues s m" "m q = Some (xs @ [x])"
  show "\<exists>s'. to_option (RtbDequeueTail s q) = (Some x, s') \<and> queues s' (m(q \<mapsto> xs))"
    using RtbDequeueTail_queues [OF h] queuesD(4) [OF h] by (auto simp: to_option_def)
next
  fix s m q xs x ys assume h: "queues s m" "m q = Some (xs @ x # ys)"
  have "x \<notin> set (q # xs @ ys)" using queuesD(1) [OF h] by (auto simp: ring_def)
  moreover have "x \<notin> nodes q' zs" if "m q' = Some zs" "q' \<noteq> q" for q' zs
    using h that by (fastforce simp: queues_def nodes_def)
  ultimately show "unlinked (m(q \<mapsto> xs @ ys)) x"
    using queuesD(4) [OF h] by (auto simp: unlinked_def nodes_def)
next
  fix m q xs c b assume "m q = Some xs" "unlinked m c" "c \<noteq> b"
  then show "unlinked (m(q \<mapsto> xs @ [b])) c"
    by (auto simp: unlinked_def nodes_def)
qed

end
