(* ===== verification/BtProperties.thy ===== *)
theory BtProperties
  imports BtQueue
begin

text \<open>
  The properties of the linked lists, packet buffers and buffer queues (hardware/bt/src/bt_list.c and
  bt_skbuff.c), stated over the operations and proved from the lemmas of \<open>BtList\<close>, \<open>BtSkbuff\<close> and
  the interpretation \<open>rtbq\<close> of \<open>BtQueue\<close>.
\<close>

section \<open>Fresh queues\<close>

lemma RtbQueueInit_queues:
  assumes Q: "queues st m" and a: "unlinked m a"
  shows "queues (snd (RtbQueueInit st a 0)) (m(a \<mapsto> []))"
proof -
  have a0: "a \<noteq> NULL" and fr: "\<And>q xs y. m q = Some xs \<Longrightarrow> y \<in> nodes q xs \<Longrightarrow> y \<noteq> a"
    using a by (auto simp: unlinked_def)
  let ?st = "snd (RtbQueueInit st a 0)"
  have st: "?st = set_queue_len (ListInitializeHeader st a) a 0" using a0 by (simp add: RtbQueueInit_def)
  have other: "ring ?st q xs = ring st q xs" if "m q = Some xs" for q xs
    unfolding st by (rule ring_cong) (use fr [OF that] in \<open>auto simp: list_op_defs nodes_def\<close>)
  have new: "ring ?st a []" unfolding st by (simp add: ring_init)
  have len: "QueueLen ?st = (QueueLen st)(a := 0)" unfolding st by simp
  have nodes_a: "a \<notin> nodes q xs" if "m q = Some xs" for q xs using fr [OF that] by blast
  show ?thesis
    unfolding queues_def
  proof (intro conjI allI impI)
    fix q xs assume h: "(m(a \<mapsto> [])) q = Some xs"
    show "ring ?st q xs" "length xs < 2 ^ 32" "NULL \<notin> nodes q xs" "QueueLen ?st q = of_nat (length xs)"
      using h Q new other a0 nodes_a [of q xs] by (auto simp: queues_def len nodes_def split: if_splits)
  next
    fix q xs q' ys assume "(m(a \<mapsto> [])) q = Some xs" "(m(a \<mapsto> [])) q' = Some ys" "q \<noteq> q'"
    then show "nodes q xs \<inter> nodes q' ys = {}"
      using Q nodes_a by (fastforce simp: queues_def nodes_def split: if_splits)
  qed
qed

text \<open>A store with two empty queues, at addresses 10 and 20; the buffers of the witnesses are 30, 40 and 50.\<close>

definition st_zero :: queue_store where
  "st_zero = \<lparr>Next = (\<lambda>_. 0), Prev = (\<lambda>_. 0), QueueLen = (\<lambda>_. 0), rtb = (\<lambda>_. None)\<rparr>"

definition st_two :: queue_store where
  "st_two = snd (RtbQueueInit (snd (RtbQueueInit st_zero 10 0)) 20 0)"

definition two :: "addr list \<Rightarrow> addr list \<Rightarrow> (addr \<rightharpoonup> addr list)" where
  "two xs ys q = (if q = 10 then Some xs else if q = 20 then Some ys else None)"

lemma two_simps [simp]: "two xs ys 10 = Some xs" "two xs ys 20 = Some ys"
  by (simp_all add: two_def)

lemma two_update [simp]: "(two xs ys)(10 \<mapsto> zs) = two zs ys" "(two xs ys)(20 \<mapsto> zs) = two xs zs"
  by (rule ext, simp add: two_def)+

lemma two_eq_Some: "two xs ys q = Some zs \<longleftrightarrow> q = 10 \<and> zs = xs \<or> q = 20 \<and> zs = ys"
  by (auto simp: two_def)

lemma unlinked_two [simp]: "unlinked (two xs ys) b \<longleftrightarrow> b \<noteq> 0 \<and> b \<noteq> 10 \<and> b \<noteq> 20 \<and> b \<notin> set xs \<and> b \<notin> set ys"
  unfolding unlinked_def two_eq_Some nodes_def NULL_def by blast

lemma st_two_queues: "queues st_two (two [] [])"
proof -
  have "queues st_zero Map.empty" by (simp add: queues_def)
  then have "queues (snd (RtbQueueInit st_zero 10 0)) [10 \<mapsto> []]"
    by (rule RtbQueueInit_queues) (simp add: unlinked_def NULL_def)
  then have "queues st_two [10 \<mapsto> [], 20 \<mapsto> []]" unfolding st_two_def
    by (rule RtbQueueInit_queues) (simp add: unlinked_def NULL_def nodes_def)
  moreover have "two [] [] = [10 \<mapsto> [], 20 \<mapsto> []]" by (rule ext) (simp add: two_def)
  ultimately show ?thesis by simp
qed

lemma st_filled: "queues (put_all RtbQueueTail (put_all RtbQueueTail st_two 10 [30, 40]) 20 [50]) (two [30, 40] [50])"
proof -
  have "queues (put_all RtbQueueTail st_two 10 [30, 40]) (two [30, 40] [])"
    using rtbq.put_all_queue [OF st_two_queues, of 10 "[]" "[30, 40]"] by (simp del: put_all.simps)
  from rtbq.put_all_queue [OF this, of 20 "[]" "[50]"] show ?thesis by (simp del: put_all.simps)
qed

section \<open>Queues\<close>

text \<open>C16: buffers appended with \<open>RtbQueueTail\<close> to an empty queue come out of \<open>RtbDequeueHead\<close> in the order
  they went in, each once, and leave the queue empty and every other queue of the store as it was.\<close>

theorem queue_fifo:
  assumes "queues st m" and "m q = Some []" and "distinct bs" and "list_all (unlinked m) bs"
    and "length bs < 2 ^ 32"
  shows "\<exists>st'. get_n (\<lambda>st q. to_option (RtbDequeueHead st q)) (length bs) (put_all RtbQueueTail st q bs) q =
      (map Some bs, st') \<and> queues st' m"
proof -
  have "queues (put_all RtbQueueTail st q bs) (m(q \<mapsto> bs))"
    using rtbq.put_all_queue [OF assms(1,2,3)] assms(4,5) by (simp add: list_all_iff)
  from rtbq.get_n_queue [OF this, of q bs "[]"] assms(2) show ?thesis
    by (simp add: fun_upd_idem)
qed

text \<open>Witness of C16: three buffers through one queue.\<close>

theorem queue_fifo_witness:
  "\<exists>st'. get_n (\<lambda>st q. to_option (RtbDequeueHead st q)) (length [30, 40, 50 :: nat])
       (put_all RtbQueueTail st_two 10 [30, 40, 50]) 10 = (map Some [30, 40, 50], st')"
  using queue_fifo [OF st_two_queues, of 10 "[30, 40, 50]"]
  by (auto simp del: get_n.simps put_all.simps)

text \<open>C17: moving a whole queue, from its tail, to the head of another (the retransmission loop of hci_h5.c)
  puts its buffers in their order before the other queue's and empties it.\<close>

theorem queue_requeue:
  assumes "queues st m" and "m u = Some xs" and "m r = Some ys" and "u \<noteq> r" and "length xs + length ys < 2 ^ 32"
  shows "queues (move_n (\<lambda>st q. to_option (RtbDequeueTail st q)) RtbQueueHead (length xs) st u r)
    (m(u \<mapsto> [], r \<mapsto> xs @ ys))"
  by (rule rtbq.move_n_queues [OF assms])

text \<open>Witness of C17.\<close>

theorem queue_requeue_witness:
  "queues (move_n (\<lambda>st q. to_option (RtbDequeueTail st q)) RtbQueueHead (length [30, 40 :: nat])
       (put_all RtbQueueTail (put_all RtbQueueTail st_two 10 [30, 40]) 20 [50]) 10 20) (two [] [30, 40, 50])"
  using queue_requeue [OF st_filled, of 10 "[30, 40]" 20 "[50]"] by (simp del: move_n.simps put_all.simps)

text \<open>\<open>RtbEmptyQueue\<close> terminates with the queue empty and every buffer that was on it freed; no other
  buffer is freed and no other queue changes.\<close>

theorem queue_emptied:
  assumes "queues st m" and "m q = Some xs"
  shows "queues (RtbEmptyQueue st q) (m(q \<mapsto> [])) \<and> RtbQueueIsEmpty (RtbEmptyQueue st q) q \<and>
    (\<forall>b. rtb (RtbEmptyQueue st q) b = (if b \<in> set xs then None else rtb st b))"
  using RtbEmptyQueue_queues [OF assms] RtbQueueIsEmpty_queues [of "RtbEmptyQueue st q" "m(q \<mapsto> [])" q "[]"]
  by simp

text \<open>An instance of \<open>queue_emptied\<close>.\<close>

theorem queue_emptied_witness:
  "queues (RtbEmptyQueue (put_all RtbQueueTail (put_all RtbQueueTail st_two 10 [30, 40]) 20 [50]) 10) (two [] [50])"
  using queue_emptied [OF st_filled, of 10 "[30, 40]"] by (simp del: put_all.simps)

section \<open>Lists\<close>

text \<open>On a well-formed circular list, inserting an unlinked entry at the head or the tail adds it
  there and nowhere else, and deleting any entry closes the gap and leaves that entry linked to itself;
  insertion followed by deletion of the same entry gives the old list back.\<close>

theorem list_insert_delete:
  assumes "ring st h xs" and "n \<notin> set (h # xs)"
  shows "ring (ListAddToHead st n h) h (n # xs) \<and> ring (ListAddToTail st n h) h (xs @ [n]) \<and>
    ring (ListDeleteNode (ListAddToHead st n h) n) h xs \<and> ring (ListDeleteNode (ListAddToTail st n h) n) h xs \<and>
    (\<forall>as d bs. xs = as @ d # bs \<longrightarrow>
       ring (ListDeleteNode st d) h (as @ bs) \<and> ring (ListDeleteNode st d) d [])"
proof -
  note hd = ring_ListAddToHead [OF assms] and tl = ring_ListAddToTail [OF assms]
  have "ring (ListDeleteNode st d) h (as @ bs) \<and> ring (ListDeleteNode st d) d []" if "xs = as @ d # bs" for as d bs
    using ring_ListDeleteNode [of st h as d bs] assms(1) that by simp
  then show ?thesis
    using hd tl ring_ListDeleteNode [of "ListAddToHead st n h" h "[]" n xs]
      ring_ListDeleteNode [of "ListAddToTail st n h" h xs n "[]"] by simp
qed

text \<open>An instance of \<open>list_insert_delete\<close>: an entry on an empty list.\<close>

theorem list_insert_delete_witness:
  "ring (ListDeleteNode (ListAddToTail (ListInitializeHeader st_zero 10) 30 10) 30) 10 []"
  using list_insert_delete [OF ring_init [of st_zero 10], of 30] by simp

section \<open>Buffers\<close>

text \<open>A buffer from \<open>RtbAllocate\<close> is empty, its block holds the headroom and exactly the requested
  number of bytes behind it before \<open>Tail\<close>, and the pointers are ordered within the block (for sizes
  that do not wrap 32 bits).\<close>

theorem rtb_allocate_bounds:
  assumes "RtbAllocate e L H = (Some b, e')" and "unat L + unat H + 15 < 2 ^ 32"
  shows "rtb_bytes b = [] \<and> rb_Length b = 0 \<and> rb_RefCount b = 1 \<and> rb_Data b = (if H = 0 then 12 else unat H) \<and>
    rb_Tail b = rb_Data b + unat L \<and> rb_Tail b \<le> length (rb_Mem b) \<and> rtb_wf b"
proof -
  note a = RtbAllocate_wf [OF assms]
  then have "rb_Tail b = rb_Data b + unat L" by (auto simp: rtb_wf_def rtb_room_def)
  then show ?thesis using a by (auto simp: rtb_wf_def)
qed

text \<open>An instance of \<open>rtb_allocate_bounds\<close>: 14 bytes with the default headroom.\<close>

definition heap_ok :: malloc_env where
  "heap_ok = \<lparr>malloc_ok = (\<lambda>_. True), malloc_n = 0, malloc_fill = (\<lambda>_. 0)\<rparr>"

theorem rtb_allocate_bounds_witness:
  "\<exists>b e'. RtbAllocate heap_ok 14 0 = (Some b, e') \<and> rb_Tail b = 26 \<and> rtb_wf b"
proof -
  obtain b e' where a: "RtbAllocate heap_ok 14 0 = (Some b, e')"
    by (rule RtbAllocate_Some [of heap_ok]) (auto simp: heap_ok_def)
  from rtb_allocate_bounds [OF a] a show ?thesis by auto
qed

text \<open>\<open>RtbAddTail\<close> hands out room at the end exactly when it exists, so that storing the bytes there
  appends them and stays inside the buffer; otherwise it returns null and changes nothing.\<close>

theorem rtb_tail_append:
  assumes "rtb_wf b" and "length bs < 2 ^ 32"
  shows "case RtbAddTail b (of_nat (length bs)) of
      (Some p, b') \<Rightarrow> length bs \<le> rtb_room b \<and> p + length bs \<le> rb_Tail b \<and>
        rtb_wf (b'\<lparr>rb_Mem := mem_write (rb_Mem b') p bs\<rparr>) \<and>
        rtb_bytes (b'\<lparr>rb_Mem := mem_write (rb_Mem b') p bs\<rparr>) = rtb_bytes b @ bs
    | (None, b') \<Rightarrow> rtb_room b < length bs \<and> b' = b"
proof -
  have u: "unat (of_nat (length bs) :: u32) = length bs"
    using assms(2) by (simp add: unat_of_nat take_bit_nat_eq_self)
  show ?thesis
  proof (cases "length bs \<le> rtb_room b")
    case True
    have "rb_End b + length bs \<le> rb_Tail b" using True assms(1) by (auto simp: rtb_wf_def rtb_room_def)
    with True show ?thesis
      using RtbAddTail_Some [OF assms(1), of "of_nat (length bs)"] u rtb_append [OF assms(1) True refl] by simp
  next
    case False
    then show ?thesis using RtbAddTail_None [OF assms(1), of "of_nat (length bs)"] u by simp
  qed
qed

text \<open>An instance of \<open>rtb_tail_append\<close>: two bytes into a buffer with room for two.\<close>

definition small_rtb :: rtk_buffer where
  "small_rtb = \<lparr>rb_Mem = replicate 16 0, rb_Data = 12, rb_Tail = 14, rb_End = 12, rb_Length = 0,
     rb_HeadRoom = 12, rb_RefCount = 1, rb_PacketType = 0\<rparr>"

lemma small_rtb_wf: "rtb_wf small_rtb"
  by (simp add: small_rtb_def rtb_wf_def)

theorem rtb_tail_append_witness: "RtbAddTail small_rtb (of_nat (length [7 :: u8, 8, 9])) = (None, small_rtb)"
  using rtb_tail_append [OF small_rtb_wf, of "[7, 8, 9]"]
  by (auto split: prod.splits option.splits simp: small_rtb_def rtb_room_def)

text \<open>Prepending \<open>n\<close> bytes of header within the headroom and removing them again gives the old
  contents; a header longer than the headroom and a removal longer than the data are refused.\<close>

theorem rtb_head_roundtrip:
  assumes wf: "rtb_wf b"
  shows "(unat n \<le> rb_Data b \<longrightarrow>
      (\<exists>b1 b2. RtbAddHead b n = (Some (rb_Data b - unat n), b1) \<and> RtbRemoveHead b1 n = (True, b2) \<and>
        rtb_wf b2 \<and> rtb_bytes b2 = rtb_bytes b)) \<and>
    (rb_Data b < unat n \<longrightarrow> RtbAddHead b n = (None, b)) \<and>
    (length (rtb_bytes b) < unat n \<longrightarrow> RtbRemoveHead b n = (False, b))"
proof -
  have "\<exists>b1 b2. RtbAddHead b n = (Some (rb_Data b - unat n), b1) \<and> RtbRemoveHead b1 n = (True, b2) \<and>
      rtb_wf b2 \<and> rtb_bytes b2 = rtb_bytes b" if n: "unat n \<le> rb_Data b"
  proof -
    obtain p b1 where a: "RtbAddHead b n = (p, b1)" by fastforce
    note h = RtbAddHead_bytes [OF wf n a]
    obtain ok b2 where r: "RtbRemoveHead b1 n = (ok, b2)" by fastforce
    have "rtb_wf b1" "unat n \<le> length (rtb_bytes b1)" using h by simp_all
    from RtbRemoveHead_bytes [OF this r] h a r show ?thesis by simp
  qed
  moreover have "RtbAddHead b n = (None, b)" if "rb_Data b < unat n"
  proof -
    have "unat (ptrdiff_u32 (rb_Data b) 0) = rb_Data b"
      using wf unat_ptrdiff_u32 [of 0 "rb_Data b"] by (auto simp: rtb_wf_def)
    then show ?thesis using that by (simp add: RtbAddHead_def unat_le_alt)
  qed
  ultimately show ?thesis using RtbRemoveHead_refused [OF wf] by blast
qed

text \<open>An instance of \<open>rtb_head_roundtrip\<close>.\<close>

theorem rtb_head_roundtrip_witness: "RtbAddHead small_rtb 13 = (None, small_rtb)"
  using rtb_head_roundtrip [OF small_rtb_wf, of 13] by (simp add: small_rtb_def)

text \<open>\<open>rtb_clone_loses_data\<close>: \<open>RtbCloneBuffer\<close> does not copy the payload: the copy is bounded by the new buffer's
  length, which is still 0, and \<open>End\<close> is not advanced, so the clone of a buffer with data claims the
  old length but holds no bytes.\<close>

theorem rtb_clone_loses_data:
  assumes "rtb_wf b" and "length (rtb_bytes b) + 15 < 2 ^ 32" and "rtb_bytes b \<noteq> []"
    and "RtbCloneBuffer e (Some b) = (Some c, e')"
  shows "rb_Length c = rb_Length b \<and> rtb_bytes c = [] \<and> \<not> rtb_wf c"
proof -
  obtain n where n: "RtbAllocate e (rb_Length b) 0 = (Some n, e')"
    and c: "c = n\<lparr>rb_Mem := memcpy_s (rb_Mem n) (Some (rb_Data n)) (unat (rb_Length n))
        (take (unat (rb_Length b)) (drop (rb_Data b) (rb_Mem b))), rb_Length := rb_Length b\<rparr>"
    using assms(4) by (auto simp: RtbCloneBuffer_def Let_def split: prod.splits option.splits)
  have "unat (rb_Length b) + unat (0 :: u32) + 15 < 2 ^ 32"
    using assms(1,2) rtb_Length_bytes by simp
  note a = RtbAllocate_wf [OF n this]
  then have e: "rb_End n = rb_Data n" by (auto simp: rtb_wf_def rtb_bytes_def)
  have "unat (rb_Length b) \<noteq> 0" using rtb_Length_bytes [OF assms(1)] assms(3) by simp
  then show ?thesis using c e by (auto simp: rtb_bytes_def rtb_wf_def)
qed

text \<open>An instance of \<open>rtb_clone_loses_data\<close>: cloning a buffer that holds two bytes.\<close>

theorem rtb_clone_loses_data_witness:
  "\<exists>c e'. RtbCloneBuffer heap_ok (Some (small_rtb\<lparr>rb_End := 14, rb_Length := 2\<rparr>)) = (Some c, e') \<and> rtb_bytes c = []"
proof -
  let ?b = "small_rtb\<lparr>rb_End := 14, rb_Length := 2\<rparr>"
  obtain c e' where c: "RtbCloneBuffer heap_ok (Some ?b) = (Some c, e')"
    by (simp add: RtbCloneBuffer_def RtbAllocate_def malloc_def heap_ok_def Let_def)
  have "rtb_wf ?b" "length (rtb_bytes ?b) + 15 < 2 ^ 32" "rtb_bytes ?b \<noteq> []"
    by (simp_all add: small_rtb_def rtb_wf_def rtb_bytes_def)
  from rtb_clone_loses_data [OF this c] c show ?thesis by blast
qed

end
