(* ===== verification/H5Codec.thy ===== *)
theory H5Codec
  imports BtSkbuff
begin

text \<open>
  The byte-level coding of the three-wire UART transport (hardware/bt/src/hci_h5.c): bit reversal
  and CRC tables, the SLIP escape sequences as they are written into a buffer, and the fields of
  the packet header. Each table-driven routine is shown equal to a reference definition.
\<close>

section \<open>Buffers, as hci\_h5.c wraps them\<close>

definition skb_get_data_length :: "rtk_buffer \<Rightarrow> u32" where
  "skb_get_data_length skb = rb_Length skb"

definition skb_alloc :: "malloc_env \<Rightarrow> u32 \<Rightarrow> rtk_buffer option \<times> malloc_env" where
  "skb_alloc e len = RtbAllocate e len 0"

definition skb_put :: "rtk_buffer \<Rightarrow> u32 \<Rightarrow> nat option \<times> rtk_buffer" where
  "skb_put skb len = RtbAddTail skb len"

definition skb_trim :: "rtk_buffer \<Rightarrow> u32 \<Rightarrow> rtk_buffer" where
  "skb_trim skb len = snd (RtbRemoveTail skb (skb_get_data_length skb - len))"

definition skb_pull :: "rtk_buffer \<Rightarrow> u32 \<Rightarrow> rtk_buffer" where
  "skb_pull skb len = snd (RtbRemoveHead skb len)"

definition skb_get_pkt_type :: "rtk_buffer \<Rightarrow> u8" where
  "skb_get_pkt_type skb = rb_PacketType skb"

definition skb_set_pkt_type :: "rtk_buffer \<Rightarrow> u8 \<Rightarrow> rtk_buffer" where
  "skb_set_pkt_type skb pkt_type = skb\<lparr>rb_PacketType := pkt_type\<rparr>"

text \<open>\<open>skb_get_data(skb)[i]\<close>. A read past the allocated block is undefined in C; it yields 0 here
  and the invariants show that the modelled code never makes one.\<close>

definition skb_byte :: "rtk_buffer \<Rightarrow> nat \<Rightarrow> u8" where
  "skb_byte skb i =
     (if rb_Data skb + i < length (rb_Mem skb) then rb_Mem skb ! (rb_Data skb + i) else 0)"

text \<open>\<open>memcpy_s(skb_put(skb, n), n, src, n)\<close>, the way every byte enters a buffer.\<close>

definition put_bytes :: "rtk_buffer \<Rightarrow> u8 list \<Rightarrow> rtk_buffer" where
  "put_bytes skb src =
     (case skb_put skb (of_nat (length src)) of
        (p, skb) \<Rightarrow> skb\<lparr>rb_Mem := memcpy_s (rb_Mem skb) p (length src) src\<rparr>)"

definition skb_alloc_and_init ::
  "malloc_env \<Rightarrow> u8 \<Rightarrow> u8 list \<Rightarrow> rtk_buffer option \<times> malloc_env" where
  "skb_alloc_and_init e PktType Data =
     (case skb_alloc e (of_nat (length Data)) of
        (None, e) \<Rightarrow> (None, e)
      | (Some skb, e) \<Rightarrow> (Some (skb_set_pkt_type (put_bytes skb Data) PktType), e))"

section \<open>Bit reversal\<close>

definition byte_rev_table :: "u8 list" where
  "byte_rev_table = [
    0x00, 0x80, 0x40, 0xc0, 0x20, 0xa0, 0x60, 0xe0, 0x10, 0x90, 0x50, 0xd0, 0x30, 0xb0, 0x70, 0xf0, 0x08, 0x88, 0x48,
    0xc8, 0x28, 0xa8, 0x68, 0xe8, 0x18, 0x98, 0x58, 0xd8, 0x38, 0xb8, 0x78, 0xf8, 0x04, 0x84, 0x44, 0xc4, 0x24, 0xa4,
    0x64, 0xe4, 0x14, 0x94, 0x54, 0xd4, 0x34, 0xb4, 0x74, 0xf4, 0x0c, 0x8c, 0x4c, 0xcc, 0x2c, 0xac, 0x6c, 0xec, 0x1c,
    0x9c, 0x5c, 0xdc, 0x3c, 0xbc, 0x7c, 0xfc, 0x02, 0x82, 0x42, 0xc2, 0x22, 0xa2, 0x62, 0xe2, 0x12, 0x92, 0x52, 0xd2,
    0x32, 0xb2, 0x72, 0xf2, 0x0a, 0x8a, 0x4a, 0xca, 0x2a, 0xaa, 0x6a, 0xea, 0x1a, 0x9a, 0x5a, 0xda, 0x3a, 0xba, 0x7a,
    0xfa, 0x06, 0x86, 0x46, 0xc6, 0x26, 0xa6, 0x66, 0xe6, 0x16, 0x96, 0x56, 0xd6, 0x36, 0xb6, 0x76, 0xf6, 0x0e, 0x8e,
    0x4e, 0xce, 0x2e, 0xae, 0x6e, 0xee, 0x1e, 0x9e, 0x5e, 0xde, 0x3e, 0xbe, 0x7e, 0xfe, 0x01, 0x81, 0x41, 0xc1, 0x21,
    0xa1, 0x61, 0xe1, 0x11, 0x91, 0x51, 0xd1, 0x31, 0xb1, 0x71, 0xf1, 0x09, 0x89, 0x49, 0xc9, 0x29, 0xa9, 0x69, 0xe9,
    0x19, 0x99, 0x59, 0xd9, 0x39, 0xb9, 0x79, 0xf9, 0x05, 0x85, 0x45, 0xc5, 0x25, 0xa5, 0x65, 0xe5, 0x15, 0x95, 0x55,
    0xd5, 0x35, 0xb5, 0x75, 0xf5, 0x0d, 0x8d, 0x4d, 0xcd, 0x2d, 0xad, 0x6d, 0xed, 0x1d, 0x9d, 0x5d, 0xdd, 0x3d, 0xbd,
    0x7d, 0xfd, 0x03, 0x83, 0x43, 0xc3, 0x23, 0xa3, 0x63, 0xe3, 0x13, 0x93, 0x53, 0xd3, 0x33, 0xb3, 0x73, 0xf3, 0x0b,
    0x8b, 0x4b, 0xcb, 0x2b, 0xab, 0x6b, 0xeb, 0x1b, 0x9b, 0x5b, 0xdb, 0x3b, 0xbb, 0x7b, 0xfb, 0x07, 0x87, 0x47, 0xc7,
    0x27, 0xa7, 0x67, 0xe7, 0x17, 0x97, 0x57, 0xd7, 0x37, 0xb7, 0x77, 0xf7, 0x0f, 0x8f, 0x4f, 0xcf, 0x2f, 0xaf, 0x6f,
    0xef, 0x1f, 0x9f, 0x5f, 0xdf, 0x3f, 0xbf, 0x7f, 0xff]"

definition bit_rev8 :: "u8 \<Rightarrow> u8" where
  "bit_rev8 byte = byte_rev_table ! unat byte"

definition bit_rev16 :: "u16 \<Rightarrow> u16" where
  "bit_rev16 x = push_bit 8 (ucast (bit_rev8 (ucast (x AND 0xff)))) OR ucast (bit_rev8 (ucast (drop_bit 8 x)))"

section \<open>CRC\<close>

definition crc_table :: "u16 list" where
  "crc_table = [0x0000, 0x1081, 0x2102, 0x3183, 0x4204, 0x5285, 0x6306, 0x7387,
                0x8408, 0x9489, 0xa50a, 0xb58b, 0xc60c, 0xd68d, 0xe70e, 0xf78f]"

definition H5_CRC_INIT :: u16 where
  "H5_CRC_INIT = 0xffff"

definition h5_crc_update :: "u16 \<Rightarrow> u8 \<Rightarrow> u16" where
  "h5_crc_update crc d =
     (let reg = drop_bit 4 crc XOR crc_table ! unat ((crc XOR ucast d) AND 0x000f)
      in drop_bit 4 reg XOR crc_table ! unat ((reg XOR ucast (drop_bit 4 d)) AND 0x000f))"

section \<open>SLIP\<close>

definition h5_slip_msgdelim :: "rtk_buffer \<Rightarrow> rtk_buffer" where
  "h5_slip_msgdelim skb = put_bytes skb [0xc0]"

text \<open>\<open>oof\<close> is \<open>rtk_h5.oof_flow_control\<close>.\<close>

definition h5_slip_one_byte :: "u8 \<Rightarrow> rtk_buffer \<Rightarrow> u8 \<Rightarrow> rtk_buffer" where
  "h5_slip_one_byte oof skb c =
     (if c = 0xc0 then put_bytes skb [0xdb, 0xdc]
      else if c = 0xdb then put_bytes skb [0xdb, 0xdd]
      else if c = 0x11 then
        (if oof \<noteq> 0 then put_bytes skb [0xdb, 0xde] else put_bytes skb [c])
      else if c = 0x13 then
        (if oof \<noteq> 0 then put_bytes skb [0xdb, 0xdf] else put_bytes skb [c])
      else put_bytes skb [c])"

section \<open>Header fields\<close>

definition H5_HDR_SEQ :: "u8 \<Rightarrow> u8" where
  "H5_HDR_SEQ h0 = h0 AND 0x07"

definition H5_HDR_ACK :: "u8 \<Rightarrow> u8" where
  "H5_HDR_ACK h0 = drop_bit 3 h0 AND 0x07"

definition H5_HDR_CRC :: "u8 \<Rightarrow> u8" where
  "H5_HDR_CRC h0 = drop_bit 6 h0 AND 0x01"

definition H5_HDR_RELIABLE :: "u8 \<Rightarrow> u8" where
  "H5_HDR_RELIABLE h0 = drop_bit 7 h0 AND 0x01"

definition H5_HDR_PKT_TYPE :: "u8 \<Rightarrow> u8" where
  "H5_HDR_PKT_TYPE h1 = h1 AND 0x0f"

definition H5_HDR_LEN :: "u8 \<Rightarrow> u8 \<Rightarrow> u32" where
  "H5_HDR_LEN h1 h2 = (ucast (drop_bit 4 h1) AND 0xff) + push_bit 4 (ucast h2)"

definition H5_CFG_SLID_WIN :: "u8 \<Rightarrow> u8" where
  "H5_CFG_SLID_WIN cfg = cfg AND 0x07"

definition H5_CFG_OOF_CNTRL :: "u8 \<Rightarrow> u8" where
  "H5_CFG_OOF_CNTRL cfg = drop_bit 3 cfg AND 0x01"

definition H5_CFG_DIC_TYPE :: "u8 \<Rightarrow> u8" where
  "H5_CFG_DIC_TYPE cfg = drop_bit 4 cfg AND 0x01"

section \<open>Facts about the tables\<close>

text \<open>Reference: bit \<open>i\<close> of the result is bit \<open>7 - i\<close> of the argument.\<close>

definition rev8 :: "u8 \<Rightarrow> u8" where
  "rev8 b = horner_sum of_bool 2 (map (\<lambda>i. bit b (7 - i)) [0..<8])"

lemma byte_rev_table_rev8: "byte_rev_table = map (\<lambda>n. rev8 (of_nat n)) [0..<256]"
  by (simp add: byte_rev_table_def rev8_def upt_conv_Cons)

lemma bit_rev8_bit: "n < 8 \<Longrightarrow> bit (bit_rev8 b) n = bit b (7 - n)"
proof -
  have "unat b < 256" using unsigned_less [of b] by simp
  then have "bit_rev8 b = rev8 b" by (simp add: bit_rev8_def byte_rev_table_rev8)
  then show "n < 8 \<Longrightarrow> bit (bit_rev8 b) n = bit b (7 - n)"
    by (simp add: rev8_def bit_horner_sum_bit_iff)
qed

lemma bit_rev16_bit: "n < 16 \<Longrightarrow> bit (bit_rev16 x) n = bit x (15 - n)"
proof -
  have ff: "(0xff :: u16) = mask 8" by (simp add: mask_eq_exp_minus_1)
  show "n < 16 \<Longrightarrow> bit (bit_rev16 x) n = bit x (15 - n)"
    unfolding bit_rev16_def ff
    by (cases "n < 8") (auto simp: bit_simps bit_rev8_bit dest: bit_imp_le_length)
qed

lemma bit_rev16_involution: "bit_rev16 (bit_rev16 x) = x"
  by (rule bit_word_eqI) (simp add: bit_rev16_bit)

text \<open>Reference: the bitwise CRC of the reflected CCITT polynomial, one step per bit.\<close>

definition crc_step :: "u16 \<Rightarrow> u16" where
  "crc_step r = (if bit r 0 then drop_bit 1 r XOR 0x8408 else drop_bit 1 r)"

definition crc_ccitt_byte :: "u16 \<Rightarrow> u8 \<Rightarrow> u16" where
  "crc_ccitt_byte crc d = (crc_step ^^ 8) (crc XOR ucast d)"

lemma crc_table_steps: "crc_table = map (\<lambda>n. (crc_step ^^ 4) (of_nat n)) [0..<16]"
  by code_simp

lemma crc_step_xor: "crc_step (a XOR b) = crc_step a XOR crc_step b"
  by (auto simp: crc_step_def drop_bit_xor bit_simps xor.assoc xor.left_commute xor.commute)

lemma crc_steps_xor: "(crc_step ^^ n) (a XOR b) = (crc_step ^^ n) a XOR (crc_step ^^ n) b"
  by (induction n) (simp_all add: crc_step_xor)

lemma crc_steps_clear: "(\<And>i. i < n \<Longrightarrow> \<not> bit z i) \<Longrightarrow> (crc_step ^^ n) z = drop_bit n z"
  by (induction n) (simp_all add: crc_step_def bit_simps)

lemma crc_table_nth: "crc_table ! unat (x AND 0xf) = (crc_step ^^ 4) (x AND 0xf)"
proof -
  have "x AND 0xf \<le> 0xf" by (rule word_and_le1)
  then have "unat (x AND 0xf) < 16" by (simp add: word_le_nat_alt)
  then show ?thesis by (simp add: crc_table_steps)
qed

lemma crc_nibble: "(crc_step ^^ 4) x = drop_bit 4 x XOR crc_table ! unat (x AND 0xf)"
proof -
  have f: "(0xf :: u16) = mask 4" by (simp add: mask_eq_exp_minus_1)
  have "x = (x AND NOT (mask 4)) XOR (x AND mask 4)"
    by (rule bit_word_eqI) (auto simp: bit_simps)
  then have "(crc_step ^^ 4) x = (crc_step ^^ 4) (x AND NOT (mask 4)) XOR (crc_step ^^ 4) (x AND mask 4)"
    by (metis crc_steps_xor)
  also have "(crc_step ^^ 4) (x AND NOT (mask 4)) = drop_bit 4 (x AND NOT (mask 4))"
    by (rule crc_steps_clear) (simp add: bit_simps)
  also have "drop_bit 4 (x AND NOT (mask 4)) = drop_bit 4 x"
    by (rule bit_word_eqI) (auto simp: bit_simps dest: bit_imp_le_length)
  finally show ?thesis unfolding crc_table_nth unfolding f .
qed

lemma h5_crc_update_ccitt: "h5_crc_update crc d = crc_ccitt_byte crc d"
proof -
  define reg where "reg = drop_bit 4 crc XOR crc_table ! unat ((crc XOR ucast d) AND 0xf)"
  have hi: "drop_bit 4 (ucast d :: u16) = ucast (drop_bit 4 d)"
    by (rule bit_word_eqI) (auto simp: bit_simps dest: bit_imp_le_length)
  have "drop_bit 4 (ucast (drop_bit 4 d) :: u16) = 0"
    by (rule bit_word_eqI) (auto simp: bit_simps dest: bit_imp_le_length)
  then have lo: "drop_bit 4 (reg XOR ucast (drop_bit 4 d)) = drop_bit 4 reg"
    by (simp add: drop_bit_xor)
  have "crc_ccitt_byte crc d = (crc_step ^^ 4) ((crc_step ^^ 4) (crc XOR ucast d))"
    using funpow_add [of 4 4 crc_step] by (simp add: crc_ccitt_byte_def)
  also have "(crc_step ^^ 4) (crc XOR ucast d) = reg XOR ucast (drop_bit 4 d)"
    by (simp add: crc_nibble reg_def drop_bit_xor hi xor.assoc xor.left_commute xor.commute)
  also have "(crc_step ^^ 4) \<dots> =
      drop_bit 4 reg XOR crc_table ! unat ((reg XOR ucast (drop_bit 4 d)) AND 0xf)"
    unfolding crc_nibble lo by (rule refl)
  finally show ?thesis by (simp add: h5_crc_update_def Let_def reg_def)
qed

section \<open>Appending to a buffer\<close>

lemma put_bytes_room:
  assumes wf: "rtb_wf b" and room: "length src \<le> rtb_room b"
  shows "put_bytes b src = b\<lparr>rb_End := rb_End b + length src,
      rb_Length := rb_Length b + of_nat (length src), rb_Mem := mem_write (rb_Mem b) (rb_End b) src\<rparr>"
proof -
  have "length src < 2 ^ 32" using wf room by (auto simp: rtb_wf_def rtb_room_def)
  then have u: "unat (of_nat (length src) :: u32) = length src"
    by (simp add: unat_of_nat take_bit_nat_eq_self)
  show ?thesis
    using wf room u RtbAddTail_Some [of b "of_nat (length src)"]
    by (simp add: put_bytes_def skb_put_def memcpy_s_def)
qed

lemma put_bytes_append:
  assumes "rtb_wf b" and "length src \<le> rtb_room b"
  shows "rtb_wf (put_bytes b src)" and "rtb_bytes (put_bytes b src) = rtb_bytes b @ src"
    and "rtb_room (put_bytes b src) = rtb_room b - length src"
  using rtb_append [OF assms refl] by (simp_all add: put_bytes_room [OF assms])

lemma put_bytes_Data [simp]: "rb_Data (put_bytes b src) = rb_Data b"
  and put_bytes_PacketType [simp]: "rb_PacketType (put_bytes b src) = rb_PacketType b"
  by (simp_all add: put_bytes_def skb_put_def RtbAddTail_def)

text \<open>What the code reads as the payload of a buffer: \<open>Length\<close> bytes from \<open>Data\<close>.\<close>

definition skb_payload :: "rtk_buffer \<Rightarrow> u8 list" where
  "skb_payload skb = take (unat (skb_get_data_length skb)) (drop (rb_Data skb) (rb_Mem skb))"

lemma skb_payload_bytes [simp]: "rtb_wf b \<Longrightarrow> skb_payload b = rtb_bytes b"
  by (simp add: skb_payload_def skb_get_data_length_def rtb_bytes_def rtb_wf_def)

lemma skb_byte_bytes: "rtb_wf b \<Longrightarrow> i < length (rtb_bytes b) \<Longrightarrow> skb_byte b i = rtb_bytes b ! i"
  by (auto simp: skb_byte_def rtb_wf_def rtb_bytes_def)

lemma skb_alloc_wf:
  assumes "skb_alloc e L = (Some b, e')" and "unat L + 15 < 2 ^ 32"
  shows "rtb_wf b" and "rtb_bytes b = []" and "rtb_room b = unat L" and "rb_Data b = 12"
    and "12 + unat L \<le> length (rb_Mem b)"
  using RtbAllocate_wf [of e L 0 b e'] assms by (simp_all add: skb_alloc_def)

lemma skb_alloc_and_init_wf:
  assumes a: "skb_alloc_and_init e t d = (Some b, e')" and n: "length d + 15 < 2 ^ 32"
  shows "rtb_wf b" and "rtb_bytes b = d" and "rb_PacketType b = t"
proof -
  have u: "unat (of_nat (length d) :: u32) = length d"
    using n by (simp add: unat_of_nat take_bit_nat_eq_self)
  obtain c e1 where c: "skb_alloc e (of_nat (length d)) = (Some c, e1)"
    and b: "b = skb_set_pkt_type (put_bytes c d) t"
    using a by (auto simp: skb_alloc_and_init_def split: prod.splits option.splits)
  have n': "unat (of_nat (length d) :: u32) + 15 < 2 ^ 32" using n u by simp
  note al = skb_alloc_wf [OF c n']
  show "rtb_wf b" "rtb_bytes b = d" "rb_PacketType b = t"
    using put_bytes_append [of c d] al u
    by (simp_all add: b skb_set_pkt_type_def rtb_wf_def rtb_bytes_def)
qed

section \<open>SLIP as a function on byte strings\<close>

definition slip_byte :: "u8 \<Rightarrow> u8 \<Rightarrow> u8 list" where
  "slip_byte oof c =
     (if c = 0xc0 then [0xdb, 0xdc] else if c = 0xdb then [0xdb, 0xdd]
      else if c = 0x11 \<and> oof \<noteq> 0 then [0xdb, 0xde]
      else if c = 0x13 \<and> oof \<noteq> 0 then [0xdb, 0xdf] else [c])"

definition slip :: "u8 \<Rightarrow> u8 list \<Rightarrow> u8 list" where
  "slip oof bs = concat (map (slip_byte oof) bs)"

lemma slip_simps [simp]: "slip oof [] = []" "slip oof (b # bs) = slip_byte oof b @ slip oof bs"
  "slip oof (bs @ cs) = slip oof bs @ slip oof cs"
  by (simp_all add: slip_def)

lemma length_slip_byte: "length (slip_byte oof c) \<le> 2"
  by (simp add: slip_byte_def)

lemma length_slip: "length (slip oof bs) \<le> 2 * length bs"
proof (induction bs)
  case (Cons b bs)
  then show ?case using length_slip_byte [of oof b] by simp
qed simp

lemma slip_no_delim: "0xc0 \<notin> set (slip oof bs)"
proof (induction bs)
  case (Cons b bs)
  then show ?case by (auto simp: slip_byte_def)
qed simp

lemma h5_slip_one_byte_put: "h5_slip_one_byte oof skb c = put_bytes skb (slip_byte oof c)"
  by (simp add: h5_slip_one_byte_def slip_byte_def)

lemma fold_slip_one_byte:
  assumes "rtb_wf b" and "length (slip oof bs) \<le> rtb_room b"
  shows "rtb_wf (fold (\<lambda>c skb. h5_slip_one_byte oof skb c) bs b)"
    and "rtb_bytes (fold (\<lambda>c skb. h5_slip_one_byte oof skb c) bs b) = rtb_bytes b @ slip oof bs"
    and "rtb_room (fold (\<lambda>c skb. h5_slip_one_byte oof skb c) bs b) = rtb_room b - length (slip oof bs)"
proof -
  have "rtb_wf (fold (\<lambda>c skb. h5_slip_one_byte oof skb c) bs b) \<and>
    rtb_bytes (fold (\<lambda>c skb. h5_slip_one_byte oof skb c) bs b) = rtb_bytes b @ slip oof bs \<and>
    rtb_room (fold (\<lambda>c skb. h5_slip_one_byte oof skb c) bs b) = rtb_room b - length (slip oof bs)"
    using assms
  proof (induction bs arbitrary: b)
    case (Cons c bs)
    then have "length (slip_byte oof c) \<le> rtb_room b" by simp
    note pb = put_bytes_append [OF Cons.prems(1) this]
    show ?case
      using Cons.IH [OF pb(1)] Cons.prems(2) pb by (simp add: h5_slip_one_byte_put)
  qed simp
  then show "rtb_wf (fold (\<lambda>c skb. h5_slip_one_byte oof skb c) bs b)"
    and "rtb_bytes (fold (\<lambda>c skb. h5_slip_one_byte oof skb c) bs b) = rtb_bytes b @ slip oof bs"
    and "rtb_room (fold (\<lambda>c skb. h5_slip_one_byte oof skb c) bs b) = rtb_room b - length (slip oof bs)"
    by blast+
qed

section \<open>Header round trip\<close>

text \<open>The header as \<open>h5_prepare_pkt\<close> computes it, from the acknowledgement and sequence numbers,
  the two flags, the packet type and the payload length.\<close>

definition h5_header :: "u8 \<Rightarrow> u8 \<Rightarrow> bool \<Rightarrow> bool \<Rightarrow> u8 \<Rightarrow> u32 \<Rightarrow> u8 list" where
  "h5_header ack seq reliable crc pkt_type len =
     (let h0 = push_bit 3 ack;
          h0 = (if reliable then h0 OR (0x80 + seq) else h0);
          h0 = (if crc then h0 OR 0x40 else h0);
          h1 = ucast (push_bit 4 len AND 0xff) OR pkt_type;
          h2 = ucast (drop_bit 4 len)
      in [h0, h1, h2, NOT (h0 + h1 + h2)])"

lemma length_h5_header [simp]: "length (h5_header ack seq r c t len) = 4"
  by (simp add: h5_header_def Let_def)

lemma bit_hdr_flags: "bit (0x80 :: int) n \<longleftrightarrow> n = 7" "bit (0x40 :: int) n \<longleftrightarrow> n = 6"
proof -
  have "(0x80 :: int) = 2 ^ 7" "(0x40 :: int) = 2 ^ 6" by simp_all
  then show "bit (0x80 :: int) n \<longleftrightarrow> n = 7" "bit (0x40 :: int) n \<longleftrightarrow> n = 6"
    by (simp_all only: bit_exp_iff) auto
qed

lemma h5_header_h0:
  fixes ack seq t :: u8 and len :: u32 and r c :: bool
  defines "h0 \<equiv> h5_header ack seq r c t len ! 0"
  assumes "ack < 8" and "seq < 8"
  shows "H5_HDR_ACK h0 = ack" and "H5_HDR_SEQ h0 = (if r then seq else 0)"
    and "H5_HDR_CRC h0 = of_bool c" and "H5_HDR_RELIABLE h0 = of_bool r"
proof -
  have b: "bit ack n \<Longrightarrow> n < 3" "bit seq n \<Longrightarrow> n < 3" for n
    using assms small_bits [of ack 3] small_bits [of seq 3] by simp_all
  have e: "(0x07 :: u8) = mask 3" "(0x01 :: u8) = mask 1" by (simp_all add: mask_eq_exp_minus_1)
  have "0x80 + seq = 0x80 OR seq"
    by (rule disjunctive_add) (auto simp: bit_hdr_flags dest: b)
  then have h0: "h0 = push_bit 3 ack OR (if r then 0x80 OR seq else 0) OR (if c then 0x40 else 0)"
    unfolding h0_def h5_header_def Let_def by (simp add: or.assoc)
  show "H5_HDR_ACK h0 = ack" and "H5_HDR_SEQ h0 = (if r then seq else 0)"
    and "H5_HDR_CRC h0 = of_bool c" and "H5_HDR_RELIABLE h0 = of_bool r"
    unfolding h0 H5_HDR_ACK_def H5_HDR_SEQ_def H5_HDR_CRC_def H5_HDR_RELIABLE_def e
    by ((rule bit_word_eqI, auto simp: bit_simps bit_hdr_flags dest: b)[])+
qed

lemma h5_header_h12:
  assumes "t < 16" and "len < 0x1000"
  shows "H5_HDR_PKT_TYPE (h5_header ack seq r c t len ! 1) = t"
    and "H5_HDR_LEN (h5_header ack seq r c t len ! 1) (h5_header ack seq r c t len ! 2) = len"
proof -
  have b: "bit t n \<Longrightarrow> n < 4" "bit len n \<Longrightarrow> n < 12" for n
    using assms small_bits [of t 4] small_bits [of len 12] by simp_all
  have e: "(0x0f :: u8) = mask 4" "(0xff :: u32) = mask 8" "(0xff :: u8) = mask 8"
    by (simp_all add: mask_eq_exp_minus_1)
  have d: "bit (ucast (drop_bit 4 ((ucast (push_bit 4 len AND mask 8) OR t) :: u8)) AND mask 8 :: u32) n \<Longrightarrow>
      \<not> bit (push_bit 4 (ucast (ucast (drop_bit 4 len) :: u8)) :: u32) n" for n
    by (auto simp: bit_simps dest: b)
  show "H5_HDR_PKT_TYPE (h5_header ack seq r c t len ! 1) = t"
    unfolding h5_header_def Let_def H5_HDR_PKT_TYPE_def nth_Cons_0 One_nat_def nth_Cons_Suc e
    by (rule bit_word_eqI) (auto simp: bit_simps dest: b)
  show "H5_HDR_LEN (h5_header ack seq r c t len ! 1) (h5_header ack seq r c t len ! 2) = len"
    unfolding h5_header_def Let_def H5_HDR_LEN_def nth_Cons_0 One_nat_def nth_Cons_Suc numeral_2_eq_2 e
    apply (subst disjunctive_add) using d apply blast
    by (rule bit_word_eqI, rename_tac n, case_tac "4 \<le> n") (auto simp: bit_simps dest: b)
qed
end
