(* ===== verification/OsTimer.thy ===== *)
theory OsTimer
  imports Prelude
begin

text \<open>
  POSIX timers as the vendor library drives them. hardware/bt/src/hci_h5.c and
  hardware/bt/src/rtk_parse.c carry the same helper functions \<open>OsStartTimer\<close> and \<open>OsStopTimer\<close>.
\<close>

text \<open>A POSIX timer, as armed by \<open>timer_settime\<close>: first expiry and reload value, each
  (seconds, nanoseconds). A timer id that \<open>timer_create\<close> did not return, or that was deleted, is
  \<open>None\<close>.\<close>

record itimerspec =
  it_value :: "int \<times> int"
  it_interval :: "int \<times> int"

definition OsStartTimer :: "itimerspec option \<Rightarrow> int \<Rightarrow> int \<Rightarrow> int \<times> itimerspec option" where
  "OsStartTimer timerid msec mode =
     (let v = (msec div 1000, (msec mod 1000) * 1000000);
          itval = \<lparr>it_value = v, it_interval = (if mode = 1 then v else (0, 0))\<rparr>
      in case timerid of
           None \<Rightarrow> (-1, None)
         | Some _ \<Rightarrow> (0, Some itval))"

definition OsStopTimer :: "itimerspec option \<Rightarrow> int \<times> itimerspec option" where
  "OsStopTimer timerid = OsStartTimer timerid 0 0"

definition timer_armed :: "itimerspec option \<Rightarrow> bool" where
  "timer_armed t = (case t of None \<Rightarrow> False | Some i \<Rightarrow> it_value i \<noteq> (0, 0))"

text \<open>\<open>OsAllocateTimer\<close> and \<open>OsFreeTimer\<close>; \<open>ok\<close> is the success of \<open>timer_create\<close>.\<close>

definition OsAllocateTimer :: "bool \<Rightarrow> itimerspec option" where
  "OsAllocateTimer ok = (if ok then Some \<lparr>it_value = (0, 0), it_interval = (0, 0)\<rparr> else None)"

definition OsFreeTimer :: "itimerspec option \<Rightarrow> int \<times> itimerspec option" where
  "OsFreeTimer timerid = (case timerid of None \<Rightarrow> (-1, None) | Some _ \<Rightarrow> (0, None))"

end
