(* ===== verification/H5Tx.thy ===== *)
theory H5Tx
  imports H5Codec BtQueue OsTimer "HOL-Library.Sublist"
begin

text \<open>
  The control block and the transmit side of the three-wire transport
  (hardware/bt/src/hci_h5.c): timers, packet construction, the two transmit queues and the
  retransmission queue, and the send loop. A queue is the list of its buffers from head to tail,
  which the refinement of \<open>BtQueue\<close> justifies.
\<close>

section \<open>State\<close>

datatype tH5_RX_STATE = H5_W4_PKT_DELIMITER | H5_W4_PKT_START | H5_W4_HDR | H5_W4_DATA | H5_W4_CRC

datatype tH5_RX_ESC_STATE = H5_ESCSTATE_NOESC | H5_ESCSTATE_ESC

datatype tH5_LINK_STATE = H5_UNINITIALIZED | H5_INITIALIZED | H5_ACTIVE

text \<open>The fields of \<open>tHCI_H5_CB\<close> and the file's global variables, under their names, followed by
  the environment: the allocator, the frames handed to \<open>h5_int_transmit_data_cb\<close>, the packets
  handed to \<open>userial_recv_rawdata_hook\<close>, the calls of \<open>h5_data_ready_cb\<close>, and \<open>null_deref\<close>, set
  when the code would dereference a null buffer pointer.\<close>

record tHCI_H5_CB =
  sliding_window_size :: u8
  oof_flow_control :: u8
  dic_type :: u8
  unack :: "rtk_buffer list"
  rel :: "rtk_buffer list"
  unrel :: "rtk_buffer list"
  recv_data :: "rtk_buffer list"
  rxseq_txack :: u8
  rxack :: u8
  use_crc :: u8
  is_txack_req :: u8
  msgq_txseq :: u8
  message_crc :: u16
  rx_count :: u32
  rx_state :: tH5_RX_STATE
  rx_esc_state :: tH5_RX_ESC_STATE
  link_estab_state :: tH5_LINK_STATE
  rx_skb :: "rtk_buffer option"
  data_skb :: "rtk_buffer option"
  internal_skb :: "rtk_buffer option"
  timer_data_retrans :: "itimerspec option"
  timer_sync_retrans :: "itimerspec option"
  timer_conf_retrans :: "itimerspec option"
  timer_wait_ct_baudrate_ready :: "itimerspec option"
  timer_h5_hw_init_ready :: "itimerspec option"
  data_retrans_count :: u32
  sync_retrans_count :: u32
  conf_retrans_count :: u32
  cleanuping :: u8
  h5_retransfer_running :: u8
  h5_ready_events :: u16
  h5_data_ready_running :: u8
  h5_init_datatrans_flag :: int
  num_hci_cmd_pkts :: int
  heap :: malloc_env
  transmitted :: "u8 list list"
  rawdata_hook :: "u8 list list"
  data_ready_calls :: "(u8 \<times> u32) list"
  null_deref :: bool

section \<open>Timers\<close>

definition h5_start_data_retrans_timer :: "tHCI_H5_CB \<Rightarrow> tHCI_H5_CB" where
  "h5_start_data_retrans_timer s =
     (if h5_init_datatrans_flag s = 0
      then s\<lparr>timer_data_retrans := snd (OsStartTimer (timer_data_retrans s) 100 0)\<rparr>
      else s\<lparr>timer_data_retrans := snd (OsStartTimer (timer_data_retrans s) 20 0)\<rparr>)"

definition h5_stop_data_retrans_timer :: "tHCI_H5_CB \<Rightarrow> tHCI_H5_CB" where
  "h5_stop_data_retrans_timer s = s\<lparr>timer_data_retrans := snd (OsStopTimer (timer_data_retrans s))\<rparr>"

definition h5_start_sync_retrans_timer :: "tHCI_H5_CB \<Rightarrow> tHCI_H5_CB" where
  "h5_start_sync_retrans_timer s =
     s\<lparr>timer_sync_retrans := snd (OsStartTimer (timer_sync_retrans s) 10 1)\<rparr>"

definition h5_stop_sync_retrans_timer :: "tHCI_H5_CB \<Rightarrow> tHCI_H5_CB" where
  "h5_stop_sync_retrans_timer s = s\<lparr>timer_sync_retrans := snd (OsStopTimer (timer_sync_retrans s))\<rparr>"

definition h5_start_conf_retrans_timer :: "tHCI_H5_CB \<Rightarrow> tHCI_H5_CB" where
  "h5_start_conf_retrans_timer s =
     s\<lparr>timer_conf_retrans := snd (OsStartTimer (timer_conf_retrans s) 20 1)\<rparr>"

definition h5_stop_conf_retrans_timer :: "tHCI_H5_CB \<Rightarrow> tHCI_H5_CB" where
  "h5_stop_conf_retrans_timer s = s\<lparr>timer_conf_retrans := snd (OsStopTimer (timer_conf_retrans s))\<rparr>"

definition h5_start_wait_controller_baudrate_ready_timer :: "tHCI_H5_CB \<Rightarrow> tHCI_H5_CB" where
  "h5_start_wait_controller_baudrate_ready_timer s =
     s\<lparr>timer_wait_ct_baudrate_ready := snd (OsStartTimer (timer_wait_ct_baudrate_ready s) 5 0)\<rparr>"

definition h5_stop_wait_controller_baudrate_ready_timer :: "tHCI_H5_CB \<Rightarrow> tHCI_H5_CB" where
  "h5_stop_wait_controller_baudrate_ready_timer s =
     s\<lparr>timer_wait_ct_baudrate_ready := snd (OsStopTimer (timer_wait_ct_baudrate_ready s))\<rparr>"

definition h5_start_hw_init_ready_timer :: "tHCI_H5_CB \<Rightarrow> tHCI_H5_CB" where
  "h5_start_hw_init_ready_timer s =
     s\<lparr>timer_h5_hw_init_ready := snd (OsStartTimer (timer_h5_hw_init_ready s) 4000 0)\<rparr>"

definition h5_stop_hw_init_ready_timer :: "tHCI_H5_CB \<Rightarrow> tHCI_H5_CB" where
  "h5_stop_hw_init_ready_timer s =
     s\<lparr>timer_h5_hw_init_ready := snd (OsStopTimer (timer_h5_hw_init_ready s))\<rparr>"

lemmas timer_defs = h5_start_data_retrans_timer_def h5_stop_data_retrans_timer_def
  h5_start_sync_retrans_timer_def h5_stop_sync_retrans_timer_def
  h5_start_conf_retrans_timer_def h5_stop_conf_retrans_timer_def
  h5_start_wait_controller_baudrate_ready_timer_def h5_stop_wait_controller_baudrate_ready_timer_def
  h5_start_hw_init_ready_timer_def h5_stop_hw_init_ready_timer_def

section \<open>Packet construction\<close>

definition H5_ACK_PKT :: u8 where "H5_ACK_PKT = 0x00"
definition HCI_COMMAND_PKT :: u8 where "HCI_COMMAND_PKT = 0x01"
definition HCI_ACLDATA_PKT :: u8 where "HCI_ACLDATA_PKT = 0x02"
definition HCI_SCODATA_PKT :: u8 where "HCI_SCODATA_PKT = 0x03"
definition HCI_EVENT_PKT :: u8 where "HCI_EVENT_PKT = 0x04"
definition H5_VDRSPEC_PKT :: u8 where "H5_VDRSPEC_PKT = 0x0E"
definition H5_LINK_CTL_PKT :: u8 where "H5_LINK_CTL_PKT = 0x0F"

lemmas pkt_type_defs = H5_ACK_PKT_def HCI_COMMAND_PKT_def HCI_ACLDATA_PKT_def HCI_SCODATA_PKT_def
  HCI_EVENT_PKT_def H5_VDRSPEC_PKT_def H5_LINK_CTL_PKT_def

text \<open>Whether a packet type is sent reliably; \<open>None\<close> for a type the transport does not know.\<close>

definition h5_pkt_reliable :: "u8 \<Rightarrow> bool option" where
  "h5_pkt_reliable pkt_type =
     (if pkt_type \<in> {HCI_ACLDATA_PKT, HCI_COMMAND_PKT, HCI_EVENT_PKT} then Some True
      else if pkt_type \<in> {H5_ACK_PKT, H5_VDRSPEC_PKT, H5_LINK_CTL_PKT, HCI_SCODATA_PKT} then Some False
      else None)"

definition h5_prepare_pkt ::
  "tHCI_H5_CB \<Rightarrow> u8 list \<Rightarrow> u8 \<Rightarrow> rtk_buffer option \<times> tHCI_H5_CB" where
  "h5_prepare_pkt s data pkt_type =
     (case h5_pkt_reliable pkt_type of
        None \<Rightarrow> (None, s)
      | Some reliable \<Rightarrow>
          let len = of_nat (length data) :: u32 in
          (case skb_alloc (heap s) ((len + 6) * 2 + 2) of
             (None, e) \<Rightarrow> (None, s\<lparr>heap := e\<rparr>)
           | (Some nskb, e) \<Rightarrow>
               let s = s\<lparr>heap := e\<rparr>;
                   oof = oof_flow_control s;
                   nskb = h5_slip_msgdelim nskb;
                   h0 = push_bit 3 (rxseq_txack s);
                   s = s\<lparr>is_txack_req := 0\<rparr>;
                   (h0, s) =
                     (if reliable
                      then (h0 OR (0x80 + msgq_txseq s), s\<lparr>msgq_txseq := (msgq_txseq s + 1) AND 0x07\<rparr>)
                      else (h0, s));
                   h0 = (if use_crc s \<noteq> 0 then h0 OR 0x40 else h0);
                   h1 = ucast (push_bit 4 len AND 0xff) OR pkt_type;
                   h2 = ucast (drop_bit 4 len);
                   h3 = NOT (h0 + h1 + h2);
                   nskb = fold (\<lambda>c skb. h5_slip_one_byte oof skb c) [h0, h1, h2, h3] nskb;
                   nskb = fold (\<lambda>c skb. h5_slip_one_byte oof skb c) data nskb;
                   crc = fold (\<lambda>d crc. h5_crc_update crc d) ([h0, h1, h2, h3] @ data) H5_CRC_INIT;
                   nskb =
                     (if use_crc s \<noteq> 0
                      then let txcrc = bit_rev16 crc;
                               nskb = h5_slip_one_byte oof nskb (ucast (drop_bit 8 txcrc AND 0x00ff))
                           in h5_slip_one_byte oof nskb (ucast (txcrc AND 0x00ff))
                      else nskb)
               in (Some (h5_slip_msgdelim nskb), s)))"

section \<open>Transmit queues\<close>

definition h5_enqueue :: "tHCI_H5_CB \<Rightarrow> rtk_buffer \<Rightarrow> tHCI_H5_CB" where
  "h5_enqueue s skb =
     (if skb_get_data_length skb > 0xFFF then s
      else if skb_get_pkt_type skb \<in> {HCI_ACLDATA_PKT, HCI_COMMAND_PKT}
        then s\<lparr>rel := rel s @ [skb]\<rparr>
      else if skb_get_pkt_type skb \<in> {H5_LINK_CTL_PKT, H5_ACK_PKT, H5_VDRSPEC_PKT, HCI_SCODATA_PKT}
        then s\<lparr>unrel := unrel s @ [skb]\<rparr>
      else s)"

text \<open>The three attempts of \<open>h5_dequeue\<close>, in its order: an unreliable packet, a reliable one when
  the window is open, an empty acknowledgement when one is owed. Each of the first two puts the
  packet back at the head when no frame could be allocated and lets the next attempt run.\<close>

definition dequeue_ack :: "tHCI_H5_CB \<Rightarrow> rtk_buffer option \<times> tHCI_H5_CB" where
  "dequeue_ack s = (if is_txack_req s \<noteq> 0 then h5_prepare_pkt s [] H5_ACK_PKT else (None, s))"

definition dequeue_rel :: "tHCI_H5_CB \<Rightarrow> rtk_buffer option \<times> tHCI_H5_CB" where
  "dequeue_rel s =
     (if length (unack s) < unat (sliding_window_size s)
      then (case rel s of
              [] \<Rightarrow> dequeue_ack s
            | skb # q \<Rightarrow>
                (case h5_prepare_pkt (s\<lparr>rel := q\<rparr>) (skb_payload skb) (skb_get_pkt_type skb) of
                   (Some nskb, s) \<Rightarrow>
                     (Some nskb, h5_start_data_retrans_timer (s\<lparr>unack := unack s @ [skb]\<rparr>))
                 | (None, s) \<Rightarrow> dequeue_ack (s\<lparr>rel := skb # rel s\<rparr>)))
      else dequeue_ack s)"

definition h5_dequeue :: "tHCI_H5_CB \<Rightarrow> rtk_buffer option \<times> tHCI_H5_CB" where
  "h5_dequeue s =
     (case unrel s of
        [] \<Rightarrow> dequeue_rel s
      | skb # q \<Rightarrow>
          (case h5_prepare_pkt (s\<lparr>unrel := q\<rparr>) (skb_payload skb) (skb_get_pkt_type skb) of
             (Some nskb, s) \<Rightarrow> (Some nskb, s)
           | (None, s) \<Rightarrow> dequeue_rel (s\<lparr>unrel := skb # unrel s\<rparr>)))"

section \<open>Facts about packet construction\<close>

text \<open>The checksum sequence of a packet and the frame on the wire.\<close>

definition h5_packet_crc :: "u8 list \<Rightarrow> u16" where
  "h5_packet_crc bs = fold (\<lambda>d crc. h5_crc_update crc d) bs H5_CRC_INIT"

definition crc_bytes :: "u8 list \<Rightarrow> u8 list" where
  "crc_bytes bs = [ucast (drop_bit 8 (bit_rev16 (h5_packet_crc bs)) AND 0x00ff),
                   ucast (bit_rev16 (h5_packet_crc bs) AND 0x00ff)]"

definition h5_packet :: "bool \<Rightarrow> u8 list \<Rightarrow> u8 list" where
  "h5_packet crc hd_data = hd_data @ (if crc then crc_bytes hd_data else [])"

definition h5_frame :: "u8 \<Rightarrow> bool \<Rightarrow> u8 list \<Rightarrow> u8 list" where
  "h5_frame oof crc hd_data = 0xc0 # slip oof (h5_packet crc hd_data) @ [0xc0]"

lemma length_h5_packet: "length (h5_packet crc bs) \<le> length bs + 2"
  by (simp add: h5_packet_def crc_bytes_def)

lemma h5_prepare_pkt_frame:
  obtains e a m where "snd (h5_prepare_pkt s d t) = s\<lparr>heap := e, is_txack_req := a, msgq_txseq := m\<rparr>"
proof (cases "h5_pkt_reliable t")
  case None
  then have "snd (h5_prepare_pkt s d t) = s\<lparr>heap := heap s, is_txack_req := is_txack_req s,
      msgq_txseq := msgq_txseq s\<rparr>"
    by (simp add: h5_prepare_pkt_def)
  then show thesis by (rule that)
next
  case (Some r)
  obtain o' e where al: "skb_alloc (heap s) ((of_nat (length d) + 6) * 2 + 2) = (o', e)"
    by (cases "skb_alloc (heap s) ((of_nat (length d) + 6) * 2 + 2)") auto
  show thesis
  proof (cases o')
    case None
    then have "snd (h5_prepare_pkt s d t) = s\<lparr>heap := e, is_txack_req := is_txack_req s,
        msgq_txseq := msgq_txseq s\<rparr>"
      using Some al by (simp add: h5_prepare_pkt_def Let_def)
    then show thesis by (rule that)
  next
    case (Some b)
    then have "snd (h5_prepare_pkt s d t) = s\<lparr>heap := e, is_txack_req := 0,
        msgq_txseq := (if r then (msgq_txseq s + 1) AND 7 else msgq_txseq s)\<rparr>"
      using \<open>h5_pkt_reliable t = Some r\<close> al by (simp add: h5_prepare_pkt_def Let_def)
    then show thesis by (rule that)
  qed
qed

text \<open>The worst case of the escape coding fits the buffer: \<open>(len + 6) * 2 + 2\<close> bytes.\<close>

lemma frame_fits:
  fixes oof :: u8
  assumes wf: "rtb_wf b" "rtb_bytes b = []" and room: "length bs * 2 + 2 \<le> rtb_room b"
  defines "b' \<equiv> h5_slip_msgdelim (fold (\<lambda>c skb. h5_slip_one_byte oof skb c) bs (h5_slip_msgdelim b))"
  shows "rtb_wf b'" and "rtb_bytes b' = 0xc0 # slip oof bs @ [0xc0]"
proof -
  have l: "length (slip oof bs) + 2 \<le> rtb_room b" using length_slip [of oof bs] room by simp
  then have "length [0xc0 :: u8] \<le> rtb_room b" by simp
  note 1 = put_bytes_append [OF wf(1) this]
  have "length (slip oof bs) \<le> rtb_room (put_bytes b [0xc0])" using l 1 by simp
  note 2 = fold_slip_one_byte [OF 1(1) this]
  have "length [0xc0 :: u8] \<le> rtb_room (fold (\<lambda>c skb. h5_slip_one_byte oof skb c) bs (put_bytes b [0xc0]))"
    using l 1 2 by simp
  note 3 = put_bytes_append [OF 2(1) this]
  show "rtb_wf b'" and "rtb_bytes b' = 0xc0 # slip oof bs @ [0xc0]"
    using 1 2 3 wf by (simp_all add: b'_def h5_slip_msgdelim_def)
qed

lemma unat_frame_size: "n \<le> 0xFFF \<Longrightarrow> unat ((of_nat n + 6) * 2 + 2 :: u32) = (n + 6) * 2 + 2"
proof -
  assume n: "n \<le> 0xFFF"
  have "((of_nat n + 6) * 2 + 2 :: u32) = of_nat ((n + 6) * 2 + 2)" by simp
  then show ?thesis using n by (simp only: unat_of_nat) (simp add: take_bit_nat_eq_self)
qed

lemma h5_prepare_pkt_alloc:
  assumes r: "h5_pkt_reliable t = Some r"
    and al: "skb_alloc (heap s) ((of_nat (length d) + 6) * 2 + 2) = (Some b0, e)"
    and len: "length d \<le> 0xFFF"
  obtains b where "h5_prepare_pkt s d t = (Some b, s\<lparr>heap := e, is_txack_req := 0,
        msgq_txseq := (if r then (msgq_txseq s + 1) AND 7 else msgq_txseq s)\<rparr>)"
    and "rtb_wf b"
    and "rtb_bytes b = h5_frame (oof_flow_control s) (use_crc s \<noteq> 0)
           (h5_header (rxseq_txack s) (msgq_txseq s) r (use_crc s \<noteq> 0) t (of_nat (length d)) @ d)"
proof -
  let ?hd = "h5_header (rxseq_txack s) (msgq_txseq s) r (use_crc s \<noteq> 0) t (of_nat (length d))"
  let ?p = "h5_packet (use_crc s \<noteq> 0) (?hd @ d)"
  let ?put = "fold (\<lambda>c skb. h5_slip_one_byte (oof_flow_control s) skb c)"
  have "unat ((of_nat (length d) + 6) * 2 + 2 :: u32) + 15 < 2 ^ 32"
    using len by (simp only: unat_frame_size) simp
  note w = skb_alloc_wf [OF al this]
  have room: "length ?p * 2 + 2 \<le> rtb_room b0"
    unfolding w(3) unat_frame_size [OF len]
    using length_h5_packet [of "use_crc s \<noteq> 0" "?hd @ d"] by simp
  have "h5_prepare_pkt s d t = (Some (h5_slip_msgdelim (?put ?p (h5_slip_msgdelim b0))),
      s\<lparr>heap := e, is_txack_req := 0, msgq_txseq := (if r then (msgq_txseq s + 1) AND 7 else msgq_txseq s)\<rparr>)"
    using r al
    by (simp add: h5_prepare_pkt_def h5_header_def Let_def h5_packet_def crc_bytes_def h5_packet_crc_def)
  then show thesis
    using frame_fits [OF w(1,2) room, of "oof_flow_control s"] that unfolding h5_frame_def by blast
qed

lemma h5_prepare_pkt_Some:
  assumes p: "h5_prepare_pkt s d t = (Some b, s')" and len: "length d \<le> 0xFFF"
  obtains r e where "h5_pkt_reliable t = Some r"
    and "s' = s\<lparr>heap := e, is_txack_req := 0,
        msgq_txseq := (if r then (msgq_txseq s + 1) AND 7 else msgq_txseq s)\<rparr>"
    and "malloc_ok e = malloc_ok (heap s)" and "rtb_wf b"
    and "rtb_bytes b = h5_frame (oof_flow_control s) (use_crc s \<noteq> 0)
           (h5_header (rxseq_txack s) (msgq_txseq s) r (use_crc s \<noteq> 0) t (of_nat (length d)) @ d)"
proof -
  obtain r b0 e where r: "h5_pkt_reliable t = Some r"
    and al: "skb_alloc (heap s) ((of_nat (length d) + 6) * 2 + 2) = (Some b0, e)"
    using p unfolding h5_prepare_pkt_def Let_def by (auto split: option.splits prod.splits)
  have "malloc_ok e = malloc_ok (heap s)"
    using RtbAllocate_env(1) [of "heap s" "(of_nat (length d) + 6) * 2 + 2" 0] al
    by (simp add: skb_alloc_def)
  with h5_prepare_pkt_alloc [OF r al len] that [OF r] show thesis
    unfolding p prod.inject option.inject by blast
qed

text \<open>When the allocator does not fail, a packet of a known type is always framed.\<close>

lemma h5_prepare_pkt_total:
  assumes "\<And>n. malloc_ok (heap s) n" and "h5_pkt_reliable t = Some r" and "length d \<le> 0xFFF"
  obtains b s' where "h5_prepare_pkt s d t = (Some b, s')"
proof -
  obtain b0 e where "skb_alloc (heap s) ((of_nat (length d) + 6) * 2 + 2) = (Some b0, e)"
    using RtbAllocate_Some [OF assms(1)] unfolding skb_alloc_def by metis
  from h5_prepare_pkt_alloc [OF assms(2) this assms(3)] that show thesis by blast
qed

section \<open>The send loop\<close>

lemma h5_prepare_pkt_None:
  assumes "h5_prepare_pkt s d t = (None, s')"
  obtains e where "s' = s\<lparr>heap := e\<rparr>" and "malloc_ok e = malloc_ok (heap s)"
proof (cases "h5_pkt_reliable t")
  case None
  then show thesis using assms that [of "heap s"] by (simp add: h5_prepare_pkt_def)
next
  case (Some r)
  obtain e where al: "skb_alloc (heap s) ((of_nat (length d) + 6) * 2 + 2) = (None, e)"
    using assms Some unfolding h5_prepare_pkt_def Let_def by (auto split: option.splits prod.splits)
  have "malloc_ok e = malloc_ok (heap s)"
    using RtbAllocate_env(1) [of "heap s" "(of_nat (length d) + 6) * 2 + 2" 0] al
    by (simp add: skb_alloc_def)
  moreover have "s' = s\<lparr>heap := e\<rparr>"
    using assms Some al by (simp add: h5_prepare_pkt_def Let_def)
  ultimately show thesis using that by blast
qed

lemma dequeue_ack_None:
  assumes "dequeue_ack s = (None, s')"
  obtains e where "s' = s\<lparr>heap := e\<rparr>" and "malloc_ok e = malloc_ok (heap s)"
proof (cases "is_txack_req s = 0")
  case True
  then show thesis using assms that [of "heap s"] by (simp add: dequeue_ack_def)
next
  case False
  then have "h5_prepare_pkt s [] H5_ACK_PKT = (None, s')" using assms by (simp add: dequeue_ack_def)
  then show thesis using that by (rule h5_prepare_pkt_None)
qed

lemma dequeue_rel_cases:
  assumes "dequeue_rel s = (ob, s')"
  obtains (sent) skb q b s1 where "rel s = skb # q" and "length (unack s) < unat (sliding_window_size s)"
      and "h5_prepare_pkt (s\<lparr>rel := q\<rparr>) (skb_payload skb) (skb_get_pkt_type skb) = (Some b, s1)"
      and "ob = Some b" and "s' = h5_start_data_retrans_timer (s1\<lparr>unack := unack s1 @ [skb]\<rparr>)"
    | (other) e where "dequeue_ack (s\<lparr>heap := e\<rparr>) = (ob, s')" and "malloc_ok e = malloc_ok (heap s)"
proof (cases "length (unack s) < unat (sliding_window_size s) \<and> rel s \<noteq> []")
  case False
  then have "dequeue_ack (s\<lparr>heap := heap s\<rparr>) = (ob, s')"
    using assms unfolding dequeue_rel_def by (auto split: if_splits list.splits)
  then show thesis using other by blast
next
  case True
  then obtain skb q where q: "rel s = skb # q" by (cases "rel s") auto
  show thesis
  proof (cases "h5_prepare_pkt (s\<lparr>rel := q\<rparr>) (skb_payload skb) (skb_get_pkt_type skb)")
    case (Pair o1 s1)
    show thesis
    proof (cases o1)
      case (Some b)
      then show thesis using sent [OF q _ Pair [unfolded Some]] assms True q Pair
        by (simp add: dequeue_rel_def)
    next
      case None
      then obtain e where e: "s1 = s\<lparr>rel := q\<rparr>\<lparr>heap := e\<rparr>" "malloc_ok e = malloc_ok (heap s)"
        using h5_prepare_pkt_None [OF Pair [unfolded None]] by auto
      have "s\<lparr>heap := e, rel := skb # q\<rparr> = s\<lparr>heap := e\<rparr>" using q by simp
      moreover have "dequeue_ack (s\<lparr>heap := e, rel := skb # q\<rparr>) = (ob, s')"
        using assms True q Pair None e by (simp add: dequeue_rel_def)
      ultimately have "dequeue_ack (s\<lparr>heap := e\<rparr>) = (ob, s')" by metis
      then show thesis using other e by blast
    qed
  qed
qed

lemma h5_dequeue_cases:
  assumes "h5_dequeue s = (ob, s')"
  obtains (sent) skb q b where "unrel s = skb # q" and "ob = Some b"
      and "h5_prepare_pkt (s\<lparr>unrel := q\<rparr>) (skb_payload skb) (skb_get_pkt_type skb) = (Some b, s')"
    | (other) e where "dequeue_rel (s\<lparr>heap := e\<rparr>) = (ob, s')" and "malloc_ok e = malloc_ok (heap s)"
proof (cases "unrel s")
  case Nil
  then have "dequeue_rel (s\<lparr>heap := heap s\<rparr>) = (ob, s')"
    using assms by (simp add: h5_dequeue_def)
  then show thesis using other by blast
next
  case (Cons skb q)
  show thesis
  proof (cases "h5_prepare_pkt (s\<lparr>unrel := q\<rparr>) (skb_payload skb) (skb_get_pkt_type skb)")
    case (Pair o1 s1)
    show thesis
    proof (cases o1)
      case (Some b)
      then show thesis using sent [OF Cons] assms Cons Pair by (simp add: h5_dequeue_def)
    next
      case None
      then obtain e where e: "s1 = s\<lparr>unrel := q\<rparr>\<lparr>heap := e\<rparr>" "malloc_ok e = malloc_ok (heap s)"
        using h5_prepare_pkt_None [OF Pair [unfolded None]] by auto
      have "s\<lparr>heap := e, unrel := skb # q\<rparr> = s\<lparr>heap := e\<rparr>" using Cons by simp
      moreover have "dequeue_rel (s\<lparr>heap := e, unrel := skb # q\<rparr>) = (ob, s')"
        using assms Cons Pair None e by (simp add: h5_dequeue_def)
      ultimately have "dequeue_rel (s\<lparr>heap := e\<rparr>) = (ob, s')" by metis
      then show thesis using other e by blast
    qed
  qed
qed

text \<open>What is left to send: it shrinks with every frame that is sent.\<close>

definition pending :: "tHCI_H5_CB \<Rightarrow> nat" where
  "pending s = length (unrel s) + length (rel s) + (if is_txack_req s \<noteq> 0 then 1 else 0)"

lemma h5_prepare_pkt_req:
  assumes "h5_prepare_pkt s d t = (Some b, s')"
  shows "is_txack_req s' = 0" and "unrel s' = unrel s" and "rel s' = rel s"
    and "unack s' = unack s" and "transmitted s' = transmitted s"
proof -
  have "is_txack_req s' = 0"
    using assms unfolding h5_prepare_pkt_def Let_def by (auto split: option.splits prod.splits if_splits)
  moreover obtain e a m where "s' = s\<lparr>heap := e, is_txack_req := a, msgq_txseq := m\<rparr>"
    using h5_prepare_pkt_frame [of s d t] unfolding assms snd_conv by blast
  ultimately show "is_txack_req s' = 0" and "unrel s' = unrel s" and "rel s' = rel s"
    and "unack s' = unack s" and "transmitted s' = transmitted s" by auto
qed

lemma h5_dequeue_pending:
  assumes "h5_dequeue s = (Some b, s')"
  shows "pending s' < pending s"
  using assms
proof (cases rule: h5_dequeue_cases)
  case (sent skb q b)
  then show ?thesis using h5_prepare_pkt_req [OF sent(3)] by (simp add: pending_def)
next
  case (other e)
  from other(1) show ?thesis
  proof (cases rule: dequeue_rel_cases)
    case (sent skb q b s1)
    then show ?thesis
      using h5_prepare_pkt_req [OF sent(3)] by (simp add: pending_def timer_defs)
  next
    case (other e)
    then show ?thesis
      using h5_prepare_pkt_req [of _ "[]" H5_ACK_PKT b s']
      by (auto simp: dequeue_ack_def pending_def split: if_splits)
  qed
qed

text \<open>\<open>h5_wake_up\<close>; the byte count it returns is not used by any caller.\<close>

function h5_wake_up :: "tHCI_H5_CB \<Rightarrow> tHCI_H5_CB" where
  "h5_wake_up s =
     (case h5_dequeue s of
        (None, s') \<Rightarrow> s'
      | (Some skb, s') \<Rightarrow> h5_wake_up (s'\<lparr>transmitted := transmitted s' @ [skb_payload skb]\<rparr>))"
  by pat_completeness auto

termination
  apply (relation "measure pending")
  subgoal by simp
  subgoal for s ob s' skb
    using h5_dequeue_pending [of s skb s'] by (auto simp: pending_def)
  done

declare h5_wake_up.simps [simp del]

section \<open>The transmit invariant\<close>

definition rel_pkt :: "rtk_buffer \<Rightarrow> bool" where
  "rel_pkt b \<longleftrightarrow> rtb_wf b \<and> length (rtb_bytes b) \<le> 0xFFF \<and>
     skb_get_pkt_type b \<in> {HCI_ACLDATA_PKT, HCI_COMMAND_PKT}"

definition unrel_pkt :: "rtk_buffer \<Rightarrow> bool" where
  "unrel_pkt b \<longleftrightarrow> rtb_wf b \<and> length (rtb_bytes b) \<le> 0xFFF \<and>
     skb_get_pkt_type b \<in> {H5_LINK_CTL_PKT, H5_ACK_PKT, H5_VDRSPEC_PKT, HCI_SCODATA_PKT}"

definition tx_inv :: "tHCI_H5_CB \<Rightarrow> bool" where
  "tx_inv s \<longleftrightarrow> list_all rel_pkt (unack s @ rel s) \<and> list_all unrel_pkt (unrel s) \<and>
     length (unack s) \<le> 7 \<and> sliding_window_size s < 8 \<and> msgq_txseq s < 8 \<and> rxseq_txack s < 8"

text \<open>The sequence number of the oldest unacknowledged packet.\<close>

definition base_seq :: "tHCI_H5_CB \<Rightarrow> u8" where
  "base_seq s = (msgq_txseq s - of_nat (length (unack s))) AND 7"

lemma uint_base_seq: "uint (base_seq s) = (uint (msgq_txseq s) - int (length (unack s))) mod 8"
proof -
  have "uint (base_seq s) = (uint (msgq_txseq s) - uint (of_nat (length (unack s)) :: u8)) mod 8"
    by (simp add: base_seq_def uint_and7 uint_mod8)
  also have "\<dots> = (uint (msgq_txseq s) - int (length (unack s))) mod 8"
    using uint_mod8(3) [of "length (unack s)"] by (metis mod_diff_right_eq)
  finally show ?thesis .
qed

lemma base_seq_eqI:
  "(uint (msgq_txseq s) - int (length (unack s))) mod 8 = (uint (msgq_txseq t) - int (length (unack t))) mod 8
    \<Longrightarrow> base_seq s = base_seq t"
  by (rule unsigned_word_eqI [where ?'a = int]) (simp add: uint_base_seq)

lemma pkt_reliable_simps [simp]:
  "rel_pkt b \<Longrightarrow> h5_pkt_reliable (skb_get_pkt_type b) = Some True"
  "unrel_pkt b \<Longrightarrow> h5_pkt_reliable (skb_get_pkt_type b) = Some False"
  "h5_pkt_reliable H5_ACK_PKT = Some False"
  by (auto simp: rel_pkt_def unrel_pkt_def h5_pkt_reliable_def pkt_type_defs)

lemma pkt_wf: "rel_pkt b \<Longrightarrow> rtb_wf b" "unrel_pkt b \<Longrightarrow> rtb_wf b"
  "rel_pkt b \<Longrightarrow> length (rtb_bytes b) \<le> 0xFFF" "unrel_pkt b \<Longrightarrow> length (rtb_bytes b) \<le> 0xFFF"
  by (auto simp: rel_pkt_def unrel_pkt_def)

lemma pkt_payload [simp]: "rel_pkt b \<Longrightarrow> skb_payload b = rtb_bytes b"
  "unrel_pkt b \<Longrightarrow> skb_payload b = rtb_bytes b"
  by (auto simp: rel_pkt_def unrel_pkt_def)

text \<open>The part of the control block that sending does not touch (whether allocations succeed
  included).\<close>

definition tx_rest :: "tHCI_H5_CB \<Rightarrow> tHCI_H5_CB" where
  "tx_rest s =
     s\<lparr>heap := \<lparr>malloc_ok = malloc_ok (heap s), malloc_n = 0, malloc_fill = \<lambda>_. 0\<rparr>,
       is_txack_req := 0, msgq_txseq := 0, unack := [], rel := [], unrel := [], transmitted := [],
       timer_data_retrans := None\<rparr>"

lemma tx_rest_updates [simp]:
  "tx_rest (s\<lparr>is_txack_req := a\<rparr>) = tx_rest s" "tx_rest (s\<lparr>msgq_txseq := m\<rparr>) = tx_rest s"
  "tx_rest (s\<lparr>unack := u\<rparr>) = tx_rest s" "tx_rest (s\<lparr>rel := u\<rparr>) = tx_rest s"
  "tx_rest (s\<lparr>unrel := u\<rparr>) = tx_rest s" "tx_rest (s\<lparr>transmitted := f\<rparr>) = tx_rest s"
  "tx_rest (s\<lparr>timer_data_retrans := t\<rparr>) = tx_rest s"
  "malloc_ok e = malloc_ok (heap s) \<Longrightarrow> tx_rest (s\<lparr>heap := e\<rparr>) = tx_rest s"
  "tx_rest (h5_start_data_retrans_timer s) = tx_rest s"
  "tx_rest (h5_stop_data_retrans_timer s) = tx_rest s"
  by (simp_all add: tx_rest_def timer_defs)

lemma tx_rest_sel:
  "sliding_window_size (tx_rest s) = sliding_window_size s" "oof_flow_control (tx_rest s) = oof_flow_control s"
  "dic_type (tx_rest s) = dic_type s" "recv_data (tx_rest s) = recv_data s"
  "rxseq_txack (tx_rest s) = rxseq_txack s" "rxack (tx_rest s) = rxack s"
  "use_crc (tx_rest s) = use_crc s" "message_crc (tx_rest s) = message_crc s"
  "rx_count (tx_rest s) = rx_count s" "rx_state (tx_rest s) = rx_state s"
  "rx_esc_state (tx_rest s) = rx_esc_state s" "link_estab_state (tx_rest s) = link_estab_state s"
  "rx_skb (tx_rest s) = rx_skb s" "data_skb (tx_rest s) = data_skb s"
  "internal_skb (tx_rest s) = internal_skb s"
  "timer_sync_retrans (tx_rest s) = timer_sync_retrans s"
  "timer_conf_retrans (tx_rest s) = timer_conf_retrans s"
  "timer_wait_ct_baudrate_ready (tx_rest s) = timer_wait_ct_baudrate_ready s"
  "timer_h5_hw_init_ready (tx_rest s) = timer_h5_hw_init_ready s"
  "data_retrans_count (tx_rest s) = data_retrans_count s"
  "sync_retrans_count (tx_rest s) = sync_retrans_count s"
  "conf_retrans_count (tx_rest s) = conf_retrans_count s"
  "cleanuping (tx_rest s) = cleanuping s" "h5_retransfer_running (tx_rest s) = h5_retransfer_running s"
  "h5_ready_events (tx_rest s) = h5_ready_events s"
  "h5_data_ready_running (tx_rest s) = h5_data_ready_running s"
  "h5_init_datatrans_flag (tx_rest s) = h5_init_datatrans_flag s"
  "num_hci_cmd_pkts (tx_rest s) = num_hci_cmd_pkts s" "rawdata_hook (tx_rest s) = rawdata_hook s"
  "data_ready_calls (tx_rest s) = data_ready_calls s" "null_deref (tx_rest s) = null_deref s"
  "malloc_ok (heap (tx_rest s)) = malloc_ok (heap s)"
  by (simp_all add: tx_rest_def)

lemma tx_rest_fields:
  assumes "tx_rest s = tx_rest t"
  shows "sliding_window_size s = sliding_window_size t" "oof_flow_control s = oof_flow_control t"
    "dic_type s = dic_type t" "recv_data s = recv_data t" "rxseq_txack s = rxseq_txack t"
    "rxack s = rxack t" "use_crc s = use_crc t" "message_crc s = message_crc t"
    "rx_count s = rx_count t" "rx_state s = rx_state t" "rx_esc_state s = rx_esc_state t"
    "link_estab_state s = link_estab_state t" "rx_skb s = rx_skb t" "data_skb s = data_skb t"
    "internal_skb s = internal_skb t" "timer_sync_retrans s = timer_sync_retrans t"
    "timer_conf_retrans s = timer_conf_retrans t"
    "timer_wait_ct_baudrate_ready s = timer_wait_ct_baudrate_ready t"
    "timer_h5_hw_init_ready s = timer_h5_hw_init_ready t"
    "data_retrans_count s = data_retrans_count t" "sync_retrans_count s = sync_retrans_count t"
    "conf_retrans_count s = conf_retrans_count t" "cleanuping s = cleanuping t"
    "h5_retransfer_running s = h5_retransfer_running t" "h5_ready_events s = h5_ready_events t"
    "h5_data_ready_running s = h5_data_ready_running t"
    "h5_init_datatrans_flag s = h5_init_datatrans_flag t" "num_hci_cmd_pkts s = num_hci_cmd_pkts t"
    "rawdata_hook s = rawdata_hook t" "data_ready_calls s = data_ready_calls t"
    "null_deref s = null_deref t" "malloc_ok (heap s) = malloc_ok (heap t)"
  by (metis assms tx_rest_sel)+

text \<open>One frame built for transmission, in the state it is built in.\<close>

definition tx_frame :: "tHCI_H5_CB \<Rightarrow> u8 \<Rightarrow> u8 \<Rightarrow> u8 list \<Rightarrow> u8 list" where
  "tx_frame s seq t d =
     h5_frame (oof_flow_control s) (use_crc s \<noteq> 0)
       (h5_header (rxseq_txack s) seq (h5_pkt_reliable t = Some True) (use_crc s \<noteq> 0) t
          (of_nat (length d)) @ d)"

lemma tx_frame_rest: "tx_rest s = tx_rest t \<Longrightarrow> tx_frame s = tx_frame t"
  by (intro ext) (simp add: tx_frame_def tx_rest_fields [of s t])

lemma prepare_changes:
  assumes "h5_prepare_pkt s d t = (Some b, s')" and "length d \<le> 0xFFF" and "h5_pkt_reliable t = Some r"
  shows "tx_rest s' = tx_rest s" and "rtb_wf b" and "rtb_bytes b = tx_frame s (msgq_txseq s) t d"
    and "msgq_txseq s' = (if r then (msgq_txseq s + 1) AND 7 else msgq_txseq s)"
    and "is_txack_req s' = 0" and "unack s' = unack s" and "rel s' = rel s" and "unrel s' = unrel s"
    and "transmitted s' = transmitted s"
proof -
  obtain r' e where r': "h5_pkt_reliable t = Some r'"
    and s': "s' = s\<lparr>heap := e, is_txack_req := 0,
        msgq_txseq := (if r' then (msgq_txseq s + 1) AND 7 else msgq_txseq s)\<rparr>"
    and e: "malloc_ok e = malloc_ok (heap s)" and wf: "rtb_wf b"
    and b: "rtb_bytes b = h5_frame (oof_flow_control s) (use_crc s \<noteq> 0)
           (h5_header (rxseq_txack s) (msgq_txseq s) r' (use_crc s \<noteq> 0) t (of_nat (length d)) @ d)"
    using h5_prepare_pkt_Some [OF assms(1,2)] by blast
  have r: "r' = r" using r' assms(3) by simp
  show "tx_rest s' = tx_rest s" using e by (simp add: s')
  show "rtb_wf b" by (rule wf)
  show "rtb_bytes b = tx_frame s (msgq_txseq s) t d"
    unfolding b tx_frame_def r assms(3) by simp
  show "msgq_txseq s' = (if r then (msgq_txseq s + 1) AND 7 else msgq_txseq s)"
    and "is_txack_req s' = 0" and "unack s' = unack s" and "rel s' = rel s" and "unrel s' = unrel s"
    and "transmitted s' = transmitted s"
    by (simp_all add: s' r)
qed

lemma tx_inv_rest:
  assumes "tx_rest s' = tx_rest s"
  shows "tx_inv s' \<longleftrightarrow> list_all rel_pkt (unack s' @ rel s') \<and> list_all unrel_pkt (unrel s') \<and>
     length (unack s') \<le> 7 \<and> sliding_window_size s < 8 \<and> msgq_txseq s' < 8 \<and> rxseq_txack s < 8"
  by (simp add: tx_inv_def tx_rest_fields [OF assms])

text \<open>One frame taken from the queues: nothing is lost or reordered, the numbering of the
  unacknowledged packets does not move, and what comes out is a frame of the current state.\<close>

definition tx_progress :: "tHCI_H5_CB \<Rightarrow> tHCI_H5_CB \<Rightarrow> bool" where
  "tx_progress s s' \<longleftrightarrow> tx_inv s' \<and> tx_rest s' = tx_rest s \<and> unack s' @ rel s' = unack s @ rel s \<and>
     base_seq s' = base_seq s \<and> suffix (unrel s') (unrel s) \<and> length (unack s) \<le> length (unack s') \<and>
     length (unack s') \<le> max (length (unack s)) (unat (sliding_window_size s))"

lemma tx_progress_trans: "tx_progress s t \<Longrightarrow> tx_progress t u \<Longrightarrow> tx_progress s u"
  unfolding tx_progress_def using tx_rest_fields(1) [of t s]
  by (auto intro: suffix_order.trans simp: le_max_iff_disj)

lemma tx_progress_heap:
  "tx_inv s \<Longrightarrow> malloc_ok e = malloc_ok (heap s) \<Longrightarrow> tx_progress s (s\<lparr>heap := e\<rparr>)"
  by (simp add: tx_progress_def tx_inv_def base_seq_def)

definition is_frame_of :: "tHCI_H5_CB \<Rightarrow> rtk_buffer \<Rightarrow> bool" where
  "is_frame_of s b \<longleftrightarrow> rtb_wf b \<and> (\<exists>seq < 8. \<exists>t d. h5_pkt_reliable t \<noteq> None \<and> length d \<le> 0xFFF \<and>
     rtb_bytes b = tx_frame s seq t d)"

lemma prepare_is_frame:
  assumes "h5_prepare_pkt s d t = (Some b, s')" and "length d \<le> 0xFFF" and "h5_pkt_reliable t = Some r"
    and "msgq_txseq s < 8"
  shows "is_frame_of s b"
  unfolding is_frame_of_def using prepare_changes [OF assms(1-3)] assms by (metis option.distinct(1))

lemma is_frame_of_rest: "tx_rest s = tx_rest t \<Longrightarrow> is_frame_of s b = is_frame_of t b"
  by (simp add: is_frame_of_def tx_frame_rest [of s t])

lemma tx_transmitted [simp]: "tx_inv (s\<lparr>transmitted := f\<rparr>) = tx_inv s"
  "base_seq (s\<lparr>transmitted := f\<rparr>) = base_seq s"
  by (simp_all add: tx_inv_def base_seq_def)

lemma dequeue_ack_progress:
  assumes "dequeue_ack s = (ob, s')" and "tx_inv s"
  shows "tx_progress s s' \<and> (\<forall>b. ob = Some b \<longrightarrow> is_frame_of s b)"
proof (cases ob)
  case None
  then show ?thesis using dequeue_ack_None [of s s'] tx_progress_heap assms by auto
next
  case (Some b)
  then have p: "h5_prepare_pkt s [] H5_ACK_PKT = (Some b, s')"
    using assms by (auto simp: dequeue_ack_def split: if_splits)
  note c = prepare_changes [OF p, of False]
  have "tx_progress s s'"
    using c assms(2) by (simp add: tx_progress_def tx_inv_def base_seq_def tx_rest_fields [of s' s])
  moreover have "is_frame_of s b" by (rule prepare_is_frame [OF p, of False]) (use assms in \<open>simp_all add: tx_inv_def\<close>)
  ultimately show ?thesis using Some by simp
qed

lemma dequeue_rel_progress:
  assumes d: "dequeue_rel s = (ob, s')" and inv: "tx_inv s"
  shows "tx_progress s s' \<and> (\<forall>b. ob = Some b \<longrightarrow> is_frame_of s b)"
  using d
proof (cases rule: dequeue_rel_cases)
  case (sent skb q b s1)
  have pk: "rel_pkt skb" using inv sent(1) by (simp add: tx_inv_def)
  have p: "h5_prepare_pkt (s\<lparr>rel := q\<rparr>) (rtb_bytes skb) (skb_get_pkt_type skb) = (Some b, s1)"
    using sent(3) pk by simp
  note c = prepare_changes [OF p pkt_wf(3) [OF pk] pkt_reliable_simps(1) [OF pk]]
  have rest: "tx_rest s' = tx_rest s" using c(1) by (simp add: sent(5))
  have f: "unack s' = unack s @ [skb]" "rel s' = q" "unrel s' = unrel s"
    "msgq_txseq s' = (msgq_txseq s + 1) AND 7"
    using c by (simp_all add: sent(5) timer_defs)
  have "sliding_window_size s < 8" using inv by (simp add: tx_inv_def)
  then have "unat (sliding_window_size s) \<le> 7" by (simp add: word_less_nat_alt)
  then have n: "length (unack s) < 7" using sent(2) by simp
  have "base_seq s' = base_seq s"
    by (rule base_seq_eqI) (simp add: f and7_simps mod_simps)
  then have "tx_progress s s'"
    using inv rest n sent(1,2) unfolding tx_progress_def tx_inv_rest [OF rest]
    by (auto simp: f and7_less tx_inv_def)
  moreover have "is_frame_of (s\<lparr>rel := q\<rparr>) b"
    by (rule prepare_is_frame [OF p pkt_wf(3) [OF pk] pkt_reliable_simps(1) [OF pk]])
       (use inv in \<open>simp add: tx_inv_def\<close>)
  then have "is_frame_of s b" by (simp add: is_frame_of_rest [of "s\<lparr>rel := q\<rparr>" s])
  ultimately show ?thesis using sent(4) by simp
next
  case (other e)
  have "tx_inv (s\<lparr>heap := e\<rparr>)" using inv by (simp add: tx_inv_def)
  note a = dequeue_ack_progress [OF other(1) this]
  then show ?thesis
    using tx_progress_trans [OF tx_progress_heap [OF inv other(2)]]
      is_frame_of_rest [of "s\<lparr>heap := e\<rparr>" s] other(2) by auto
qed

lemma h5_dequeue_progress:
  assumes d: "h5_dequeue s = (ob, s')" and inv: "tx_inv s"
  shows "tx_progress s s' \<and> (\<forall>b. ob = Some b \<longrightarrow> is_frame_of s b)"
  using d
proof (cases rule: h5_dequeue_cases)
  case (sent skb q b)
  have pk: "unrel_pkt skb" using inv sent(1) by (simp add: tx_inv_def)
  have p: "h5_prepare_pkt (s\<lparr>unrel := q\<rparr>) (rtb_bytes skb) (skb_get_pkt_type skb) = (Some b, s')"
    using sent(3) pk by simp
  note c = prepare_changes [OF p pkt_wf(4) [OF pk] pkt_reliable_simps(2) [OF pk]]
  have rest: "tx_rest s' = tx_rest s" using c(1) by simp
  have "tx_progress s s'"
    using c inv sent(1) unfolding tx_progress_def tx_inv_rest [OF rest]
    by (simp add: tx_inv_def base_seq_def suffix_Cons)
  moreover have "is_frame_of (s\<lparr>unrel := q\<rparr>) b"
    by (rule prepare_is_frame [OF p pkt_wf(4) [OF pk] pkt_reliable_simps(2) [OF pk]])
       (use inv in \<open>simp add: tx_inv_def\<close>)
  then have "is_frame_of s b" by (simp add: is_frame_of_rest [of "s\<lparr>unrel := q\<rparr>" s])
  ultimately show ?thesis using sent(2) by simp
next
  case (other e)
  have "tx_inv (s\<lparr>heap := e\<rparr>)" using inv by (simp add: tx_inv_def)
  note a = dequeue_rel_progress [OF other(1) this]
  then show ?thesis
    using tx_progress_trans [OF tx_progress_heap [OF inv other(2)]]
      is_frame_of_rest [of "s\<lparr>heap := e\<rparr>" s] other(2) by auto
qed

lemma dequeue_ack_transmitted: "dequeue_ack s = (ob, s') \<Longrightarrow> transmitted s' = transmitted s"
proof -
  obtain e a m where "snd (h5_prepare_pkt s [] H5_ACK_PKT) = s\<lparr>heap := e, is_txack_req := a, msgq_txseq := m\<rparr>"
    by (rule h5_prepare_pkt_frame)
  then show "dequeue_ack s = (ob, s') \<Longrightarrow> transmitted s' = transmitted s"
    by (auto simp: dequeue_ack_def split: if_splits)
qed

lemma h5_dequeue_transmitted:
  assumes "h5_dequeue s = (ob, s')"
  shows "transmitted s' = transmitted s"
  using assms
proof (cases rule: h5_dequeue_cases)
  case (sent skb q b)
  then show ?thesis using h5_prepare_pkt_req(5) [OF sent(3)] by simp
next
  case (other e)
  from other(1) show ?thesis
  proof (cases rule: dequeue_rel_cases)
    case (sent skb q b s1)
    then show ?thesis using h5_prepare_pkt_req(5) [OF sent(3)] by (simp add: timer_defs)
  next
    case (other e)
    then show ?thesis using dequeue_ack_transmitted by fastforce
  qed
qed

text \<open>The whole send loop, whatever the allocator does.\<close>

lemma h5_wake_up_progress:
  assumes "tx_inv s"
  shows "tx_progress s (h5_wake_up s) \<and>
    (\<exists>fs. transmitted (h5_wake_up s) = transmitted s @ map rtb_bytes fs \<and> list_all (is_frame_of s) fs)"
  using assms
proof (induction s rule: h5_wake_up.induct)
  case (1 s)
  obtain ob s' where d: "h5_dequeue s = (ob, s')" by (cases "h5_dequeue s")
  note pr = h5_dequeue_progress [OF d "1.prems"]
  have tr: "transmitted s' = transmitted s" by (rule h5_dequeue_transmitted [OF d])
  show ?case
  proof (cases ob)
    case None
    then have "h5_wake_up s = s'" using d by (simp add: h5_wake_up.simps [of s])
    then show ?thesis using pr tr by (auto intro: exI [of _ "[]"])
  next
    case (Some b)
    define s1 where "s1 = s'\<lparr>transmitted := transmitted s' @ [skb_payload b]\<rparr>"
    have w: "h5_wake_up s = h5_wake_up s1" using d Some by (simp add: h5_wake_up.simps [of s] s1_def)
    have b: "is_frame_of s b" using pr Some by simp
    have p1: "tx_progress s s1" using pr by (simp add: s1_def tx_progress_def)
    then obtain fs where ih: "tx_progress s1 (h5_wake_up s1)"
      "transmitted (h5_wake_up s1) = transmitted s1 @ map rtb_bytes fs" "list_all (is_frame_of s1) fs"
      using "1.IH" [OF d [symmetric] Some] unfolding s1_def tx_progress_def by blast
    have "list_all (is_frame_of s) (b # fs)"
      using ih(3) b p1 is_frame_of_rest [of s1 s] by (simp add: tx_progress_def list_all_def)
    moreover have "transmitted (h5_wake_up s) = transmitted s @ map rtb_bytes (b # fs)"
      using ih(2) b tr by (simp add: w s1_def is_frame_of_def)
    ultimately show ?thesis using tx_progress_trans [OF p1 ih(1)] w by metis
  qed
qed

section \<open>What a wake-up sends\<close>

text \<open>Reference: when allocations succeed, a wake-up sends every unreliable packet, then as many
  reliable ones as the window admits, numbered consecutively, and a bare acknowledgement only when
  one is owed and no other frame carried it.\<close>

primrec rel_frames :: "tHCI_H5_CB \<Rightarrow> u8 \<Rightarrow> rtk_buffer list \<Rightarrow> u8 list list" where
  "rel_frames s seq [] = []"
| "rel_frames s seq (b # bs) =
     tx_frame s seq (skb_get_pkt_type b) (rtb_bytes b) # rel_frames s ((seq + 1) AND 7) bs"

definition window_room :: "tHCI_H5_CB \<Rightarrow> nat" where
  "window_room s = min (length (rel s)) (unat (sliding_window_size s) - length (unack s))"

definition wake_frames :: "tHCI_H5_CB \<Rightarrow> u8 list list" where
  "wake_frames s =
     map (\<lambda>b. tx_frame s (msgq_txseq s) (skb_get_pkt_type b) (rtb_bytes b)) (unrel s) @
     rel_frames s (msgq_txseq s) (take (window_room s) (rel s)) @
     (if unrel s = [] \<and> window_room s = 0 \<and> is_txack_req s \<noteq> 0
      then [tx_frame s (msgq_txseq s) H5_ACK_PKT []] else [])"

definition wake_post :: "tHCI_H5_CB \<Rightarrow> tHCI_H5_CB \<Rightarrow> bool" where
  "wake_post s s' \<longleftrightarrow>
     transmitted s' = transmitted s @ wake_frames s \<and> unrel s' = [] \<and>
     rel s' = drop (window_room s) (rel s) \<and> unack s' = unack s @ take (window_room s) (rel s) \<and>
     msgq_txseq s' = (msgq_txseq s + of_nat (window_room s)) AND 7 \<and> is_txack_req s' = 0"

lemma rel_frames_rest: "tx_rest s = tx_rest t \<Longrightarrow> rel_frames s q bs = rel_frames t q bs"
  by (induction bs arbitrary: q) (simp_all add: tx_frame_rest [of s t])

lemma wake_unrel:
  assumes m: "\<And>n. malloc_ok (heap s) n" and inv: "tx_inv s" and q: "unrel s = skb # q"
  obtains b s' where "h5_dequeue s = (Some b, s')" and "unrel s' = q" and "rel s' = rel s"
    and "unack s' = unack s" and "msgq_txseq s' = msgq_txseq s" and "is_txack_req s' = 0"
    and "rtb_bytes b = tx_frame s (msgq_txseq s) (skb_get_pkt_type skb) (rtb_bytes skb)"
proof -
  have pk: "unrel_pkt skb" using inv q by (simp add: tx_inv_def)
  obtain b s' where p: "h5_prepare_pkt (s\<lparr>unrel := q\<rparr>) (rtb_bytes skb) (skb_get_pkt_type skb) = (Some b, s')"
    using h5_prepare_pkt_total [of "s\<lparr>unrel := q\<rparr>", OF _ pkt_reliable_simps(2) [OF pk] pkt_wf(4) [OF pk]] m
    by auto
  note c = prepare_changes [OF p pkt_wf(4) [OF pk] pkt_reliable_simps(2) [OF pk]]
  have "h5_dequeue s = (Some b, s')" using p q pk by (simp add: h5_dequeue_def)
  then show thesis using that c tx_frame_rest [of "s\<lparr>unrel := q\<rparr>" s] by simp
qed

lemma wake_rel:
  assumes m: "\<And>n. malloc_ok (heap s) n" and inv: "tx_inv s" and u: "unrel s = []" and q: "rel s = skb # q"
    and w: "length (unack s) < unat (sliding_window_size s)"
  obtains b s' where "h5_dequeue s = (Some b, s')" and "unrel s' = []" and "rel s' = q"
    and "unack s' = unack s @ [skb]" and "msgq_txseq s' = (msgq_txseq s + 1) AND 7"
    and "is_txack_req s' = 0"
    and "rtb_bytes b = tx_frame s (msgq_txseq s) (skb_get_pkt_type skb) (rtb_bytes skb)"
proof -
  have pk: "rel_pkt skb" using inv q by (simp add: tx_inv_def)
  obtain b s' where p: "h5_prepare_pkt (s\<lparr>rel := q\<rparr>) (rtb_bytes skb) (skb_get_pkt_type skb) = (Some b, s')"
    using h5_prepare_pkt_total [of "s\<lparr>rel := q\<rparr>", OF _ pkt_reliable_simps(1) [OF pk] pkt_wf(3) [OF pk]] m
    by auto
  note c = prepare_changes [OF p pkt_wf(3) [OF pk] pkt_reliable_simps(1) [OF pk]]
  have "h5_dequeue s = (Some b, h5_start_data_retrans_timer (s'\<lparr>unack := unack s' @ [skb]\<rparr>))"
    using p q pk u w by (simp add: h5_dequeue_def dequeue_rel_def)
  then show thesis using that c u tx_frame_rest [of "s\<lparr>rel := q\<rparr>" s] by (simp add: timer_defs)
qed

lemma wake_ack:
  assumes m: "\<And>n. malloc_ok (heap s) n" and inv: "tx_inv s" and u: "unrel s = []"
    and q: "window_room s = 0" and r: "is_txack_req s \<noteq> 0"
  obtains b s' where "h5_dequeue s = (Some b, s')" and "unrel s' = []" and "rel s' = rel s"
    and "unack s' = unack s" and "msgq_txseq s' = msgq_txseq s" and "is_txack_req s' = 0"
    and "rtb_bytes b = tx_frame s (msgq_txseq s) H5_ACK_PKT []"
proof -
  obtain b s' where p: "h5_prepare_pkt s [] H5_ACK_PKT = (Some b, s')"
    using h5_prepare_pkt_total [of s H5_ACK_PKT False "[]"] m by auto
  note c = prepare_changes [OF p, of False]
  have "h5_dequeue s = (Some b, s')"
    using p q u r by (auto simp: h5_dequeue_def dequeue_rel_def dequeue_ack_def window_room_def split: list.splits)
  then show thesis using that c u by simp
qed

lemma wake_idle:
  assumes "unrel s = []" and "window_room s = 0" and "is_txack_req s = 0"
  shows "h5_dequeue s = (None, s)"
  using assms by (auto simp: h5_dequeue_def dequeue_rel_def dequeue_ack_def window_room_def split: list.splits)

lemma wake_post_unrel:
  assumes rest: "tx_rest s1 = tx_rest s" and "unrel s = skb # q" and "unrel s1 = q" and "rel s1 = rel s"
    and "unack s1 = unack s" and "msgq_txseq s1 = msgq_txseq s" and "is_txack_req s1 = 0"
    and "transmitted s1 = transmitted s @ [tx_frame s (msgq_txseq s) (skb_get_pkt_type skb) (rtb_bytes skb)]"
    and "wake_post s1 s2"
  shows "wake_post s s2"
proof -
  have "window_room s1 = window_room s"
    using assms by (simp add: window_room_def tx_rest_fields [OF rest])
  then show ?thesis
    using assms by (simp add: wake_post_def wake_frames_def tx_frame_rest [OF rest] rel_frames_rest [OF rest])
qed

lemma wake_post_rel:
  assumes rest: "tx_rest s1 = tx_rest s" and "unrel s = []" and "unrel s1 = []" and "rel s = skb # q"
    and "rel s1 = q" and "unack s1 = unack s @ [skb]" and "msgq_txseq s1 = (msgq_txseq s + 1) AND 7"
    and "length (unack s) < unat (sliding_window_size s)" and "is_txack_req s1 = 0"
    and "transmitted s1 = transmitted s @ [tx_frame s (msgq_txseq s) (skb_get_pkt_type skb) (rtb_bytes skb)]"
    and "wake_post s1 s2"
  shows "wake_post s s2"
proof -
  have w: "window_room s = Suc (window_room s1)"
    using assms by (simp add: window_room_def tx_rest_fields [OF rest])
  have "(msgq_txseq s1 + of_nat (window_room s1)) AND 7 = (msgq_txseq s + of_nat (window_room s)) AND 7"
    unfolding w assms(7) by (subst and7_cong [symmetric]) (simp add: add_ac)
  then show ?thesis
    using assms w by (simp add: wake_post_def wake_frames_def tx_frame_rest [OF rest] rel_frames_rest [OF rest])
qed

lemma wake_post_ack:
  assumes rest: "tx_rest s1 = tx_rest s" and "unrel s = []" and "unrel s1 = []" and "rel s1 = rel s"
    and "unack s1 = unack s" and "msgq_txseq s1 = msgq_txseq s" and "is_txack_req s1 = 0"
    and "window_room s = 0" and "is_txack_req s \<noteq> 0"
    and "transmitted s1 = transmitted s @ [tx_frame s (msgq_txseq s) H5_ACK_PKT []]"
    and "wake_post s1 s2"
  shows "wake_post s s2"
proof -
  have "window_room s1 = 0"
    using assms by (simp add: window_room_def tx_rest_fields [OF rest])
  then show ?thesis using assms by (simp add: wake_post_def wake_frames_def)
qed

lemma h5_wake_up_post:
  assumes "\<And>n. malloc_ok (heap s) n" and "tx_inv s"
  shows "wake_post s (h5_wake_up s)"
  using assms
proof (induction s rule: h5_wake_up.induct)
  case (1 s)
  note m = "1.prems"(1) and inv = "1.prems"(2)
  have step: "wake_post s1 (h5_wake_up s1) \<and> tx_rest s1 = tx_rest s \<and> h5_wake_up s = h5_wake_up s1"
    if d: "h5_dequeue s = (Some b, s')" and s1: "s1 = s'\<lparr>transmitted := transmitted s @ [rtb_bytes b]\<rparr>"
    for b s' s1
  proof -
    have p: "tx_progress s s'" "is_frame_of s b" using h5_dequeue_progress [OF d inv] by auto
    have rest: "tx_rest s' = tx_rest s" using p by (simp add: tx_progress_def)
    have s1': "s1 = s'\<lparr>transmitted := transmitted s' @ [skb_payload b]\<rparr>"
      using p(2) h5_dequeue_transmitted [OF d] by (simp add: s1 is_frame_of_def)
    have "malloc_ok (heap s1) n" for n using m tx_rest_fields(32) [OF rest] by (simp add: s1)
    moreover have "tx_inv s1" using p(1) by (simp add: s1 tx_progress_def)
    ultimately have "wake_post s1 (h5_wake_up s1)" using "1.IH" [OF d [symmetric] refl] unfolding s1' by blast
    then show ?thesis using d rest s1' by (simp add: h5_wake_up.simps [of s] s1)
  qed
  consider (u) skb q where "unrel s = skb # q"
    | (r) skb q where "unrel s = []" "rel s = skb # q" "length (unack s) < unat (sliding_window_size s)"
    | (a) "unrel s = []" "window_room s = 0" "is_txack_req s \<noteq> 0"
    | (i) "unrel s = []" "window_room s = 0" "is_txack_req s = 0"
    by (cases "unrel s"; cases "rel s"; cases "length (unack s) < unat (sliding_window_size s)")
       (auto simp: window_room_def)
  then show ?case
  proof cases
    case u
    with wake_unrel [OF m inv u] obtain b s' where d: "h5_dequeue s = (Some b, s')" and f: "unrel s' = q"
      "rel s' = rel s" "unack s' = unack s" "msgq_txseq s' = msgq_txseq s" "is_txack_req s' = 0"
      "rtb_bytes b = tx_frame s (msgq_txseq s) (skb_get_pkt_type skb) (rtb_bytes skb)" by blast
    let ?s1 = "s'\<lparr>transmitted := transmitted s @ [rtb_bytes b]\<rparr>"
    show ?thesis using step [OF d refl] u f wake_post_unrel [of ?s1 s skb q "h5_wake_up s"] by simp
  next
    case r
    with wake_rel [OF m inv r] obtain b s' where d: "h5_dequeue s = (Some b, s')" and f: "unrel s' = []"
      "rel s' = q" "unack s' = unack s @ [skb]" "msgq_txseq s' = (msgq_txseq s + 1) AND 7" "is_txack_req s' = 0"
      "rtb_bytes b = tx_frame s (msgq_txseq s) (skb_get_pkt_type skb) (rtb_bytes skb)" by blast
    let ?s1 = "s'\<lparr>transmitted := transmitted s @ [rtb_bytes b]\<rparr>"
    show ?thesis using step [OF d refl] r f wake_post_rel [of ?s1 s skb q "h5_wake_up s"] by simp
  next
    case a
    with wake_ack [OF m inv a] obtain b s' where d: "h5_dequeue s = (Some b, s')" and f: "unrel s' = []"
      "rel s' = rel s" "unack s' = unack s" "msgq_txseq s' = msgq_txseq s" "is_txack_req s' = 0"
      "rtb_bytes b = tx_frame s (msgq_txseq s) H5_ACK_PKT []" by blast
    let ?s1 = "s'\<lparr>transmitted := transmitted s @ [rtb_bytes b]\<rparr>"
    show ?thesis using step [OF d refl] a f wake_post_ack [of ?s1 s "h5_wake_up s"] by simp
  next
    case i
    have "msgq_txseq s < 8" using inv by (simp add: tx_inv_def)
    then show ?thesis
      using i wake_idle [OF i] by (simp add: h5_wake_up.simps [of s] wake_post_def wake_frames_def)
  qed
qed

end
