(* ===== verification/H5Link.thy ===== *)
theory H5Link
  imports H5Tx
begin

text \<open>
  Acknowledgement, retransmission and link establishment of the three-wire transport
  (hardware/bt/src/hci_h5.c): removal of acknowledged packets, the retransmission thread, the
  link-control packets and the timer handlers. A handler is one atomic transition.
\<close>

section \<open>Acknowledgements\<close>

text \<open>The search loop of \<open>h5_remove_acked_pkt\<close>: \<open>pkts_to_be_removed\<close> and \<open>seqno\<close> when it stops.\<close>

fun ack_search :: "int \<Rightarrow> nat \<Rightarrow> int \<Rightarrow> nat \<times> int" where
  "ack_search rx 0 seqno = (0, seqno)"
| "ack_search rx (Suc pkts) seqno =
     (if rx = seqno then (Suc pkts, seqno) else ack_search rx pkts ((seqno - 1) AND 0x07))"

definition h5_remove_acked_pkt :: "tHCI_H5_CB \<Rightarrow> tHCI_H5_CB" where
  "h5_remove_acked_pkt s =
     (let (pkts_to_be_removed, seqno) =
            ack_search (uint (rxack s)) (length (unack s)) (uint (msgq_txseq s));
          s = s\<lparr>unack := drop pkts_to_be_removed (unack s)\<rparr>
      in if unack s = [] then (h5_stop_data_retrans_timer s)\<lparr>data_retrans_count := 0\<rparr> else s)"

section \<open>Link-control packets\<close>

definition h5_send_link_ctl :: "tHCI_H5_CB \<Rightarrow> u8 list \<Rightarrow> tHCI_H5_CB" where
  "h5_send_link_ctl s bytes =
     (case skb_alloc_and_init (heap s) H5_LINK_CTL_PKT bytes of
        (None, e) \<Rightarrow> s\<lparr>heap := e\<rparr>
      | (Some skb, e) \<Rightarrow> h5_wake_up (h5_enqueue (s\<lparr>heap := e\<rparr>) skb))"

definition hci_h5_send_sync_req :: "tHCI_H5_CB \<Rightarrow> tHCI_H5_CB" where
  "hci_h5_send_sync_req s = h5_send_link_ctl s [0x01, 0x7E]"

definition hci_h5_send_sync_resp :: "tHCI_H5_CB \<Rightarrow> tHCI_H5_CB" where
  "hci_h5_send_sync_resp s = h5_send_link_ctl s [0x02, 0x7D]"

definition hci_h5_send_conf_req :: "tHCI_H5_CB \<Rightarrow> tHCI_H5_CB" where
  "hci_h5_send_conf_req s = h5_send_link_ctl s [0x03, 0xFC, 0x14]"

definition hci_h5_send_conf_resp :: "tHCI_H5_CB \<Rightarrow> tHCI_H5_CB" where
  "hci_h5_send_conf_resp s = h5_send_link_ctl s [0x04, 0x7B]"

definition rtk_notify_hw_h5_init_result :: "tHCI_H5_CB \<Rightarrow> u8 \<Rightarrow> tHCI_H5_CB" where
  "rtk_notify_hw_h5_init_result s status =
     (case skb_alloc_and_init (heap s) HCI_EVENT_PKT [0x0e, 0x04, 0x03, 0xee, 0xfc, status] of
        (None, e) \<Rightarrow> s\<lparr>heap := e\<rparr>
      | (Some skb, e) \<Rightarrow> s\<lparr>heap := e, recv_data := recv_data s @ [skb]\<rparr>)"

text \<open>The two raw packets of \<open>rtkbt_h5_send_hw_error\<close>: a vendor debug event carrying the text
  "host stack: h5 send error" and its terminator, and a hardware-error event with code 0xfb.\<close>

definition h5_send_error_text :: "u8 list" where
  "h5_send_error_text = [104, 111, 115, 116, 32, 115, 116, 97, 99, 107, 58, 32, 104, 53, 32,
                         115, 101, 110, 100, 32, 101, 114, 114, 111, 114]"

definition rtkbt_h5_send_hw_error :: "tHCI_H5_CB \<Rightarrow> tHCI_H5_CB" where
  "rtkbt_h5_send_hw_error s =
     s\<lparr>rawdata_hook := rawdata_hook s @
         [[4, 0x57, of_nat (length h5_send_error_text) + 2, 0x01] @ h5_send_error_text @ [0],
          [4, 0x10, 0x01, 0xfb]]\<rparr>"

text \<open>\<open>memcmp(skb_get_data(skb), pat, 2) == 0\<close>\<close>

definition starts2 :: "rtk_buffer \<Rightarrow> u8 \<Rightarrow> u8 \<Rightarrow> bool" where
  "starts2 skb a b \<longleftrightarrow> skb_byte skb 0 = a \<and> skb_byte skb 1 = b"

definition ctl_uninitialized :: "tHCI_H5_CB \<Rightarrow> rtk_buffer \<Rightarrow> tHCI_H5_CB" where
  "ctl_uninitialized s skb =
     (if starts2 skb 0x01 0x7E then hci_h5_send_sync_resp s
      else if starts2 skb 0x02 0x7D then
        let s = h5_stop_sync_retrans_timer s;
            s = s\<lparr>sync_retrans_count := 0, link_estab_state := H5_INITIALIZED\<rparr>;
            s = hci_h5_send_conf_req s
        in h5_start_conf_retrans_timer s
      else s)"

definition ctl_initialized :: "tHCI_H5_CB \<Rightarrow> rtk_buffer \<Rightarrow> tHCI_H5_CB" where
  "ctl_initialized s skb =
     (if starts2 skb 0x01 0x7E then hci_h5_send_sync_resp s
      else if starts2 skb 0x03 0xFC then hci_h5_send_conf_resp s
      else if starts2 skb 0x04 0x7B then
        let s = h5_stop_conf_retrans_timer s;
            s = s\<lparr>conf_retrans_count := 0, link_estab_state := H5_ACTIVE\<rparr>;
            cfg = skb_byte skb 2;
            s = s\<lparr>sliding_window_size := H5_CFG_SLID_WIN cfg, oof_flow_control := H5_CFG_OOF_CNTRL cfg,
                  dic_type := H5_CFG_DIC_TYPE cfg\<rparr>;
            s = (if dic_type s \<noteq> 0 then s\<lparr>use_crc := 1\<rparr> else s)
        in rtk_notify_hw_h5_init_result s 0
      else s)"

definition ctl_active :: "tHCI_H5_CB \<Rightarrow> rtk_buffer \<Rightarrow> tHCI_H5_CB" where
  "ctl_active s skb =
     (if starts2 skb 0x01 0x7E then
        let s = rtkbt_h5_send_hw_error s;
            s = hci_h5_send_sync_resp s;
            s = s\<lparr>link_estab_state := H5_UNINITIALIZED\<rparr>;
            s = hci_h5_send_sync_req s
        in h5_start_sync_retrans_timer s
      else if starts2 skb 0x03 0xFC then hci_h5_send_conf_resp s
      else s)"

definition h5_process_ctl_pkts :: "tHCI_H5_CB \<Rightarrow> tHCI_H5_CB" where
  "h5_process_ctl_pkts s =
     (case rx_skb s of
        None \<Rightarrow> s\<lparr>null_deref := True\<rparr>
      | Some skb \<Rightarrow>
          (case link_estab_state s of
             H5_UNINITIALIZED \<Rightarrow> ctl_uninitialized s skb
           | H5_INITIALIZED \<Rightarrow> ctl_initialized s skb
           | H5_ACTIVE \<Rightarrow> ctl_active s skb))"

section \<open>Retransmission\<close>

definition H5_EVENT_RX :: u16 where "H5_EVENT_RX = 0x0001"
definition H5_EVENT_EXIT :: u16 where "H5_EVENT_EXIT = 0x0200"

definition h5_retransfer_signal_event :: "tHCI_H5_CB \<Rightarrow> u16 \<Rightarrow> tHCI_H5_CB" where
  "h5_retransfer_signal_event s event = s\<lparr>h5_ready_events := h5_ready_events s OR event\<rparr>"

text \<open>The loop of \<open>data_retransfer_thread\<close> that moves the unacknowledged packets, last first, to
  the head of the reliable queue and takes their sequence numbers back.\<close>

function requeue_unack :: "tHCI_H5_CB \<Rightarrow> tHCI_H5_CB" where
  "requeue_unack s =
     (if unack s = [] then s
      else requeue_unack
             (s\<lparr>unack := butlast (unack s), msgq_txseq := (msgq_txseq s - 1) AND 0x07,
                rel := last (unack s) # rel s\<rparr>))"
  by pat_completeness auto
termination by (relation "measure (\<lambda>s. length (unack s))") auto

declare requeue_unack.simps [simp del]

definition data_retrans_limit :: "tHCI_H5_CB \<Rightarrow> u32" where
  "data_retrans_limit s = (if h5_init_datatrans_flag s = 0 then 40 else 200)"

text \<open>One round of \<open>data_retransfer_thread\<close> after \<open>pthread_cond_wait\<close> has returned with pending
  events: whether the thread goes on, and the new state. \<open>None\<close>: it is still waiting.\<close>

definition data_retransfer_round :: "tHCI_H5_CB \<Rightarrow> (bool \<times> tHCI_H5_CB) option" where
  "data_retransfer_round s =
     (if h5_retransfer_running s = 0 then Some (False, s)
      else if h5_ready_events s = 0 then None
      else let events = h5_ready_events s; s = s\<lparr>h5_ready_events := 0\<rparr> in
        if events AND H5_EVENT_RX \<noteq> 0 then
          (if data_retrans_count s < data_retrans_limit s
           then let s = requeue_unack s;
                    s = s\<lparr>data_retrans_count := data_retrans_count s + 1\<rparr>
                in Some (True, h5_wake_up s)
           else Some (True, rtkbt_h5_send_hw_error s))
        else if events AND H5_EVENT_EXIT \<noteq> 0 then Some (False, s)
        else Some (True, s))"

section \<open>Timer handlers\<close>

definition h5_retransfer_timeout_handler :: "tHCI_H5_CB \<Rightarrow> tHCI_H5_CB" where
  "h5_retransfer_timeout_handler s =
     (if cleanuping s \<noteq> 0 then s else h5_retransfer_signal_event s H5_EVENT_RX)"

definition h5_sync_retrans_timeout_handler :: "tHCI_H5_CB \<Rightarrow> tHCI_H5_CB" where
  "h5_sync_retrans_timeout_handler s =
     (if cleanuping s \<noteq> 0 then s
      else if sync_retrans_count s < 350
        then let s = hci_h5_send_sync_req s in s\<lparr>sync_retrans_count := sync_retrans_count s + 1\<rparr>
      else let s = (if link_estab_state s = H5_UNINITIALIZED
                    then rtk_notify_hw_h5_init_result s 0x03 else s)
           in h5_stop_sync_retrans_timer s)"

definition h5_conf_retrans_timeout_handler :: "tHCI_H5_CB \<Rightarrow> tHCI_H5_CB" where
  "h5_conf_retrans_timeout_handler s =
     (if cleanuping s \<noteq> 0 then s
      else if conf_retrans_count s < 350
        then let s = hci_h5_send_conf_req s in s\<lparr>conf_retrans_count := conf_retrans_count s + 1\<rparr>
      else let s = (if link_estab_state s \<noteq> H5_ACTIVE
                    then rtk_notify_hw_h5_init_result s 0x03 else s)
           in h5_stop_conf_retrans_timer s)"

definition h5_wait_controller_baudrate_ready_timeout_handler :: "tHCI_H5_CB \<Rightarrow> tHCI_H5_CB" where
  "h5_wait_controller_baudrate_ready_timeout_handler s =
     (if cleanuping s \<noteq> 0 then s\<lparr>internal_skb := None\<rparr>
      else case internal_skb s of
             None \<Rightarrow> s\<lparr>null_deref := True\<rparr>
           | Some skb \<Rightarrow> s\<lparr>recv_data := recv_data s @ [skb], internal_skb := None\<rparr>)"

definition h5_hw_init_ready_timeout_handler :: "tHCI_H5_CB \<Rightarrow> tHCI_H5_CB" where
  "h5_hw_init_ready_timeout_handler s = s"

section \<open>Facts about acknowledgements\<close>

lemma and7_int: "(x :: int) AND 7 = x mod 8"
proof -
  have m: "(7 :: int) = mask 3" by (simp add: mask_eq_exp_minus_1)
  show ?thesis unfolding m take_bit_eq_mask [symmetric] by (simp add: take_bit_eq_mod)
qed

lemma mod8_pred:
  assumes "-8 < x" "x < 8" "x \<noteq> (0 :: int)"
  shows "x mod 8 = (x - 1) mod 8 + 1"
proof (cases "0 < x")
  case True
  then show ?thesis using assms by simp
next
  case False
  have "(x + 8) mod 8 = x + 8" and "(x - 1 + 8) mod 8 = x - 1 + 8"
    using assms False by (intro mod_pos_pos_trivial; simp)+
  then show ?thesis using mod_add_self2 [of x 8] mod_add_self2 [of "x - 1" 8] by linarith
qed

lemma ack_search_spec:
  assumes "0 \<le> rx" "rx < 8" "0 \<le> q" "q < 8"
  shows "ack_search rx n q =
    (if (q - rx) mod 8 \<le> int n then (n - nat ((q - rx) mod 8), rx) else (0, (q - int n) mod 8))"
  using assms
proof (induction n arbitrary: q)
  case 0
  have "(q - rx) mod 8 \<le> 0 \<longleftrightarrow> q = rx" using 0 by presburger
  then show ?case using 0 by auto
next
  case (Suc n)
  show ?case
  proof (cases "rx = q")
    case False
    let ?q = "(q - 1) mod 8"
    have d: "(q - rx) mod 8 = (?q - rx) mod 8 + 1"
      using mod8_pred [of "q - rx"] Suc.prems False by (simp add: mod_simps algebra_simps)
    have "(?q - int n) mod 8 = (q - int (Suc n)) mod 8" by (simp add: mod_simps algebra_simps)
    then show ?thesis
      using Suc.IH [of ?q] Suc.prems False by (simp add: and7_int d nat_add_distrib)
  qed simp
qed

text \<open>How many packets are outstanding from the acknowledged number on.\<close>

definition outstanding :: "tHCI_H5_CB \<Rightarrow> nat" where
  "outstanding s = nat ((uint (msgq_txseq s) - uint (rxack s)) mod 8)"

lemma h5_remove_acked_pkt_unack:
  assumes "msgq_txseq s < 8" and "rxack s < 8"
  shows "unack (h5_remove_acked_pkt s) =
    (if outstanding s \<le> length (unack s) then drop (length (unack s) - outstanding s) (unack s)
     else unack s)"
proof -
  have b: "uint (msgq_txseq s) < 8" "uint (rxack s) < 8" using assms by (simp_all add: word_less_def)
  have "ack_search (uint (rxack s)) (length (unack s)) (uint (msgq_txseq s)) =
      (if outstanding s \<le> length (unack s) then (length (unack s) - outstanding s, uint (rxack s))
       else (0, (uint (msgq_txseq s) - int (length (unack s))) mod 8))"
    using b by (subst ack_search_spec) (auto simp: outstanding_def nat_le_iff)
  then show ?thesis by (simp add: h5_remove_acked_pkt_def Let_def timer_defs)
qed

lemma h5_remove_acked_pkt_frame:
  obtains n tm c where "h5_remove_acked_pkt s =
    s\<lparr>unack := drop n (unack s), timer_data_retrans := tm, data_retrans_count := c\<rparr>"
    and "c = data_retrans_count s \<or> c = 0"
proof -
  let ?n = "fst (ack_search (uint (rxack s)) (length (unack s)) (uint (msgq_txseq s)))"
  have "h5_remove_acked_pkt s = s\<lparr>unack := drop ?n (unack s),
      timer_data_retrans := (if drop ?n (unack s) = [] then snd (OsStopTimer (timer_data_retrans s))
        else timer_data_retrans s),
      data_retrans_count := (if drop ?n (unack s) = [] then 0 else data_retrans_count s)\<rparr>"
    by (auto simp: h5_remove_acked_pkt_def Let_def timer_defs case_prod_beta)
  then show thesis by (rule that) auto
qed

lemma tx_inv_drop_unack: "tx_inv s \<Longrightarrow> tx_inv (s\<lparr>unack := drop n (unack s)\<rparr>)"
  by (auto simp: tx_inv_def list_all_iff dest: in_set_dropD)

lemma h5_remove_acked_pkt_inv:
  assumes "tx_inv s"
  shows "tx_inv (h5_remove_acked_pkt s)"
proof -
  obtain n tm c where "h5_remove_acked_pkt s =
      s\<lparr>unack := drop n (unack s), timer_data_retrans := tm, data_retrans_count := c\<rparr>"
    by (rule h5_remove_acked_pkt_frame)
  then show ?thesis using tx_inv_drop_unack [OF assms, of n] by (simp add: tx_inv_def)
qed

section \<open>Facts about sending\<close>

definition tx_keeps :: "tHCI_H5_CB \<Rightarrow> tHCI_H5_CB \<Rightarrow> bool" where
  "tx_keeps s s' \<longleftrightarrow> tx_inv s' \<and> tx_rest s' = tx_rest s \<and> unack s' @ rel s' = unack s @ rel s \<and>
     base_seq s' = base_seq s \<and> length (unack s') \<le> max (length (unack s)) (unat (sliding_window_size s))"

lemma tx_keeps_wake_up: "tx_inv s \<Longrightarrow> tx_keeps s (h5_wake_up s)"
  using h5_wake_up_progress [of s] by (simp add: tx_keeps_def tx_progress_def)

lemma tx_keeps_trans: "tx_keeps s t \<Longrightarrow> tx_keeps t u \<Longrightarrow> tx_keeps s u"
  unfolding tx_keeps_def using tx_rest_fields(1) [of t s] by (auto simp: le_max_iff_disj)

lemma h5_enqueue_inv:
  assumes "tx_inv s" and "rtb_wf skb"
  shows "tx_inv (h5_enqueue s skb)" and "tx_rest (h5_enqueue s skb) = tx_rest s"
    and "base_seq (h5_enqueue s skb) = base_seq s"
proof -
  have l: "skb_get_data_length skb \<le> 0xFFF \<longleftrightarrow> length (rtb_bytes skb) \<le> 0xFFF"
    using assms(2) by (simp add: skb_get_data_length_def unat_le_alt rtb_Length_bytes)
  show "tx_inv (h5_enqueue s skb)"
    using assms l by (auto simp: h5_enqueue_def tx_inv_def rel_pkt_def unrel_pkt_def not_less)
  show "tx_rest (h5_enqueue s skb) = tx_rest s" and "base_seq (h5_enqueue s skb) = base_seq s"
    by (simp_all add: h5_enqueue_def base_seq_def)
qed

lemma skb_alloc_and_init_env:
  "malloc_ok (snd (skb_alloc_and_init e t d)) = malloc_ok e"
  using RtbAllocate_env(1) [of e "of_nat (length d)" 0]
  by (auto simp: skb_alloc_and_init_def skb_alloc_def split: prod.splits option.splits)

lemma tx_keeps_heap: "tx_inv s \<Longrightarrow> malloc_ok e = malloc_ok (heap s) \<Longrightarrow> tx_keeps s (s\<lparr>heap := e\<rparr>)"
  by (simp add: tx_keeps_def tx_inv_def base_seq_def)

lemma h5_send_link_ctl_keeps:
  assumes inv: "tx_inv s" and len: "length bytes \<le> 3"
  shows "tx_keeps s (h5_send_link_ctl s bytes)"
proof -
  obtain ob e where a: "skb_alloc_and_init (heap s) H5_LINK_CTL_PKT bytes = (ob, e)"
    by (cases "skb_alloc_and_init (heap s) H5_LINK_CTL_PKT bytes")
  have e: "malloc_ok e = malloc_ok (heap s)"
    using skb_alloc_and_init_env [of "heap s" H5_LINK_CTL_PKT bytes] a by simp
  show ?thesis
  proof (cases ob)
    case None
    then show ?thesis using a tx_keeps_heap [OF inv e] by (simp add: h5_send_link_ctl_def)
  next
    case (Some skb)
    have wf: "rtb_wf skb" "rb_PacketType skb = H5_LINK_CTL_PKT"
      using skb_alloc_and_init_wf [OF a [unfolded Some]] len by simp_all
    let ?s = "h5_enqueue (s\<lparr>heap := e\<rparr>) skb"
    have inv': "tx_inv (s\<lparr>heap := e\<rparr>)" using tx_keeps_heap [OF inv e] by (simp add: tx_keeps_def)
    note q = h5_enqueue_inv [OF inv' wf(1)]
    have "tx_keeps (s\<lparr>heap := e\<rparr>) ?s"
      using q wf(2) by (simp add: tx_keeps_def h5_enqueue_def skb_get_pkt_type_def pkt_type_defs)
    then show ?thesis
      using tx_keeps_trans [OF tx_keeps_heap [OF inv e]] tx_keeps_trans [OF _ tx_keeps_wake_up [OF q(1)]]
        a Some by (simp add: h5_send_link_ctl_def)
  qed
qed

lemma send_keeps [inv_intros]:
  assumes "tx_inv s"
  shows "tx_keeps s (hci_h5_send_sync_req s)" "tx_keeps s (hci_h5_send_sync_resp s)"
    "tx_keeps s (hci_h5_send_conf_req s)" "tx_keeps s (hci_h5_send_conf_resp s)"
  using h5_send_link_ctl_keeps [OF assms]
  by (simp_all add: hci_h5_send_sync_req_def hci_h5_send_sync_resp_def hci_h5_send_conf_req_def
      hci_h5_send_conf_resp_def)

section \<open>Facts about retransmission\<close>

lemma requeue_unack_spec:
  assumes "msgq_txseq s < 8"
  shows "requeue_unack s = s\<lparr>unack := [], msgq_txseq := base_seq s, rel := unack s @ rel s\<rparr>"
  using assms
proof (induction s rule: requeue_unack.induct)
  case (1 s)
  show ?case
  proof (cases "unack s = []")
    case True
    then show ?thesis using 1 by (simp add: requeue_unack.simps [of s] base_seq_def)
  next
    case False
    define s1 where "s1 = s\<lparr>unack := butlast (unack s), msgq_txseq := (msgq_txseq s - 1) AND 0x07,
      rel := last (unack s) # rel s\<rparr>"
    have "requeue_unack s = requeue_unack s1"
      using False by (simp add: requeue_unack.simps [of s] s1_def)
    also have "\<dots> = s1\<lparr>unack := [], msgq_txseq := base_seq s1, rel := unack s1 @ rel s1\<rparr>"
      using 1 False unfolding s1_def by (simp add: and7_less)
    also have "base_seq s1 = base_seq s"
      using False by (intro base_seq_eqI) (simp add: s1_def and7_simps mod_simps of_nat_diff Suc_le_eq)
    finally show ?thesis using False by (simp add: s1_def butlast_append_last_eq)
  qed
qed

lemma requeue_unack_inv: "tx_inv s \<Longrightarrow> tx_inv (requeue_unack s)"
  by (subst requeue_unack_spec) (auto simp: tx_inv_def base_seq_def and7_less)

section \<open>The invariant of the control block outside the receive machine\<close>

definition buf_ok :: "rtk_buffer option \<Rightarrow> bool" where
  "buf_ok ob = (case ob of None \<Rightarrow> True | Some b \<Rightarrow> rtb_wf b)"

text \<open>A timer that is never reloaded.\<close>

definition one_shot :: "itimerspec option \<Rightarrow> bool" where
  "one_shot t = (case t of None \<Rightarrow> True | Some i \<Rightarrow> it_interval i = (0, 0))"

definition core_inv :: "tHCI_H5_CB \<Rightarrow> bool" where
  "core_inv s \<longleftrightarrow> tx_inv s \<and> rxack s < 8 \<and> \<not> null_deref s \<and>
     list_all rtb_wf (recv_data s) \<and> buf_ok (data_skb s) \<and> buf_ok (internal_skb s) \<and>
     (timer_armed (timer_wait_ct_baudrate_ready s) \<longrightarrow> internal_skb s \<noteq> None) \<and>
     one_shot (timer_wait_ct_baudrate_ready s) \<and>
     data_retrans_count s \<le> 200 \<and> sync_retrans_count s \<le> 350 \<and> conf_retrans_count s \<le> 350"

lemma tx_inv_updates [simp]:
  "tx_inv (s\<lparr>sync_retrans_count := c\<rparr>) = tx_inv s" "tx_inv (s\<lparr>conf_retrans_count := c\<rparr>) = tx_inv s"
  "tx_inv (s\<lparr>data_retrans_count := c\<rparr>) = tx_inv s"
  "tx_inv (s\<lparr>link_estab_state := l\<rparr>) = tx_inv s" "tx_inv (s\<lparr>oof_flow_control := x\<rparr>) = tx_inv s"
  "tx_inv (s\<lparr>dic_type := x\<rparr>) = tx_inv s" "tx_inv (s\<lparr>use_crc := x\<rparr>) = tx_inv s"
  "tx_inv (s\<lparr>recv_data := q\<rparr>) = tx_inv s" "tx_inv (s\<lparr>rawdata_hook := rh\<rparr>) = tx_inv s"
  "tx_inv (s\<lparr>heap := e\<rparr>) = tx_inv s" "tx_inv (s\<lparr>is_txack_req := a\<rparr>) = tx_inv s"
  "tx_inv (s\<lparr>rxack := a\<rparr>) = tx_inv s" "tx_inv (s\<lparr>rx_skb := b\<rparr>) = tx_inv s"
  "tx_inv (s\<lparr>rx_state := t\<rparr>) = tx_inv s" "tx_inv (s\<lparr>rx_count := n\<rparr>) = tx_inv s"
  "tx_inv (s\<lparr>rx_esc_state := t2\<rparr>) = tx_inv s" "tx_inv (s\<lparr>message_crc := m\<rparr>) = tx_inv s"
  "tx_inv (s\<lparr>internal_skb := b\<rparr>) = tx_inv s" "tx_inv (s\<lparr>data_skb := b\<rparr>) = tx_inv s"
  "tx_inv (s\<lparr>num_hci_cmd_pkts := i\<rparr>) = tx_inv s" "tx_inv (s\<lparr>h5_ready_events := v\<rparr>) = tx_inv s"
  "tx_inv (s\<lparr>data_ready_calls := dr\<rparr>) = tx_inv s" "tx_inv (s\<lparr>cleanuping := x\<rparr>) = tx_inv s"
  "tx_inv (s\<lparr>timer_data_retrans := tm\<rparr>) = tx_inv s" "tx_inv (s\<lparr>timer_sync_retrans := tm\<rparr>) = tx_inv s"
  "tx_inv (s\<lparr>timer_conf_retrans := tm\<rparr>) = tx_inv s"
  "tx_inv (s\<lparr>timer_wait_ct_baudrate_ready := tm\<rparr>) = tx_inv s"
  "tx_inv (s\<lparr>timer_h5_hw_init_ready := tm\<rparr>) = tx_inv s" "tx_inv (s\<lparr>null_deref := x3\<rparr>) = tx_inv s"
  "w < 8 \<Longrightarrow> tx_inv s \<Longrightarrow> tx_inv (s\<lparr>sliding_window_size := w\<rparr>)"
  "w < 8 \<Longrightarrow> tx_inv s \<Longrightarrow> tx_inv (s\<lparr>rxseq_txack := w\<rparr>)"
  by (simp_all add: tx_inv_def)

lemma core_inv_updates [simp]:
  "core_inv (s\<lparr>link_estab_state := l\<rparr>) = core_inv s" "core_inv (s\<lparr>oof_flow_control := x\<rparr>) = core_inv s"
  "core_inv (s\<lparr>dic_type := x\<rparr>) = core_inv s" "core_inv (s\<lparr>use_crc := x\<rparr>) = core_inv s"
  "core_inv (s\<lparr>rawdata_hook := rh\<rparr>) = core_inv s" "core_inv (s\<lparr>heap := e\<rparr>) = core_inv s"
  "core_inv (s\<lparr>is_txack_req := a\<rparr>) = core_inv s" "core_inv (s\<lparr>rx_skb := b\<rparr>) = core_inv s"
  "core_inv (s\<lparr>rx_state := t\<rparr>) = core_inv s" "core_inv (s\<lparr>rx_count := n\<rparr>) = core_inv s"
  "core_inv (s\<lparr>rx_esc_state := t2\<rparr>) = core_inv s" "core_inv (s\<lparr>message_crc := m\<rparr>) = core_inv s"
  "core_inv (s\<lparr>num_hci_cmd_pkts := i\<rparr>) = core_inv s" "core_inv (s\<lparr>h5_ready_events := v\<rparr>) = core_inv s"
  "core_inv (s\<lparr>data_ready_calls := dr\<rparr>) = core_inv s" "core_inv (s\<lparr>cleanuping := x\<rparr>) = core_inv s"
  "core_inv (s\<lparr>timer_data_retrans := tm\<rparr>) = core_inv s" "core_inv (s\<lparr>timer_sync_retrans := tm\<rparr>) = core_inv s"
  "core_inv (s\<lparr>timer_conf_retrans := tm\<rparr>) = core_inv s"
  "core_inv (s\<lparr>timer_h5_hw_init_ready := tm\<rparr>) = core_inv s"
  "core_inv s \<Longrightarrow> core_inv (s\<lparr>sync_retrans_count := 0\<rparr>)" "core_inv s \<Longrightarrow> core_inv (s\<lparr>conf_retrans_count := 0\<rparr>)"
  "core_inv s \<Longrightarrow> list_all rtb_wf q \<Longrightarrow> core_inv (s\<lparr>recv_data := q\<rparr>)"
  "core_inv s \<Longrightarrow> list_all rtb_wf (recv_data s)"
  "w < 8 \<Longrightarrow> core_inv s \<Longrightarrow> core_inv (s\<lparr>sliding_window_size := w\<rparr>)"
  "w < 8 \<Longrightarrow> core_inv s \<Longrightarrow> core_inv (s\<lparr>rxseq_txack := w\<rparr>)"
  "w < 8 \<Longrightarrow> core_inv s \<Longrightarrow> core_inv (s\<lparr>rxack := w\<rparr>)"
  by (auto simp: core_inv_def)

lemma core_inv_bounded:
  assumes "core_inv s"
  shows "buf_ok ob \<Longrightarrow> core_inv (s\<lparr>data_skb := ob\<rparr>)"
    and "c \<le> 200 \<Longrightarrow> core_inv (s\<lparr>data_retrans_count := c\<rparr>)"
    and "c \<le> 350 \<Longrightarrow> core_inv (s\<lparr>sync_retrans_count := c\<rparr>)"
    and "c \<le> 350 \<Longrightarrow> core_inv (s\<lparr>conf_retrans_count := c\<rparr>)"
    and "tx_inv (s\<lparr>unack := u, msgq_txseq := m, rel := r\<rparr>) \<Longrightarrow>
      core_inv (s\<lparr>unack := u, msgq_txseq := m, rel := r\<rparr>)"
    and "core_inv (s\<lparr>h5_init_datatrans_flag := f\<rparr>)"
    and "buf_ok (data_skb s)"
  using assms by (simp_all add: core_inv_def tx_inv_def)

lemma core_inv_tx: "core_inv s \<Longrightarrow> tx_inv s"
  by (simp add: core_inv_def)

lemma core_inv_keeps: "core_inv s \<Longrightarrow> tx_keeps s s' \<Longrightarrow> core_inv s'"
  by (simp add: tx_keeps_def core_inv_def tx_rest_fields [of s' s])

lemmas core_inv_send [inv_intros] =
  core_inv_keeps [OF _ send_keeps(1)] core_inv_keeps [OF _ send_keeps(2)]
  core_inv_keeps [OF _ send_keeps(3)] core_inv_keeps [OF _ send_keeps(4)]
  core_inv_keeps [OF _ tx_keeps_wake_up]

lemma core_inv_timers [simp]:
  "core_inv (h5_start_data_retrans_timer s) = core_inv s" "core_inv (h5_stop_data_retrans_timer s) = core_inv s"
  "core_inv (h5_start_sync_retrans_timer s) = core_inv s" "core_inv (h5_stop_sync_retrans_timer s) = core_inv s"
  "core_inv (h5_start_conf_retrans_timer s) = core_inv s" "core_inv (h5_stop_conf_retrans_timer s) = core_inv s"
  "core_inv (h5_start_hw_init_ready_timer s) = core_inv s" "core_inv (h5_stop_hw_init_ready_timer s) = core_inv s"
  by (simp_all add: timer_defs)

lemma core_inv_notify [inv_intros]:
  assumes "core_inv s"
  shows "core_inv (rtk_notify_hw_h5_init_result s st)"
proof -
  obtain ob e where a: "skb_alloc_and_init (heap s) HCI_EVENT_PKT [0x0e, 0x04, 0x03, 0xee, 0xfc, st] = (ob, e)"
    by (cases "skb_alloc_and_init (heap s) HCI_EVENT_PKT [0x0e, 0x04, 0x03, 0xee, 0xfc, st]")
  then show ?thesis
    using assms skb_alloc_and_init_wf(1) [of "heap s" HCI_EVENT_PKT "[0x0e, 0x04, 0x03, 0xee, 0xfc, st]"]
    by (cases ob) (auto simp: rtk_notify_hw_h5_init_result_def)
qed

lemma core_inv_hw_error [simp]: "core_inv (rtkbt_h5_send_hw_error s) = core_inv s"
  by (simp add: rtkbt_h5_send_hw_error_def)

lemma H5_CFG_SLID_WIN_less: "H5_CFG_SLID_WIN cfg < 8"
  unfolding H5_CFG_SLID_WIN_def by (rule and7_less)

lemma core_inv_ctl:
  assumes "core_inv s" and "rx_skb s \<noteq> None"
  shows "core_inv (h5_process_ctl_pkts s)"
proof -
  note i = core_inv_tx core_inv_send core_inv_notify
  have "core_inv (ctl_uninitialized s skb)" for skb
    using assms by (auto simp: ctl_uninitialized_def Let_def intro!: i)
  moreover have "core_inv (ctl_initialized s skb)" for skb
    using assms by (auto simp: ctl_initialized_def Let_def H5_CFG_SLID_WIN_less intro!: i)
  moreover have "core_inv (ctl_active s skb)" for skb
    using assms by (auto simp: ctl_active_def Let_def intro!: i)
  ultimately show ?thesis
    using assms by (auto simp: h5_process_ctl_pkts_def split: option.splits tH5_LINK_STATE.splits)
qed

lemma core_inv_remove_acked:
  assumes "core_inv s"
  shows "core_inv (h5_remove_acked_pkt s)"
proof -
  obtain n tm c where f: "h5_remove_acked_pkt s =
      s\<lparr>unack := drop n (unack s), timer_data_retrans := tm, data_retrans_count := c\<rparr>"
    and c: "c = data_retrans_count s \<or> c = 0"
    by (rule h5_remove_acked_pkt_frame)
  then show ?thesis
    using assms tx_inv_drop_unack [of s n] by (auto simp: core_inv_def)
qed

text \<open>Only the receive machine itself changes its fields.\<close>

definition rx_part :: "tHCI_H5_CB \<Rightarrow> u32 \<times> tH5_RX_STATE \<times> tH5_RX_ESC_STATE \<times> u16 \<times> rtk_buffer option" where
  "rx_part s = (rx_count s, rx_state s, rx_esc_state s, message_crc s, rx_skb s)"

lemma rx_part_keeps: "tx_keeps s s' \<Longrightarrow> rx_part s' = rx_part s"
  by (simp add: tx_keeps_def rx_part_def tx_rest_fields [of s' s])

lemma rx_part_updates [simp]:
  "rx_part (s\<lparr>link_estab_state := l\<rparr>) = rx_part s" "rx_part (s\<lparr>oof_flow_control := x\<rparr>) = rx_part s"
  "rx_part (s\<lparr>dic_type := x\<rparr>) = rx_part s" "rx_part (s\<lparr>use_crc := x\<rparr>) = rx_part s"
  "rx_part (s\<lparr>rawdata_hook := rh\<rparr>) = rx_part s" "rx_part (s\<lparr>heap := e\<rparr>) = rx_part s"
  "rx_part (s\<lparr>sync_retrans_count := c\<rparr>) = rx_part s" "rx_part (s\<lparr>conf_retrans_count := c\<rparr>) = rx_part s"
  "rx_part (s\<lparr>recv_data := q\<rparr>) = rx_part s" "rx_part (s\<lparr>sliding_window_size := x\<rparr>) = rx_part s"
  "rx_part (s\<lparr>timer_sync_retrans := tm\<rparr>) = rx_part s" "rx_part (s\<lparr>timer_conf_retrans := tm\<rparr>) = rx_part s"
  "rx_part (s\<lparr>is_txack_req := x\<rparr>) = rx_part s" "rx_part (s\<lparr>rxseq_txack := x\<rparr>) = rx_part s"
  "rx_part (s\<lparr>rxack := x\<rparr>) = rx_part s" "rx_part (s\<lparr>num_hci_cmd_pkts := i\<rparr>) = rx_part s"
  by (simp_all add: rx_part_def)

lemma rx_part_ctl:
  assumes "core_inv s" and "rx_skb s \<noteq> None"
  shows "rx_part (h5_process_ctl_pkts s) = rx_part s"
proof -
  note k = send_keeps [THEN rx_part_keeps]
  have n: "rx_part (rtk_notify_hw_h5_init_result t st) = rx_part t" for t st
    by (auto simp: rtk_notify_hw_h5_init_result_def split: prod.split option.split)
  have tx: "tx_inv s" by (rule core_inv_tx [OF assms(1)])
  have tx': "tx_inv (hci_h5_send_sync_resp (rtkbt_h5_send_hw_error s))"
    using send_keeps(2) [of "rtkbt_h5_send_hw_error s"] tx by (simp add: tx_keeps_def rtkbt_h5_send_hw_error_def)
  have "rx_part (ctl_uninitialized s skb) = rx_part s" for skb
    using tx by (simp add: ctl_uninitialized_def Let_def k timer_defs)
  moreover have "rx_part (ctl_initialized s skb) = rx_part s" for skb
    using tx by (simp add: ctl_initialized_def Let_def k timer_defs n)
  moreover have "rx_part (ctl_active s skb) = rx_part s" for skb
    using tx tx' by (simp add: ctl_active_def Let_def k timer_defs) (simp add: rtkbt_h5_send_hw_error_def k)
  ultimately show ?thesis
    using assms(2) by (auto simp: h5_process_ctl_pkts_def split: tH5_LINK_STATE.split)
qed

lemma rx_part_remove_acked: "rx_part (h5_remove_acked_pkt s) = rx_part s"
proof -
  obtain n tm c where f: "h5_remove_acked_pkt s =
      s\<lparr>unack := drop n (unack s), timer_data_retrans := tm, data_retrans_count := c\<rparr>"
    by (rule h5_remove_acked_pkt_frame)
  then show ?thesis by (simp add: rx_part_def)
qed

end
