(* ===== verification/H5Rx.thy ===== *)
theory H5Rx
  imports H5Link
begin

text \<open>
  The receive side of the three-wire transport (hardware/bt/src/hci_h5.c): unescaping, the
  receive state machine and the handling of a complete packet. The control-block pointer that these
  functions take is always the address of \<open>rtk_h5\<close>.
\<close>

section \<open>Unescaping\<close>

text \<open>The common tail of the branches of \<open>h5_unslip_one_byte\<close> that accept a byte: append it to
  \<open>rx_skb\<close>, add it to the running CRC when the header asks for one, count it.\<close>

definition rx_accept :: "tHCI_H5_CB \<Rightarrow> rtk_buffer \<Rightarrow> u8 \<Rightarrow> tHCI_H5_CB" where
  "rx_accept s skb c =
     (let skb = put_bytes skb [c];
          s = s\<lparr>rx_skb := Some skb\<rparr>;
          s = (if H5_HDR_CRC (skb_byte skb 0) \<noteq> 0 \<and> rx_state s \<noteq> H5_W4_CRC
               then s\<lparr>message_crc := h5_crc_update (message_crc s) c\<rparr> else s)
      in s\<lparr>rx_count := rx_count s - 1\<rparr>)"

definition h5_unslip_one_byte :: "tHCI_H5_CB \<Rightarrow> u8 \<Rightarrow> tHCI_H5_CB" where
  "h5_unslip_one_byte s byte =
     (case rx_skb s of
        None \<Rightarrow> s\<lparr>null_deref := True\<rparr>
      | Some skb \<Rightarrow>
          (case rx_esc_state s of
             H5_ESCSTATE_NOESC \<Rightarrow>
               (if byte = 0xdb then s\<lparr>rx_esc_state := H5_ESCSTATE_ESC\<rparr> else rx_accept s skb byte)
           | H5_ESCSTATE_ESC \<Rightarrow>
               (if byte = 0xdc then (rx_accept s skb 0xc0)\<lparr>rx_esc_state := H5_ESCSTATE_NOESC\<rparr>
                else if byte = 0xdd then (rx_accept s skb 0xdb)\<lparr>rx_esc_state := H5_ESCSTATE_NOESC\<rparr>
                else if byte = 0xde then (rx_accept s skb 0x11)\<lparr>rx_esc_state := H5_ESCSTATE_NOESC\<rparr>
                else if byte = 0xdf then (rx_accept s skb 0x13)\<lparr>rx_esc_state := H5_ESCSTATE_NOESC\<rparr>
                else s\<lparr>rx_skb := None, rx_state := H5_W4_PKT_DELIMITER, rx_count := 0\<rparr>)))"

definition h5_get_crc :: "rtk_buffer \<Rightarrow> u16" where
  "h5_get_crc skb =
     (let n = unat (skb_get_data_length skb)
      in ucast (skb_byte skb (n - 1)) + push_bit 8 (ucast (skb_byte skb (n - 2))))"

section \<open>Complete packets\<close>

definition HCI_COMMAND_COMPLETE_EVT :: u8 where "HCI_COMMAND_COMPLETE_EVT = 0x0E"

text \<open>\<open>hci_recv_frame\<close>: the answer to the baud-rate command is held back until the controller has
  switched; every other packet is passed on (result \<open>False\<close>).\<close>

definition hci_recv_frame :: "tHCI_H5_CB \<Rightarrow> rtk_buffer \<Rightarrow> u8 \<Rightarrow> bool \<times> tHCI_H5_CB" where
  "hci_recv_frame s skb pkt_type =
     (if pkt_type = HCI_EVENT_PKT \<and> skb_byte skb 0 = HCI_COMMAND_COMPLETE_EVT
      then let s = s\<lparr>num_hci_cmd_pkts := uint (skb_byte skb 2)\<rparr>;
               opcode = stream_to_uint16 (skb_byte skb 3) (skb_byte skb 4)
           in if opcode = HCI_VSC_UPDATE_BAUDRATE
              then (True, h5_start_wait_controller_baudrate_ready_timer (s\<lparr>internal_skb := Some skb\<rparr>))
              else (False, s)
      else (False, s))"

text \<open>The temporary message \<open>p_rcv_msg\<close> is allocated, filled and freed without being read; of it
  only the allocation remains here.\<close>

definition h5_pass_up :: "u8 \<Rightarrow> bool" where
  "h5_pass_up pkt_type \<longleftrightarrow>
     pkt_type \<in> {HCI_ACLDATA_PKT, HCI_EVENT_PKT, HCI_SCODATA_PKT, HCI_COMMAND_PKT}"

definition h5_complete_rx_pkt :: "tHCI_H5_CB \<Rightarrow> tHCI_H5_CB" where
  "h5_complete_rx_pkt s =
     (case rx_skb s of
        None \<Rightarrow> s\<lparr>null_deref := True, rx_state := H5_W4_PKT_DELIMITER\<rparr>
      | Some skb \<Rightarrow>
          let h0 = skb_byte skb 0;
              pkt_type = H5_HDR_PKT_TYPE (skb_byte skb 1);
              s = (if H5_HDR_RELIABLE h0 \<noteq> 0
                   then h5_wake_up (s\<lparr>rxseq_txack := (H5_HDR_SEQ h0 + 1) mod 8, is_txack_req := 1\<rparr>)
                   else s);
              s = s\<lparr>rxack := H5_HDR_ACK h0\<rparr>;
              s = h5_remove_acked_pkt s;
              s = (if pkt_type = H5_LINK_CTL_PKT
                   then h5_process_ctl_pkts (s\<lparr>rx_skb := Some (skb_pull skb 4)\<rparr>)
                   else s);
              s = (if h5_pass_up pkt_type
                   then let skb = skb_set_pkt_type (skb_pull skb 4) pkt_type;
                            s = s\<lparr>rx_skb := Some skb,
                                  heap := snd (malloc (heap s) (unat (8 + ucast (skb_get_data_length skb) :: u16)))\<rparr>;
                            (status, s) = hci_recv_frame s skb pkt_type
                        in if status then s else s\<lparr>recv_data := recv_data s @ [skb]\<rparr>
                   else s)
          in s\<lparr>rx_state := H5_W4_PKT_DELIMITER, rx_skb := None\<rparr>)"

section \<open>The receive loop\<close>

text \<open>The branches of the \<open>switch\<close> of \<open>h5_recv\<close> that do not consume a byte.\<close>

definition rx_drop :: "tHCI_H5_CB \<Rightarrow> tHCI_H5_CB" where
  "rx_drop s = s\<lparr>rx_skb := None, rx_state := H5_W4_PKT_DELIMITER, rx_count := 0\<rparr>"

definition rx_hdr :: "tHCI_H5_CB \<Rightarrow> tHCI_H5_CB" where
  "rx_hdr s =
     (case rx_skb s of
        None \<Rightarrow> rx_drop (s\<lparr>null_deref := True\<rparr>)
      | Some skb \<Rightarrow>
          let h0 = skb_byte skb 0; h1 = skb_byte skb 1; h2 = skb_byte skb 2 in
          if NOT (h0 + h1 + h2) \<noteq> skb_byte skb 3 then rx_drop s
          else if H5_HDR_RELIABLE h0 \<noteq> 0 \<and> H5_HDR_SEQ h0 \<noteq> rxseq_txack s
            then rx_drop (h5_wake_up (s\<lparr>is_txack_req := 1\<rparr>))
          else s\<lparr>rx_state := H5_W4_DATA, rx_count := H5_HDR_LEN h1 h2\<rparr>)"

text \<open>\<open>(complete, s)\<close>: whether a packet was completed.\<close>

definition rx_data :: "tHCI_H5_CB \<Rightarrow> bool \<times> tHCI_H5_CB" where
  "rx_data s =
     (case rx_skb s of
        None \<Rightarrow> (False, rx_drop (s\<lparr>null_deref := True\<rparr>))
      | Some skb \<Rightarrow>
          if H5_HDR_CRC (skb_byte skb 0) \<noteq> 0
          then (False, s\<lparr>rx_state := H5_W4_CRC, rx_count := 2\<rparr>)
          else (True, h5_complete_rx_pkt s))"

definition rx_crc :: "tHCI_H5_CB \<Rightarrow> bool \<times> tHCI_H5_CB" where
  "rx_crc s =
     (case rx_skb s of
        None \<Rightarrow> (False, rx_drop (s\<lparr>null_deref := True\<rparr>))
      | Some skb \<Rightarrow>
          if bit_rev16 (message_crc s) \<noteq> h5_get_crc skb then (False, rx_drop s)
          else (True, h5_complete_rx_pkt
                        (s\<lparr>rx_skb := Some (skb_trim skb (skb_get_data_length skb - 2))\<rparr>)))"

text \<open>The start of a packet: \<open>False\<close> when no buffer could be allocated.\<close>

definition rx_start :: "tHCI_H5_CB \<Rightarrow> bool \<times> tHCI_H5_CB" where
  "rx_start s =
     (let s = s\<lparr>rx_state := H5_W4_HDR, rx_count := 4, rx_esc_state := H5_ESCSTATE_NOESC,
                message_crc := H5_CRC_INIT\<rparr>
      in case skb_alloc (heap s) 0x1005 of
           (None, e) \<Rightarrow> (False, s\<lparr>heap := e, rx_skb := None, rx_state := H5_W4_PKT_DELIMITER, rx_count := 0\<rparr>)
         | (Some skb, e) \<Rightarrow> (True, s\<lparr>heap := e, rx_skb := Some skb\<rparr>))"

lemma rx_state_after:
  "rx_state (rx_drop s) = H5_W4_PKT_DELIMITER" "rx_count (rx_drop s) = 0"
  "rx_state (h5_complete_rx_pkt s) = H5_W4_PKT_DELIMITER"
  by (simp_all add: rx_drop_def h5_complete_rx_pkt_def Let_def split: option.split)

text \<open>Rank of a state in which the next byte is not consumed at once.\<close>

definition rx_rank :: "tHCI_H5_CB \<Rightarrow> nat" where
  "rx_rank s =
     (if rx_count s \<noteq> 0 then 0
      else case rx_state s of
             H5_W4_PKT_DELIMITER \<Rightarrow> 0 | H5_W4_PKT_START \<Rightarrow> 1 | H5_W4_CRC \<Rightarrow> 2 | H5_W4_DATA \<Rightarrow> 3 | H5_W4_HDR \<Rightarrow> 4)"

lemma rx_rank_steps:
  assumes "rx_count s = 0"
  shows "rx_state s = H5_W4_HDR \<Longrightarrow> rx_rank (rx_hdr s) < rx_rank s"
    and "rx_state s = H5_W4_DATA \<Longrightarrow> rx_rank (snd (rx_data s)) < rx_rank s"
    and "rx_state s = H5_W4_CRC \<Longrightarrow> rx_rank (snd (rx_crc s)) < rx_rank s"
    and "rx_state s = H5_W4_PKT_START \<Longrightarrow> rx_rank (snd (rx_start s)) < rx_rank s"
  using assms
  by (auto simp: rx_rank_def rx_hdr_def rx_data_def rx_crc_def rx_start_def rx_state_after Let_def
      split: option.split prod.split)

function h5_recv :: "tHCI_H5_CB \<Rightarrow> u8 list \<Rightarrow> bool \<Rightarrow> bool \<times> tHCI_H5_CB" where
  "h5_recv s [] complete = (complete, s)"
| "h5_recv s (c # cs) complete =
     (if rx_count s \<noteq> 0 then
        (if c = 0xc0
         then h5_recv (s\<lparr>rx_skb := None, rx_state := H5_W4_PKT_START, rx_count := 0\<rparr>) cs complete
         else h5_recv (h5_unslip_one_byte s c) cs complete)
      else case rx_state s of
        H5_W4_HDR \<Rightarrow> h5_recv (rx_hdr s) (c # cs) complete
      | H5_W4_DATA \<Rightarrow> h5_recv (snd (rx_data s)) (c # cs) (complete \<or> fst (rx_data s))
      | H5_W4_CRC \<Rightarrow> h5_recv (snd (rx_crc s)) (c # cs) (complete \<or> fst (rx_crc s))
      | H5_W4_PKT_DELIMITER \<Rightarrow>
          h5_recv (if c = 0xc0 then s\<lparr>rx_state := H5_W4_PKT_START\<rparr> else s) cs complete
      | H5_W4_PKT_START \<Rightarrow>
          if c = 0xc0 then h5_recv s cs complete
          else if fst (rx_start s) then h5_recv (snd (rx_start s)) (c # cs) complete
          else (False, snd (rx_start s)))"
  by pat_completeness auto

termination
  by (relation "measures [\<lambda>(s, cs, b). length cs, \<lambda>(s, cs, b). rx_rank s]")
     (auto simp: rx_rank_steps)

declare h5_recv.simps(2) [simp del]

definition hci_h5_receive_msg :: "tHCI_H5_CB \<Rightarrow> u8 list \<Rightarrow> bool \<times> tHCI_H5_CB" where
  "hci_h5_receive_msg s bytes = h5_recv s bytes False"

section \<open>The receive invariant\<close>

text \<open>How many unescaped bytes the current phase collects in all.\<close>

definition rx_goal :: "tH5_RX_STATE \<Rightarrow> u8 list \<Rightarrow> nat" where
  "rx_goal st bs =
     (case st of H5_W4_HDR \<Rightarrow> 4
       | H5_W4_DATA \<Rightarrow> 4 + unat (H5_HDR_LEN (bs ! 1) (bs ! 2))
       | H5_W4_CRC \<Rightarrow> 6 + unat (H5_HDR_LEN (bs ! 1) (bs ! 2))
       | _ \<Rightarrow> 0)"

definition rx_collecting :: "tH5_RX_STATE \<Rightarrow> bool" where
  "rx_collecting st \<longleftrightarrow> st \<in> {H5_W4_HDR, H5_W4_DATA, H5_W4_CRC}"

definition rx_buf :: "tH5_RX_STATE \<Rightarrow> u32 \<Rightarrow> rtk_buffer \<Rightarrow> bool" where
  "rx_buf st cnt b \<longleftrightarrow> rtb_wf b \<and> rtb_room b + length (rtb_bytes b) = 0x1005 \<and>
     length (rtb_bytes b) + unat cnt = rx_goal st (rtb_bytes b) \<and>
     (st \<noteq> H5_W4_HDR \<longrightarrow> 4 \<le> length (rtb_bytes b))"

definition rx_inv :: "tHCI_H5_CB \<Rightarrow> bool" where
  "rx_inv s \<longleftrightarrow>
     (if rx_collecting (rx_state s) then (\<exists>b. rx_skb s = Some b \<and> rx_buf (rx_state s) (rx_count s) b)
      else rx_count s = 0)"

lemma H5_HDR_LEN_le: "unat (H5_HDR_LEN h1 h2) \<le> 0xFFF"
proof -
  have a: "(ucast (drop_bit 4 h1) AND 0xff :: u32) \<le> 0xf"
  proof -
    have "unat h1 < 256" using unsigned_less [of h1] by simp
    then have "unat (drop_bit 4 h1) \<le> 15" unfolding unsigned_drop_bit_eq
      by (simp add: drop_bit_eq_div take_bit_nat_eq_self)
    then have "(ucast (drop_bit 4 h1) :: u32) \<le> 0xf"
      by (simp add: word_le_nat_alt unsigned_ucast_eq take_bit_nat_eq_self)
    then show ?thesis using word_and_le2 order_trans by blast
  qed
  have h: "unat h2 < 256" using unsigned_less [of h2] by simp
  then have "unat (ucast h2 :: u32) = unat h2" by (simp add: unsigned_ucast_eq take_bit_nat_eq_self)
  then have b: "unat (push_bit 4 (ucast h2) :: u32) \<le> 4080"
    using h by (simp add: push_bit_eq_mult unat_word_ariths)
  show ?thesis unfolding H5_HDR_LEN_def
    using a b by (simp add: unat_plus_if' word_le_nat_alt)
qed

lemma rx_goal_le: "rx_goal st bs \<le> 0x1005"
  using H5_HDR_LEN_le [of "bs ! 1" "bs ! 2"] by (simp add: rx_goal_def split: tH5_RX_STATE.split)

lemma rx_goal_snoc: "4 \<le> length bs \<or> st = H5_W4_HDR \<Longrightarrow> rx_goal st (bs @ [c]) = rx_goal st bs"
  by (auto simp: rx_goal_def nth_append split: tH5_RX_STATE.split)

text \<open>An accepted byte is stored: there is always room for it.\<close>

lemma rx_accept_spec:
  assumes b: "rx_buf (rx_state s) (rx_count s) b" and c: "rx_count s \<noteq> 0"
  shows "rx_accept s b x = s\<lparr>rx_skb := Some (put_bytes b [x]), rx_count := rx_count s - 1,
      message_crc := (if H5_HDR_CRC (rtb_bytes (put_bytes b [x]) ! 0) \<noteq> 0 \<and> rx_state s \<noteq> H5_W4_CRC
                      then h5_crc_update (message_crc s) x else message_crc s)\<rparr>"
    and "rx_buf (rx_state s) (rx_count s - 1) (put_bytes b [x])"
    and "rtb_bytes (put_bytes b [x]) = rtb_bytes b @ [x]"
proof -
  have wf: "rtb_wf b" using b by (simp add: rx_buf_def)
  have u: "unat (rx_count s - 1) = unat (rx_count s) - 1" "0 < unat (rx_count s)"
    using c by (simp_all add: unat_sub word_le_nat_alt unat_gt_0 Suc_le_eq)
  then have "length [x] \<le> rtb_room b"
    using b rx_goal_le [of "rx_state s" "rtb_bytes b"] by (simp add: rx_buf_def)
  note p = put_bytes_append [OF wf this]
  show "rtb_bytes (put_bytes b [x]) = rtb_bytes b @ [x]" by (rule p(2))
  have "rx_goal (rx_state s) (rtb_bytes b @ [x]) = rx_goal (rx_state s) (rtb_bytes b)"
    using b by (intro rx_goal_snoc) (auto simp: rx_buf_def)
  then show "rx_buf (rx_state s) (rx_count s - 1) (put_bytes b [x])"
    using b p u \<open>length [x] \<le> rtb_room b\<close> by (auto simp: rx_buf_def)
  show "rx_accept s b x = s\<lparr>rx_skb := Some (put_bytes b [x]), rx_count := rx_count s - 1,
      message_crc := (if H5_HDR_CRC (rtb_bytes (put_bytes b [x]) ! 0) \<noteq> 0 \<and> rx_state s \<noteq> H5_W4_CRC
                      then h5_crc_update (message_crc s) x else message_crc s)\<rparr>"
    using p skb_byte_bytes [of "put_bytes b [x]" 0] by (simp add: rx_accept_def Let_def)
qed

definition h5_inv :: "tHCI_H5_CB \<Rightarrow> bool" where
  "h5_inv s \<longleftrightarrow> core_inv s \<and> rx_inv s"

lemma skb_pull_bytes:
  assumes "rtb_wf b" and "unat n \<le> length (rtb_bytes b)"
  shows "rtb_wf (skb_pull b n)" and "rtb_bytes (skb_pull b n) = drop (unat n) (rtb_bytes b)"
proof -
  obtain ok c where r: "RtbRemoveHead b n = (ok, c)" by (cases "RtbRemoveHead b n")
  from RtbRemoveHead_bytes [OF assms r] r
  show "rtb_wf (skb_pull b n)" and "rtb_bytes (skb_pull b n) = drop (unat n) (rtb_bytes b)"
    by (simp_all add: skb_pull_def)
qed

lemma skb_pull_wf: "rtb_wf b \<Longrightarrow> rtb_wf (skb_pull b n)"
proof (cases "unat n \<le> length (rtb_bytes b)")
  case False
  assume "rtb_wf b"
  with False show ?thesis using RtbRemoveHead_refused [of b n] by (simp add: skb_pull_def)
qed (rule skb_pull_bytes)

lemma skb_trim_last2:
  assumes "rtb_wf b" and "2 \<le> length (rtb_bytes b)"
  shows "rtb_wf (skb_trim b (skb_get_data_length b - 2))"
    and "rtb_bytes (skb_trim b (skb_get_data_length b - 2)) = take (length (rtb_bytes b) - 2) (rtb_bytes b)"
proof -
  obtain ok c where r: "RtbRemoveTail b 2 = (ok, c)" by (cases "RtbRemoveTail b 2")
  have 2: "unat (2 :: u32) \<le> length (rtb_bytes b)" using assms(2) by simp
  have "skb_trim b (skb_get_data_length b - 2) = c" using r by (simp add: skb_trim_def)
  then show "rtb_wf (skb_trim b (skb_get_data_length b - 2))"
    and "rtb_bytes (skb_trim b (skb_get_data_length b - 2)) = take (length (rtb_bytes b) - 2) (rtb_bytes b)"
    using RtbRemoveTail_bytes [OF assms(1) 2 r] by simp_all
qed

lemma mod8_less: "(x :: u8) mod 8 < 8"
  by (simp add: word_less_def uint_mod)

lemma rtb_wf_set_type [simp]: "rtb_wf (skb_set_pkt_type b t) = rtb_wf b"
  "rtb_bytes (skb_set_pkt_type b t) = rtb_bytes b"
  by (simp_all add: skb_set_pkt_type_def rtb_wf_def rtb_bytes_def)

lemma core_inv_hold:
  assumes "core_inv s" and "rtb_wf b"
  shows "core_inv (h5_start_wait_controller_baudrate_ready_timer (s\<lparr>internal_skb := Some b\<rparr>))"
  using assms
  by (cases "timer_wait_ct_baudrate_ready s")
     (simp_all add: core_inv_def timer_defs buf_ok_def one_shot_def OsStartTimer_def)

lemma hci_recv_frame_cases:
  obtains (up) "hci_recv_frame s b t = (False, s)"
    | (count) n where "hci_recv_frame s b t = (False, s\<lparr>num_hci_cmd_pkts := n\<rparr>)"
    | (hold) n where "hci_recv_frame s b t =
        (True, h5_start_wait_controller_baudrate_ready_timer (s\<lparr>num_hci_cmd_pkts := n, internal_skb := Some b\<rparr>))"
  unfolding hci_recv_frame_def Let_def by (atomize_elim) auto

lemma hci_recv_frame_inv:
  assumes "core_inv s" and "rtb_wf b" and "hci_recv_frame s b t = (st, s')"
  shows "core_inv s'" and "rx_part s' = rx_part s" and "recv_data s' = recv_data s"
proof -
  have "core_inv s' \<and> rx_part s' = rx_part s \<and> recv_data s' = recv_data s"
  proof (cases rule: hci_recv_frame_cases [of s b t])
    case (hold n)
    then have "s' = h5_start_wait_controller_baudrate_ready_timer (s\<lparr>num_hci_cmd_pkts := n\<rparr>\<lparr>internal_skb := Some b\<rparr>)"
      using assms(3) by simp
    then show ?thesis
      using core_inv_hold [of "s\<lparr>num_hci_cmd_pkts := n\<rparr>" b] assms(1,2) by (simp add: rx_part_def timer_defs)
  qed (use assms in auto)
  then show "core_inv s'" and "rx_part s' = rx_part s" and "recv_data s' = recv_data s" by blast+
qed

text \<open>The tail of \<open>h5_complete_rx_pkt\<close>: handing the packet up.\<close>

lemma pass_up_inv:
  assumes "core_inv s" and "rtb_wf b" and "hci_recv_frame (s\<lparr>rx_skb := Some b, heap := e\<rparr>) b t = (st, s')"
  shows "core_inv (if st then s' else s'\<lparr>recv_data := recv_data s' @ [b]\<rparr>)"
    and "rx_count (if st then s' else s'\<lparr>recv_data := recv_data s' @ [b]\<rparr>) = rx_count s"
proof -
  have "core_inv (s\<lparr>rx_skb := Some b, heap := e\<rparr>)" using assms(1) by simp
  note h = hci_recv_frame_inv [OF this assms(2,3)]
  show "core_inv (if st then s' else s'\<lparr>recv_data := recv_data s' @ [b]\<rparr>)"
    using h assms(1,2) by simp
  show "rx_count (if st then s' else s'\<lparr>recv_data := recv_data s' @ [b]\<rparr>) = rx_count s"
    using h(2) by (simp add: rx_part_def)
qed

lemma h5_complete_rx_pkt_inv:
  assumes inv: "core_inv s" and b: "rx_skb s = Some b" "rtb_wf b"
  shows "core_inv (h5_complete_rx_pkt s)" and "rx_count (h5_complete_rx_pkt s) = rx_count s"
    and "rx_skb (h5_complete_rx_pkt s) = None"
proof -
  define s1 where "s1 = (if H5_HDR_RELIABLE (skb_byte b 0) \<noteq> 0
      then h5_wake_up (s\<lparr>rxseq_txack := (H5_HDR_SEQ (skb_byte b 0) + 1) mod 8, is_txack_req := 1\<rparr>) else s)"
  define s2 where "s2 = h5_remove_acked_pkt (s1\<lparr>rxack := H5_HDR_ACK (skb_byte b 0)\<rparr>)"
  define t where "t = H5_HDR_PKT_TYPE (skb_byte b 1)"
  define s3 where "s3 = (if t = H5_LINK_CTL_PKT then h5_process_ctl_pkts (s2\<lparr>rx_skb := Some (skb_pull b 4)\<rparr>) else s2)"
  define c where "c = skb_set_pkt_type (skb_pull b 4) t"
  define e where "e = snd (malloc (heap s3) (unat (8 + ucast (skb_get_data_length c) :: u16)))"
  obtain st s4 where r: "hci_recv_frame (s3\<lparr>rx_skb := Some c, heap := e\<rparr>) c t = (st, s4)"
    by (cases "hci_recv_frame (s3\<lparr>rx_skb := Some c, heap := e\<rparr>) c t")
  define s5 where "s5 = (if h5_pass_up t then if st then s4 else s4\<lparr>recv_data := recv_data s4 @ [c]\<rparr> else s3)"
  have eq: "h5_complete_rx_pkt s = s5\<lparr>rx_state := H5_W4_PKT_DELIMITER, rx_skb := None\<rparr>"
    unfolding h5_complete_rx_pkt_def b(1) option.case Let_def s1_def [symmetric] t_def [symmetric]
      s2_def [symmetric] s3_def [symmetric] c_def [symmetric] e_def [symmetric] r prod.case s5_def
    by (rule refl)
  let ?w = "s\<lparr>rxseq_txack := (H5_HDR_SEQ (skb_byte b 0) + 1) mod 8, is_txack_req := 1\<rparr>"
  have w: "core_inv ?w" using inv by (simp add: mod8_less)
  have 1: "core_inv s1" "rx_count s1 = rx_count s"
    using inv core_inv_send(5) [OF w core_inv_tx [OF w]] rx_part_keeps [OF tx_keeps_wake_up [OF core_inv_tx [OF w]]]
    by (auto simp: s1_def rx_part_def)
  have 2: "core_inv s2" "rx_count s2 = rx_count s"
    using 1 rx_part_remove_acked [of "s1\<lparr>rxack := H5_HDR_ACK (skb_byte b 0)\<rparr>"]
    by (auto simp: s2_def H5_HDR_ACK_def and7_less rx_part_def intro!: core_inv_remove_acked)
  have 3: "core_inv s3" "rx_count s3 = rx_count s"
    using 2 core_inv_ctl [of "s2\<lparr>rx_skb := Some (skb_pull b 4)\<rparr>"] rx_part_ctl [of "s2\<lparr>rx_skb := Some (skb_pull b 4)\<rparr>"]
    by (auto simp: s3_def rx_part_def)
  have "rtb_wf c" using b(2) by (simp add: c_def skb_pull_wf)
  from pass_up_inv [OF 3(1) this r] 3 have 5: "core_inv s5" "rx_count s5 = rx_count s"
    by (auto simp: s5_def)
  then show "core_inv (h5_complete_rx_pkt s)" and "rx_count (h5_complete_rx_pkt s) = rx_count s"
    and "rx_skb (h5_complete_rx_pkt s) = None"
    by (simp_all add: eq)
qed

lemma rx_inv_Some:
  assumes "rx_inv s" and "rx_count s \<noteq> 0 \<or> rx_collecting (rx_state s)"
  obtains b where "rx_skb s = Some b" and "rx_buf (rx_state s) (rx_count s) b" and "rx_collecting (rx_state s)"
  using assms by (auto simp: rx_inv_def split: if_splits)

lemma unslip_inv:
  assumes inv: "h5_inv s" and c: "rx_count s \<noteq> 0"
  shows "h5_inv (h5_unslip_one_byte s x)"
proof -
  have core: "core_inv s" and rx: "rx_inv s" using inv by (simp_all add: h5_inv_def)
  obtain b where b: "rx_skb s = Some b" "rx_buf (rx_state s) (rx_count s) b" "rx_collecting (rx_state s)"
    using rx_inv_Some [OF rx] c by blast
  have a: "h5_inv (rx_accept s b y)" "h5_inv ((rx_accept s b y)\<lparr>rx_esc_state := H5_ESCSTATE_NOESC\<rparr>)" for y
    using rx_accept_spec(2) [OF b(2) c, of y] core b(3)
    by (simp_all add: rx_accept_spec(1) [OF b(2) c] h5_inv_def rx_inv_def)
  have "h5_inv (s\<lparr>rx_esc_state := H5_ESCSTATE_ESC\<rparr>)"
    and "h5_inv (s\<lparr>rx_skb := None, rx_state := H5_W4_PKT_DELIMITER, rx_count := 0\<rparr>)"
    using core rx by (simp_all add: h5_inv_def rx_inv_def rx_collecting_def)
  with a show ?thesis
    by (simp add: h5_unslip_one_byte_def b(1) split: tH5_RX_ESC_STATE.split)
qed

lemma rx_drop_inv [simp]: "core_inv s \<Longrightarrow> h5_inv (rx_drop s)"
  by (simp add: rx_drop_def h5_inv_def rx_inv_def rx_collecting_def)

lemma rx_hdr_inv:
  assumes inv: "h5_inv s" and st: "rx_state s = H5_W4_HDR" and c: "rx_count s = 0"
  shows "h5_inv (rx_hdr s)"
proof -
  have core: "core_inv s" and rx: "rx_inv s" using inv by (simp_all add: h5_inv_def)
  obtain b where b: "rx_skb s = Some b" "rx_buf H5_W4_HDR 0 b"
    using rx_inv_Some [OF rx] st c by (auto simp: rx_collecting_def)
  have l: "rtb_wf b" "length (rtb_bytes b) = 4" using b(2) by (auto simp: rx_buf_def rx_goal_def)
  have h: "skb_byte b i = rtb_bytes b ! i" if "i < 4" for i
    using skb_byte_bytes [OF l(1)] l(2) that by simp
  have "rx_buf H5_W4_DATA (H5_HDR_LEN (skb_byte b 1) (skb_byte b 2)) b"
    using b(2) l by (simp add: rx_buf_def rx_goal_def h)
  then have d: "h5_inv (s\<lparr>rx_state := H5_W4_DATA, rx_count := H5_HDR_LEN (skb_byte b 1) (skb_byte b 2)\<rparr>)"
    using core b(1) by (simp add: h5_inv_def rx_inv_def rx_collecting_def)
  have "core_inv (h5_wake_up (s\<lparr>is_txack_req := 1\<rparr>))"
    using core by (auto intro!: core_inv_send core_inv_tx)
  with d core show ?thesis by (simp add: rx_hdr_def b(1) Let_def)
qed

lemma complete_h5_inv:
  assumes "core_inv s" and "rx_skb s = Some b" and "rtb_wf b" and "rx_count s = 0"
  shows "h5_inv (h5_complete_rx_pkt s)"
  using h5_complete_rx_pkt_inv [OF assms(1-3)] assms(4)
  by (simp add: h5_inv_def rx_inv_def rx_state_after rx_collecting_def)

lemma rx_data_inv:
  assumes inv: "h5_inv s" and st: "rx_state s = H5_W4_DATA" and c: "rx_count s = 0"
  shows "h5_inv (snd (rx_data s))"
proof -
  have core: "core_inv s" and rx: "rx_inv s" using inv by (simp_all add: h5_inv_def)
  obtain b where b: "rx_skb s = Some b" "rx_buf H5_W4_DATA 0 b"
    using rx_inv_Some [OF rx] st c by (auto simp: rx_collecting_def)
  have "rx_buf H5_W4_CRC 2 b" using b(2) by (simp add: rx_buf_def rx_goal_def)
  then have d: "h5_inv (s\<lparr>rx_state := H5_W4_CRC, rx_count := 2\<rparr>)"
    using core b(1) by (simp add: h5_inv_def rx_inv_def rx_collecting_def)
  have "rtb_wf b" using b(2) by (simp add: rx_buf_def)
  with d complete_h5_inv [OF core b(1) _ c] show ?thesis by (simp add: rx_data_def b(1))
qed

lemma rx_crc_inv:
  assumes inv: "h5_inv s" and st: "rx_state s = H5_W4_CRC" and c: "rx_count s = 0"
  shows "h5_inv (snd (rx_crc s))"
proof -
  have core: "core_inv s" and rx: "rx_inv s" using inv by (simp_all add: h5_inv_def)
  obtain b where b: "rx_skb s = Some b" "rx_buf H5_W4_CRC 0 b"
    using rx_inv_Some [OF rx] st c by (auto simp: rx_collecting_def)
  have "rtb_wf b" "2 \<le> length (rtb_bytes b)" using b(2) by (auto simp: rx_buf_def)
  note t = skb_trim_last2 [OF this]
  let ?b = "skb_trim b (skb_get_data_length b - 2)"
  have "core_inv (s\<lparr>rx_skb := Some ?b\<rparr>)" "rx_skb (s\<lparr>rx_skb := Some ?b\<rparr>) = Some ?b" "rx_count (s\<lparr>rx_skb := Some ?b\<rparr>) = 0"
    using core c by simp_all
  from complete_h5_inv [OF this(1,2) t(1) this(3)] core show ?thesis by (simp add: rx_crc_def b(1))
qed

lemma rx_start_inv:
  assumes "core_inv s"
  shows "h5_inv (snd (rx_start s))"
proof -
  obtain ob e where a: "skb_alloc (heap s) 0x1005 = (ob, e)" by (cases "skb_alloc (heap s) 0x1005")
  show ?thesis
  proof (cases ob)
    case None
    then show ?thesis using a assms by (simp add: rx_start_def Let_def h5_inv_def rx_inv_def rx_collecting_def)
  next
    case (Some b)
    note w = skb_alloc_wf [OF a [unfolded Some]]
    have "rx_buf H5_W4_HDR 4 b" using w by (simp add: rx_buf_def rx_goal_def)
    then show ?thesis using a Some assms by (simp add: rx_start_def Let_def h5_inv_def rx_inv_def rx_collecting_def)
  qed
qed

text \<open>Any byte stream, in any chunks, keeps the invariant.\<close>

lemma h5_recv_inv:
  assumes "h5_inv s"
  shows "h5_inv (snd (h5_recv s cs complete))"
  using assms
proof (induction s cs complete rule: h5_recv.induct)
  case (2 s c cs complete)
  have core: "core_inv s" and rx: "rx_inv s" using "2.prems" by (simp_all add: h5_inv_def)
  show ?case
  proof (cases "rx_count s = 0")
    case False
    have "h5_inv (s\<lparr>rx_skb := None, rx_state := H5_W4_PKT_START, rx_count := 0\<rparr>)"
      using core by (simp add: h5_inv_def rx_inv_def rx_collecting_def)
    then show ?thesis
      using False 2 unslip_inv [OF "2.prems" False] by (simp add: h5_recv.simps(2))
  next
    case True
    have "h5_inv (if c = 0xc0 then s\<lparr>rx_state := H5_W4_PKT_START\<rparr> else s)" if "rx_state s = H5_W4_PKT_DELIMITER"
      using that "2.prems" True by (simp add: h5_inv_def rx_inv_def rx_collecting_def)
    then show ?thesis
      using True 2 rx_hdr_inv [OF "2.prems"] rx_data_inv [OF "2.prems"] rx_crc_inv [OF "2.prems"]
        rx_start_inv [OF core]
      by (cases "rx_state s") (simp_all add: h5_recv.simps(2))
  qed
qed simp

section \<open>Receiving a frame\<close>

lemma recv_slip_byte:
  assumes "rx_count s \<noteq> 0" and "rx_esc_state s = H5_ESCSTATE_NOESC" and "rx_skb s = Some b"
  shows "h5_recv s (slip_byte oof x @ cs) complete = h5_recv (rx_accept s b x) cs complete"
proof -
  have plain: "h5_recv s (x # cs) complete = h5_recv (rx_accept s b x) cs complete" if "x \<noteq> 0xc0" "x \<noteq> 0xdb"
    using assms that by (simp add: h5_recv.simps(2) h5_unslip_one_byte_def)
  let ?e = "s\<lparr>rx_esc_state := H5_ESCSTATE_ESC\<rparr>"
  have acc: "(rx_accept ?e b y)\<lparr>rx_esc_state := H5_ESCSTATE_NOESC\<rparr> = rx_accept s b y" for y
    using assms(2) by (simp add: rx_accept_def Let_def)
  have esc: "h5_recv s (0xdb # z # cs) complete = h5_recv (rx_accept s b y) cs complete"
    if "z = 0xdc \<and> y = 0xc0 \<or> z = 0xdd \<and> y = 0xdb \<or> z = 0xde \<and> y = 0x11 \<or> z = 0xdf \<and> y = 0x13" for z y
  proof -
    have "h5_recv s (0xdb # z # cs) complete = h5_recv ?e (z # cs) complete"
      using assms by (simp add: h5_recv.simps(2) h5_unslip_one_byte_def)
    also have "\<dots> = h5_recv (rx_accept s b y) cs complete"
      using assms that acc by (auto simp: h5_recv.simps(2) h5_unslip_one_byte_def)
    finally show ?thesis .
  qed
  show ?thesis by (simp add: slip_byte_def plain esc)
qed

text \<open>The control block after the bytes \<open>ds\<close> were unescaped, with \<open>b'\<close> the buffer then.\<close>

definition rx_after :: "tHCI_H5_CB \<Rightarrow> u8 list \<Rightarrow> rtk_buffer \<Rightarrow> tHCI_H5_CB" where
  "rx_after s ds b' =
     s\<lparr>rx_skb := Some b', rx_count := rx_count s - of_nat (length ds),
       message_crc := (if H5_HDR_CRC (rtb_bytes b' ! 0) \<noteq> 0 \<and> rx_state s \<noteq> H5_W4_CRC
          then fold (\<lambda>d crc. h5_crc_update crc d) ds (message_crc s) else message_crc s)\<rparr>"

lemma recv_slip:
  assumes "rx_skb s = Some b" and "rx_buf (rx_state s) (rx_count s) b" and "length ds \<le> unat (rx_count s)"
    and "rx_esc_state s = H5_ESCSTATE_NOESC"
  shows "\<exists>b'. rtb_bytes b' = rtb_bytes b @ ds \<and> rx_buf (rx_state s) (rx_count s - of_nat (length ds)) b' \<and>
    (\<forall>cs complete. h5_recv s (slip oof ds @ cs) complete = h5_recv (rx_after s ds b') cs complete)"
  using assms
proof (induction ds arbitrary: s b)
  case Nil
  have "s\<lparr>rx_skb := Some b\<rparr> = s" using Nil.prems(1) by simp
  then have "rx_after s [] b = s" by (simp add: rx_after_def)
  then show ?case using Nil.prems by (intro exI [of _ b]) simp
next
  case (Cons d ds)
  have c: "rx_count s \<noteq> 0" using Cons.prems(3) by auto
  note a = rx_accept_spec [OF Cons.prems(2) c, of d]
  define s1 where "s1 = rx_accept s b d"
  have u: "unat (rx_count s - 1) = unat (rx_count s) - 1"
    using c by (simp add: unat_sub word_le_nat_alt unat_gt_0 Suc_le_eq)
  have len: "length ds \<le> unat (rx_count s - 1)" using Cons.prems(3) u by simp
  have f: "rx_skb s1 = Some (put_bytes b [d])" "rx_state s1 = rx_state s" "rx_count s1 = rx_count s - 1"
    "rx_esc_state s1 = H5_ESCSTATE_NOESC"
    using Cons.prems(4) by (simp_all add: s1_def a(1))
  obtain b' where b': "rtb_bytes b' = rtb_bytes b @ d # ds"
    "rx_buf (rx_state s) (rx_count s - 1 - of_nat (length ds)) b'"
    "\<And>cs complete. h5_recv s1 (slip oof ds @ cs) complete = h5_recv (rx_after s1 ds b') cs complete"
    using Cons.IH [OF f(1)] f a(2,3) len by auto
  have "rx_after s1 ds b' = rx_after s (d # ds) b'"
    using b'(1) by (simp add: rx_after_def s1_def a(1,3) nth_append algebra_simps)
  moreover have "h5_recv s (slip oof (d # ds) @ cs) complete = h5_recv s1 (slip oof ds @ cs) complete" for cs complete
    using recv_slip_byte [OF c Cons.prems(4,1)] by (simp add: s1_def)
  ultimately show ?case
    using b' by (intro exI [of _ b']) (simp add: algebra_simps)
qed

text \<open>The packet is complete: the receive machine reaches \<open>h5_complete_rx_pkt\<close> with the header and
  the payload in the buffer. Only the receive fields and the allocator have changed before.\<close>

definition rx_ready :: "tHCI_H5_CB \<Rightarrow> u8 list \<Rightarrow> tHCI_H5_CB \<Rightarrow> bool" where
  "rx_ready s pkt s' \<longleftrightarrow>
     (\<exists>b e st esc m. s' = s\<lparr>heap := e, rx_skb := Some b, rx_count := 0, rx_state := st, rx_esc_state := esc,
        message_crc := m\<rparr> \<and> malloc_ok e = malloc_ok (heap s) \<and> rtb_wf b \<and> rtb_bytes b = pkt)"

lemma rx_start_recv:
  assumes m: "\<And>n. malloc_ok (heap s) n" and s: "rx_count s = 0" "rx_state s = H5_W4_PKT_START"
  obtains b e where "rtb_bytes b = []" and "rx_buf H5_W4_HDR 4 b" and "malloc_ok e = malloc_ok (heap s)"
    and "\<And>c cs complete. c \<noteq> 0xc0 \<Longrightarrow> h5_recv s (c # cs) complete =
      h5_recv (s\<lparr>heap := e, rx_skb := Some b, rx_count := 4, rx_state := H5_W4_HDR,
        rx_esc_state := H5_ESCSTATE_NOESC, message_crc := H5_CRC_INIT\<rparr>) (c # cs) complete"
proof -
  obtain b e where a: "skb_alloc (heap s) 0x1005 = (Some b, e)" and e: "malloc_ok e = malloc_ok (heap s)"
    using RtbAllocate_Some [OF m] unfolding skb_alloc_def by metis
  note w = skb_alloc_wf [OF a]
  have "rx_buf H5_W4_HDR 4 b" "rtb_bytes b = []" using w by (simp_all add: rx_buf_def rx_goal_def)
  moreover have "rx_start s = (True, s\<lparr>heap := e, rx_skb := Some b, rx_count := 4, rx_state := H5_W4_HDR,
        rx_esc_state := H5_ESCSTATE_NOESC, message_crc := H5_CRC_INIT\<rparr>)"
    using a by (simp add: rx_start_def)
  ultimately show thesis using s e by (intro that [of b e]) (simp_all add: h5_recv.simps(2) [of s])
qed

lemma slip_Cons_ne: "slip oof (x # xs) @ ys \<noteq> [] \<and> hd (slip oof (x # xs) @ ys) \<noteq> 0xc0"
  by (simp add: slip_byte_def)


lemma rx_hdr_recv:
  assumes b: "rx_skb s = Some b" "rtb_wf b" "rtb_bytes b = h5_header ack seq r crc t len"
    and s: "rx_count s = 0" "rx_state s = H5_W4_HDR"
    and h: "ack < 8" "seq < 8" "t < 16" "len < 0x1000" and ord: "r \<longrightarrow> seq = rxseq_txack s"
  shows "h5_recv s (c # cs) complete = h5_recv (s\<lparr>rx_state := H5_W4_DATA, rx_count := len\<rparr>) (c # cs) complete"
proof -
  have l: "length (rtb_bytes b) = 4" by (simp add: b(3))
  have sb: "skb_byte b i = h5_header ack seq r crc t len ! i" if "i < 4" for i
    using skb_byte_bytes [OF b(2)] l that by (simp add: b(3))
  have chk: "NOT (skb_byte b 0 + skb_byte b 1 + skb_byte b 2) = skb_byte b 3"
    by (simp add: sb) (simp add: h5_header_def Let_def)
  have rel: "H5_HDR_RELIABLE (skb_byte b 0) \<noteq> 0 \<Longrightarrow> H5_HDR_SEQ (skb_byte b 0) = rxseq_txack s"
    using h5_header_h0 [OF h(1,2), of r crc t len] ord by (auto simp: sb split: if_splits)
  have len: "H5_HDR_LEN (skb_byte b 1) (skb_byte b 2) = len"
    using h5_header_h12 [OF h(3,4)] by (simp add: sb)
  have "rx_hdr s = s\<lparr>rx_state := H5_W4_DATA, rx_count := len\<rparr>"
    using chk rel len by (auto simp: rx_hdr_def b(1) Let_def)
  then show ?thesis using s by (simp add: h5_recv.simps(2) [of s])
qed

lemma rx_data_crc_recv:
  assumes b: "rx_skb s = Some b" "rtb_wf b" "0 < length (rtb_bytes b)" and s: "rx_count s = 0" "rx_state s = H5_W4_DATA"
  shows "h5_recv s (c # cs) complete =
    (if H5_HDR_CRC (rtb_bytes b ! 0) \<noteq> 0
     then h5_recv (s\<lparr>rx_state := H5_W4_CRC, rx_count := 2\<rparr>) (c # cs) complete
     else h5_recv (h5_complete_rx_pkt s) (c # cs) True)"
  using assms skb_byte_bytes [OF b(2,3)] by (simp add: h5_recv.simps(2) [of s] rx_data_def)

lemma crc_of_bytes:
  "ucast (ucast (w AND 0x00ff) :: u8) + push_bit 8 (ucast (ucast (drop_bit 8 w AND 0x00ff) :: u8)) = (w :: u16)"
proof -
  have m: "(0x00ff :: u16) = mask 8" by (simp add: mask_eq_exp_minus_1)
  have "ucast (ucast (w AND 0x00ff) :: u8) = (ucast (ucast w :: u8) :: u16)"
    and "(ucast (drop_bit 8 w AND 0x00ff) :: u8) = ucast (drop_bit 8 w)"
    unfolding m by (rule bit_word_eqI; auto simp: bit_simps)+
  then show ?thesis
    using uint16_stream_roundtrip [of w] by (simp add: stream_to_uint16_def uint16_to_stream_def)
qed

lemma rx_crc_recv:
  assumes b: "rx_skb s = Some b" "rtb_wf b" "rtb_bytes b = pkt @ crc_bytes pkt"
    and s: "rx_count s = 0" "rx_state s = H5_W4_CRC" and m: "message_crc s = h5_packet_crc pkt"
  obtains b' where "rtb_wf b'" and "rtb_bytes b' = pkt"
    and "\<And>c cs complete. h5_recv s (c # cs) complete = h5_recv (h5_complete_rx_pkt (s\<lparr>rx_skb := Some b'\<rparr>)) (c # cs) True"
proof -
  let ?b = "skb_trim b (skb_get_data_length b - 2)"
  have l: "length (rtb_bytes b) = length pkt + 2" by (simp add: b(3) crc_bytes_def)
  have n: "unat (skb_get_data_length b) = length pkt + 2"
    using rtb_Length_bytes [OF b(2)] l by (simp add: skb_get_data_length_def)
  have "skb_byte b (length pkt + 2 - 1) = crc_bytes pkt ! 1" "skb_byte b (length pkt + 2 - 2) = crc_bytes pkt ! 0"
    using skb_byte_bytes [OF b(2)] l by (simp_all add: b(3) nth_append)
  then have "h5_get_crc b = bit_rev16 (message_crc s)"
    by (simp add: h5_get_crc_def n Let_def m crc_bytes_def crc_of_bytes del: add_2_eq_Suc')
  then have "rx_crc s = (True, h5_complete_rx_pkt (s\<lparr>rx_skb := Some ?b\<rparr>))"
    by (simp add: rx_crc_def b(1))
  then have "h5_recv s (c # cs) complete = h5_recv (h5_complete_rx_pkt (s\<lparr>rx_skb := Some ?b\<rparr>)) (c # cs) True" for c cs complete
    using s by (simp add: h5_recv.simps(2) [of s])
  moreover have "2 \<le> length (rtb_bytes b)" using l by simp
  note t = skb_trim_last2 [OF b(2) this]
  have "rtb_bytes ?b = pkt" using t(2) l by (simp add: b(3))
  ultimately show thesis using t(1) that by blast
qed


lemma recv_header_data:
  fixes crc :: bool
  assumes m: "\<And>n. malloc_ok (heap s) n" and s: "rx_count s = 0" "rx_state s = H5_W4_PKT_START"
    and h: "ack < 8" "seq < 8" "t < 16" and d: "length d \<le> 0xFFF" and ord: "r \<longrightarrow> seq = rxseq_txack s"
  defines "hdr \<equiv> h5_header ack seq r crc t (of_nat (length d))"
  obtains b e where "malloc_ok e = malloc_ok (heap s)" and "rtb_bytes b = hdr @ d" and "rx_buf H5_W4_DATA 0 b"
    and "\<And>c cs complete. h5_recv s (slip oof hdr @ slip oof d @ c # cs) complete =
      h5_recv (s\<lparr>heap := e, rx_skb := Some b, rx_count := 0, rx_state := H5_W4_DATA,
        rx_esc_state := H5_ESCSTATE_NOESC,
        message_crc := (if crc then h5_packet_crc (hdr @ d) else H5_CRC_INIT)\<rparr>) (c # cs) complete"
proof -
  have len: "unat (of_nat (length d) :: u32) = length d" using d by (simp add: unat_of_nat take_bit_nat_eq_self)
  then have lt: "(of_nat (length d) :: u32) < 0x1000" using d by (simp add: word_less_nat_alt)
  have crcb: "H5_HDR_CRC (hdr ! 0) \<noteq> 0 \<longleftrightarrow> crc"
    using h5_header_h0(3) [OF h(1,2)] by (simp add: hdr_def)
  have hl: "length hdr = 4" by (simp add: hdr_def)
  obtain b0 e where b0: "rtb_bytes b0 = []" "rx_buf H5_W4_HDR 4 b0" "malloc_ok e = malloc_ok (heap s)"
    "\<And>c cs complete. c \<noteq> 0xc0 \<Longrightarrow> h5_recv s (c # cs) complete =
      h5_recv (s\<lparr>heap := e, rx_skb := Some b0, rx_count := 4, rx_state := H5_W4_HDR,
        rx_esc_state := H5_ESCSTATE_NOESC, message_crc := H5_CRC_INIT\<rparr>) (c # cs) complete"
    using rx_start_recv [OF m s] by blast
  define s1 where "s1 = s\<lparr>heap := e, rx_skb := Some b0, rx_count := 4, rx_state := H5_W4_HDR,
        rx_esc_state := H5_ESCSTATE_NOESC, message_crc := H5_CRC_INIT\<rparr>"
  have start: "h5_recv s (slip oof hdr @ ys) complete = h5_recv s1 (slip oof hdr @ ys) complete" for ys complete
  proof -
    obtain x xs where x: "hdr = x # xs" using hl by (cases hdr) auto
    then obtain c cs where "slip oof hdr @ ys = c # cs" "c \<noteq> 0xc0"
      using slip_Cons_ne [of oof x xs ys] by (cases "slip oof hdr @ ys") auto
    then show ?thesis using b0(4) by (simp add: s1_def)
  qed
  obtain b1 where b1: "rtb_bytes b1 = hdr" "rx_buf H5_W4_HDR 0 b1"
    "\<And>cs complete. h5_recv s1 (slip oof hdr @ cs) complete = h5_recv (rx_after s1 hdr b1) cs complete"
    using recv_slip [of s1 b0 hdr oof] b0 hl by (auto simp: s1_def)
  define s2 where "s2 = rx_after s1 hdr b1"
  have wf1: "rtb_wf b1" using b1(2) by (simp add: rx_buf_def)
  have s2: "rx_skb s2 = Some b1" "rx_count s2 = 0" "rx_state s2 = H5_W4_HDR" "rxseq_txack s2 = rxseq_txack s"
    using hl by (simp_all add: s2_def rx_after_def s1_def)
  define s3 where "s3 = s2\<lparr>rx_state := H5_W4_DATA, rx_count := of_nat (length d)\<rparr>"
  have hdr: "h5_recv s2 (c # cs) complete = h5_recv s3 (c # cs) complete" for c cs complete
    unfolding s3_def using s2 wf1 b1(1) h lt ord
    by (intro rx_hdr_recv [of s2 b1 ack seq r crc t]) (auto simp: hdr_def)
  have lenh: "H5_HDR_LEN (hdr ! 1) (hdr ! 2) = of_nat (length d)"
    unfolding hdr_def by (rule h5_header_h12(2) [OF h(3) lt])
  have r3: "rx_buf H5_W4_DATA (of_nat (length d)) b1"
    using b1(2) hl lenh by (simp add: rx_buf_def rx_goal_def b1(1) len)
  obtain b2 where b2: "rtb_bytes b2 = hdr @ d" "rx_buf H5_W4_DATA 0 b2"
    "\<And>cs complete. h5_recv s3 (slip oof d @ cs) complete = h5_recv (rx_after s3 d b2) cs complete"
    using recv_slip [of s3 b1 d oof] r3 len b1(1) s2 by (auto simp: s3_def s2_def rx_after_def s1_def)
  have h0: "(hdr @ d) ! 0 = hdr ! 0" using hl by (simp add: nth_append)
  have fin: "rx_after s3 d b2 = s\<lparr>heap := e, rx_skb := Some b2, rx_count := 0, rx_state := H5_W4_DATA,
        rx_esc_state := H5_ESCSTATE_NOESC,
        message_crc := (if crc then h5_packet_crc (hdr @ d) else H5_CRC_INIT)\<rparr>"
    using crcb by (simp add: rx_after_def s3_def s2_def s1_def b1(1) b2(1) h0 h5_packet_crc_def)
  have "h5_recv s (slip oof hdr @ slip oof d @ c # cs) complete = h5_recv (rx_after s3 d b2) (c # cs) complete" for c cs complete
  proof -
    obtain x xs where x: "slip oof d @ c # cs = x # xs" by (cases "slip oof d @ c # cs") auto
    have "h5_recv s (slip oof hdr @ slip oof d @ c # cs) complete = h5_recv s2 (slip oof d @ c # cs) complete"
      using start b1(3) by (simp add: s2_def)
    then show ?thesis using hdr b2(3) x by metis
  qed
  then show thesis using that [OF b0(3) b2(1,2)] fin by simp
qed

lemma recv_frame:
  fixes crc :: bool
  assumes m: "\<And>n. malloc_ok (heap s) n" and inv: "h5_inv s" and s: "rx_count s = 0" "\<not> rx_collecting (rx_state s)"
    and h: "ack < 8" "seq < 8" "t < 16" and d: "length d \<le> 0xFFF" and ord: "r \<longrightarrow> seq = rxseq_txack s"
  defines "hdr \<equiv> h5_header ack seq r crc t (of_nat (length d))"
  obtains s' where "rx_ready s (hdr @ d) s'" and "h5_inv ((h5_complete_rx_pkt s')\<lparr>rx_state := H5_W4_PKT_START\<rparr>)"
    and "\<And>rest complete. h5_recv s (h5_frame oof crc (hdr @ d) @ rest) complete =
      h5_recv ((h5_complete_rx_pkt s')\<lparr>rx_state := H5_W4_PKT_START\<rparr>) rest True"
proof -
  define s0 where "s0 = s\<lparr>rx_state := H5_W4_PKT_START\<rparr>"
  have st: "rx_state s = H5_W4_PKT_DELIMITER \<or> rx_state s = H5_W4_PKT_START"
    using s(2) by (cases "rx_state s") (auto simp: rx_collecting_def)
  have s0: "h5_recv s (0xc0 # cs) complete = h5_recv s0 cs complete" for cs complete
  proof (cases "rx_state s = H5_W4_PKT_START")
    case True
    then have "s0 = s" by (simp add: s0_def)
    then show ?thesis using True s(1) by (simp add: h5_recv.simps(2) [of s])
  next
    case False
    then show ?thesis using st s(1) by (simp add: h5_recv.simps(2) [of s] s0_def)
  qed
  have p0: "\<And>n. malloc_ok (heap s0) n" "rx_count s0 = 0" "rx_state s0 = H5_W4_PKT_START" "r \<longrightarrow> seq = rxseq_txack s0"
    using m s ord by (simp_all add: s0_def)
  have hl: "length hdr = 4" and crcb: "H5_HDR_CRC (hdr ! 0) \<noteq> 0 \<longleftrightarrow> crc"
    using h5_header_h0(3) [OF h(1,2)] by (simp_all add: hdr_def)
  obtain b e where b: "malloc_ok e = malloc_ok (heap s0)" "rtb_bytes b = hdr @ d" "rx_buf H5_W4_DATA 0 b"
    "\<And>c cs complete. h5_recv s0 (slip oof hdr @ slip oof d @ c # cs) complete =
      h5_recv (s0\<lparr>heap := e, rx_skb := Some b, rx_count := 0, rx_state := H5_W4_DATA,
        rx_esc_state := H5_ESCSTATE_NOESC,
        message_crc := (if crc then h5_packet_crc (hdr @ d) else H5_CRC_INIT)\<rparr>) (c # cs) complete"
    using recv_header_data [OF p0(1-3) h d p0(4)] unfolding hdr_def by metis
  define s1 where "s1 = s0\<lparr>heap := e, rx_skb := Some b, rx_count := 0, rx_state := H5_W4_DATA,
        rx_esc_state := H5_ESCSTATE_NOESC,
        message_crc := (if crc then h5_packet_crc (hdr @ d) else H5_CRC_INIT)\<rparr>"
  have wf: "rtb_wf b" "0 < length (rtb_bytes b)" using b(2,3) hl by (auto simp: rx_buf_def)
  have s1: "rx_skb s1 = Some b" "rx_count s1 = 0" "rx_state s1 = H5_W4_DATA" by (simp_all add: s1_def)
  have h0: "rtb_bytes b ! 0 = hdr ! 0" using hl by (simp add: b(2) nth_append)
  have "\<exists>s'. rx_ready s (hdr @ d) s' \<and> (\<forall>cs complete.
      h5_recv s1 (slip oof (if crc then crc_bytes (hdr @ d) else []) @ 0xc0 # cs) complete =
      h5_recv (h5_complete_rx_pkt s') (0xc0 # cs) True)"
  proof (cases crc)
    case False
    have "rx_ready s (hdr @ d) s1"
      using b wf unfolding rx_ready_def by (intro exI [of _ b] exI [of _ e]) (auto simp: s1_def s0_def)
    then show ?thesis
      using False crcb rx_data_crc_recv [OF s1(1) wf s1(2,3)] h0 by (intro exI [of _ s1]) simp
  next
    case True
    define s2 where "s2 = s1\<lparr>rx_state := H5_W4_CRC, rx_count := 2\<rparr>"
    have r2: "rx_buf (rx_state s2) (rx_count s2) b" using b(3) by (simp add: s2_def rx_buf_def rx_goal_def)
    obtain b2 where b2: "rtb_bytes b2 = (hdr @ d) @ crc_bytes (hdr @ d)" "rx_buf H5_W4_CRC 0 b2"
      "\<And>cs complete. h5_recv s2 (slip oof (crc_bytes (hdr @ d)) @ cs) complete =
        h5_recv (rx_after s2 (crc_bytes (hdr @ d)) b2) cs complete"
      using recv_slip [OF _ r2, of "crc_bytes (hdr @ d)" oof] b(2) by (auto simp: s2_def s1_def crc_bytes_def)
    define s3 where "s3 = rx_after s2 (crc_bytes (hdr @ d)) b2"
    have s3: "s3 = s\<lparr>heap := e, rx_skb := Some b2, rx_count := 0, rx_state := H5_W4_CRC,
        rx_esc_state := H5_ESCSTATE_NOESC, message_crc := h5_packet_crc (hdr @ d)\<rparr>"
      using True by (simp add: s3_def rx_after_def s2_def s1_def s0_def crc_bytes_def)
    have wf2: "rtb_wf b2" using b2(2) by (simp add: rx_buf_def)
    obtain b3 where b3: "rtb_wf b3" "rtb_bytes b3 = hdr @ d"
      "\<And>c cs complete. h5_recv s3 (c # cs) complete = h5_recv (h5_complete_rx_pkt (s3\<lparr>rx_skb := Some b3\<rparr>)) (c # cs) True"
      using rx_crc_recv [OF _ wf2 b2(1), of s3] by (auto simp: s3)
    have "rx_ready s (hdr @ d) (s3\<lparr>rx_skb := Some b3\<rparr>)"
      unfolding rx_ready_def s3
      by (rule exI [of _ b3], rule exI [of _ e], rule exI [of _ H5_W4_CRC], rule exI [of _ H5_ESCSTATE_NOESC],
          rule exI [of _ "h5_packet_crc (hdr @ d)"]) (use b3(1,2) b(1) in \<open>simp add: s0_def\<close>)
    moreover have "h5_recv s1 (slip oof (crc_bytes (hdr @ d)) @ 0xc0 # cs) complete =
        h5_recv (h5_complete_rx_pkt (s3\<lparr>rx_skb := Some b3\<rparr>)) (0xc0 # cs) True" for cs complete
    proof -
      obtain x xs where x: "slip oof (crc_bytes (hdr @ d)) @ 0xc0 # cs = x # xs"
        by (cases "slip oof (crc_bytes (hdr @ d)) @ 0xc0 # cs") auto
      have "h5_recv s1 (x # xs) complete = h5_recv s2 (x # xs) complete"
        using True crcb h0 rx_data_crc_recv [OF s1(1) wf s1(2,3)] by (simp add: s2_def)
      then show ?thesis using b2(3) b3(3) x unfolding s3_def by metis
    qed
    ultimately show ?thesis using True by auto
  qed
  then obtain s' where s': "rx_ready s (hdr @ d) s'"
    "\<And>cs complete. h5_recv s1 (slip oof (if crc then crc_bytes (hdr @ d) else []) @ 0xc0 # cs) complete =
      h5_recv (h5_complete_rx_pkt s') (0xc0 # cs) True" by blast
  have core: "core_inv s'" "rx_count s' = 0"
    using s'(1) inv by (auto simp: rx_ready_def h5_inv_def)
  obtain b' where b': "rx_skb s' = Some b'" "rtb_wf b'" using s'(1) by (auto simp: rx_ready_def)
  note c = h5_complete_rx_pkt_inv [OF core(1) b']
  have "h5_recv s (h5_frame oof crc (hdr @ d) @ rest) complete =
      h5_recv ((h5_complete_rx_pkt s')\<lparr>rx_state := H5_W4_PKT_START\<rparr>) rest True" for rest complete
  proof -
    obtain x xs where x: "slip oof (if crc then crc_bytes (hdr @ d) else []) @ 0xc0 # rest = x # xs"
      by (cases "slip oof (if crc then crc_bytes (hdr @ d) else []) @ 0xc0 # rest") auto
    have "h5_recv s (h5_frame oof crc (hdr @ d) @ rest) complete =
        h5_recv s0 (slip oof hdr @ slip oof d @ x # xs) complete"
      by (simp add: h5_frame_def h5_packet_def s0 flip: x)
    also have "\<dots> = h5_recv s1 (x # xs) complete" using b(4) by (simp add: s1_def)
    also have "\<dots> = h5_recv (h5_complete_rx_pkt s') (0xc0 # rest) True" using s'(2) x by metis
    also have "\<dots> = h5_recv ((h5_complete_rx_pkt s')\<lparr>rx_state := H5_W4_PKT_START\<rparr>) rest True"
      using c(2) core(2) by (simp add: h5_recv.simps(2) [of "h5_complete_rx_pkt s'"] rx_state_after)
    finally show ?thesis .
  qed
  moreover have "h5_inv ((h5_complete_rx_pkt s')\<lparr>rx_state := H5_W4_PKT_START\<rparr>)"
    using c core(2) by (simp add: h5_inv_def rx_inv_def rx_collecting_def)
  ultimately show thesis using that [OF s'(1)] by blast
qed

text \<open>A packet that is answered by the baud-rate timer instead of being handed up at once.\<close>

definition baudrate_event :: "u8 \<Rightarrow> u8 list \<Rightarrow> bool" where
  "baudrate_event t d \<longleftrightarrow> t = HCI_EVENT_PKT \<and> d ! 0 = HCI_COMMAND_COMPLETE_EVT \<and>
     stream_to_uint16 (d ! 3) (d ! 4) = HCI_VSC_UPDATE_BAUDRATE"

lemma complete_delivers:
  assumes inv: "core_inv s" and b: "rx_skb s = Some b" "rtb_wf b"
    and h: "ack < 8" "seq < 8" "t < 16" and len: "length d \<le> 0xFFF"
    and bytes: "rtb_bytes b = h5_header ack seq r crc t (of_nat (length d)) @ d"
    and up: "h5_pass_up t" and ev: "t = HCI_EVENT_PKT \<longrightarrow> 5 \<le> length d"
  defines "s' \<equiv> h5_complete_rx_pkt s"
  obtains c where "rtb_wf c" and "rtb_bytes c = d" and "rb_PacketType c = t"
    and "recv_data s' = recv_data s @ (if baudrate_event t d then [] else [c])"
    and "baudrate_event t d \<Longrightarrow> internal_skb s' = Some c"
    and "rxseq_txack s' = (if r then (seq + 1) mod 8 else rxseq_txack s)" and "rxack s' = ack"
proof -
  let ?hdr = "h5_header ack seq r crc t (of_nat (length d))"
  have lt: "(of_nat (length d) :: u32) < 0x1000"
    using len by (simp add: word_less_nat_alt unat_of_nat take_bit_nat_eq_self)
  have sb: "skb_byte b i = ?hdr ! i" if "i < 4" for i
    using skb_byte_bytes [OF b(2)] that by (simp add: bytes nth_append)
  have t: "H5_HDR_PKT_TYPE (skb_byte b 1) = t"
    using h5_header_h12(1) [OF h(3) lt] by (simp add: sb)
  have a: "H5_HDR_ACK (skb_byte b 0) = ack"
    using h5_header_h0 [OF h(1,2), of r crc t "of_nat (length d)"] by (simp add: sb)
  have rr: "H5_HDR_RELIABLE (skb_byte b 0) = of_bool r"
    using h5_header_h0 [OF h(1,2), of r crc t "of_nat (length d)"] by (simp add: sb)
  have sq: "r \<Longrightarrow> H5_HDR_SEQ (skb_byte b 0) = seq"
    using h5_header_h0 [OF h(1,2), of r crc t "of_nat (length d)"] by (simp add: sb)
  have nctl: "t \<noteq> H5_LINK_CTL_PKT" using up by (auto simp: h5_pass_up_def pkt_type_defs)
  define s1 where "s1 = (if r then h5_wake_up (s\<lparr>rxseq_txack := (seq + 1) mod 8, is_txack_req := 1\<rparr>) else s)"
  define s2 where "s2 = h5_remove_acked_pkt (s1\<lparr>rxack := ack\<rparr>)"
  define c where "c = skb_set_pkt_type (skb_pull b 4) t"
  define e where "e = snd (malloc (heap s2) (unat (8 + ucast (skb_get_data_length c) :: u16)))"
  obtain st s4 where hr: "hci_recv_frame (s2\<lparr>rx_skb := Some c, heap := e\<rparr>) c t = (st, s4)"
    by (cases "hci_recv_frame (s2\<lparr>rx_skb := Some c, heap := e\<rparr>) c t")
  have s': "s' = (if st then s4 else s4\<lparr>recv_data := recv_data s4 @ [c]\<rparr>)\<lparr>rx_state := H5_W4_PKT_DELIMITER, rx_skb := None\<rparr>"
    using nctl up hr sq unfolding s'_def h5_complete_rx_pkt_def b(1) option.case Let_def t a
    by (simp add: rr s1_def s2_def c_def e_def split del: if_split cong: if_cong)
  let ?w = "s\<lparr>rxseq_txack := (seq + 1) mod 8, is_txack_req := 1\<rparr>"
  have "tx_rest (h5_wake_up ?w) = tx_rest ?w"
    using tx_keeps_wake_up [of ?w] core_inv_tx [OF inv] by (simp add: tx_keeps_def mod8_less)
  note wr = tx_rest_fields [OF this]
  have s1: "recv_data s1 = recv_data s" "rxseq_txack s1 = (if r then (seq + 1) mod 8 else rxseq_txack s)"
    using wr by (simp_all add: s1_def)
  obtain n tm k where f: "s2 = s1\<lparr>rxack := ack\<rparr>\<lparr>unack := drop n (unack (s1\<lparr>rxack := ack\<rparr>)), timer_data_retrans := tm,
      data_retrans_count := k\<rparr>"
    using h5_remove_acked_pkt_frame [of "s1\<lparr>rxack := ack\<rparr>"] unfolding s2_def by metis
  have s2: "recv_data s2 = recv_data s" "rxseq_txack s2 = (if r then (seq + 1) mod 8 else rxseq_txack s)" "rxack s2 = ack"
    using s1 by (simp_all add: f)
  have "unat (4 :: u32) \<le> length (rtb_bytes b)" by (simp add: bytes)
  note pl = skb_pull_bytes [OF b(2) this]
  have c: "rtb_wf c" "rtb_bytes c = d" "rb_PacketType c = t"
    using pl by (simp_all add: c_def bytes) (simp add: skb_set_pkt_type_def)
  have ev': "skb_byte c 0 = d ! 0" "skb_byte c 3 = d ! 3" "skb_byte c 4 = d ! 4" if "t = HCI_EVENT_PKT"
    using skb_byte_bytes [OF c(1), of 0] skb_byte_bytes [OF c(1), of 3] skb_byte_bytes [OF c(1), of 4] ev that
    by (cases d; simp add: c(2))+
  have "st = baudrate_event t d"
    using hr ev' by (auto simp: hci_recv_frame_def baudrate_event_def Let_def split: if_splits)
  moreover have "recv_data s4 = recv_data s" "rxseq_txack s4 = rxseq_txack s2" "rxack s4 = ack"
    using hr s2 by (auto simp: hci_recv_frame_def Let_def timer_defs split: if_splits)
  moreover have "st \<Longrightarrow> internal_skb s4 = Some c"
    using hr by (auto simp: hci_recv_frame_def Let_def timer_defs split: if_splits)
  ultimately show thesis using that [OF c] s2 by (simp add: s')
qed

end
