(* ===== verification/H5Api.thy ===== *)
theory H5Api
  imports H5Rx
begin

text \<open>
  The interface of the three-wire transport (\<open>hci_h5_int_func_table\<close> of hardware/bt/src/hci_h5.c),
  its two threads and its timers, put together as a transition system: every call, every byte
  received, every round of a thread and every timer expiry is one step. The invariant of the control
  block holds in every reachable state.
\<close>

section \<open>Initialisation and clean-up\<close>

definition create_data_retransfer_thread :: "bool \<Rightarrow> tHCI_H5_CB \<Rightarrow> int \<times> tHCI_H5_CB" where
  "create_data_retransfer_thread ok s =
     (let s = s\<lparr>h5_retransfer_running := 1, h5_ready_events := 0\<rparr>
      in if ok then (0, s) else (-1, s\<lparr>h5_retransfer_running := 0\<rparr>))"

definition create_data_ready_cb_thread :: "bool \<Rightarrow> tHCI_H5_CB \<Rightarrow> int \<times> tHCI_H5_CB" where
  "create_data_ready_cb_thread ok s =
     (let s = s\<lparr>h5_data_ready_running := 1\<rparr>
      in if ok then (0, s) else (-1, s\<lparr>h5_data_ready_running := 0\<rparr>))"

text \<open>\<open>memset_s(&rtk_h5, ...)\<close> with zero: the control block itself, not the globals beside it.\<close>

definition h5_memset :: "tHCI_H5_CB \<Rightarrow> tHCI_H5_CB" where
  "h5_memset s =
     s\<lparr>sliding_window_size := 0, oof_flow_control := 0, dic_type := 0, unack := [], rel := [],
       unrel := [], recv_data := [], rxseq_txack := 0, rxack := 0, use_crc := 0, is_txack_req := 0,
       msgq_txseq := 0, message_crc := 0, rx_count := 0, rx_state := H5_W4_PKT_DELIMITER,
       rx_esc_state := H5_ESCSTATE_NOESC, link_estab_state := H5_UNINITIALIZED, rx_skb := None,
       data_skb := None, internal_skb := None, data_retrans_count := 0, sync_retrans_count := 0,
       conf_retrans_count := 0, cleanuping := 0\<rparr>"

text \<open>\<open>hci_h5_int_init\<close>; \<open>tc i\<close>: the \<open>i\<close>-th \<open>timer_create\<close> succeeds, \<open>th1\<close> and \<open>th2\<close>: the
  \<open>pthread_create\<close> of the two threads. The four \<open>RtbQueueInit\<close> calls, whose results the code does
  not check, return a queue.\<close>

definition hci_h5_int_init :: "(nat \<Rightarrow> bool) \<Rightarrow> bool \<Rightarrow> bool \<Rightarrow> tHCI_H5_CB \<Rightarrow> tHCI_H5_CB" where
  "hci_h5_int_init tc th1 th2 s =
     (let s = h5_memset s;
          s = s\<lparr>num_hci_cmd_pkts := 1\<rparr>;
          s = s\<lparr>timer_data_retrans := OsAllocateTimer (tc 0), timer_sync_retrans := OsAllocateTimer (tc 1),
                timer_conf_retrans := OsAllocateTimer (tc 2),
                timer_wait_ct_baudrate_ready := OsAllocateTimer (tc 3),
                timer_h5_hw_init_ready := OsAllocateTimer (tc 4)\<rparr>;
          s = s\<lparr>recv_data := []\<rparr>;
          s = snd (create_data_ready_cb_thread th1 s);
          s = snd (create_data_retransfer_thread th2 s);
          s = s\<lparr>unack := [], rel := [], unrel := []\<rparr>;
          s = s\<lparr>rx_state := H5_W4_PKT_DELIMITER, rx_esc_state := H5_ESCSTATE_NOESC\<rparr>
      in s\<lparr>h5_init_datatrans_flag := 1\<rparr>)"

definition hci_h5_cleanup :: "tHCI_H5_CB \<Rightarrow> tHCI_H5_CB" where
  "hci_h5_cleanup s =
     (let s = s\<lparr>cleanuping := 1\<rparr>;
          s = s\<lparr>timer_data_retrans := snd (OsFreeTimer (timer_data_retrans s)),
                timer_sync_retrans := snd (OsFreeTimer (timer_sync_retrans s)),
                timer_conf_retrans := snd (OsFreeTimer (timer_conf_retrans s)),
                timer_wait_ct_baudrate_ready := snd (OsFreeTimer (timer_wait_ct_baudrate_ready s)),
                timer_h5_hw_init_ready := snd (OsFreeTimer (timer_h5_hw_init_ready s))\<rparr>;
          s = (if h5_data_ready_running s \<noteq> 0 then s\<lparr>h5_data_ready_running := 0\<rparr> else s);
          s = (if h5_retransfer_running s \<noteq> 0
               then h5_retransfer_signal_event (s\<lparr>h5_retransfer_running := 0\<rparr>) H5_EVENT_EXIT else s);
          s = s\<lparr>unack := [], rel := [], unrel := []\<rparr>
      in s\<lparr>internal_skb := None\<rparr>)"

section \<open>Sending and reading\<close>

text \<open>Common to the three senders: copy, queue, wake up. \<open>0xFFFF\<close> is the \<open>-1\<close> of a 16-bit result.\<close>

definition hci_h5_send_acl_data :: "tHCI_H5_CB \<Rightarrow> u8 \<Rightarrow> u8 list \<Rightarrow> u16 \<times> tHCI_H5_CB" where
  "hci_h5_send_acl_data s type data =
     (case skb_alloc_and_init (heap s) type data of
        (None, e) \<Rightarrow> (0xFFFF, s\<lparr>heap := e\<rparr>)
      | (Some skb, e) \<Rightarrow> (of_nat (length data), h5_wake_up (h5_enqueue (s\<lparr>heap := e\<rparr>) skb)))"

definition hci_h5_send_sco_data :: "tHCI_H5_CB \<Rightarrow> u8 \<Rightarrow> u8 list \<Rightarrow> u16 \<times> tHCI_H5_CB" where
  "hci_h5_send_sco_data s type data =
     (case skb_alloc_and_init (heap s) type data of
        (None, e) \<Rightarrow> (0xFFFF, s\<lparr>heap := e\<rparr>)
      | (Some skb, e) \<Rightarrow> (of_nat (length data), h5_wake_up (h5_enqueue (s\<lparr>heap := e\<rparr>) skb)))"

text \<open>The opcode is read from the first two bytes of the command, which the caller provides.\<close>

definition hci_h5_send_cmd :: "tHCI_H5_CB \<Rightarrow> u8 \<Rightarrow> u8 list \<Rightarrow> u16 \<times> tHCI_H5_CB" where
  "hci_h5_send_cmd s type data =
     (if type \<noteq> HCI_COMMAND_PKT then (0xFFFF, s)
      else case skb_alloc_and_init (heap s) type data of
             (None, e) \<Rightarrow> (0xFFFF, s\<lparr>heap := e\<rparr>)
           | (Some skb, e) \<Rightarrow>
               let s = h5_enqueue (s\<lparr>heap := e\<rparr>) skb;
                   s = s\<lparr>num_hci_cmd_pkts := num_hci_cmd_pkts s - 1\<rparr>;
                   opcode = stream_to_uint16 (byte_at data 0) (byte_at data 1);
                   s = (if opcode = 0x0c03 then h5_stop_hw_init_ready_timer s else s)
               in (of_nat (length data), h5_wake_up s))"


definition hci_h5_send_sync_cmd :: "tHCI_H5_CB \<Rightarrow> u16 \<Rightarrow> bool \<times> tHCI_H5_CB" where
  "hci_h5_send_sync_cmd s opcode =
     (case link_estab_state s of
        H5_UNINITIALIZED \<Rightarrow>
          (True, if opcode = HCI_VSC_H5_INIT
                 then let s = h5_start_hw_init_ready_timer s;
                          s = hci_h5_send_sync_req s
                      in h5_start_sync_retrans_timer s
                 else s)
      | H5_INITIALIZED \<Rightarrow> (True, s)
      | H5_ACTIVE \<Rightarrow> (False, s))"

text \<open>\<open>hci_h5_int_read_data\<close>: the bytes stored in the caller's buffer and the count, \<open>None\<close> for
  the \<open>-1\<close> returned when there is no packet.\<close>

definition hci_h5_int_read_data :: "tHCI_H5_CB \<Rightarrow> u32 \<Rightarrow> (u8 list \<times> u32) option \<times> tHCI_H5_CB" where
  "hci_h5_int_read_data s max_size =
     (case data_skb s of
        None \<Rightarrow> (None, s)
      | Some skb \<Rightarrow>
          let data_len = skb_get_data_length skb in
          if data_len \<le> max_size then (Some (skb_payload skb, data_len), s\<lparr>data_skb := None\<rparr>)
          else (Some (take (unat max_size) (skb_payload skb), max_size),
                s\<lparr>data_skb := Some (skb_pull skb max_size)\<rparr>))"

text \<open>One round of \<open>data_ready_cb_thread\<close>; \<open>None\<close> while it waits for a packet.\<close>

definition data_ready_round :: "tHCI_H5_CB \<Rightarrow> (bool \<times> tHCI_H5_CB) option" where
  "data_ready_round s =
     (if h5_data_ready_running s = 0 then Some (False, s)
      else case recv_data s of
             [] \<Rightarrow> None
           | skb # q \<Rightarrow>
               Some (True, s\<lparr>recv_data := q, data_skb := Some skb,
                 data_ready_calls := data_ready_calls s @ [(skb_get_pkt_type skb, skb_get_data_length skb)]\<rparr>))"

section \<open>The transition system\<close>

text \<open>A timer that expires is reloaded from its interval, or disarmed when that is zero.\<close>

definition timer_expire :: "itimerspec option \<Rightarrow> itimerspec option" where
  "timer_expire t = map_option (\<lambda>i. i\<lparr>it_value := it_interval i\<rparr>) t"

inductive h5_step :: "tHCI_H5_CB \<Rightarrow> tHCI_H5_CB \<Rightarrow> bool" where
  recv_byte: "h5_step s (snd (hci_h5_receive_msg s [c]))"
| send_cmd: "length d < 2 ^ 16 \<Longrightarrow> h5_step s (snd (hci_h5_send_cmd s t d))"
| send_acl: "length d < 2 ^ 16 \<Longrightarrow> h5_step s (snd (hci_h5_send_acl_data s t d))"
| send_sco: "length d < 2 ^ 16 \<Longrightarrow> h5_step s (snd (hci_h5_send_sco_data s t d))"
| send_sync: "h5_step s (snd (hci_h5_send_sync_cmd s opcode))"
| read_data: "h5_step s (snd (hci_h5_int_read_data s n))"
| set_flag: "h5_step s (s\<lparr>h5_init_datatrans_flag := f\<rparr>)"
| ready: "data_ready_round s = Some (go, s') \<Longrightarrow> h5_step s s'"
| retransfer: "data_retransfer_round s = Some (go, s') \<Longrightarrow> h5_step s s'"
| t_data: "timer_armed (timer_data_retrans s) \<Longrightarrow>
    h5_step s (h5_retransfer_timeout_handler (s\<lparr>timer_data_retrans := timer_expire (timer_data_retrans s)\<rparr>))"
| t_sync: "timer_armed (timer_sync_retrans s) \<Longrightarrow>
    h5_step s (h5_sync_retrans_timeout_handler (s\<lparr>timer_sync_retrans := timer_expire (timer_sync_retrans s)\<rparr>))"
| t_conf: "timer_armed (timer_conf_retrans s) \<Longrightarrow>
    h5_step s (h5_conf_retrans_timeout_handler (s\<lparr>timer_conf_retrans := timer_expire (timer_conf_retrans s)\<rparr>))"
| t_baud: "timer_armed (timer_wait_ct_baudrate_ready s) \<Longrightarrow>
    h5_step s (h5_wait_controller_baudrate_ready_timeout_handler
      (s\<lparr>timer_wait_ct_baudrate_ready := timer_expire (timer_wait_ct_baudrate_ready s)\<rparr>))"
| t_hw: "timer_armed (timer_h5_hw_init_ready s) \<Longrightarrow>
    h5_step s (h5_hw_init_ready_timeout_handler
      (s\<lparr>timer_h5_hw_init_ready := timer_expire (timer_h5_hw_init_ready s)\<rparr>))"

text \<open>States reachable from an initialisation of a control block that has not faulted.\<close>

inductive h5_reach :: "tHCI_H5_CB \<Rightarrow> bool" where
  init: "\<not> null_deref s \<Longrightarrow> h5_reach (hci_h5_int_init tc th1 th2 s)"
| step: "h5_reach s \<Longrightarrow> h5_step s s' \<Longrightarrow> h5_reach s'"

inductive_cases h5_stepE: "h5_step s s'"

section \<open>The invariant holds in every reachable state\<close>

lemma init_fields:
  "unack (hci_h5_int_init tc th1 th2 s) = []" "rel (hci_h5_int_init tc th1 th2 s) = []"
  "unrel (hci_h5_int_init tc th1 th2 s) = []" "recv_data (hci_h5_int_init tc th1 th2 s) = []"
  "sliding_window_size (hci_h5_int_init tc th1 th2 s) = 0" "msgq_txseq (hci_h5_int_init tc th1 th2 s) = 0"
  "rxseq_txack (hci_h5_int_init tc th1 th2 s) = 0" "rxack (hci_h5_int_init tc th1 th2 s) = 0"
  "rx_count (hci_h5_int_init tc th1 th2 s) = 0" "rx_state (hci_h5_int_init tc th1 th2 s) = H5_W4_PKT_DELIMITER"
  "link_estab_state (hci_h5_int_init tc th1 th2 s) = H5_UNINITIALIZED"
  "data_skb (hci_h5_int_init tc th1 th2 s) = None" "internal_skb (hci_h5_int_init tc th1 th2 s) = None"
  "data_retrans_count (hci_h5_int_init tc th1 th2 s) = 0" "sync_retrans_count (hci_h5_int_init tc th1 th2 s) = 0"
  "conf_retrans_count (hci_h5_int_init tc th1 th2 s) = 0"
  "null_deref (hci_h5_int_init tc th1 th2 s) = null_deref s"
  "timer_wait_ct_baudrate_ready (hci_h5_int_init tc th1 th2 s) = OsAllocateTimer (tc 3)"
  "transmitted (hci_h5_int_init tc th1 th2 s) = transmitted s"
  "heap (hci_h5_int_init tc th1 th2 s) = heap s"
  by (simp_all add: hci_h5_int_init_def Let_def h5_memset_def create_data_ready_cb_thread_def
      create_data_retransfer_thread_def)

lemma hci_h5_int_init_inv: "\<not> null_deref s \<Longrightarrow> h5_inv (hci_h5_int_init tc th1 th2 s)"
  by (simp add: h5_inv_def core_inv_def tx_inv_def rx_inv_def rx_collecting_def init_fields
      buf_ok_def one_shot_def OsAllocateTimer_def timer_armed_def)

lemma h5_inv_keeps: "h5_inv s \<Longrightarrow> tx_keeps s s' \<Longrightarrow> h5_inv s'"
  using core_inv_keeps [of s s'] rx_part_keeps [of s s'] by (simp add: h5_inv_def rx_inv_def rx_part_def)

lemma h5_inv_frame: "core_inv s' \<Longrightarrow> rx_part s' = rx_part s \<Longrightarrow> h5_inv s \<Longrightarrow> h5_inv s'"
  by (simp add: h5_inv_def rx_inv_def rx_part_def)

lemma h5_inv_core: "h5_inv s \<Longrightarrow> core_inv s"
  by (simp add: h5_inv_def)

text \<open>Queueing a fresh packet and waking up, as every sender does.\<close>

lemma enqueue_wake_inv:
  assumes inv: "core_inv s" and wf: "rtb_wf skb"
  shows "core_inv (h5_enqueue s skb)" and "core_inv (h5_wake_up (h5_enqueue s skb))"
    and "rx_part (h5_wake_up (h5_enqueue s skb)) = rx_part s" and "rx_part (h5_enqueue s skb) = rx_part s"
proof -
  note q = h5_enqueue_inv [OF core_inv_tx [OF inv] wf]
  show c: "core_inv (h5_enqueue s skb)"
    using inv q by (simp add: core_inv_def tx_rest_fields [OF q(2)])
  show "core_inv (h5_wake_up (h5_enqueue s skb))"
    using c by (intro core_inv_send core_inv_tx)
  show r: "rx_part (h5_enqueue s skb) = rx_part s" by (simp add: h5_enqueue_def rx_part_def)
  show "rx_part (h5_wake_up (h5_enqueue s skb)) = rx_part s"
    using rx_part_keeps [OF tx_keeps_wake_up [OF q(1)]] r by simp
qed

lemma send_acl_inv:
  assumes inv: "h5_inv s" and d: "length d < 2 ^ 16"
  shows "h5_inv (snd (hci_h5_send_acl_data s t d))"
proof -
  obtain ob e where a: "skb_alloc_and_init (heap s) t d = (ob, e)" by (cases "skb_alloc_and_init (heap s) t d")
  show ?thesis
  proof (cases ob)
    case None
    then show ?thesis using a inv by (simp add: hci_h5_send_acl_data_def h5_inv_def rx_inv_def)
  next
    case (Some skb)
    have "rtb_wf skb" using skb_alloc_and_init_wf(1) [OF a [unfolded Some]] d by simp
    from enqueue_wake_inv(2,3) [OF _ this, of "s\<lparr>heap := e\<rparr>"] show ?thesis
      using a Some inv h5_inv_frame [OF _ _ inv] by (simp add: hci_h5_send_acl_data_def h5_inv_core)
  qed
qed

lemma send_sco_eq: "hci_h5_send_sco_data = hci_h5_send_acl_data"
  by (intro ext) (simp add: hci_h5_send_sco_data_def hci_h5_send_acl_data_def)

lemma send_cmd_inv:
  assumes inv: "h5_inv s" and d: "length d < 2 ^ 16"
  shows "h5_inv (snd (hci_h5_send_cmd s t d))"
proof -
  obtain ob e where a: "skb_alloc_and_init (heap s) t d = (ob, e)" by (cases "skb_alloc_and_init (heap s) t d")
  show ?thesis
  proof (cases "t = HCI_COMMAND_PKT \<and> ob \<noteq> None")
    case False
    then show ?thesis using a inv by (auto simp: hci_h5_send_cmd_def h5_inv_def rx_inv_def)
  next
    case True
    then obtain skb where ob: "ob = Some skb" by auto
    have wf: "rtb_wf skb" using skb_alloc_and_init_wf(1) [OF a [unfolded ob]] d by simp
    define s1 where "s1 = h5_enqueue (s\<lparr>heap := e\<rparr>) skb"
    have c: "core_inv s1" "rx_part s1 = rx_part s"
      using enqueue_wake_inv [OF _ wf, of "s\<lparr>heap := e\<rparr>"] inv by (simp_all add: s1_def h5_inv_core)
    define s2 where "s2 = (if stream_to_uint16 (byte_at d 0) (byte_at d 1) = 0x0c03
      then h5_stop_hw_init_ready_timer (s1\<lparr>num_hci_cmd_pkts := num_hci_cmd_pkts s1 - 1\<rparr>)
      else s1\<lparr>num_hci_cmd_pkts := num_hci_cmd_pkts s1 - 1\<rparr>)"
    have "h5_inv s2"
      using c by (intro h5_inv_frame [OF _ _ inv]) (auto simp: s2_def timer_defs rx_part_def)
    moreover have "snd (hci_h5_send_cmd s t d) = h5_wake_up s2"
      using True a ob by (simp add: hci_h5_send_cmd_def Let_def s2_def s1_def)
    ultimately show ?thesis using h5_inv_keeps tx_keeps_wake_up h5_inv_core core_inv_tx by metis
  qed
qed

lemma send_sync_cmd_inv:
  assumes "h5_inv s"
  shows "h5_inv (snd (hci_h5_send_sync_cmd s opcode))"
proof -
  have "h5_inv (h5_start_hw_init_ready_timer s)"
    by (rule h5_inv_frame [OF _ _ assms]) (use assms in \<open>simp_all add: h5_inv_core rx_part_def timer_defs\<close>)
  then have i: "h5_inv (hci_h5_send_sync_req (h5_start_hw_init_ready_timer s))"
    using h5_inv_keeps send_keeps(1) h5_inv_core core_inv_tx by metis
  have "h5_inv (h5_start_sync_retrans_timer (hci_h5_send_sync_req (h5_start_hw_init_ready_timer s)))"
    by (rule h5_inv_frame [OF _ _ i]) (use i in \<open>simp_all add: h5_inv_core rx_part_def timer_defs\<close>)
  with assms show ?thesis
    by (simp add: hci_h5_send_sync_cmd_def Let_def split: tH5_LINK_STATE.split)
qed

lemma read_data_inv:
  assumes "h5_inv s"
  shows "h5_inv (snd (hci_h5_int_read_data s n))"
proof (rule h5_inv_frame [OF _ _ assms])
  note c = h5_inv_core [OF assms]
  show "core_inv (snd (hci_h5_int_read_data s n))"
    using core_inv_bounded(1) [OF c] core_inv_bounded(7) [OF c] c
    by (auto simp: hci_h5_int_read_data_def Let_def buf_ok_def skb_pull_wf split: option.split)
  show "rx_part (snd (hci_h5_int_read_data s n)) = rx_part s"
    by (auto simp: hci_h5_int_read_data_def Let_def rx_part_def split: option.split)
qed

lemma data_ready_inv:
  assumes "h5_inv s" and "data_ready_round s = Some (go, s')"
  shows "h5_inv s'"
proof (rule h5_inv_frame [OF _ _ assms(1)])
  have c: "core_inv s" by (rule h5_inv_core [OF assms(1)])
  have w: "core_inv (s\<lparr>recv_data := q, data_skb := Some skb, data_ready_calls := r\<rparr>)" if "recv_data s = skb # q" for skb q r
  proof -
    have "list_all rtb_wf (skb # q)" using core_inv_updates(24) [OF c] that by simp
    then show ?thesis using core_inv_bounded(1) [of "s\<lparr>recv_data := q\<rparr>" "Some skb"] c by (simp add: buf_ok_def)
  qed
  show "core_inv s'" using c w assms(2) by (auto simp: data_ready_round_def split: if_splits list.splits)
  show "rx_part s' = rx_part s"
    using assms(2) by (auto simp: data_ready_round_def rx_part_def split: if_splits list.splits)
qed

lemma retransfer_inv:
  assumes inv: "h5_inv s" and r: "data_retransfer_round s = Some (go, s')"
  shows "h5_inv s'"
proof -
  define s0 where "s0 = s\<lparr>h5_ready_events := 0\<rparr>"
  have c0: "core_inv s0" using h5_inv_core [OF inv] by (simp add: s0_def)
  define s1 where "s1 = (requeue_unack s0)\<lparr>data_retrans_count := data_retrans_count s0 + 1\<rparr>"
  have seq: "msgq_txseq s0 < 8" using core_inv_tx [OF c0] by (simp add: tx_inv_def)
  have q: "requeue_unack s0 = s0\<lparr>unack := [], msgq_txseq := base_seq s0, rel := unack s0 @ rel s0\<rparr>"
    by (rule requeue_unack_spec [OF seq])
  have i1: "h5_inv s1" if "data_retrans_count s0 < data_retrans_limit s0"
  proof (rule h5_inv_frame [OF _ _ inv])
    have "data_retrans_limit s0 \<le> 200" by (simp add: data_retrans_limit_def)
    with that have "data_retrans_count s0 + 1 \<le> 200"
      by (simp add: word_le_nat_alt word_less_nat_alt unat_plus_if')
    then show "core_inv s1"
      using core_inv_bounded(5) [OF c0] requeue_unack_inv [OF core_inv_tx [OF c0]] unfolding s1_def q
      by (intro core_inv_bounded(2))
    show "rx_part s1 = rx_part s" unfolding s1_def q by (simp add: s0_def rx_part_def)
  qed
  have i0: "h5_inv s0" "h5_inv (rtkbt_h5_send_hw_error s0)"
    by (rule h5_inv_frame [OF _ _ inv]; use c0 in \<open>simp add: s0_def rx_part_def rtkbt_h5_send_hw_error_def\<close>)+
  have w: "h5_inv (h5_wake_up s1)" if "h5_inv s1"
    using h5_inv_keeps [OF that tx_keeps_wake_up] h5_inv_core [OF that] core_inv_tx by blast
  have "data_retransfer_round s =
      (if h5_retransfer_running s = 0 then Some (False, s)
       else if h5_ready_events s = 0 then None
       else if h5_ready_events s AND H5_EVENT_RX \<noteq> 0
         then (if data_retrans_count s0 < data_retrans_limit s0 then Some (True, h5_wake_up s1)
               else Some (True, rtkbt_h5_send_hw_error s0))
       else if h5_ready_events s AND H5_EVENT_EXIT \<noteq> 0 then Some (False, s0) else Some (True, s0))"
    unfolding data_retransfer_round_def Let_def s0_def [symmetric] s1_def by (simp add: q)
  then show ?thesis using r inv i0 i1 w by (auto split: if_splits)
qed

lemma sync_timeout_inv:
  assumes inv: "h5_inv s"
  shows "h5_inv (h5_sync_retrans_timeout_handler s)"
proof -
  let ?s = "hci_h5_send_sync_req s"
  have i: "h5_inv ?s" using h5_inv_keeps [OF inv send_keeps(1)] core_inv_tx [OF h5_inv_core [OF inv]] .
  have c: "sync_retrans_count ?s = sync_retrans_count s"
    using send_keeps(1) [OF core_inv_tx [OF h5_inv_core [OF inv]]] unfolding tx_keeps_def
    by (elim conjE) (rule tx_rest_fields(21))
  have a: "h5_inv (?s\<lparr>sync_retrans_count := sync_retrans_count ?s + 1\<rparr>)" if "sync_retrans_count s < 350"
  proof (rule h5_inv_frame [OF _ _ i])
    have "sync_retrans_count s + 1 \<le> 350"
      using that by (simp add: word_le_nat_alt word_less_nat_alt unat_plus_if')
    then show "core_inv (?s\<lparr>sync_retrans_count := sync_retrans_count ?s + 1\<rparr>)"
      using core_inv_bounded(3,4) [OF h5_inv_core [OF i]] by (simp add: c)
  qed (simp add: rx_part_def)
  have n: "rx_part (rtk_notify_hw_h5_init_result s st) = rx_part s" for st
    by (auto simp: rtk_notify_hw_h5_init_result_def split: prod.split option.split)
  have b: "h5_inv (h5_stop_sync_retrans_timer (rtk_notify_hw_h5_init_result s st))" "h5_inv (h5_stop_sync_retrans_timer s)" for st
    using h5_inv_core [OF inv] n
    by (auto intro!: h5_inv_frame [OF _ _ inv] core_inv_notify simp: timer_defs rx_part_def)
  show ?thesis using inv a b by (simp add: h5_sync_retrans_timeout_handler_def Let_def)
qed

lemma conf_timeout_inv:
  assumes inv: "h5_inv s"
  shows "h5_inv (h5_conf_retrans_timeout_handler s)"
proof -
  let ?s = "hci_h5_send_conf_req s"
  have i: "h5_inv ?s" using h5_inv_keeps [OF inv send_keeps(3)] core_inv_tx [OF h5_inv_core [OF inv]] .
  have c: "conf_retrans_count ?s = conf_retrans_count s"
    using send_keeps(3) [OF core_inv_tx [OF h5_inv_core [OF inv]]] unfolding tx_keeps_def
    by (elim conjE) (rule tx_rest_fields(22))
  have a: "h5_inv (?s\<lparr>conf_retrans_count := conf_retrans_count ?s + 1\<rparr>)" if "conf_retrans_count s < 350"
  proof (rule h5_inv_frame [OF _ _ i])
    have "conf_retrans_count s + 1 \<le> 350"
      using that by (simp add: word_le_nat_alt word_less_nat_alt unat_plus_if')
    then show "core_inv (?s\<lparr>conf_retrans_count := conf_retrans_count ?s + 1\<rparr>)"
      using core_inv_bounded(3,4) [OF h5_inv_core [OF i]] by (simp add: c)
  qed (simp add: rx_part_def)
  have n: "rx_part (rtk_notify_hw_h5_init_result s st) = rx_part s" for st
    by (auto simp: rtk_notify_hw_h5_init_result_def split: prod.split option.split)
  have b: "h5_inv (h5_stop_conf_retrans_timer (rtk_notify_hw_h5_init_result s st))" "h5_inv (h5_stop_conf_retrans_timer s)" for st
    using h5_inv_core [OF inv] n
    by (auto intro!: h5_inv_frame [OF _ _ inv] core_inv_notify simp: timer_defs rx_part_def)
  show ?thesis using inv a b by (simp add: h5_conf_retrans_timeout_handler_def Let_def)
qed

lemma baud_timeout_inv:
  assumes inv: "h5_inv s" and t: "timer_armed (timer_wait_ct_baudrate_ready s)"
  shows "h5_inv (h5_wait_controller_baudrate_ready_timeout_handler
      (s\<lparr>timer_wait_ct_baudrate_ready := timer_expire (timer_wait_ct_baudrate_ready s)\<rparr>))"
proof (rule h5_inv_frame [OF _ _ inv])
  have c: "core_inv s" by (rule h5_inv_core [OF inv])
  obtain skb where k: "internal_skb s = Some skb" using c t by (auto simp: core_inv_def)
  obtain i where i: "timer_wait_ct_baudrate_ready s = Some i" "it_interval i = (0, 0)"
    using c t by (auto simp: core_inv_def timer_armed_def one_shot_def split: option.splits)
  show "core_inv (h5_wait_controller_baudrate_ready_timeout_handler
      (s\<lparr>timer_wait_ct_baudrate_ready := timer_expire (timer_wait_ct_baudrate_ready s)\<rparr>))"
    using c k i by (simp add: h5_wait_controller_baudrate_ready_timeout_handler_def core_inv_def buf_ok_def
        timer_expire_def timer_armed_def one_shot_def)
  show "rx_part (h5_wait_controller_baudrate_ready_timeout_handler
      (s\<lparr>timer_wait_ct_baudrate_ready := timer_expire (timer_wait_ct_baudrate_ready s)\<rparr>)) = rx_part s"
    using k by (simp add: h5_wait_controller_baudrate_ready_timeout_handler_def rx_part_def)
qed

lemma h5_inv_timer_update:
  assumes "h5_inv s"
  shows "h5_inv (s\<lparr>timer_data_retrans := t\<rparr>)" "h5_inv (s\<lparr>timer_sync_retrans := t\<rparr>)"
    "h5_inv (s\<lparr>timer_conf_retrans := t\<rparr>)" "h5_inv (s\<lparr>timer_h5_hw_init_ready := t\<rparr>)"
    "h5_inv (s\<lparr>h5_init_datatrans_flag := f\<rparr>)" "h5_inv (s\<lparr>h5_ready_events := ev\<rparr>)"
  using assms core_inv_bounded(6) [OF h5_inv_core [OF assms]] by (simp_all add: h5_inv_def rx_inv_def)

lemma h5_step_inv: "h5_step s s' \<Longrightarrow> h5_inv s \<Longrightarrow> h5_inv s'"
proof (induction rule: h5_step.induct)
  case (recv_byte s c)
  then show ?case by (simp add: hci_h5_receive_msg_def h5_recv_inv)
next
  case (t_data s)
  let ?s = "s\<lparr>timer_data_retrans := timer_expire (timer_data_retrans s)\<rparr>"
  have "h5_inv ?s" using t_data h5_inv_timer_update(1) by blast
  then show ?case
    using h5_inv_timer_update(6) [of ?s "h5_ready_events ?s OR H5_EVENT_RX"]
    unfolding h5_retransfer_timeout_handler_def h5_retransfer_signal_event_def by simp
next
  case (t_hw s)
  then show ?case by (simp add: h5_hw_init_ready_timeout_handler_def h5_inv_timer_update)
next
  case (retransfer s go s')
  then show ?case using retransfer_inv by blast
next
  case (ready s go s')
  then show ?case using data_ready_inv by blast
qed (simp_all add: send_cmd_inv send_acl_inv send_sco_eq send_sync_cmd_inv read_data_inv
    h5_inv_timer_update sync_timeout_inv conf_timeout_inv baud_timeout_inv)

lemma h5_reach_inv: "h5_reach s \<Longrightarrow> h5_inv s"
  by (induction rule: h5_reach.induct) (auto intro: hci_h5_int_init_inv h5_step_inv)

section \<open>Receiving byte by byte\<close>

lemma h5_recv_flag: "snd (h5_recv s cs k) = snd (h5_recv s cs k')"
proof (induction s cs k arbitrary: k' rule: h5_recv.induct)
  case (2 s c cs k)
  show ?case
    unfolding h5_recv.simps(2) [of s c cs k] h5_recv.simps(2) [of s c cs k']
    using "2.IH"(1,2,3,4,5,6) [of k'] "2.IH"(7) [of "k' \<or> fst (rx_data s)"]
      "2.IH"(8) [of "k' \<or> fst (rx_crc s)"]
    by (cases "rx_state s") simp_all
qed simp

lemma h5_recv_first:
  "snd (h5_recv s (c # cs) k) = snd (h5_recv s [c] k) \<or>
   snd (h5_recv s (c # cs) k) = snd (h5_recv (snd (h5_recv s [c] k)) cs False)"
proof (induction s "c # cs" k rule: h5_recv.induct)
  case (2 s k)
  have f: "snd (h5_recv t cs m) = snd (h5_recv t cs False)" for t m by (rule h5_recv_flag)
  show ?case
    unfolding h5_recv.simps(2) [of s c cs k] h5_recv.simps(2) [of s c "[]" k]
    by (cases "rx_state s"; cases "rx_count s = 0") (use "2.hyps" f in \<open>auto split del: if_split split: if_split\<close>)
qed

lemma h5_recv_reach: "h5_reach s \<Longrightarrow> h5_reach (snd (h5_recv s cs k))"
proof (induction cs arbitrary: s k)
  case (Cons c cs)
  have "h5_reach (snd (h5_recv s [c] k))"
    using h5_reach.step [OF Cons.prems h5_step.recv_byte [of s c]] h5_recv_flag [of s "[c]" k False]
    by (simp add: hci_h5_receive_msg_def)
  then show ?case using Cons.IH h5_recv_first [of s c cs k] by auto
qed simp

section \<open>Resynchronisation\<close>

definition resyncs :: "tHCI_H5_CB \<Rightarrow> bool" where
  "resyncs s \<longleftrightarrow> (\<exists>s0 k. h5_inv s0 \<and> rx_state s0 = H5_W4_PKT_START \<and> rx_count s0 = 0 \<and>
     (\<forall>cs complete. h5_recv s (0xc0 # cs) complete = h5_recv s0 cs (complete \<or> k)))"

lemma resyncsI:
  "h5_inv s0 \<Longrightarrow> rx_state s0 = H5_W4_PKT_START \<Longrightarrow> rx_count s0 = 0 \<Longrightarrow>
   (\<And>cs complete. h5_recv s (0xc0 # cs) complete = h5_recv s0 cs (complete \<or> k)) \<Longrightarrow> resyncs s"
  unfolding resyncs_def by blast

lemma resyncs_step:
  assumes "resyncs t" and "\<And>cs complete. h5_recv s (0xc0 # cs) complete = h5_recv t (0xc0 # cs) (complete \<or> k)"
  shows "resyncs s"
proof -
  obtain s0 k' where "h5_inv s0" "rx_state s0 = H5_W4_PKT_START" "rx_count s0 = 0"
    "\<And>cs complete. h5_recv t (0xc0 # cs) complete = h5_recv s0 cs (complete \<or> k')"
    using assms(1) unfolding resyncs_def by blast
  then show ?thesis using assms(2) by (intro resyncsI [of s0 s "k \<or> k'"]) (simp_all add: disj_assoc)
qed

lemma resyncs_now:
  assumes inv: "h5_inv s" and n: "rx_count s \<noteq> 0 \<or> rx_state s = H5_W4_PKT_DELIMITER \<or> rx_state s = H5_W4_PKT_START"
  shows "resyncs s"
proof -
  define s0 where "s0 = s\<lparr>rx_skb := None, rx_state := H5_W4_PKT_START, rx_count := 0\<rparr>"
  have core: "core_inv s" by (rule h5_inv_core [OF inv])
  have 0: "h5_inv s0" "rx_state s0 = H5_W4_PKT_START" "rx_count s0 = 0"
    using core by (simp_all add: s0_def h5_inv_def rx_inv_def rx_collecting_def)
  consider "rx_count s \<noteq> 0" | "rx_count s = 0" "rx_state s = H5_W4_PKT_DELIMITER" | "rx_count s = 0" "rx_state s = H5_W4_PKT_START"
    using n by blast
  then show ?thesis
  proof cases
    case 1
    then show ?thesis by (intro resyncsI [OF 0, where k = False]) (simp add: h5_recv.simps(2) [of s] s0_def)
  next
    case 2
    then have "h5_inv (s\<lparr>rx_state := H5_W4_PKT_START\<rparr>)"
      using core by (simp add: h5_inv_def rx_inv_def rx_collecting_def)
    then show ?thesis using 2
      by (intro resyncsI [of "s\<lparr>rx_state := H5_W4_PKT_START\<rparr>", where k = False]) (simp_all add: h5_recv.simps(2) [of s])
  next
    case 3
    then show ?thesis using inv by (intro resyncsI [of s, where k = False]) (simp_all add: h5_recv.simps(2) [of s])
  qed
qed

lemma resyncs_always:
  assumes inv: "h5_inv s"
  shows "resyncs s"
proof -
  have crc: "resyncs s" if inv: "h5_inv s" and st: "rx_state s = H5_W4_CRC" "rx_count s = 0" for s
  proof (rule resyncs_step)
    have "rx_state (snd (rx_crc s)) = H5_W4_PKT_DELIMITER"
      by (simp add: rx_crc_def rx_state_after split: option.split)
    then show "resyncs (snd (rx_crc s))" using rx_crc_inv [OF inv st] by (intro resyncs_now) auto
    show "h5_recv s (0xc0 # cs) complete = h5_recv (snd (rx_crc s)) (0xc0 # cs) (complete \<or> fst (rx_crc s))" for cs complete
      using st by (simp add: h5_recv.simps(2) [of s])
  qed
  have data: "resyncs s" if inv: "h5_inv s" and st: "rx_state s = H5_W4_DATA" "rx_count s = 0" for s
  proof (rule resyncs_step)
    have "rx_count (snd (rx_data s)) \<noteq> 0 \<or> rx_state (snd (rx_data s)) = H5_W4_PKT_DELIMITER"
      by (simp add: rx_data_def rx_state_after split: option.split)
    then show "resyncs (snd (rx_data s))" using rx_data_inv [OF inv st] by (intro resyncs_now) auto
    show "h5_recv s (0xc0 # cs) complete = h5_recv (snd (rx_data s)) (0xc0 # cs) (complete \<or> fst (rx_data s))" for cs complete
      using st by (simp add: h5_recv.simps(2) [of s])
  qed
  have hdr: "resyncs s" if inv: "h5_inv s" and st: "rx_state s = H5_W4_HDR" "rx_count s = 0" for s
  proof (rule resyncs_step [where k = False])
    have "rx_state (rx_hdr s) = H5_W4_PKT_DELIMITER \<or> rx_state (rx_hdr s) = H5_W4_DATA"
      by (simp add: rx_hdr_def rx_state_after Let_def split: option.split)
    then show "resyncs (rx_hdr s)" using rx_hdr_inv [OF inv st] resyncs_now data by blast
    show "h5_recv s (0xc0 # cs) complete = h5_recv (rx_hdr s) (0xc0 # cs) (complete \<or> False)" for cs complete
      using st by (simp add: h5_recv.simps(2) [of s])
  qed
  show ?thesis
    using inv resyncs_now crc data hdr by (cases "rx_count s = 0"; cases "rx_state s") auto
qed

end
