(* ===== verification/H5Establish.thy ===== *)
theory H5Establish
  imports H5Api
begin

text \<open>
  Link establishment over the transition system of \<open>H5Api\<close>: which link-state transitions a step can
  make, and that nothing reliable is sent and no sequence number used until the peer has confirmed
  the configuration. The proofs follow one received byte through the receive machine.
\<close>

section \<open>Link establishment\<close>

text \<open>What one received packet may do to the link state and to the window.\<close>

definition link_trans :: "tHCI_H5_CB \<Rightarrow> tHCI_H5_CB \<Rightarrow> bool" where
  "link_trans s s' \<longleftrightarrow>
     link_estab_state s' = link_estab_state s \<and> sliding_window_size s' = sliding_window_size s \<or>
     link_estab_state s = H5_UNINITIALIZED \<and> link_estab_state s' = H5_INITIALIZED \<and>
       sliding_window_size s' = sliding_window_size s \<or>
     link_estab_state s = H5_INITIALIZED \<and> link_estab_state s' = H5_ACTIVE \<or>
     link_estab_state s = H5_ACTIVE \<and> link_estab_state s' = H5_UNINITIALIZED \<and>
       sliding_window_size s' = sliding_window_size s"

definition link_same :: "tHCI_H5_CB \<Rightarrow> tHCI_H5_CB \<Rightarrow> bool" where
  "link_same s s' \<longleftrightarrow> link_estab_state s' = link_estab_state s \<and> sliding_window_size s' = sliding_window_size s"

text \<open>Before the link is configured: no window, nothing in flight, no sequence number used.\<close>

definition quiet :: "tHCI_H5_CB \<Rightarrow> bool" where
  "quiet s \<longleftrightarrow> sliding_window_size s = 0 \<and> unack s = [] \<and> msgq_txseq s = 0"

lemma link_same_keeps: "tx_keeps s s' \<Longrightarrow> link_same s s'"
  by (simp add: tx_keeps_def link_same_def tx_rest_fields(1,12) [of s' s])

lemma quiet_keeps:
  assumes "tx_keeps s s'" and "quiet s"
  shows "quiet s'"
proof -
  have u: "unack s' = []" using assms by (auto simp: tx_keeps_def quiet_def)
  have m: "msgq_txseq s' < 8" "base_seq s' = base_seq s" using assms(1) by (simp_all add: tx_keeps_def tx_inv_def)
  have "msgq_txseq s' = 0" using m u assms(2) by (simp add: base_seq_def quiet_def)
  then show ?thesis using u link_same_keeps [OF assms(1)] assms(2) by (simp add: quiet_def link_same_def)
qed

text \<open>Both facts together, for the pieces of the receive path that leave the link alone.\<close>

definition calm :: "tHCI_H5_CB \<Rightarrow> tHCI_H5_CB \<Rightarrow> bool" where
  "calm s s' \<longleftrightarrow> link_same s s' \<and> (quiet s \<longrightarrow> quiet s')"

definition ctl_effect :: "tHCI_H5_CB \<Rightarrow> tHCI_H5_CB \<Rightarrow> bool" where
  "ctl_effect s s' \<longleftrightarrow> link_trans s s' \<and> (quiet s \<longrightarrow> quiet s' \<or> link_estab_state s' = H5_ACTIVE)"

lemma calm_keeps: "tx_keeps s s' \<Longrightarrow> calm s s'"
  by (simp add: calm_def link_same_keeps quiet_keeps)

lemma calm_trans: "calm s t \<Longrightarrow> calm t u \<Longrightarrow> calm s u"
  by (auto simp: calm_def link_same_def)

lemma calm_effect: "calm s t \<Longrightarrow> ctl_effect t u \<Longrightarrow> ctl_effect s u" "ctl_effect s t \<Longrightarrow> calm t u \<Longrightarrow> ctl_effect s u"
  "calm s t \<Longrightarrow> ctl_effect s t"
  by (auto simp: calm_def ctl_effect_def link_same_def link_trans_def)

lemma calmI: "link_estab_state s' = link_estab_state s \<Longrightarrow> sliding_window_size s' = sliding_window_size s \<Longrightarrow>
   unack s' = unack s \<Longrightarrow> msgq_txseq s' = msgq_txseq s \<Longrightarrow> calm s s'"
  by (simp add: calm_def link_same_def quiet_def)

lemma calm_notify: "calm s (rtk_notify_hw_h5_init_result s st)"
  by (rule calmI) (auto simp: rtk_notify_hw_h5_init_result_def split: prod.split option.split)

lemma calm_timers:
  "calm s (h5_start_sync_retrans_timer s)" "calm s (h5_start_conf_retrans_timer s)"
  "calm s (h5_stop_data_retrans_timer s)" "calm s (h5_start_hw_init_ready_timer s)"
  "calm s (h5_stop_hw_init_ready_timer s)" "calm s (h5_stop_sync_retrans_timer s)"
  "calm s (h5_stop_conf_retrans_timer s)"
  by (rule calmI; simp add: timer_defs)+

lemmas calm_send = send_keeps [THEN calm_keeps]

lemma effect_uninitialized:
  assumes tx: "tx_inv s" and l: "link_estab_state s = H5_UNINITIALIZED"
  shows "ctl_effect s (ctl_uninitialized s skb)"
proof -
  define s1 where "s1 = (h5_stop_sync_retrans_timer s)\<lparr>sync_retrans_count := 0, link_estab_state := H5_INITIALIZED\<rparr>"
  have "ctl_effect s s1"
    using l by (simp add: s1_def timer_defs ctl_effect_def link_trans_def quiet_def)
  moreover have "tx_inv s1" using tx by (simp add: s1_def timer_defs)
  ultimately have "ctl_effect s (h5_start_conf_retrans_timer (hci_h5_send_conf_req s1))"
    using calm_send(3) calm_timers(2) calm_effect(2) by blast
  moreover have "ctl_effect s (hci_h5_send_sync_resp s)" "ctl_effect s s"
    using calm_send(2) [OF tx] calm_effect(3) calmI [of s s] by auto
  ultimately show ?thesis by (simp add: ctl_uninitialized_def Let_def s1_def)
qed

lemma effect_initialized:
  assumes tx: "tx_inv s" and l: "link_estab_state s = H5_INITIALIZED"
  shows "ctl_effect s (ctl_initialized s skb)"
proof -
  have "ctl_effect s t" if "link_estab_state t = H5_ACTIVE" for t
    using that l by (simp add: ctl_effect_def link_trans_def)
  moreover have "link_estab_state (rtk_notify_hw_h5_init_result t st) = link_estab_state t" for t st
    by (auto simp: rtk_notify_hw_h5_init_result_def split: prod.split option.split)
  moreover have "ctl_effect s (hci_h5_send_sync_resp s)" "ctl_effect s (hci_h5_send_conf_resp s)" "ctl_effect s s"
    using calm_send [OF tx] calm_effect(3) calmI [of s s] by auto
  ultimately show ?thesis by (simp add: ctl_initialized_def Let_def)
qed

lemma effect_active:
  assumes tx: "tx_inv s" and l: "link_estab_state s = H5_ACTIVE"
  shows "ctl_effect s (ctl_active s skb)"
proof -
  define s1 where "s1 = hci_h5_send_sync_resp (rtkbt_h5_send_hw_error s)"
  define s2 where "s2 = s1\<lparr>link_estab_state := H5_UNINITIALIZED\<rparr>"
  have e: "tx_inv (rtkbt_h5_send_hw_error s)" "calm s (rtkbt_h5_send_hw_error s)"
    using tx by (simp_all add: rtkbt_h5_send_hw_error_def calmI)
  have s1: "tx_inv s1" "calm s s1"
    using send_keeps(2) [OF e(1)] calm_trans [OF e(2) calm_send(2) [OF e(1)]] by (simp_all add: s1_def tx_keeps_def)
  then have s2: "ctl_effect s s2" "tx_inv s2"
    using l by (auto simp: s2_def ctl_effect_def link_trans_def calm_def link_same_def quiet_def)
  then have "ctl_effect s (h5_start_sync_retrans_timer (hci_h5_send_sync_req s2))"
    using calm_send(1) calm_timers(1) calm_effect(2) by blast
  moreover have "ctl_effect s (hci_h5_send_conf_resp s)" "ctl_effect s s"
    using calm_send [OF tx] calm_effect(3) calmI [of s s] by auto
  ultimately show ?thesis by (simp add: ctl_active_def Let_def s2_def s1_def)
qed

lemma effect_ctl: "tx_inv s \<Longrightarrow> ctl_effect s (h5_process_ctl_pkts s)"
  using effect_uninitialized effect_initialized effect_active calm_effect(3) [OF calmI, of "s\<lparr>null_deref := True\<rparr>" s]
  by (auto simp: h5_process_ctl_pkts_def split: option.split tH5_LINK_STATE.split)

lemma calm_remove_acked: "calm s (h5_remove_acked_pkt s)"
proof -
  obtain n tm c where "h5_remove_acked_pkt s =
      s\<lparr>unack := drop n (unack s), timer_data_retrans := tm, data_retrans_count := c\<rparr>"
    by (rule h5_remove_acked_pkt_frame)
  then show ?thesis by (simp add: calm_def link_same_def quiet_def)
qed

lemma effect_complete:
  assumes inv: "core_inv s" and b: "rx_skb s = Some b" "rtb_wf b"
  shows "ctl_effect s (h5_complete_rx_pkt s)"
proof -
  define s1 where "s1 = (if H5_HDR_RELIABLE (skb_byte b 0) \<noteq> 0
      then h5_wake_up (s\<lparr>rxseq_txack := (H5_HDR_SEQ (skb_byte b 0) + 1) mod 8, is_txack_req := 1\<rparr>) else s)"
  define s2 where "s2 = h5_remove_acked_pkt (s1\<lparr>rxack := H5_HDR_ACK (skb_byte b 0)\<rparr>)"
  define t where "t = H5_HDR_PKT_TYPE (skb_byte b 1)"
  define s3 where "s3 = (if t = H5_LINK_CTL_PKT then h5_process_ctl_pkts (s2\<lparr>rx_skb := Some (skb_pull b 4)\<rparr>) else s2)"
  define c where "c = skb_set_pkt_type (skb_pull b 4) t"
  define e where "e = snd (malloc (heap s3) (unat (8 + ucast (skb_get_data_length c) :: u16)))"
  obtain st s4 where r: "hci_recv_frame (s3\<lparr>rx_skb := Some c, heap := e\<rparr>) c t = (st, s4)"
    by (cases "hci_recv_frame (s3\<lparr>rx_skb := Some c, heap := e\<rparr>) c t")
  define s5 where "s5 = (if h5_pass_up t then if st then s4 else s4\<lparr>recv_data := recv_data s4 @ [c]\<rparr> else s3)"
  have eq: "h5_complete_rx_pkt s = s5\<lparr>rx_state := H5_W4_PKT_DELIMITER, rx_skb := None\<rparr>"
    unfolding h5_complete_rx_pkt_def b(1) option.case Let_def s1_def [symmetric] t_def [symmetric]
      s2_def [symmetric] s3_def [symmetric] c_def [symmetric] e_def [symmetric] r prod.case s5_def
    by (rule refl)
  let ?w = "s\<lparr>rxseq_txack := (H5_HDR_SEQ (skb_byte b 0) + 1) mod 8, is_txack_req := 1\<rparr>"
  have w: "tx_inv ?w" using core_inv_tx [OF inv] by (simp add: mod8_less)
  have c1: "calm s s1" "tx_inv s1"
    using calm_trans [OF calmI calm_keeps [OF tx_keeps_wake_up [OF w]], of s] tx_keeps_wake_up [OF w] core_inv_tx [OF inv]
      calmI [of s s] by (auto simp: s1_def tx_keeps_def)
  have c2: "calm s s2" "tx_inv s2"
    using calm_trans [OF c1(1) calm_trans [OF calmI calm_remove_acked [of "s1\<lparr>rxack := H5_HDR_ACK (skb_byte b 0)\<rparr>"]]]
      h5_remove_acked_pkt_inv [of "s1\<lparr>rxack := H5_HDR_ACK (skb_byte b 0)\<rparr>"] c1(2) by (auto simp: s2_def)
  have "calm s2 (s2\<lparr>rx_skb := Some (skb_pull b 4)\<rparr>)" by (simp add: calmI)
  then have c3: "ctl_effect s s3"
    using calm_effect(1) [OF calm_trans [OF c2(1)] effect_ctl] calm_effect(3) [OF c2(1)] c2(2) by (auto simp: s3_def)
  have "calm s3 s4"
    using r by (cases rule: hci_recv_frame_cases [of "s3\<lparr>rx_skb := Some c, heap := e\<rparr>" c t])
      (auto intro!: calmI simp: timer_defs)
  then have "calm s3 s5" by (auto simp: s5_def calm_def link_same_def quiet_def)
  then show ?thesis
    using calm_effect(2) [OF c3] calm_trans [OF _ calmI, of s3 s5] by (simp add: eq)
qed

lemma calm_rx_drop: "calm s (rx_drop s)"
  by (rule calmI) (simp_all add: rx_drop_def)

lemma calm_unslip: "calm s (h5_unslip_one_byte s c)"
  by (rule calmI)
     (auto simp: h5_unslip_one_byte_def rx_accept_def Let_def split: option.split tH5_RX_ESC_STATE.split)

lemma calm_rx_start: "calm s (snd (rx_start s))"
  by (rule calmI) (auto simp: rx_start_def Let_def split: prod.split option.split)

lemma calm_rx_hdr:
  assumes "tx_inv s"
  shows "calm s (rx_hdr s)"
proof -
  have "tx_inv (s\<lparr>is_txack_req := 1\<rparr>)" using assms by simp
  from calm_trans [OF calm_trans [OF calmI calm_keeps [OF tx_keeps_wake_up [OF this]]] calm_rx_drop]
  have "calm s (rx_drop (h5_wake_up (s\<lparr>is_txack_req := 1\<rparr>)))" by simp
  moreover have "calm s (rx_drop (s\<lparr>null_deref := True\<rparr>))" by (rule calmI) (simp_all add: rx_drop_def)
  ultimately show ?thesis
    using calm_rx_drop [of s] by (auto simp: rx_hdr_def Let_def intro: calmI split: option.split)
qed

lemma effect_rx_crc:
  assumes inv: "h5_inv s" and st: "rx_state s = H5_W4_CRC" "rx_count s = 0"
  shows "ctl_effect s (snd (rx_crc s))"
proof -
  obtain b where b: "rx_skb s = Some b" "rx_buf H5_W4_CRC 0 b"
    using inv st by (auto simp: h5_inv_def rx_inv_def rx_collecting_def)
  let ?b = "skb_trim b (skb_get_data_length b - 2)"
  have "rtb_wf ?b" using b(2) by (intro skb_trim_last2) (auto simp: rx_buf_def)
  then have "ctl_effect (s\<lparr>rx_skb := Some ?b\<rparr>) (h5_complete_rx_pkt (s\<lparr>rx_skb := Some ?b\<rparr>))"
    using h5_inv_core [OF inv] by (intro effect_complete) auto
  moreover have "calm s (s\<lparr>rx_skb := Some ?b\<rparr>)" by (simp add: calmI)
  ultimately show ?thesis
    using calm_effect(1,3) calm_rx_drop [of s] b(1) by (auto simp: rx_crc_def)
qed

lemma effect_rx_data:
  assumes inv: "h5_inv s" and st: "rx_state s = H5_W4_DATA" "rx_count s = 0"
  shows "rx_count (snd (rx_data s)) = 2 \<and> calm s (snd (rx_data s)) \<or>
    rx_state (snd (rx_data s)) = H5_W4_PKT_DELIMITER \<and> rx_count (snd (rx_data s)) = 0 \<and> ctl_effect s (snd (rx_data s))"
proof -
  obtain b where b: "rx_skb s = Some b" "rx_buf H5_W4_DATA 0 b"
    using inv st by (auto simp: h5_inv_def rx_inv_def rx_collecting_def)
  have wf: "rtb_wf b" using b(2) by (simp add: rx_buf_def)
  have "calm s (s\<lparr>rx_state := H5_W4_CRC, rx_count := 2\<rparr>)" by (simp add: calmI)
  then show ?thesis
    using b(1) effect_complete [OF h5_inv_core [OF inv] b(1) wf] h5_complete_rx_pkt_inv(2) [OF h5_inv_core [OF inv] b(1) wf] st
    by (simp add: rx_data_def rx_state_after)
qed

lemma recv1_calm:
  assumes "rx_count s \<noteq> 0 \<or> rx_state s = H5_W4_PKT_DELIMITER \<or> rx_state s = H5_W4_PKT_START"
  shows "calm s (snd (h5_recv s [c] k))"
proof -
  have cnt: "calm t (snd (h5_recv t [c] k))" if "rx_count t \<noteq> 0" for t
    using that calm_unslip [of t c] by (auto simp: h5_recv.simps(2) intro: calmI)
  show ?thesis
  proof (cases "rx_count s = 0")
    case True
    have 4: "fst (rx_start s) \<Longrightarrow> rx_count (snd (rx_start s)) \<noteq> 0"
      by (auto simp: rx_start_def Let_def split: prod.splits option.splits)
    show ?thesis
      using True assms calm_rx_start [of s] calm_trans [OF calm_rx_start [of s] cnt [OF 4]]
      by (auto simp: h5_recv.simps(2) [of s] intro: calmI)
  qed (rule cnt)
qed

lemma recv1_effect:
  assumes inv: "h5_inv s"
  shows "ctl_effect s (snd (h5_recv s [c] k))"
proof -
  have crc: "ctl_effect s (snd (h5_recv s [c] k))"
    if inv: "h5_inv s" and st: "rx_state s = H5_W4_CRC" "rx_count s = 0" for s k
  proof -
    have "rx_state (snd (rx_crc s)) = H5_W4_PKT_DELIMITER"
      by (simp add: rx_crc_def rx_state_after split: option.split)
    then have "calm (snd (rx_crc s)) (snd (h5_recv (snd (rx_crc s)) [c] k'))" for k' by (simp add: recv1_calm)
    with calm_effect(2) [OF effect_rx_crc [OF inv st]] show ?thesis
      using st by (simp add: h5_recv.simps(2) [of s])
  qed
  have data: "ctl_effect s (snd (h5_recv s [c] k))"
    if inv: "h5_inv s" and st: "rx_state s = H5_W4_DATA" "rx_count s = 0" for s k
  proof -
    let ?t = "snd (rx_data s)"
    have "calm ?t (snd (h5_recv ?t [c] k'))" for k'
      using effect_rx_data [OF inv st] by (intro recv1_calm) auto
    moreover have "ctl_effect s ?t" using effect_rx_data [OF inv st] calm_effect(3) by blast
    ultimately show ?thesis
      using calm_effect(2) st by (auto simp: h5_recv.simps(2) [of s])
  qed
  have hdr: "ctl_effect s (snd (h5_recv s [c] k))"
    if inv: "h5_inv s" and st: "rx_state s = H5_W4_HDR" "rx_count s = 0" for s k
  proof -
    have "rx_state (rx_hdr s) = H5_W4_PKT_DELIMITER \<or> rx_state (rx_hdr s) = H5_W4_DATA"
      by (simp add: rx_hdr_def rx_state_after Let_def split: option.split)
    then have "ctl_effect (rx_hdr s) (snd (h5_recv (rx_hdr s) [c] k))"
      using data [OF rx_hdr_inv [OF inv st]] recv1_calm [of "rx_hdr s"] calm_effect(3) by blast
    then show ?thesis
      using calm_effect(1) [OF calm_rx_hdr [OF core_inv_tx [OF h5_inv_core [OF inv]]]] st
      by (simp add: h5_recv.simps(2) [of s])
  qed
  show ?thesis
    using inv crc data hdr calm_effect(3) [OF recv1_calm [of s c k]]
    by (cases "rx_count s = 0"; cases "rx_state s") auto
qed

lemma calm_enqueue: "calm s (h5_enqueue s skb)"
  by (rule calmI) (simp_all add: h5_enqueue_def)

lemma calm_enqueue_wake:
  "tx_inv s \<Longrightarrow> rtb_wf skb \<Longrightarrow> calm s (h5_wake_up (h5_enqueue s skb))"
  using calm_trans [OF calm_enqueue calm_keeps [OF tx_keeps_wake_up [OF h5_enqueue_inv(1)]]] .

lemma calm_send_acl:
  assumes tx: "tx_inv s" and d: "length d < 2 ^ 16"
  shows "calm s (snd (hci_h5_send_acl_data s t d))"
proof -
  obtain ob e where a: "skb_alloc_and_init (heap s) t d = (ob, e)" by (cases "skb_alloc_and_init (heap s) t d")
  have h: "calm s (s\<lparr>heap := e\<rparr>)" by (simp add: calmI)
  show ?thesis
  proof (cases ob)
    case (Some skb)
    have "rtb_wf skb" using skb_alloc_and_init_wf(1) [OF a [unfolded Some]] d by simp
    from calm_trans [OF h calm_enqueue_wake [OF _ this]] show ?thesis
      using a Some tx by (simp add: hci_h5_send_acl_data_def)
  qed (use a h in \<open>simp add: hci_h5_send_acl_data_def\<close>)
qed

lemma calm_send_cmd:
  assumes tx: "tx_inv s" and d: "length d < 2 ^ 16"
  shows "calm s (snd (hci_h5_send_cmd s t d))"
proof -
  obtain ob e where a: "skb_alloc_and_init (heap s) t d = (ob, e)" by (cases "skb_alloc_and_init (heap s) t d")
  have h: "calm s (s\<lparr>heap := e\<rparr>)" "calm s s" by (simp_all add: calmI)
  show ?thesis
  proof (cases "t = HCI_COMMAND_PKT \<and> ob \<noteq> None")
    case True
    then obtain skb where ob: "ob = Some skb" by auto
    have wf: "rtb_wf skb" using skb_alloc_and_init_wf(1) [OF a [unfolded ob]] d by simp
    define s1 where "s1 = h5_enqueue (s\<lparr>heap := e\<rparr>) skb"
    define s2 where "s2 = (if stream_to_uint16 (byte_at d 0) (byte_at d 1) = 0x0c03
      then h5_stop_hw_init_ready_timer (s1\<lparr>num_hci_cmd_pkts := num_hci_cmd_pkts s1 - 1\<rparr>)
      else s1\<lparr>num_hci_cmd_pkts := num_hci_cmd_pkts s1 - 1\<rparr>)"
    have i1: "tx_inv s1" using h5_enqueue_inv(1) [OF _ wf, of "s\<lparr>heap := e\<rparr>"] tx by (simp add: s1_def)
    have "calm s s1" unfolding s1_def by (rule calm_trans [OF h(1) calm_enqueue])
    moreover have "calm s1 s2" by (rule calmI) (simp_all add: s2_def timer_defs)
    moreover have "tx_inv s2" using i1 by (simp add: s2_def timer_defs)
    ultimately have "calm s (h5_wake_up s2)" using calm_keeps [OF tx_keeps_wake_up] calm_trans by blast
    moreover have "snd (hci_h5_send_cmd s t d) = h5_wake_up s2"
      using True a ob by (simp add: hci_h5_send_cmd_def Let_def s2_def s1_def)
    ultimately show ?thesis by simp
  qed (use a h in \<open>auto simp: hci_h5_send_cmd_def\<close>)
qed

lemma calm_requeue: "tx_inv s \<Longrightarrow> calm s (requeue_unack s)"
  by (subst requeue_unack_spec) (auto simp: tx_inv_def calm_def link_same_def quiet_def base_seq_def)

lemma calm_retransfer:
  assumes tx: "tx_inv s" and r: "data_retransfer_round s = Some (go, s')"
  shows "calm s s'"
proof -
  define s0 where "s0 = s\<lparr>h5_ready_events := 0\<rparr>"
  define s1 where "s1 = (requeue_unack s0)\<lparr>data_retrans_count := data_retrans_count (requeue_unack s0) + 1\<rparr>"
  have 0: "calm s s0" "tx_inv s0" using tx by (simp_all add: s0_def calmI)
  have "calm (requeue_unack s0) s1" by (simp add: s1_def calmI)
  then have 1: "calm s s1" using calm_trans [OF calm_trans [OF 0(1) calm_requeue [OF 0(2)]]] by blast
  have i1: "tx_inv s1" using requeue_unack_inv [OF 0(2)] by (simp add: s1_def)
  have w: "calm s (h5_wake_up s1)" by (rule calm_trans [OF 1 calm_keeps [OF tx_keeps_wake_up [OF i1]]])
  have e: "calm s (rtkbt_h5_send_hw_error s0)"
    by (rule calm_trans [OF 0(1)]) (simp add: rtkbt_h5_send_hw_error_def calmI)
  have "calm s s" by (simp add: calmI)
  then show ?thesis
    using r 0(1) w e unfolding data_retransfer_round_def Let_def s0_def [symmetric] s1_def [symmetric]
    by (auto split: if_splits)
qed

lemma calm_sync_timeout:
  assumes "tx_inv s"
  shows "calm s (h5_sync_retrans_timeout_handler s)"
proof -
  let ?a = "hci_h5_send_sync_req s"
  have "calm s (?a\<lparr>sync_retrans_count := sync_retrans_count ?a + 1\<rparr>)"
    by (rule calm_trans [OF calm_send(1) [OF assms]]) (simp add: calmI)
  then show ?thesis
    using calm_trans [OF calm_notify calm_timers(6)] calm_timers(6) calmI [of s s]
    by (simp add: h5_sync_retrans_timeout_handler_def Let_def)
qed

lemma calm_conf_timeout:
  assumes "tx_inv s"
  shows "calm s (h5_conf_retrans_timeout_handler s)"
proof -
  let ?a = "hci_h5_send_conf_req s"
  have "calm s (?a\<lparr>conf_retrans_count := conf_retrans_count ?a + 1\<rparr>)"
    by (rule calm_trans [OF calm_send(3) [OF assms]]) (simp add: calmI)
  then show ?thesis
    using calm_trans [OF calm_notify calm_timers(7)] calm_timers(7) calmI [of s s]
    by (simp add: h5_conf_retrans_timeout_handler_def Let_def)
qed

lemma h5_step_effect: "h5_step s s' \<Longrightarrow> h5_inv s \<Longrightarrow> ctl_effect s s'"
proof (induction rule: h5_step.induct)
  case (recv_byte s c)
  then show ?case by (simp add: hci_h5_receive_msg_def recv1_effect)
next
  case (send_cmd d s t)
  then show ?case by (intro calm_effect(3) calm_send_cmd core_inv_tx h5_inv_core)
next
  case (send_acl d s t)
  then show ?case by (intro calm_effect(3) calm_send_acl core_inv_tx h5_inv_core)
next
  case (send_sco d s t)
  then show ?case unfolding send_sco_eq by (intro calm_effect(3) calm_send_acl core_inv_tx h5_inv_core)
next
  case (send_sync s opcode)
  let ?t = "h5_start_hw_init_ready_timer s"
  have "tx_inv ?t" using core_inv_tx [OF h5_inv_core [OF send_sync]] by (simp add: timer_defs)
  then have "calm s (h5_start_sync_retrans_timer (hci_h5_send_sync_req ?t))"
    using calm_timers(1,4) calm_send(1) calm_trans by blast
  then show ?case
    using calmI [of s s] by (auto simp: hci_h5_send_sync_cmd_def Let_def intro!: calm_effect(3) split: tH5_LINK_STATE.split)
next
  case (read_data s n)
  show ?case by (intro calm_effect(3) calmI) (auto simp: hci_h5_int_read_data_def Let_def split: option.split)
next
  case (set_flag s f)
  show ?case by (intro calm_effect(3) calmI) simp_all
next
  case (ready s go s')
  then show ?case
    by (intro calm_effect(3) calmI) (auto simp: data_ready_round_def split: if_splits list.splits)
next
  case (retransfer s go s')
  then show ?case by (intro calm_effect(3) calm_retransfer core_inv_tx h5_inv_core)
next
  case (t_data s)
  show ?case
    by (intro calm_effect(3) calmI) (simp_all add: h5_retransfer_timeout_handler_def h5_retransfer_signal_event_def)
next
  case (t_sync s)
  let ?s = "s\<lparr>timer_sync_retrans := timer_expire (timer_sync_retrans s)\<rparr>"
  have "tx_inv ?s" using core_inv_tx [OF h5_inv_core [OF t_sync(2)]] by simp
  then have "calm s (h5_sync_retrans_timeout_handler ?s)"
    by (intro calm_trans [OF _ calm_sync_timeout [of ?s]]) (simp_all add: calmI)
  then show ?case by (rule calm_effect(3))
next
  case (t_conf s)
  let ?s = "s\<lparr>timer_conf_retrans := timer_expire (timer_conf_retrans s)\<rparr>"
  have "tx_inv ?s" using core_inv_tx [OF h5_inv_core [OF t_conf(2)]] by simp
  then have "calm s (h5_conf_retrans_timeout_handler ?s)"
    by (intro calm_trans [OF _ calm_conf_timeout [of ?s]]) (simp_all add: calmI)
  then show ?case by (rule calm_effect(3))
next
  case (t_baud s)
  show ?case
    by (intro calm_effect(3) calmI)
       (auto simp: h5_wait_controller_baudrate_ready_timeout_handler_def split: option.split)
next
  case (t_hw s)
  show ?case by (intro calm_effect(3) calmI) (simp_all add: h5_hw_init_ready_timeout_handler_def)
qed

text \<open>States reached from an initialisation without the link having become active.\<close>

inductive h5_reach_unconf :: "tHCI_H5_CB \<Rightarrow> bool" where
  unconf_init: "\<not> null_deref s \<Longrightarrow> h5_reach_unconf (hci_h5_int_init tc th1 th2 s)"
| unconf_step: "h5_reach_unconf s \<Longrightarrow> h5_step s s' \<Longrightarrow> link_estab_state s' \<noteq> H5_ACTIVE \<Longrightarrow> h5_reach_unconf s'"

lemma h5_reach_unconf_quiet: "h5_reach_unconf s \<Longrightarrow> h5_inv s \<and> quiet s"
proof (induction rule: h5_reach_unconf.induct)
  case (unconf_init s tc th1 th2)
  then show ?case using hci_h5_int_init_inv [of s tc th1 th2] by (simp add: quiet_def init_fields)
next
  case (unconf_step s s')
  then show ?case using h5_step_inv h5_step_effect by (auto simp: ctl_effect_def)
qed

end
