(* ===== verification/H5Properties.thy ===== *)
theory H5Properties
  imports H5Establish
begin

text \<open>
  The properties of the three-wire transport (hardware/bt/src/hci_h5.c), stated over the model's
  operations and proved from the lemmas of the \<open>H5\<close> theories. The concrete control blocks below are
  the inputs of the witnesses.
\<close>

section \<open>Concrete control blocks\<close>

definition all_ok :: malloc_env where
  "all_ok = \<lparr>malloc_ok = (\<lambda>_. True), malloc_n = 0, malloc_fill = (\<lambda>_. 0)\<rparr>"

definition h5_zero :: tHCI_H5_CB where
  "h5_zero = \<lparr>sliding_window_size = 0, oof_flow_control = 0, dic_type = 0, unack = [], rel = [], unrel = [],
     recv_data = [], rxseq_txack = 0, rxack = 0, use_crc = 0, is_txack_req = 0, msgq_txseq = 0,
     message_crc = 0, rx_count = 0, rx_state = H5_W4_PKT_DELIMITER, rx_esc_state = H5_ESCSTATE_NOESC,
     link_estab_state = H5_UNINITIALIZED, rx_skb = None, data_skb = None, internal_skb = None,
     timer_data_retrans = None, timer_sync_retrans = None, timer_conf_retrans = None,
     timer_wait_ct_baudrate_ready = None, timer_h5_hw_init_ready = None, data_retrans_count = 0,
     sync_retrans_count = 0, conf_retrans_count = 0, cleanuping = 0, h5_retransfer_running = 0,
     h5_ready_events = 0, h5_data_ready_running = 0, h5_init_datatrans_flag = 0, num_hci_cmd_pkts = 0,
     heap = all_ok, transmitted = [], rawdata_hook = [], data_ready_calls = [], null_deref = False\<rparr>"

definition h5_boot :: tHCI_H5_CB where
  "h5_boot = hci_h5_int_init (\<lambda>_. True) True True h5_zero"

text \<open>A command packet with the two-byte payload \<open>03 0c\<close>, and a control block with a window of four,
  one packet unacknowledged and one waiting.\<close>

definition cmd_pkt :: rtk_buffer where
  "cmd_pkt = \<lparr>rb_Mem = replicate 12 0 @ [3, 12], rb_Data = 12, rb_Tail = 14, rb_End = 14, rb_Length = 2,
     rb_HeadRoom = 12, rb_RefCount = 1, rb_PacketType = HCI_COMMAND_PKT\<rparr>"

definition h5_busy :: tHCI_H5_CB where
  "h5_busy = h5_boot\<lparr>sliding_window_size := 4, unack := [cmd_pkt], rel := [cmd_pkt], msgq_txseq := 1,
     h5_ready_events := H5_EVENT_RX\<rparr>"

lemma all_ok_simps [simp]: "malloc_ok all_ok n"
  by (simp add: all_ok_def)

lemma h5_zero_simps [simp]: "heap h5_zero = all_ok" "\<not> null_deref h5_zero" "transmitted h5_zero = []"
  by (simp_all add: h5_zero_def)

lemma h5_boot_simps [simp]: "heap h5_boot = all_ok" "\<not> null_deref h5_boot" "h5_inv h5_boot"
  "rx_state h5_boot = H5_W4_PKT_DELIMITER" "rx_count h5_boot = 0" "rxseq_txack h5_boot = 0"
  "recv_data h5_boot = []" "unack h5_boot = []" "rel h5_boot = []" "unrel h5_boot = []" "msgq_txseq h5_boot = 0"
  "link_estab_state h5_boot = H5_UNINITIALIZED" "sliding_window_size h5_boot = 0"
  by (simp_all add: h5_boot_def init_fields hci_h5_int_init_inv)

lemma h5_boot_reach: "h5_reach h5_boot"
  unfolding h5_boot_def by (rule h5_reach.init) simp

lemma cmd_pkt_rel [simp]: "rel_pkt cmd_pkt"
  by (simp add: rel_pkt_def cmd_pkt_def rtb_wf_def rtb_bytes_def skb_get_pkt_type_def)

lemma cmd_pkt_simps [simp]: "rtb_bytes cmd_pkt = [3, 12]" "skb_get_pkt_type cmd_pkt = HCI_COMMAND_PKT"
  by (simp_all add: cmd_pkt_def rtb_bytes_def skb_get_pkt_type_def)

lemma h5_busy_simps [simp]: "heap h5_busy = all_ok" "tx_inv h5_busy" "unack h5_busy = [cmd_pkt]"
  "rel h5_busy = [cmd_pkt]" "unrel h5_busy = []" "msgq_txseq h5_busy = 1" "sliding_window_size h5_busy = 4"
  "rxack h5_busy = 0" "h5_ready_events h5_busy = H5_EVENT_RX" "h5_retransfer_running h5_busy = 1"
  "data_retrans_count h5_busy = 0" "transmitted h5_busy = []"
  by (simp_all add: h5_busy_def tx_inv_def)
   (simp_all add: h5_boot_def hci_h5_int_init_def Let_def create_data_ready_cb_thread_def
      create_data_retransfer_thread_def h5_memset_def h5_zero_def)

section \<open>Reachable states\<close>



section \<open>Sending\<close>

text \<open>C4: when allocations succeed, \<open>h5_wake_up\<close> sends every unreliable packet in queue
  order, then the reliable packets the window still admits, in order and numbered consecutively modulo
  8 from \<open>msgq_txseq\<close>, and a bare acknowledgement exactly when one is owed and nothing else was sent; the
  reliable packets sent move to the unacknowledged queue, the others keep their place.\<close>

theorem h5_wake_up_exact:
  assumes "\<And>n. malloc_ok (heap s) n" and "tx_inv s"
  shows "transmitted (h5_wake_up s) = transmitted s @
      map (\<lambda>b. tx_frame s (msgq_txseq s) (skb_get_pkt_type b) (rtb_bytes b)) (unrel s) @
      rel_frames s (msgq_txseq s) (take (window_room s) (rel s)) @
      (if unrel s = [] \<and> window_room s = 0 \<and> is_txack_req s \<noteq> 0
       then [tx_frame s (msgq_txseq s) H5_ACK_PKT []] else [])
    \<and> unrel (h5_wake_up s) = [] \<and> rel (h5_wake_up s) = drop (window_room s) (rel s)
    \<and> unack (h5_wake_up s) = unack s @ take (window_room s) (rel s)
    \<and> msgq_txseq (h5_wake_up s) = (msgq_txseq s + of_nat (window_room s)) AND 7
    \<and> is_txack_req (h5_wake_up s) = 0"
  using h5_wake_up_post [OF assms] by (simp add: wake_post_def wake_frames_def)

text \<open>Witness of C4: one packet in flight, one waiting, window four.\<close>

theorem h5_wake_up_exact_witness:
  "unack (h5_wake_up h5_busy) = [cmd_pkt, cmd_pkt] \<and> msgq_txseq (h5_wake_up h5_busy) = 2 \<and>
   transmitted (h5_wake_up h5_busy) = [tx_frame h5_busy 1 HCI_COMMAND_PKT [3, 12]]"
  using h5_wake_up_exact [of h5_busy] by (simp add: window_room_def)

text \<open>C5: whatever the allocator does, a wake-up loses, duplicates and reorders no reliable
  packet, does not move the number of the oldest unacknowledged one, never exceeds the window, and
  hands to the UART only complete frames of the current state.\<close>

theorem h5_wake_up_any_alloc:
  assumes "tx_inv s"
  shows "unack (h5_wake_up s) @ rel (h5_wake_up s) = unack s @ rel s \<and> base_seq (h5_wake_up s) = base_seq s \<and>
    length (unack (h5_wake_up s)) \<le> max (length (unack s)) (unat (sliding_window_size s)) \<and>
    suffix (unrel (h5_wake_up s)) (unrel s) \<and>
    (\<exists>fs. transmitted (h5_wake_up s) = transmitted s @ map rtb_bytes fs \<and> list_all (is_frame_of s) fs)"
  using h5_wake_up_progress [OF assms] by (auto simp: tx_progress_def)

text \<open>Witness of C5: an allocator that always fails.\<close>

theorem h5_wake_up_any_alloc_witness:
  "unack (h5_wake_up (h5_busy\<lparr>heap := all_ok\<lparr>malloc_ok := \<lambda>_. False\<rparr>\<rparr>)) @
   rel (h5_wake_up (h5_busy\<lparr>heap := all_ok\<lparr>malloc_ok := \<lambda>_. False\<rparr>\<rparr>)) = [cmd_pkt, cmd_pkt]"
  using h5_wake_up_any_alloc [of "h5_busy\<lparr>heap := all_ok\<lparr>malloc_ok := \<lambda>_. False\<rparr>\<rparr>"] by simp

text \<open>\<open>h5_enqueue\<close> refuses a packet of more than 4095 bytes, appends commands and ACL data to
  the reliable queue and link control, acknowledgement, vendor and SCO packets to the unreliable one,
  and drops every other type; nothing else of the control block changes.\<close>

theorem h5_enqueue_class:
  assumes "rtb_wf skb"
  shows "h5_enqueue s skb =
    (let fits = length (rtb_bytes skb) \<le> 4095; t = skb_get_pkt_type skb in
     s\<lparr>rel := rel s @ (if fits \<and> t \<in> {HCI_ACLDATA_PKT, HCI_COMMAND_PKT} then [skb] else []),
       unrel := unrel s @ (if fits \<and> t \<in> {H5_LINK_CTL_PKT, H5_ACK_PKT, H5_VDRSPEC_PKT, HCI_SCODATA_PKT}
                           then [skb] else [])\<rparr>)"
proof -
  have "skb_get_data_length skb > 0xFFF \<longleftrightarrow> \<not> length (rtb_bytes skb) \<le> 4095"
    using rtb_Length_bytes [OF assms] by (auto simp: skb_get_data_length_def word_less_nat_alt)
  then show ?thesis by (auto simp: h5_enqueue_def Let_def pkt_type_defs)
qed

text \<open>An instance of \<open>h5_enqueue_class\<close>: a command packet.\<close>

theorem h5_enqueue_class_witness: "rel (h5_enqueue h5_boot cmd_pkt) = [cmd_pkt]"
  using h5_enqueue_class [of cmd_pkt h5_boot] pkt_wf(1) [OF cmd_pkt_rel] by simp

section \<open>Acknowledgement and retransmission\<close>

text \<open>C7: an acknowledgement number inside the window of outstanding packets removes exactly the
  packets before it, and the oldest packet left carries that number; a number outside the window
  removes nothing. When nothing is left the retransmission timer is disarmed and its counter reset.\<close>

theorem h5_ack_removes:
  assumes "msgq_txseq s < 8" and "rxack s < 8"
  defines "n \<equiv> nat ((uint (msgq_txseq s) - uint (rxack s)) mod 8)"
  shows "unack (h5_remove_acked_pkt s) =
      (if n \<le> length (unack s) then drop (length (unack s) - n) (unack s) else unack s)
    \<and> (n \<le> length (unack s) \<longrightarrow> base_seq (h5_remove_acked_pkt s) = rxack s)
    \<and> (unack (h5_remove_acked_pkt s) = [] \<longrightarrow>
        \<not> timer_armed (timer_data_retrans (h5_remove_acked_pkt s)) \<and>
        data_retrans_count (h5_remove_acked_pkt s) = 0)"
proof -
  have u: "unack (h5_remove_acked_pkt s) =
      (if n \<le> length (unack s) then drop (length (unack s) - n) (unack s) else unack s)"
    using h5_remove_acked_pkt_unack [OF assms(1,2)] by (simp add: n_def outstanding_def)
  have m: "msgq_txseq (h5_remove_acked_pkt s) = msgq_txseq s"
    by (simp add: h5_remove_acked_pkt_def Let_def timer_defs case_prod_beta)
  have "uint (base_seq (h5_remove_acked_pkt s)) = uint (rxack s)" if "n \<le> length (unack s)"
  proof -
    have "int (length (unack (h5_remove_acked_pkt s))) = (uint (msgq_txseq s) - uint (rxack s)) mod 8"
      using that by (simp add: u n_def)
    then have "uint (base_seq (h5_remove_acked_pkt s)) = uint (rxack s) mod 8"
      unfolding uint_base_seq m by (simp add: mod_simps)
    then show ?thesis using assms(2) by (simp add: word_less_def)
  qed
  then have "n \<le> length (unack s) \<Longrightarrow> base_seq (h5_remove_acked_pkt s) = rxack s"
    by (simp add: word_uint_eq_iff)
  moreover have "unack (h5_remove_acked_pkt s) = [] \<Longrightarrow>
      \<not> timer_armed (timer_data_retrans (h5_remove_acked_pkt s)) \<and> data_retrans_count (h5_remove_acked_pkt s) = 0"
    by (auto simp: h5_remove_acked_pkt_def Let_def timer_defs case_prod_beta timer_armed_def
        OsStopTimer_def OsStartTimer_def split: if_splits option.splits)
  ultimately show ?thesis using u by blast
qed

text \<open>Witness of C7: the peer expects number 1, so packet 0 is acknowledged.\<close>

theorem h5_ack_removes_witness: "unack (h5_remove_acked_pkt (h5_busy\<lparr>rxack := 1\<rparr>)) = []"
  using h5_ack_removes [of "h5_busy\<lparr>rxack := 1\<rparr>"] by simp

lemma tx_frame_cong:
  assumes "oof_flow_control s = oof_flow_control t" "use_crc s = use_crc t" "rxseq_txack s = rxseq_txack t"
  shows "tx_frame s = tx_frame t" and "rel_frames s q bs = rel_frames t q bs"
proof -
  show "tx_frame s = tx_frame t" using assms by (intro ext) (simp add: tx_frame_def)
  then show "rel_frames s q bs = rel_frames t q bs" by (induction bs arbitrary: q) simp_all
qed

text \<open>C6: when the retransmission timer has fired and the retry limit is not reached, one round of the
  retransmission thread sends again, with their original sequence numbers, the unacknowledged packets
  and then as many waiting ones as the window admits; no packet is lost or reordered.\<close>

theorem h5_retransmits:
  assumes "\<And>n. malloc_ok (heap s) n" and inv: "tx_inv s" and run: "h5_retransfer_running s \<noteq> 0"
    and ev: "h5_ready_events s AND H5_EVENT_RX \<noteq> 0" and lim: "data_retrans_count s < data_retrans_limit s"
  shows "\<exists>s'. data_retransfer_round s = Some (True, s') \<and>
    unack s' @ rel s' = unack s @ rel s \<and> base_seq s' = base_seq s \<and>
    (let sent = take (unat (sliding_window_size s)) (unack s @ rel s) in
     unack s' = sent \<and>
     transmitted s' = transmitted s @
       map (\<lambda>b. tx_frame s (base_seq s) (skb_get_pkt_type b) (rtb_bytes b)) (unrel s) @
       rel_frames s (base_seq s) sent @
       (if unrel s = [] \<and> sent = [] \<and> is_txack_req s \<noteq> 0 then [tx_frame s (base_seq s) H5_ACK_PKT []] else []))"
proof -
  define t where "t = s\<lparr>h5_ready_events := 0, unack := [], msgq_txseq := base_seq s, rel := unack s @ rel s,
    data_retrans_count := data_retrans_count s + 1\<rparr>"
  have lt: "msgq_txseq s < 8" using inv by (simp add: tx_inv_def)
  have "requeue_unack (s\<lparr>h5_ready_events := 0\<rparr>) =
      s\<lparr>h5_ready_events := 0, unack := [], msgq_txseq := base_seq s, rel := unack s @ rel s\<rparr>"
    using requeue_unack_spec [of "s\<lparr>h5_ready_events := 0\<rparr>"] lt by (simp add: base_seq_def)
  then have r: "data_retransfer_round s = Some (True, h5_wake_up t)"
    using run ev lim by (auto simp: data_retransfer_round_def Let_def t_def data_retrans_limit_def)
  have b8: "base_seq s < 8" unfolding base_seq_def by (rule and7_less)
  have inv_t: "tx_inv t" using inv b8 by (simp add: t_def tx_inv_def)
  have bt: "base_seq t = base_seq s" using b8 by (simp add: t_def base_seq_def)
  have room: "take (window_room t) (rel t) = take (unat (sliding_window_size s)) (unack s @ rel s)"
    by (simp add: window_room_def t_def min_def)
  have z: "window_room t = 0 \<longleftrightarrow> take (unat (sliding_window_size s)) (unack s @ rel s) = []"
    by (auto simp: window_room_def t_def min_def)
  have fr: "tx_frame t = tx_frame s" "\<And>q bs. rel_frames t q bs = rel_frames s q bs"
    by (rule tx_frame_cong; simp add: t_def)+
  have post: "wake_post t (h5_wake_up t)"
    by (rule h5_wake_up_post [OF _ inv_t]) (simp add: t_def assms(1))
  have keep: "unack (h5_wake_up t) @ rel (h5_wake_up t) = unack s @ rel s" "base_seq (h5_wake_up t) = base_seq s"
    using h5_wake_up_progress [OF inv_t] bt by (auto simp: tx_progress_def t_def)
  have "unack (h5_wake_up t) = take (unat (sliding_window_size s)) (unack s @ rel s)"
    using post room by (simp add: wake_post_def) (simp add: t_def)
  moreover have "transmitted (h5_wake_up t) = transmitted s @
       map (\<lambda>b. tx_frame s (base_seq s) (skb_get_pkt_type b) (rtb_bytes b)) (unrel s) @
       rel_frames s (base_seq s) (take (unat (sliding_window_size s)) (unack s @ rel s)) @
       (if unrel s = [] \<and> take (unat (sliding_window_size s)) (unack s @ rel s) = [] \<and> is_txack_req s \<noteq> 0
        then [tx_frame s (base_seq s) H5_ACK_PKT []] else [])"
    using post unfolding wake_post_def wake_frames_def room z fr by (simp add: t_def)
  ultimately show ?thesis using r keep by (auto simp: Let_def)
qed

text \<open>Witness of C6: packet 0 is sent again under its number, then the waiting packet as number 1.\<close>

lemma h5_busy_more [simp]: "h5_init_datatrans_flag h5_busy = 1" "is_txack_req h5_busy = 0" "base_seq h5_busy = 0"
  "oof_flow_control h5_busy = 0" "use_crc h5_busy = 0" "rxseq_txack h5_busy = 0"
  by (simp_all add: base_seq_def)
   (simp_all add: h5_busy_def h5_boot_def hci_h5_int_init_def Let_def create_data_ready_cb_thread_def
      create_data_retransfer_thread_def h5_memset_def h5_zero_def)

theorem h5_retransmits_witness:
  "\<exists>s'. data_retransfer_round h5_busy = Some (True, s') \<and>
     transmitted s' = [tx_frame h5_busy 0 HCI_COMMAND_PKT [3, 12], tx_frame h5_busy 1 HCI_COMMAND_PKT [3, 12]]"
  using h5_retransmits [of h5_busy] by (auto simp: H5_EVENT_RX_def data_retrans_limit_def Let_def)

text \<open>C13: once the retry limit (40 before, 200 after the configuration phase) is reached, a timeout no
  longer retransmits: the round leaves queues and UART alone and reports a hardware error (event 0x10,
  code 0xfb) to the stack.\<close>

theorem h5_retry_limit:
  assumes "h5_retransfer_running s \<noteq> 0" and "h5_ready_events s AND H5_EVENT_RX \<noteq> 0"
    and "data_retrans_count s \<ge> (if h5_init_datatrans_flag s = 0 then 40 else 200)"
  shows "\<exists>s' debug. data_retransfer_round s = Some (True, s') \<and>
    s' = s\<lparr>h5_ready_events := 0, rawdata_hook := rawdata_hook s @ [debug, [0x04, 0x10, 0x01, 0xfb]]\<rparr>"
proof -
  have "\<not> data_retrans_count s < data_retrans_limit s"
    using assms(3) by (simp add: data_retrans_limit_def not_less)
  moreover have "h5_ready_events s \<noteq> 0" using assms(2) by auto
  ultimately have "data_retransfer_round s = Some (True, rtkbt_h5_send_hw_error (s\<lparr>h5_ready_events := 0\<rparr>))"
    using assms(1,2) by (simp add: data_retransfer_round_def Let_def data_retrans_limit_def)
  then show ?thesis unfolding rtkbt_h5_send_hw_error_def by simp blast
qed

text \<open>Witness of C13.\<close>

theorem h5_retry_limit_witness:
  "\<exists>s' debug. data_retransfer_round (h5_busy\<lparr>data_retrans_count := 200\<rparr>) = Some (True, s') \<and>
     rawdata_hook s' = rawdata_hook h5_busy @ [debug, [0x04, 0x10, 0x01, 0xfb]] \<and> transmitted s' = []"
  using h5_retry_limit [of "h5_busy\<lparr>data_retrans_count := 200\<rparr>"] by (auto simp: H5_EVENT_RX_def)

section \<open>Link establishment\<close>

text \<open>C9: a step of the transport changes the link state only along uninitialized, initialized, active
  and (when the peer resets) back to uninitialized, and the sliding window is set only by the step that
  makes the link active.\<close>

theorem h5_link_steps:
  assumes "h5_reach s" and "h5_step s s'"
  shows "(link_estab_state s, link_estab_state s') \<in>
      {(H5_UNINITIALIZED, H5_INITIALIZED), (H5_INITIALIZED, H5_ACTIVE), (H5_ACTIVE, H5_UNINITIALIZED)} \<union> Id
    \<and> (sliding_window_size s' \<noteq> sliding_window_size s \<longrightarrow>
        link_estab_state s = H5_INITIALIZED \<and> link_estab_state s' = H5_ACTIVE)"
proof -
  have "ctl_effect s s'" by (rule h5_step_effect [OF assms(2) h5_reach_inv [OF assms(1)]])
  then show ?thesis by (auto simp: ctl_effect_def link_trans_def)
qed

text \<open>Witness of C9: a byte received in the initial state.\<close>

theorem h5_link_steps_witness:
  "link_estab_state (snd (hci_h5_receive_msg h5_boot [0xc0])) \<noteq> H5_ACTIVE"
  using h5_link_steps [OF h5_boot_reach recv_byte [of h5_boot "0xc0"]] by auto

text \<open>As long as the link has never been active, no reliable packet is in flight, no
  sequence number has been used and the window is closed, whatever the stack has queued.\<close>

theorem h5_quiet_before_active:
  assumes "h5_reach_unconf s"
  shows "sliding_window_size s = 0 \<and> unack s = [] \<and> msgq_txseq s = 0"
  using h5_reach_unconf_quiet [OF assms] by (simp add: quiet_def)

text \<open>An instance of \<open>h5_quiet_before_active\<close>: a command queued in the initial state.\<close>

theorem h5_quiet_before_active_witness:
  "unack (snd (hci_h5_send_cmd h5_boot HCI_COMMAND_PKT [3, 12, 0])) = []"
proof -
  have r: "h5_reach_unconf h5_boot" unfolding h5_boot_def by (rule unconf_init) simp
  have st: "h5_step h5_boot (snd (hci_h5_send_cmd h5_boot HCI_COMMAND_PKT [3, 12, 0]))"
    by (rule send_cmd) simp
  have "link_estab_state (snd (hci_h5_send_cmd h5_boot HCI_COMMAND_PKT [3, 12, 0])) = H5_UNINITIALIZED"
    using calm_send_cmd [of h5_boot "[3, 12, 0]" HCI_COMMAND_PKT] h5_boot_simps(3)
    by (simp add: calm_def link_same_def h5_inv_def core_inv_def)
  then have "h5_reach_unconf (snd (hci_h5_send_cmd h5_boot HCI_COMMAND_PKT [3, 12, 0]))"
    by (intro unconf_step [OF r st]) simp
  then show ?thesis using h5_quiet_before_active by blast
qed

section \<open>Receiving\<close>

text \<open>C10: whatever garbage was received before, one delimiter byte brings the receive machine to the start
  of a packet: from any state of the invariant, \<open>0xc0\<close> leads to a state that waits for a header, and the
  bytes that follow are processed from there.\<close>

theorem h5_resync:
  assumes "h5_reach s"
  shows "\<exists>s0 k. h5_inv s0 \<and> rx_state s0 = H5_W4_PKT_START \<and> rx_count s0 = 0 \<and>
    (\<forall>cs complete. h5_recv s (0xc0 # cs) complete = h5_recv s0 cs (complete \<or> k))"
  using resyncs_always [OF h5_reach_inv [OF assms]] by (simp add: resyncs_def)

text \<open>Witness of C10: after garbage.\<close>

theorem h5_resync_witness:
  "\<exists>s0 k. rx_state s0 = H5_W4_PKT_START \<and>
     (\<forall>cs complete. h5_recv (snd (h5_recv h5_boot [1, 2, 0xc0, 3] False)) (0xc0 # cs) complete = h5_recv s0 cs (complete \<or> k))"
  using h5_resync [OF h5_recv_reach [OF h5_boot_reach, of "[1, 2, 0xc0, 3]" False]] by blast



section \<open>Establishing the link from received bytes\<close>

lemma complete_link_ctl:
  assumes "rx_skb s = Some b" and "rtb_wf b" and h: "ack < 8"
    and bytes: "rtb_bytes b = h5_header ack 0 False crc H5_LINK_CTL_PKT (of_nat (length d)) @ d"
    and len: "length d \<le> 0xFFF"
  defines "t \<equiv> (h5_remove_acked_pkt (s\<lparr>rxack := ack\<rparr>))\<lparr>rx_skb := Some (skb_pull b 4)\<rparr>"
  shows "h5_complete_rx_pkt s = (h5_process_ctl_pkts t)\<lparr>rx_state := H5_W4_PKT_DELIMITER, rx_skb := None\<rparr>"
    and "rtb_wf (skb_pull b 4)" and "rtb_bytes (skb_pull b 4) = d"
proof -
  have "of_nat (length d) < (0x1000 :: u32)"
    using len by (simp add: word_less_nat_alt unat_of_nat take_bit_nat_eq_self)
  note h12 = h5_header_h12(1) [OF _ this, of H5_LINK_CTL_PKT ack 0 False crc]
  note h0 = h5_header_h0 [OF h, of 0 False crc H5_LINK_CTL_PKT "of_nat (length d)"]
  have by01: "skb_byte b 0 = h5_header ack 0 False crc H5_LINK_CTL_PKT (of_nat (length d)) ! 0"
    "skb_byte b 1 = h5_header ack 0 False crc H5_LINK_CTL_PKT (of_nat (length d)) ! 1"
    using assms(2) bytes by (simp_all add: skb_byte_bytes nth_append)
  have f: "H5_HDR_RELIABLE (skb_byte b 0) = 0" "H5_HDR_ACK (skb_byte b 0) = ack"
    "H5_HDR_PKT_TYPE (skb_byte b 1) = H5_LINK_CTL_PKT"
    unfolding by01 using h0 h12 by (simp_all add: H5_LINK_CTL_PKT_def)
  show "h5_complete_rx_pkt s = (h5_process_ctl_pkts t)\<lparr>rx_state := H5_W4_PKT_DELIMITER, rx_skb := None\<rparr>"
    using assms(1) f
    by (simp del: One_nat_def add: h5_complete_rx_pkt_def Let_def t_def h5_pass_up_def pkt_type_defs)
  show "rtb_wf (skb_pull b 4)" and "rtb_bytes (skb_pull b 4) = d"
    using skb_pull_bytes [OF assms(2), of 4] bytes by simp_all
qed

text \<open>A link-control frame with payload \<open>d\<close> as a peer sends it.\<close>

definition ctl_frame :: "u8 \<Rightarrow> bool \<Rightarrow> u8 \<Rightarrow> u8 list \<Rightarrow> u8 list" where
  "ctl_frame oof crc ack d = h5_frame oof crc (h5_header ack 0 False crc H5_LINK_CTL_PKT (of_nat (length d)) @ d)"

text \<open>Receiving one: the handler runs on a state that differs from the old one only in the receive
  fields, the acknowledged packets and the allocator's counter.\<close>

lemma recv_ctl_frame:
  assumes m: "\<And>n. malloc_ok (heap s) n" and inv: "h5_inv s" and rx: "\<not> rx_collecting (rx_state s)"
    and ack: "ack < 8" and len: "length d \<le> 0xFFF"
  obtains t b s' where "rx_skb t = Some b" and "rtb_wf b" and "rtb_bytes b = d" and "core_inv t"
    and "malloc_ok (heap t) = malloc_ok (heap s)" and "link_estab_state t = link_estab_state s"
    and "s' = (h5_process_ctl_pkts t)\<lparr>rx_skb := None, rx_state := H5_W4_PKT_START\<rparr>"
    and "h5_inv s'"
    and "\<And>rest complete. h5_recv s (ctl_frame oof crc ack d @ rest) complete = h5_recv s' rest True"
proof -
  have c: "rx_count s = 0" using inv rx by (simp add: h5_inv_def rx_inv_def)
  have t: "(0 :: u8) < 8" "H5_LINK_CTL_PKT < 16" by (simp_all add: H5_LINK_CTL_PKT_def)
  obtain r where ready: "rx_ready s (h5_header ack 0 False crc H5_LINK_CTL_PKT (of_nat (length d)) @ d) r"
    and inv': "h5_inv ((h5_complete_rx_pkt r)\<lparr>rx_state := H5_W4_PKT_START\<rparr>)"
    and eq: "\<And>rest complete. h5_recv s (ctl_frame oof crc ack d @ rest) complete =
      h5_recv ((h5_complete_rx_pkt r)\<lparr>rx_state := H5_W4_PKT_START\<rparr>) rest True"
    unfolding ctl_frame_def
    by (rule recv_frame [where oof = oof and r = False, OF m inv c rx ack t len]) auto
  obtain b e st esc mc where r: "r = s\<lparr>heap := e, rx_skb := Some b, rx_count := 0, rx_state := st,
      rx_esc_state := esc, message_crc := mc\<rparr>" and e: "malloc_ok e = malloc_ok (heap s)" and wf: "rtb_wf b"
    and bytes: "rtb_bytes b = h5_header ack 0 False crc H5_LINK_CTL_PKT (of_nat (length d)) @ d"
    using ready unfolding rx_ready_def by blast
  have rb: "rx_skb r = Some b" unfolding r by simp
  let ?t = "(h5_remove_acked_pkt (r\<lparr>rxack := ack\<rparr>))\<lparr>rx_skb := Some (skb_pull b 4)\<rparr>"
  note cl = complete_link_ctl [OF rb wf ack bytes len]
  have core: "core_inv ?t" using inv ack by (simp add: core_inv_remove_acked r h5_inv_def)
  obtain n tm k where fr: "h5_remove_acked_pkt (r\<lparr>rxack := ack\<rparr>) =
      r\<lparr>rxack := ack, unack := drop n (unack r), timer_data_retrans := tm, data_retrans_count := k\<rparr>"
    by (rule h5_remove_acked_pkt_frame [of "r\<lparr>rxack := ack\<rparr>"]) simp
  show thesis
  proof (rule that [of ?t "skb_pull b 4"])
    show "h5_inv ((h5_process_ctl_pkts ?t)\<lparr>rx_skb := None, rx_state := H5_W4_PKT_START\<rparr>)"
      using inv' by (simp add: cl(1))
    show "\<And>rest complete. h5_recv s (ctl_frame oof crc ack d @ rest) complete =
        h5_recv ((h5_process_ctl_pkts ?t)\<lparr>rx_skb := None, rx_state := H5_W4_PKT_START\<rparr>) rest True"
      using eq by (simp add: cl(1))
    show "malloc_ok (heap ?t) = malloc_ok (heap s)" "link_estab_state ?t = link_estab_state s"
      unfolding fr by (simp_all add: r e)
  qed (use cl core in simp_all)
qed

lemma starts2_bytes: "rtb_wf b \<Longrightarrow> rtb_bytes b = x # y # ds \<Longrightarrow> starts2 b u v \<longleftrightarrow> u = x \<and> v = y"
  using skb_byte_bytes [of b 0] skb_byte_bytes [of b 1] by (auto simp: starts2_def)

text \<open>What the two answers of the peer do.\<close>

lemma ctl_sync_answer:
  assumes "core_inv t" and "rx_skb t = Some b" "rtb_wf b" "rtb_bytes b = [0x02, 0x7D]"
    and "link_estab_state t = H5_UNINITIALIZED"
  shows "link_estab_state (h5_process_ctl_pkts t) = H5_INITIALIZED"
    and "malloc_ok (heap (h5_process_ctl_pkts t)) = malloc_ok (heap t)"
    and "\<not> timer_armed (timer_sync_retrans (h5_process_ctl_pkts t))"
proof -
  define u where "u = (h5_stop_sync_retrans_timer t)\<lparr>sync_retrans_count := 0, link_estab_state := H5_INITIALIZED\<rparr>"
  have p: "h5_process_ctl_pkts t = h5_start_conf_retrans_timer (hci_h5_send_conf_req u)"
    using assms(2-5) by (simp add: h5_process_ctl_pkts_def ctl_uninitialized_def starts2_bytes u_def Let_def)
  have "tx_inv u" using assms(1) by (simp add: u_def core_inv_def h5_stop_sync_retrans_timer_def)
  from send_keeps(3) [OF this] have k: "tx_rest (hci_h5_send_conf_req u) = tx_rest u" by (simp add: tx_keeps_def)
  note f = tx_rest_fields [OF k]
  show "link_estab_state (h5_process_ctl_pkts t) = H5_INITIALIZED"
    "malloc_ok (heap (h5_process_ctl_pkts t)) = malloc_ok (heap t)"
    unfolding p using f by (simp_all add: h5_start_conf_retrans_timer_def)
      (simp_all add: u_def h5_stop_sync_retrans_timer_def)
  show "\<not> timer_armed (timer_sync_retrans (h5_process_ctl_pkts t))"
    unfolding p using f by (simp add: h5_start_conf_retrans_timer_def)
      (simp add: u_def h5_stop_sync_retrans_timer_def timer_armed_def OsStopTimer_def OsStartTimer_def
        split: option.split)
qed

lemma ctl_conf_answer:
  assumes "rx_skb t = Some b" "rtb_wf b" "rtb_bytes b = [0x04, 0x7B, cfg]"
    and "link_estab_state t = H5_INITIALIZED"
  shows "link_estab_state (h5_process_ctl_pkts t) = H5_ACTIVE"
    and "sliding_window_size (h5_process_ctl_pkts t) = cfg AND 7"
    and "oof_flow_control (h5_process_ctl_pkts t) = H5_CFG_OOF_CNTRL cfg"
proof -
  have c: "skb_byte b 2 = cfg" using skb_byte_bytes [OF assms(2), of 2] assms(3) by simp
  show "link_estab_state (h5_process_ctl_pkts t) = H5_ACTIVE"
    "sliding_window_size (h5_process_ctl_pkts t) = cfg AND 7"
    "oof_flow_control (h5_process_ctl_pkts t) = H5_CFG_OOF_CNTRL cfg"
    using assms c
    by (simp_all add: h5_process_ctl_pkts_def ctl_initialized_def starts2_bytes Let_def
        rtk_notify_hw_h5_init_result_def H5_CFG_SLID_WIN_def h5_stop_conf_retrans_timer_def
        split: prod.split option.split)
qed

text \<open>C8: from an uninitialized link with the receive machine idle, the byte stream of the peer's
  sync response frame followed by its configuration response frame makes the link active, with the
  window and the flow-control flag of the configuration byte.\<close>

theorem h5_establishes:
  fixes oof1 oof2 cfg :: u8 and crc1 crc2 :: bool
  assumes m: "\<And>n. malloc_ok (heap s) n" and inv: "h5_inv s" and rx: "\<not> rx_collecting (rx_state s)"
    and l: "link_estab_state s = H5_UNINITIALIZED" and a: "a1 < 8" "a2 < 8"
  defines "s' \<equiv> snd (hci_h5_receive_msg s
    (ctl_frame oof1 crc1 a1 [0x02, 0x7D] @ ctl_frame oof2 crc2 a2 [0x04, 0x7B, cfg]))"
  shows "link_estab_state s' = H5_ACTIVE \<and> sliding_window_size s' = cfg AND 7 \<and>
    oof_flow_control s' = H5_CFG_OOF_CNTRL cfg \<and> h5_inv s'"
proof -
  obtain t b s1 where 1: "rx_skb t = Some b" "rtb_wf b" "rtb_bytes b = [0x02, 0x7D]" "core_inv t"
    "malloc_ok (heap t) = malloc_ok (heap s)" "link_estab_state t = link_estab_state s"
    and s1: "s1 = (h5_process_ctl_pkts t)\<lparr>rx_skb := None, rx_state := H5_W4_PKT_START\<rparr>" and i1: "h5_inv s1"
    and r1: "\<And>rest complete. h5_recv s (ctl_frame oof1 crc1 a1 [0x02, 0x7D] @ rest) complete = h5_recv s1 rest True"
    by (rule recv_ctl_frame [where oof = oof1 and crc = crc1 and d = "[0x02, 0x7D]", OF m inv rx a(1)]) auto
  note c1 = ctl_sync_answer [OF 1(4,1,2,3)]
  have m1: "\<And>n. malloc_ok (heap s1) n" using m c1(2) 1(5,6) l by (simp add: s1)
  have rx1: "\<not> rx_collecting (rx_state s1)" by (simp add: s1 rx_collecting_def)
  obtain t2 b2 s2 where 2: "rx_skb t2 = Some b2" "rtb_wf b2" "rtb_bytes b2 = [0x04, 0x7B, cfg]"
    "link_estab_state t2 = link_estab_state s1"
    and s2: "s2 = (h5_process_ctl_pkts t2)\<lparr>rx_skb := None, rx_state := H5_W4_PKT_START\<rparr>" and i2: "h5_inv s2"
    and r2: "\<And>rest complete. h5_recv s1 (ctl_frame oof2 crc2 a2 [0x04, 0x7B, cfg] @ rest) complete = h5_recv s2 rest True"
    by (rule recv_ctl_frame [where oof = oof2 and crc = crc2 and d = "[0x04, 0x7B, cfg]", OF m1 i1 rx1 a(2)]) auto
  have "link_estab_state t2 = H5_INITIALIZED" using 2(4) c1(1) 1(6) l by (simp add: s1)
  note c2 = ctl_conf_answer [OF 2(1,2,3) this]
  have "s' = s2" using r1 r2 [of "[]"] by (simp add: s'_def hci_h5_receive_msg_def)
  then show ?thesis using c2 i2 by (simp add: s2)
qed

text \<open>Witness of C8: a fresh transport and a peer that offers a window of four.\<close>

theorem h5_establishes_witness:
  "link_estab_state (snd (hci_h5_receive_msg h5_boot
     (ctl_frame 0 False 0 [0x02, 0x7D] @ ctl_frame 0 False 0 [0x04, 0x7B, 0x04]))) = H5_ACTIVE"
  using h5_establishes [of h5_boot 0 0 0 False 0 False 4] by (simp add: rx_collecting_def)

section \<open>Handing packets up\<close>

text \<open>\<open>n\<close> successive calls of \<open>hci_h5_int_read_data\<close> with a buffer of \<open>m\<close> bytes.\<close>

primrec read_n :: "nat \<Rightarrow> u32 \<Rightarrow> tHCI_H5_CB \<Rightarrow> u8 list \<times> tHCI_H5_CB" where
  "read_n 0 m s = ([], s)"
| "read_n (Suc n) m s =
     (case hci_h5_int_read_data s m of
        (None, s) \<Rightarrow> ([], s)
      | (Some (bs, _), s) \<Rightarrow> (let (cs, s) = read_n n m s in (bs @ cs, s)))"

lemma read_n_all:
  assumes "0 < m" and "data_skb s = Some b" and "rtb_wf b"
  shows "read_n (Suc ((length (rtb_bytes b) - 1) div unat m)) m s = (rtb_bytes b, s\<lparr>data_skb := None\<rparr>)"
  using assms(2,3)
proof (induction "length (rtb_bytes b)" arbitrary: b s rule: less_induct)
  case less
  have um: "0 < unat m" using assms(1) by (simp add: unat_gt_0)
  have len: "skb_get_data_length b \<le> m \<longleftrightarrow> length (rtb_bytes b) \<le> unat m"
    using rtb_Length_bytes [OF less.prems(2)] by (simp add: skb_get_data_length_def word_le_nat_alt)
  show ?case
  proof (cases "length (rtb_bytes b) \<le> unat m")
    case True
    then have "(length (rtb_bytes b) - 1) div unat m = 0" using um by (simp add: div_less)
    then show ?thesis using True len less.prems by (simp add: hci_h5_int_read_data_def Let_def)
  next
    case False
    let ?c = "skb_pull b m"
    have c: "rtb_wf ?c" "rtb_bytes ?c = drop (unat m) (rtb_bytes b)"
      using skb_pull_bytes [OF less.prems(2), of m] False by simp_all
    have "(length (rtb_bytes b) - 1) div unat m = Suc ((length (rtb_bytes ?c) - 1) div unat m)"
    proof -
      have "length (rtb_bytes b) - 1 = (length (rtb_bytes ?c) - 1) + unat m" using False c(2) by simp
      then show ?thesis using um by (metis div_add_self2 Suc_eq_plus1 less_numeral_extra(3))
    qed
    moreover have "read_n (Suc ((length (rtb_bytes ?c) - 1) div unat m)) m (s\<lparr>data_skb := Some ?c\<rparr>) =
        (rtb_bytes ?c, s\<lparr>data_skb := None\<rparr>)"
      using less.hyps [of ?c "s\<lparr>data_skb := Some ?c\<rparr>"] c False um by simp
    ultimately show ?thesis
      using False len less.prems c(2)
      by (simp add: hci_h5_int_read_data_def Let_def del: read_n.simps(2))
        (simp add: hci_h5_int_read_data_def Let_def)
  qed
qed

text \<open>Reading a received packet in pieces of any non-zero size returns, after the number of reads the
  size calls for, exactly the bytes of the packet in order, and leaves no packet behind.\<close>

theorem h5_read_whole:
  assumes "0 < m" and "data_skb s = Some b" and "rtb_wf b" and "n = Suc ((length (rtb_bytes b) - 1) div unat m)"
  shows "read_n n m s = (rtb_bytes b, s\<lparr>data_skb := None\<rparr>)"
  using read_n_all [OF assms(1-3)] assms(4) by simp

text \<open>An instance of \<open>h5_read_whole\<close>: a two-byte packet read byte by byte.\<close>

theorem h5_read_whole_witness: "fst (read_n 2 1 (h5_boot\<lparr>data_skb := Some cmd_pkt\<rparr>)) = [3, 12]"
  using h5_read_whole [of 1 "h5_boot\<lparr>data_skb := Some cmd_pkt\<rparr>" cmd_pkt 2] pkt_wf(1) [OF cmd_pkt_rel]
  by (simp del: read_n.simps)

text \<open>C12: when a packet for the stack is complete, exactly its payload is appended to the receive queue with
  its type, the acknowledgement it carries is taken over, and a reliable packet advances the expected
  number; only the answer to the baud-rate command is held back, and it is handed up by the timer that
  waits for the controller to switch.\<close>

theorem h5_delivers:
  assumes inv: "core_inv s" and b: "rx_skb s = Some b" "rtb_wf b"
    and h: "ack < 8" "seq < 8" "t < 16" and len: "length d \<le> 0xFFF"
    and bytes: "rtb_bytes b = h5_header ack seq r crc t (of_nat (length d)) @ d"
    and up: "h5_pass_up t" and ev: "t = HCI_EVENT_PKT \<longrightarrow> 5 \<le> length d"
  shows "\<exists>c. rtb_bytes c = d \<and> rb_PacketType c = t \<and> rxack (h5_complete_rx_pkt s) = ack \<and>
    rxseq_txack (h5_complete_rx_pkt s) = (if r then (seq + 1) mod 8 else rxseq_txack s) \<and>
    (if baudrate_event t d
     then recv_data (h5_complete_rx_pkt s) = recv_data s \<and>
       (\<forall>u. cleanuping u = 0 \<and> internal_skb u = internal_skb (h5_complete_rx_pkt s) \<longrightarrow>
          recv_data (h5_wait_controller_baudrate_ready_timeout_handler u) = recv_data u @ [c])
     else recv_data (h5_complete_rx_pkt s) = recv_data s @ [c])"
proof -
  obtain c where c: "rtb_bytes c = d" "rb_PacketType c = t"
    "recv_data (h5_complete_rx_pkt s) = recv_data s @ (if baudrate_event t d then [] else [c])"
    "baudrate_event t d \<Longrightarrow> internal_skb (h5_complete_rx_pkt s) = Some c"
    "rxseq_txack (h5_complete_rx_pkt s) = (if r then (seq + 1) mod 8 else rxseq_txack s)"
    "rxack (h5_complete_rx_pkt s) = ack"
    by (rule complete_delivers [OF inv b h len bytes up ev]) blast
  then show ?thesis
    by (intro exI [of _ c]) (auto simp: h5_wait_controller_baudrate_ready_timeout_handler_def)
qed

text \<open>Witness of C12: a reliable ACL packet with two bytes.\<close>

definition acl_rx :: rtk_buffer where
  "acl_rx = \<lparr>rb_Mem = replicate 12 0 @ [0x80, 0x22, 0, 0x5d, 1, 2], rb_Data = 12, rb_Tail = 18, rb_End = 18,
     rb_Length = 6, rb_HeadRoom = 12, rb_RefCount = 1, rb_PacketType = 0\<rparr>"

theorem h5_delivers_witness:
  "\<exists>c. rtb_bytes c = [1, 2] \<and> recv_data (h5_complete_rx_pkt (h5_boot\<lparr>rx_skb := Some acl_rx\<rparr>)) = [c] \<and>
     rxseq_txack (h5_complete_rx_pkt (h5_boot\<lparr>rx_skb := Some acl_rx\<rparr>)) = 1"
proof -
  have "core_inv (h5_boot\<lparr>rx_skb := Some acl_rx\<rparr>)" using h5_boot_simps(3) by (simp add: h5_inv_def)
  moreover have "rtb_wf acl_rx" by (simp add: rtb_wf_def acl_rx_def)
  moreover have "rtb_bytes acl_rx = h5_header 0 0 True False HCI_ACLDATA_PKT (of_nat (length [1 :: u8, 2])) @ [1, 2]"
    by (simp add: rtb_bytes_def acl_rx_def HCI_ACLDATA_PKT_def) code_simp
  moreover have "\<not> baudrate_event HCI_ACLDATA_PKT [1, 2]" by (simp add: baudrate_event_def pkt_type_defs)
  ultimately show ?thesis
    using h5_delivers [of "h5_boot\<lparr>rx_skb := Some acl_rx\<rparr>" acl_rx 0 0 HCI_ACLDATA_PKT "[1, 2]" True False]
    by (auto simp: h5_pass_up_def pkt_type_defs)
qed

section \<open>Coding\<close>

text \<open>C15: the table-driven CRC over a packet equals the bitwise CRC-CCITT (reflected polynomial 0x8408,
  initial value 0xffff) over the same bytes.\<close>

theorem h5_crc_is_ccitt:
  "fold (\<lambda>d crc. h5_crc_update crc d) bs H5_CRC_INIT = fold (\<lambda>d crc. crc_ccitt_byte crc d) bs 0xffff"
  by (simp add: h5_crc_update_ccitt H5_CRC_INIT_def)

text \<open>The table-driven bit reversal maps bit \<open>n\<close> to bit \<open>15 - n\<close>, hence undoes itself.\<close>

theorem bit_rev16_reverses:
  "(\<forall>n < 16. bit (bit_rev16 x) n = bit x (15 - n)) \<and> bit_rev16 (bit_rev16 x) = x"
  using bit_rev16_bit bit_rev16_involution by blast

text \<open>An instance of \<open>bit_rev16_reverses\<close>.\<close>

theorem bit_rev16_reverses_witness: "bit (bit_rev16 1) 15"
  using bit_rev16_reverses [of 1] by (auto dest: spec [of _ 15])

text \<open>The header fields the sender packs (acknowledgement, sequence number, flags, type and a
  length of 12 bits) are the ones the receiver's macros extract, and its checksum is accepted.\<close>

theorem h5_header_roundtrip:
  fixes r crc :: bool
  assumes "ack < 8" "seq < 8" "t < 16" "len < 0x1000"
  defines "h \<equiv> h5_header ack seq r crc t len"
  shows "H5_HDR_ACK (h ! 0) = ack \<and> H5_HDR_SEQ (h ! 0) = (if r then seq else 0) \<and>
    H5_HDR_CRC (h ! 0) = of_bool crc \<and> H5_HDR_RELIABLE (h ! 0) = of_bool r \<and>
    H5_HDR_PKT_TYPE (h ! 1) = t \<and> H5_HDR_LEN (h ! 1) (h ! 2) = len \<and> NOT (h ! 0 + h ! 1 + h ! 2) = h ! 3"
  using h5_header_h0 [OF assms(1,2)] h5_header_h12 [OF assms(3,4)]
  by (simp add: h_def) (simp add: h5_header_def Let_def)

text \<open>An instance of \<open>h5_header_roundtrip\<close>.\<close>

theorem h5_header_roundtrip_witness: "H5_HDR_SEQ (h5_header 3 5 True False 1 0xFFF ! 0) = 5"
  using h5_header_roundtrip [of 3 5 1 "0xFFF" True False] by simp

text \<open>C14: a packet of a known type and at most 4095 bytes is always framed when memory is available: the
  buffer that \<open>h5_prepare_pkt\<close> allocates holds the worst case of the escape coding, the frame is the
  escaped packet between two delimiters, no delimiter occurs inside, and a reliable packet takes the
  next sequence number.\<close>

theorem h5_frame_fits:
  assumes "\<And>n. malloc_ok (heap s) n" and "h5_pkt_reliable t = Some r" and "length d \<le> 0xFFF"
  shows "\<exists>b s'. h5_prepare_pkt s d t = (Some b, s') \<and> rtb_wf b \<and>
    rtb_bytes b = 0xc0 # slip (oof_flow_control s) (h5_packet (use_crc s \<noteq> 0)
        (h5_header (rxseq_txack s) (msgq_txseq s) r (use_crc s \<noteq> 0) t (of_nat (length d)) @ d)) @ [0xc0] \<and>
    0xc0 \<notin> set (tl (butlast (rtb_bytes b))) \<and>
    msgq_txseq s' = (if r then (msgq_txseq s + 1) AND 7 else msgq_txseq s)"
proof -
  obtain b s' where p: "h5_prepare_pkt s d t = (Some b, s')"
    by (rule h5_prepare_pkt_total [OF assms])
  obtain r' e where "h5_pkt_reliable t = Some r'"
    "s' = s\<lparr>heap := e, is_txack_req := 0, msgq_txseq := (if r' then (msgq_txseq s + 1) AND 7 else msgq_txseq s)\<rparr>"
    "rtb_wf b" "rtb_bytes b = h5_frame (oof_flow_control s) (use_crc s \<noteq> 0)
       (h5_header (rxseq_txack s) (msgq_txseq s) r' (use_crc s \<noteq> 0) t (of_nat (length d)) @ d)"
    by (rule h5_prepare_pkt_Some [OF p assms(3)]) blast
  then show ?thesis using p assms(2) slip_no_delim by (auto simp: h5_frame_def butlast_append)
qed

text \<open>Witness of C14: an empty acknowledgement.\<close>

theorem h5_frame_fits_witness: "\<exists>b s'. h5_prepare_pkt h5_boot [] H5_ACK_PKT = (Some b, s') \<and> rtb_wf b"
  using h5_frame_fits [of h5_boot H5_ACK_PKT False "[]"] by auto

end
