(* ===== verification/H5EndToEnd.thy ===== *)
theory H5EndToEnd
  imports H5Establish
begin

text \<open>
  Two transports back to back (hardware/bt/src/hci_h5.c on both ends of the wire): what one end's
  \<open>h5_wake_up\<close> hands to its UART, received by the other end's \<open>h5_recv\<close>.
\<close>

section \<open>The allocator across a completed packet\<close>

lemma heap_remove_acked: "heap (h5_remove_acked_pkt s) = heap s"
  by (simp add: h5_remove_acked_pkt_def Let_def timer_defs case_prod_beta)

lemma heap_wake_up: "tx_inv s \<Longrightarrow> malloc_ok (heap (h5_wake_up s)) = malloc_ok (heap s)"
  using tx_keeps_wake_up [of s] by (auto simp: tx_keeps_def dest: tx_rest_fields(32))

lemma heap_recv_frame: "heap (snd (hci_recv_frame s b t)) = heap s"
  by (simp add: hci_recv_frame_def Let_def timer_defs)

lemma malloc_ok_malloc [simp]: "malloc_ok (snd (malloc e n)) = malloc_ok e"
  by (simp add: malloc_def)

lemma heap_complete:
  assumes inv: "core_inv s" and b: "rx_skb s = Some b" and up: "H5_HDR_PKT_TYPE (skb_byte b 1) \<noteq> H5_LINK_CTL_PKT"
  shows "malloc_ok (heap (h5_complete_rx_pkt s)) = malloc_ok (heap s)"
proof -
  let ?w = "s\<lparr>rxseq_txack := (H5_HDR_SEQ (skb_byte b 0) + 1) mod 8, is_txack_req := 1\<rparr>"
  have w: "malloc_ok (heap (h5_wake_up ?w)) = malloc_ok (heap s)"
    using heap_wake_up [of ?w] core_inv_tx [OF inv] by (simp add: mod8_less)
  show ?thesis
    using b up w heap_recv_frame
    by (simp del: One_nat_def add: h5_complete_rx_pkt_def Let_def case_prod_beta heap_remove_acked)
qed

section \<open>One frame\<close>

lemma and7_mod8: "(x :: u8) mod 8 = x AND 7"
  by (simp add: word_uint_eq_iff uint_mod uint_and7)

lemma frame_delivered:
  fixes crc :: bool
  assumes m: "\<And>n. malloc_ok (heap s) n" and inv: "h5_inv s" and rx: "\<not> rx_collecting (rx_state s)"
    and h: "ack < 8" "seq < 8" "t < 16" and len: "length d \<le> 0xFFF" and ord: "r \<longrightarrow> seq = rxseq_txack s"
    and up: "h5_pass_up t" and ev: "t = HCI_EVENT_PKT \<longrightarrow> 5 \<le> length d" and nb: "\<not> baudrate_event t d"
  obtains s' c where "\<And>n. malloc_ok (heap s') n" and "h5_inv s'" and "\<not> rx_collecting (rx_state s')"
    and "rtb_bytes c = d" and "rb_PacketType c = t" and "recv_data s' = recv_data s @ [c]"
    and "rxseq_txack s' = (if r then (seq + 1) AND 7 else rxseq_txack s)" and "rxack s' = ack"
    and "\<And>rest k. h5_recv s (h5_frame oof crc (h5_header ack seq r crc t (of_nat (length d)) @ d) @ rest) k =
      h5_recv s' rest True"
proof -
  let ?hdr = "h5_header ack seq r crc t (of_nat (length d))"
  have c0: "rx_count s = 0" using inv rx by (simp add: h5_inv_def rx_inv_def)
  obtain q where ready: "rx_ready s (?hdr @ d) q"
    and inv': "h5_inv ((h5_complete_rx_pkt q)\<lparr>rx_state := H5_W4_PKT_START\<rparr>)"
    and eq: "\<And>rest k. h5_recv s (h5_frame oof crc (?hdr @ d) @ rest) k =
      h5_recv ((h5_complete_rx_pkt q)\<lparr>rx_state := H5_W4_PKT_START\<rparr>) rest True"
    by (rule recv_frame [where oof = oof, OF m inv c0 rx h len ord]) auto
  obtain b e st esc mc where q: "q = s\<lparr>heap := e, rx_skb := Some b, rx_count := 0, rx_state := st,
      rx_esc_state := esc, message_crc := mc\<rparr>" and e: "malloc_ok e = malloc_ok (heap s)" and wf: "rtb_wf b"
    and bytes: "rtb_bytes b = ?hdr @ d"
    using ready unfolding rx_ready_def by blast
  have qb: "rx_skb q = Some b" and qi: "core_inv q" and qf: "recv_data q = recv_data s" "rxseq_txack q = rxseq_txack s"
    "malloc_ok (heap q) = malloc_ok (heap s)"
    using inv by (simp_all add: q h5_inv_def e)
  obtain c where c: "rtb_bytes c = d" "rb_PacketType c = t"
    "recv_data (h5_complete_rx_pkt q) = recv_data q @ (if baudrate_event t d then [] else [c])"
    "rxseq_txack (h5_complete_rx_pkt q) = (if r then (seq + 1) mod 8 else rxseq_txack q)"
    "rxack (h5_complete_rx_pkt q) = ack"
    by (rule complete_delivers [OF qi qb wf h len bytes up ev]) blast
  have "of_nat (length d) < (0x1000 :: u32)"
    using len by (simp add: word_less_nat_alt unat_of_nat take_bit_nat_eq_self)
  from h5_header_h12(1) [OF h(3) this, of ack seq r crc]
  have "H5_HDR_PKT_TYPE (skb_byte b 1) = t"
    using skb_byte_bytes [OF wf, of 1] bytes by (simp add: nth_append)
  then have "malloc_ok (heap (h5_complete_rx_pkt q)) = malloc_ok (heap s)"
    using heap_complete [OF qi qb] up qf(3) by (auto simp: h5_pass_up_def pkt_type_defs)
  then show thesis
    using that [of "(h5_complete_rx_pkt q)\<lparr>rx_state := H5_W4_PKT_START\<rparr>" c] m inv' c nb qf eq
    by (simp add: rx_collecting_def and7_mod8)
qed

section \<open>A window of frames\<close>

lemma rel_frames_delivered:
  assumes "\<And>n. malloc_ok (heap s) n" and "h5_inv s" and "\<not> rx_collecting (rx_state s)"
    and "rxseq_txack s = seq" and "seq < 8" and "rxseq_txack p < 8" and "list_all rel_pkt bs"
  shows "\<exists>s' cs. (\<forall>k. h5_recv s (concat (rel_frames p seq bs)) k = (k \<or> bs \<noteq> [], s')) \<and>
    recv_data s' = recv_data s @ cs \<and>
    map (\<lambda>c. (rb_PacketType c, rtb_bytes c)) cs = map (\<lambda>b. (rb_PacketType b, rtb_bytes b)) bs \<and>
    rxseq_txack s' = (seq + of_nat (length bs)) AND 7 \<and> h5_inv s' \<and> (bs \<noteq> [] \<longrightarrow> rxack s' = rxseq_txack p)"
  using assms(1-5,7)
proof (induction bs arbitrary: s seq)
  case Nil
  then show ?case by (intro exI [of _ s]) auto
next
  case (Cons b bs)
  have b: "rel_pkt b" and bs: "list_all rel_pkt bs" using Cons.prems(6) by simp_all
  let ?t = "skb_get_pkt_type b" and ?d = "rtb_bytes b"
  have ty: "?t < 16" "h5_pass_up ?t" "?t \<noteq> HCI_EVENT_PKT"
    using b by (auto simp: rel_pkt_def pkt_type_defs h5_pass_up_def)
  have ne: "\<not> baudrate_event ?t ?d" using ty(3) by (simp add: baudrate_event_def)
  obtain s1 c where s1: "\<And>n. malloc_ok (heap s1) n" "h5_inv s1" "\<not> rx_collecting (rx_state s1)"
    and c: "rtb_bytes c = ?d" "rb_PacketType c = ?t" "recv_data s1 = recv_data s @ [c]"
    and sq: "rxseq_txack s1 = (seq + 1) AND 7" and ra: "rxack s1 = rxseq_txack p"
    and r: "\<And>rest k. h5_recv s (tx_frame p seq ?t ?d @ rest) k = h5_recv s1 rest True"
    by (rule frame_delivered [where r = True and oof = "oof_flow_control p" and crc = "use_crc p \<noteq> 0",
          OF Cons.prems(1-3) assms(6) Cons.prems(5) ty(1) pkt_wf(3) [OF b] _ ty(2) _ ne])
      (use ty(3) Cons.prems(4) b in \<open>auto simp: tx_frame_def\<close>)
  obtain s' cs where s': "\<And>k. h5_recv s1 (concat (rel_frames p ((seq + 1) AND 7) bs)) k = (k \<or> bs \<noteq> [], s')"
    "recv_data s' = recv_data s1 @ cs"
    "map (\<lambda>c. (rb_PacketType c, rtb_bytes c)) cs = map (\<lambda>b. (rb_PacketType b, rtb_bytes b)) bs"
    "rxseq_txack s' = (((seq + 1) AND 7) + of_nat (length bs)) AND 7" "h5_inv s'"
    "bs \<noteq> [] \<longrightarrow> rxack s' = rxseq_txack p"
    using Cons.IH [OF s1 sq and7_less bs] by blast
  have "rxseq_txack s' = (seq + of_nat (length (b # bs))) AND 7"
    using s'(4) and7_cong [of "seq + 1" "of_nat (length bs)"] by (simp add: add.assoc)
  moreover have "rxack s' = rxseq_txack p"
    using s'(1) [of True] s'(6) ra by (cases "bs = []") auto
  ultimately show ?case
    using r s' c by (intro exI [of _ s'] exI [of _ "c # cs"]) (auto simp: skb_get_pkt_type_def)
qed

end
