(* ===== verification/RtkCoex.thy ===== *)
theory RtkCoex
  imports OsTimer BtSkbuff
begin

text \<open>
  The state of the Wi-Fi/Bluetooth coexistence module (hardware/bt/src/rtk_parse.c), the command
  channel to the Bluetooth firmware with its queue of waiting commands, and the messages to the Wi-Fi
  driver. The linked lists of the module are lists here (\<open>BtList\<close> shows what the list functions do).
\<close>

section \<open>State\<close>

text \<open>Profile numbers: the positions in \<open>profile_refcount\<close> and the bits of the bitmaps.\<close>

definition profile_sco :: nat where "profile_sco = 0"
definition profile_hid :: nat where "profile_hid = 1"
definition profile_a2dp :: nat where "profile_a2dp = 2"
definition profile_pan :: nat where "profile_pan = 3"
definition profile_hid_interval :: nat where "profile_hid_interval = 4"
definition profile_hogp :: nat where "profile_hogp = 5"
definition profile_voice :: nat where "profile_voice = 6"
definition profile_sink :: nat where "profile_sink = 7"

lemmas profile_defs = profile_sco_def profile_hid_def profile_a2dp_def profile_pan_def
  profile_hid_interval_def profile_hogp_def profile_voice_def profile_sink_def

text \<open>A waiting command: its bytes, opcode and completion callback. Callbacks are names here.\<close>

record tRTK_COEX_INFO =
  ci_buf :: "u8 list"
  ci_opcode :: u16
  ci_cback :: "nat option"

record tRTK_PROF_INFO =
  pi_handle :: u16
  pi_psm :: u16
  pi_dcid :: u16
  pi_scid :: u16
  pi_profile_index :: u8

text \<open>The 8-bit counters of the source are words: they wrap at their width and are only compared
  with 0 and 1.\<close>

record tRTK_CONN_PROF =
  cp_handle :: u16
  cp_type :: u8
  cp_profile_bitmap :: u8
  cp_profile_refcount :: "nat \<Rightarrow> u8"

text \<open>\<open>tRTK_PROF\<close> and the globals of the file, then the environment: the allocator, the commands
  given to \<open>bt_vendor_cbacks->xmit_cb\<close>, the completion callbacks called, the messages given to the
  coexistence socket or device, and \<open>stack_overrun\<close>, set when a message is written past the end of
  its stack buffer.\<close>

record tRTK_PROF =
  conn_hash :: "tRTK_CONN_PROF list"
  profile_list :: "tRTK_PROF_INFO list"
  coex_list :: "tRTK_COEX_INFO list"
  current_cback :: "nat option"
  timer_a2dp_packet_count :: "itimerspec option"
  timer_pan_packet_count :: "itimerspec option"
  timer_hogp_packet_count :: "itimerspec option"
  timer_polling :: "itimerspec option"
  a2dp_packet_count :: u32
  pan_packet_count :: u32
  hogp_packet_count :: u32
  voice_packet_count :: u32
  profile_bitmap :: u8
  profile_status :: u8
  profile_refcount :: "nat \<Rightarrow> u8"
  ispairing :: u8
  isinquirying :: u8
  ispaging :: u8
  autoreport :: u8
  polling_enable :: u8
  polling_interval :: u8
  coex_recv_thread_running :: u8
  btcoex_chr :: int
  udpsocket :: int
  piconet_id :: u8
  coex_mode :: u8
  afh_map :: "u8 list"
  hci_reversion :: u16
  lmp_subversion :: u16
  wifi_on :: u8
  bt_on :: u8
  coex_cmd_send :: bool
  poweroff_allowed :: int
  pheap :: malloc_env
  xmit :: "(u16 \<times> u8 list) list"
  cbacks_called :: "nat list"
  wifi_msgs :: "u8 list list"
  stack_overrun :: bool

section \<open>Commands to the firmware\<close>

definition HCI_VENDOR_SET_PROFILE_REPORT_COMMAND :: u16 where
  "HCI_VENDOR_SET_PROFILE_REPORT_COMMAND = 0xFC19"
definition HCI_VENDOR_MAILBOX_CMD :: u16 where "HCI_VENDOR_MAILBOX_CMD = 0xFC8F"
definition HCI_VENDOR_ADD_BITPOOL_FW :: u16 where "HCI_VENDOR_ADD_BITPOOL_FW = 0xFC51"

text \<open>The bytes of a command: opcode, length, parameters. The length parameter is 8 bits wide.\<close>

definition vendor_cmd :: "u16 \<Rightarrow> u8 list \<Rightarrow> u8 list" where
  "vendor_cmd opcode parameter = uint16_to_stream opcode @ [of_nat (length parameter)] @ parameter"

text \<open>\<open>rtk_vendor_cmd_to_fw(opcode, parameter_len, parameter, p_cback)\<close>; \<open>parameter\<close> is the list of
  the \<open>parameter_len\<close> bytes. A command is sent at once when none is outstanding and queued
  otherwise; without memory for the queue entry it is dropped.\<close>

definition rtk_vendor_cmd_to_fw :: "tRTK_PROF \<Rightarrow> u16 \<Rightarrow> u8 list \<Rightarrow> nat option \<Rightarrow> tRTK_PROF" where
  "rtk_vendor_cmd_to_fw s opcode parameter p_cback =
     (case malloc (pheap s) (8 + 3 + length parameter) of
        (None, e) \<Rightarrow> s\<lparr>pheap := e\<rparr>
      | (Some _, e) \<Rightarrow>
          let s = s\<lparr>pheap := e\<rparr>; p_buf = vendor_cmd opcode parameter in
          if \<not> coex_cmd_send s
          then s\<lparr>coex_cmd_send := True, current_cback := p_cback, xmit := xmit s @ [(opcode, p_buf)]\<rparr>
          else case malloc (pheap s) 24 of
                 (None, e) \<Rightarrow> s\<lparr>pheap := e\<rparr>
               | (Some _, e) \<Rightarrow>
                   s\<lparr>pheap := e,
                     coex_list := coex_list s @ [\<lparr>ci_buf = p_buf, ci_opcode = opcode, ci_cback = p_cback\<rparr>]\<rparr>)"

text \<open>\<open>rtk_cmd_complete_cback\<close>: take the next waiting command, or mark the channel free; run the
  callback of the completed command; send the next one.\<close>

definition rtk_cmd_complete_cback :: "tRTK_PROF \<Rightarrow> tRTK_PROF" where
  "rtk_cmd_complete_cback s =
     (let (desc, s) =
            (case coex_list s of
               [] \<Rightarrow> (None, s\<lparr>coex_cmd_send := False\<rparr>)
             | d # q \<Rightarrow> (Some d, s\<lparr>coex_list := q\<rparr>));
          s = (case current_cback s of
                 None \<Rightarrow> s
               | Some f \<Rightarrow> s\<lparr>cbacks_called := cbacks_called s @ [f], current_cback := None\<rparr>)
      in case desc of
           None \<Rightarrow> s
         | Some d \<Rightarrow> s\<lparr>current_cback := ci_cback d, xmit := xmit s @ [(ci_opcode d, ci_buf d)]\<rparr>)"

section \<open>Messages to the Wi-Fi driver\<close>

text \<open>\<open>coex_msg_send\<close>: through the socket or the character device, whichever is open.\<close>

definition coex_msg_send :: "tRTK_PROF \<Rightarrow> u8 list \<Rightarrow> tRTK_PROF" where
  "coex_msg_send s msg =
     (if udpsocket s > 0 \<or> btcoex_chr s > 0 then s\<lparr>wifi_msgs := wifi_msgs s @ [msg]\<rparr> else s)"

text \<open>The notification functions fill a stack buffer of \<open>n\<close> bytes from its start and send all of
  it: a shorter content leaves indeterminate bytes at the end, a longer one is written past the end.\<close>

definition send_stack_buf :: "tRTK_PROF \<Rightarrow> nat \<Rightarrow> u8 list \<Rightarrow> tRTK_PROF" where
  "send_stack_buf s n content =
     (if length content \<le> n
      then coex_msg_send s (content @ map (malloc_fill (pheap s)) [length content..<n])
      else (coex_msg_send s (take n content))\<lparr>stack_overrun := True\<rparr>)"

definition rtk_notify_extension_version_to_wifi :: "tRTK_PROF \<Rightarrow> tRTK_PROF" where
  "rtk_notify_extension_version_to_wifi s =
     (if wifi_on s = 0 then s
      else send_stack_buf s (2 + 3) (uint16_to_stream 0xFD00 @ [2] @ uint16_to_stream 0x0004))"

definition rtk_notify_btpatch_version_to_wifi :: "tRTK_PROF \<Rightarrow> tRTK_PROF" where
  "rtk_notify_btpatch_version_to_wifi s =
     (if wifi_on s = 0 then s
      else send_stack_buf s (4 + 3)
             (uint16_to_stream 0xFD08 @ [4] @ uint16_to_stream (hci_reversion s) @
              uint16_to_stream (lmp_subversion s)))"

definition rtk_notify_afhmap_to_wifi :: "tRTK_PROF \<Rightarrow> tRTK_PROF" where
  "rtk_notify_afhmap_to_wifi s =
     (if wifi_on s = 0 then s
      else send_stack_buf s (13 + 3)
             (uint16_to_stream 0xFD09 @ [13, piconet_id s, coex_mode s, 10] @ take 10 (afh_map s)))"

definition rtk_notify_btcoex_to_wifi :: "tRTK_PROF \<Rightarrow> u8 \<Rightarrow> u8 \<Rightarrow> tRTK_PROF" where
  "rtk_notify_btcoex_to_wifi s opcode status =
     (if wifi_on s = 0 then s
      else send_stack_buf s (2 + 3)
             (uint16_to_stream 0xFD07 @ [2, opcode, if status = 0 then 0 else 1]))"

text \<open>\<open>para_length\<close> is 8 bits wide in the next two.\<close>

definition rtk_notify_btoperation_to_wifi :: "tRTK_PROF \<Rightarrow> u8 \<Rightarrow> u8 list \<Rightarrow> tRTK_PROF" where
  "rtk_notify_btoperation_to_wifi s operation append_data =
     (let append_data_length = of_nat (length append_data) :: u8;
          para_length = 3 + append_data_length
      in if wifi_on s = 0 then s
         else send_stack_buf s (unat para_length + 3)
                (uint16_to_stream 0xFD02 @ [para_length, operation, append_data_length] @ append_data))"

definition rtk_notify_info_to_wifi :: "tRTK_PROF \<Rightarrow> u8 \<Rightarrow> u8 list \<Rightarrow> tRTK_PROF" where
  "rtk_notify_info_to_wifi s reason report_info =
     (let len = of_nat (length report_info) :: u8;
          para_length = 4 + len
      in if wifi_on s = 0 then s
         else send_stack_buf s (unat para_length + 3)
                (uint16_to_stream 0xFD06 @
                 [para_length, polling_enable s, polling_interval s, reason, len] @ report_info))"

definition rtk_notify_regester_to_wifi :: "tRTK_PROF \<Rightarrow> u8 list \<Rightarrow> tRTK_PROF" where
  "rtk_notify_regester_to_wifi s reg_value =
     (if wifi_on s = 0 then s
      else send_stack_buf s (9 + 3) (uint16_to_stream 0xFD0a @ [9] @ take 9 reg_value))"

section \<open>Facts about the command channel\<close>

text \<open>A channel that is free has nothing waiting.\<close>

definition coex_inv :: "tRTK_PROF \<Rightarrow> bool" where
  "coex_inv s \<longleftrightarrow> (\<not> coex_cmd_send s \<longrightarrow> coex_list s = [])"

text \<open>Everything accepted so far, in order: what was sent, then what waits.\<close>

definition accepted :: "tRTK_PROF \<Rightarrow> (u16 \<times> u8 list) list" where
  "accepted s = xmit s @ map (\<lambda>d. (ci_opcode d, ci_buf d)) (coex_list s)"

lemma malloc_all_ok: "(\<And>n. malloc_ok e n) \<Longrightarrow> malloc e k = (Some (map (malloc_fill e) [0..<k]), e\<lparr>malloc_n := Suc (malloc_n e)\<rparr>)"
  by (simp add: malloc_def)

lemma vendor_cmd_inv: "coex_inv s \<Longrightarrow> coex_inv (rtk_vendor_cmd_to_fw s opcode ps cb)"
  by (auto simp: coex_inv_def rtk_vendor_cmd_to_fw_def Let_def split: prod.split option.split)

lemma cmd_complete_inv: "coex_inv s \<Longrightarrow> coex_inv (rtk_cmd_complete_cback s)"
  by (auto simp: coex_inv_def rtk_cmd_complete_cback_def Let_def split: list.split option.split)

lemma vendor_cmd_accepted:
  assumes "\<And>n. malloc_ok (pheap s) n" and "coex_inv s"
  shows "accepted (rtk_vendor_cmd_to_fw s opcode ps cb) = accepted s @ [(opcode, vendor_cmd opcode ps)]"
  using assms by (simp add: accepted_def coex_inv_def rtk_vendor_cmd_to_fw_def Let_def malloc_all_ok)

lemma cmd_complete_accepted: "accepted (rtk_cmd_complete_cback s) = accepted s"
  by (auto simp: accepted_def rtk_cmd_complete_cback_def Let_def split: list.split option.split)

text \<open>Each completion sends exactly one waiting command, the oldest.\<close>

lemma cmd_complete_xmit:
  "xmit (rtk_cmd_complete_cback s) = xmit s @ map (\<lambda>d. (ci_opcode d, ci_buf d)) (take 1 (coex_list s))"
  by (auto simp: rtk_cmd_complete_cback_def Let_def split: list.split option.split)

section \<open>Runs of the command channel\<close>

text \<open>What happens to a channel that has one command in flight, in some order: a command is handed over,
  or the completion of the outstanding command arrives.\<close>

datatype 'c chan_op = Submit 'c | Complete

primrec chan_do :: "('c \<Rightarrow> 's \<Rightarrow> 's) \<Rightarrow> ('s \<Rightarrow> 's) \<Rightarrow> 'c chan_op \<Rightarrow> 's \<Rightarrow> 's" where
  "chan_do submit complete (Submit c) s = submit c s"
| "chan_do submit complete Complete s = complete s"

fun submitted :: "'c chan_op list \<Rightarrow> 'c list" where
  "submitted [] = []"
| "submitted (Submit c # ops) = c # submitted ops"
| "submitted (Complete # ops) = submitted ops"

text \<open>The contract of such a channel. A completion with nothing in flight is possible: the controller may
  send one.\<close>

locale cmd_channel =
  fixes ok :: "'s \<Rightarrow> bool" and busy :: "'s \<Rightarrow> bool" and sent :: "'s \<Rightarrow> 'm list" and waits :: "'s \<Rightarrow> 'm list"
    and submit :: "'c \<Rightarrow> 's \<Rightarrow> 's" and complete :: "'s \<Rightarrow> 's" and msg :: "'c \<Rightarrow> 'm"
  assumes submit_ok: "ok s \<Longrightarrow> ok (submit c s)" and complete_ok: "ok s \<Longrightarrow> ok (complete s)"
    and submit_idle: "ok s \<Longrightarrow> \<not> busy s \<Longrightarrow> busy (submit c s) \<and> sent (submit c s) = sent s @ [msg c] \<and>
      waits (submit c s) = waits s"
    and submit_busy: "ok s \<Longrightarrow> busy s \<Longrightarrow> busy (submit c s) \<and> sent (submit c s) = sent s \<and>
      waits (submit c s) = waits s @ [msg c]"
    and complete_last: "waits s = [] \<Longrightarrow> \<not> busy (complete s) \<and> sent (complete s) = sent s \<and>
      waits (complete s) = []"
    and complete_next: "waits s = m # ms \<Longrightarrow> busy (complete s) = busy s \<and> sent (complete s) = sent s @ [m] \<and>
      waits (complete s) = ms"
begin

definition settled :: "'s \<Rightarrow> bool" where
  "settled s \<longleftrightarrow> (\<not> busy s \<longrightarrow> waits s = [])"

text \<open>One operation: the order of commands is kept, and credit for sending comes from completions.\<close>

lemma step:
  fixes s :: 's and op :: "'c chan_op"
  assumes "ok s" and "settled s"
  defines "s' \<equiv> chan_do submit complete op s"
  shows "ok s' \<and> settled s' \<and> sent s' @ waits s' = sent s @ waits s @ map msg (submitted [op]) \<and>
    length (sent s') + of_bool (\<not> busy s') \<le> length (sent s) + of_bool (\<not> busy s) + of_bool (op = Complete)"
proof (cases op)
  case (Submit c)
  then show ?thesis
    using assms submit_ok [of s c] submit_idle [of s c] submit_busy [of s c]
    by (cases "busy s") (simp_all add: settled_def)
next
  case Complete
  then show ?thesis
    using assms complete_ok [of s] complete_last [of s] complete_next [of s]
    by (cases "waits s") (auto simp: settled_def)
qed

lemma run:
  fixes s :: 's and ops :: "'c chan_op list"
  assumes "ok s" and "settled s"
  defines "s' \<equiv> fold (chan_do submit complete) ops s"
  shows "settled s' \<and> sent s' @ waits s' = sent s @ waits s @ map msg (submitted ops) \<and>
    length (sent s') + of_bool (\<not> busy s') \<le>
      length (sent s) + of_bool (\<not> busy s) + length (filter ((=) Complete) ops)"
  using assms(1,2) unfolding s'_def
proof (induction ops arbitrary: s)
  case (Cons op ops)
  have "map msg (submitted (op # ops)) = map msg (submitted [op]) @ map msg (submitted ops)"
    by (cases op) simp_all
  then show ?case
    using step [OF Cons.prems, of op] Cons.IH [of "chan_do submit complete op s"] by auto
qed simp

end

text \<open>The channel of the module keeps that contract while memory lasts.\<close>

definition submit_cmd :: "u16 \<times> u8 list \<times> nat option \<Rightarrow> tRTK_PROF \<Rightarrow> tRTK_PROF" where
  "submit_cmd = (\<lambda>(opcode, parameter, p_cback) s. rtk_vendor_cmd_to_fw s opcode parameter p_cback)"

definition cmd_msg :: "u16 \<times> u8 list \<times> nat option \<Rightarrow> u16 \<times> u8 list" where
  "cmd_msg = (\<lambda>(opcode, parameter, p_cback). (opcode, vendor_cmd opcode parameter))"

definition waiting :: "tRTK_PROF \<Rightarrow> (u16 \<times> u8 list) list" where
  "waiting s = map (\<lambda>d. (ci_opcode d, ci_buf d)) (coex_list s)"

definition mem_ok :: "tRTK_PROF \<Rightarrow> bool" where
  "mem_ok s \<longleftrightarrow> (\<forall>n. malloc_ok (pheap s) n)"

lemma complete_cases:
  "coex_list s = [] \<Longrightarrow> \<not> coex_cmd_send (rtk_cmd_complete_cback s) \<and> xmit (rtk_cmd_complete_cback s) = xmit s \<and>
     coex_list (rtk_cmd_complete_cback s) = []"
  "coex_list s = d # q \<Longrightarrow> coex_cmd_send (rtk_cmd_complete_cback s) = coex_cmd_send s \<and>
     xmit (rtk_cmd_complete_cback s) = xmit s @ [(ci_opcode d, ci_buf d)] \<and> coex_list (rtk_cmd_complete_cback s) = q"
  by (auto simp: rtk_cmd_complete_cback_def Let_def split: option.split)

lemma pheap_complete [simp]: "pheap (rtk_cmd_complete_cback s) = pheap s"
  by (auto simp: rtk_cmd_complete_cback_def Let_def split: list.split option.split)

interpretation coex: cmd_channel mem_ok coex_cmd_send xmit waiting submit_cmd rtk_cmd_complete_cback cmd_msg
proof unfold_locales
  fix s :: tRTK_PROF and c m ms
  show "mem_ok (rtk_cmd_complete_cback s)" if "mem_ok s" using that by (simp add: mem_ok_def)
  show "mem_ok (submit_cmd c s)" if "mem_ok s" using that
    by (cases c) (simp add: mem_ok_def submit_cmd_def rtk_vendor_cmd_to_fw_def malloc_all_ok Let_def)
  show "coex_cmd_send (submit_cmd c s) \<and> xmit (submit_cmd c s) = xmit s @ [cmd_msg c] \<and>
      waiting (submit_cmd c s) = waiting s" if "mem_ok s" "\<not> coex_cmd_send s"
    using that by (cases c) (simp add: mem_ok_def submit_cmd_def rtk_vendor_cmd_to_fw_def malloc_all_ok Let_def
        waiting_def cmd_msg_def)
  show "coex_cmd_send (submit_cmd c s) \<and> xmit (submit_cmd c s) = xmit s \<and>
      waiting (submit_cmd c s) = waiting s @ [cmd_msg c]" if "mem_ok s" "coex_cmd_send s"
    using that by (cases c) (simp add: mem_ok_def submit_cmd_def rtk_vendor_cmd_to_fw_def malloc_all_ok Let_def
        waiting_def cmd_msg_def)
  show "\<not> coex_cmd_send (rtk_cmd_complete_cback s) \<and> xmit (rtk_cmd_complete_cback s) = xmit s \<and>
      waiting (rtk_cmd_complete_cback s) = []" if "waiting s = []"
    using that complete_cases(1) [of s] by (simp add: waiting_def)
  show "coex_cmd_send (rtk_cmd_complete_cback s) = coex_cmd_send s \<and> xmit (rtk_cmd_complete_cback s) = xmit s @ [m] \<and>
      waiting (rtk_cmd_complete_cback s) = ms" if "waiting s = m # ms"
    using that complete_cases(2) [of s] by (auto simp: waiting_def)
qed

end
