(* ===== verification/RtkProfile.thy ===== *)
theory RtkProfile
  imports RtkCoex
begin

text \<open>
  Bookkeeping of connections and profiles in hardware/bt/src/rtk_parse.c: the connection table and
  the L2CAP channel table, the reference counts and bitmaps derived from them, the report to the
  firmware, the L2CAP signalling handlers and the packet-rate timers. A pointer to a table entry is
  its position; entries are only removed by the function that found them.
\<close>

section \<open>Tables\<close>

fun find_pos :: "('a \<Rightarrow> bool) \<Rightarrow> 'a list \<Rightarrow> nat option" where
  "find_pos P [] = None"
| "find_pos P (x # xs) = (if P x then Some 0 else map_option Suc (find_pos P xs))"

definition remove_pos :: "nat \<Rightarrow> 'a list \<Rightarrow> 'a list" where
  "remove_pos i xs = take i xs @ drop (Suc i) xs"

definition find_connection_by_handle :: "tRTK_PROF \<Rightarrow> u16 \<Rightarrow> nat option" where
  "find_connection_by_handle s handle =
     find_pos (\<lambda>desc. handle AND 0xEFF = cp_handle desc) (conn_hash s)"

text \<open>A fresh connection, as the handlers that allocate one initialise it.\<close>

definition new_connection :: "u16 \<Rightarrow> u8 \<Rightarrow> tRTK_CONN_PROF" where
  "new_connection handle type =
     \<lparr>cp_handle = handle, cp_type = type, cp_profile_bitmap = 0, cp_profile_refcount = (\<lambda>_. 0)\<rparr>"

definition add_connection_to_hash :: "tRTK_PROF \<Rightarrow> tRTK_CONN_PROF \<Rightarrow> tRTK_PROF" where
  "add_connection_to_hash s desc = s\<lparr>conn_hash := conn_hash s @ [desc]\<rparr>"

definition delete_connection_from_hash :: "tRTK_PROF \<Rightarrow> nat \<Rightarrow> tRTK_PROF" where
  "delete_connection_from_hash s i = s\<lparr>conn_hash := remove_pos i (conn_hash s)\<rparr>"

definition psm_to_profile_index :: "u16 \<Rightarrow> int" where
  "psm_to_profile_index psm =
     (if psm \<in> {0x0017, 0x0001} then -1
      else if psm \<in> {0x0011, 0x0013} then int profile_hid
      else if psm = 0x0019 then int profile_a2dp
      else int profile_pan)"

definition list_allocate_add ::
  "tRTK_PROF \<Rightarrow> u16 \<Rightarrow> u16 \<Rightarrow> int \<Rightarrow> u16 \<Rightarrow> u16 \<Rightarrow> bool \<times> tRTK_PROF" where
  "list_allocate_add s handle psm profile_index dcid scid =
     (if profile_index < 0 then (False, s)
      else case malloc (pheap s) 24 of
             (None, e) \<Rightarrow> (False, s\<lparr>pheap := e\<rparr>)
           | (Some _, e) \<Rightarrow>
               (True, s\<lparr>pheap := e,
                        profile_list := profile_list s @
                          [\<lparr>pi_handle = handle, pi_psm = psm, pi_dcid = dcid, pi_scid = scid,
                            pi_profile_index = of_int profile_index\<rparr>]\<rparr>))"

definition delete_profile_from_hash :: "tRTK_PROF \<Rightarrow> nat \<Rightarrow> tRTK_PROF" where
  "delete_profile_from_hash s i = s\<lparr>profile_list := remove_pos i (profile_list s)\<rparr>"

definition find_profile_by_handle_scid :: "tRTK_PROF \<Rightarrow> u16 \<Rightarrow> u16 \<Rightarrow> nat option" where
  "find_profile_by_handle_scid s handle scid =
     find_pos (\<lambda>desc. handle AND 0xFFF = pi_handle desc \<and> scid = pi_scid desc) (profile_list s)"

definition find_profile_by_handle_dcid :: "tRTK_PROF \<Rightarrow> u16 \<Rightarrow> u16 \<Rightarrow> nat option" where
  "find_profile_by_handle_dcid s handle dcid =
     find_pos (\<lambda>desc. handle AND 0xFFF = pi_handle desc \<and> dcid = pi_dcid desc) (profile_list s)"

definition find_profile_by_handle_dcid_scid :: "tRTK_PROF \<Rightarrow> u16 \<Rightarrow> u16 \<Rightarrow> u16 \<Rightarrow> nat option" where
  "find_profile_by_handle_dcid_scid s handle dcid scid =
     find_pos (\<lambda>desc. handle AND 0xFFF = pi_handle desc \<and> dcid = pi_dcid desc \<and> scid = pi_scid desc)
       (profile_list s)"

section \<open>Timers\<close>

definition start_a2dp_packet_count_timer :: "tRTK_PROF \<Rightarrow> tRTK_PROF" where
  "start_a2dp_packet_count_timer s =
     s\<lparr>timer_a2dp_packet_count := snd (OsStartTimer (timer_a2dp_packet_count s) 1000 1)\<rparr>"

definition stop_a2dp_packet_count_timer :: "tRTK_PROF \<Rightarrow> tRTK_PROF" where
  "stop_a2dp_packet_count_timer s =
     s\<lparr>timer_a2dp_packet_count := snd (OsStopTimer (timer_a2dp_packet_count s))\<rparr>"

definition start_pan_packet_count_timer :: "tRTK_PROF \<Rightarrow> tRTK_PROF" where
  "start_pan_packet_count_timer s =
     s\<lparr>timer_pan_packet_count := snd (OsStartTimer (timer_pan_packet_count s) 1000 1)\<rparr>"

definition stop_pan_packet_count_timer :: "tRTK_PROF \<Rightarrow> tRTK_PROF" where
  "stop_pan_packet_count_timer s =
     s\<lparr>timer_pan_packet_count := snd (OsStopTimer (timer_pan_packet_count s))\<rparr>"

definition start_hogp_packet_count_timer :: "tRTK_PROF \<Rightarrow> tRTK_PROF" where
  "start_hogp_packet_count_timer s =
     s\<lparr>timer_hogp_packet_count := snd (OsStartTimer (timer_hogp_packet_count s) 1000 1)\<rparr>"

definition stop_hogp_packet_count_timer :: "tRTK_PROF \<Rightarrow> tRTK_PROF" where
  "stop_hogp_packet_count_timer s =
     s\<lparr>timer_hogp_packet_count := snd (OsStopTimer (timer_hogp_packet_count s))\<rparr>"

definition start_polling_timer :: "tRTK_PROF \<Rightarrow> int \<Rightarrow> tRTK_PROF" where
  "start_polling_timer s value = s\<lparr>timer_polling := snd (OsStartTimer (timer_polling s) value 1)\<rparr>"

definition stop_polling_timer :: "tRTK_PROF \<Rightarrow> tRTK_PROF" where
  "stop_polling_timer s = s\<lparr>timer_polling := snd (OsStopTimer (timer_polling s))\<rparr>"

lemmas ptimer_defs = start_a2dp_packet_count_timer_def stop_a2dp_packet_count_timer_def
  start_pan_packet_count_timer_def stop_pan_packet_count_timer_def
  start_hogp_packet_count_timer_def stop_hogp_packet_count_timer_def
  start_polling_timer_def stop_polling_timer_def

section \<open>The report to the firmware\<close>

text \<open>The second loop of \<open>rtk_notify_profileinfo_to_fw\<close>; \<open>n\<close> is \<open>handle_number\<close>, which counts down
  and ends the loop at 0.\<close>

fun profile_entries :: "u8 \<Rightarrow> tRTK_CONN_PROF list \<Rightarrow> u8 list" where
  "profile_entries n [] = []"
| "profile_entries n (c # cs) =
     (let (out, n) =
            (if cp_profile_bitmap c \<noteq> 0
             then (uint16_to_stream (cp_handle c) @ [cp_profile_bitmap c], n - 1) else ([], n))
      in out @ (if n = 0 then [] else profile_entries n cs))"

definition profile_report :: "tRTK_PROF \<Rightarrow> u8 list" where
  "profile_report s =
     (let handle_number = of_nat (length (filter (\<lambda>c. cp_profile_bitmap c \<noteq> 0) (conn_hash s))) :: u8
      in [handle_number] @ profile_entries handle_number (conn_hash s) @ [profile_status s])"

text \<open>The buffer size is passed as an 8-bit parameter length.\<close>

definition rtk_notify_profileinfo_to_fw :: "tRTK_PROF \<Rightarrow> tRTK_PROF" where
  "rtk_notify_profileinfo_to_fw s =
     (let handle_number = of_nat (length (filter (\<lambda>c. cp_profile_bitmap c \<noteq> 0) (conn_hash s))) :: u8;
          buffer_size = 1 + ucast handle_number * 3 + 1 :: u32
      in case malloc (pheap s) (unat buffer_size) of
           (None, e) \<Rightarrow> s\<lparr>pheap := e\<rparr>
         | (Some _, e) \<Rightarrow>
             rtk_vendor_cmd_to_fw (s\<lparr>pheap := e\<rparr>) HCI_VENDOR_SET_PROFILE_REPORT_COMMAND
               (take (unat (ucast buffer_size :: u8)) (profile_report s)) None)"

section \<open>Profile state\<close>

definition BIT :: "nat \<Rightarrow> u8" where
  "BIT i = push_bit i 1"

definition is_profile_connected :: "tRTK_PROF \<Rightarrow> nat \<Rightarrow> bool" where
  "is_profile_connected s profile \<longleftrightarrow> profile_bitmap s AND BIT profile \<noteq> 0"

definition is_profile_busy :: "tRTK_PROF \<Rightarrow> nat \<Rightarrow> bool" where
  "is_profile_busy s profile \<longleftrightarrow> profile_status s AND BIT profile \<noteq> 0"

definition update_profile_state :: "tRTK_PROF \<Rightarrow> nat \<Rightarrow> bool \<Rightarrow> tRTK_PROF" where
  "update_profile_state s profile_index is_busy =
     (if profile_bitmap s AND BIT profile_index = 0 then s
      else if is_busy then
        (if profile_status s AND BIT profile_index = 0
         then rtk_notify_profileinfo_to_fw (s\<lparr>profile_status := profile_status s OR BIT profile_index\<rparr>)
         else s)
      else
        (if profile_status s AND BIT profile_index \<noteq> 0
         then rtk_notify_profileinfo_to_fw (s\<lparr>profile_status := profile_status s AND NOT (BIT profile_index)\<rparr>)
         else s))"

definition rtk_check_setup_timer :: "tRTK_PROF \<Rightarrow> nat \<Rightarrow> tRTK_PROF" where
  "rtk_check_setup_timer s i =
     (let s = (if i = profile_a2dp then start_a2dp_packet_count_timer (s\<lparr>a2dp_packet_count := 0\<rparr>) else s);
          s = (if i = profile_pan then start_pan_packet_count_timer (s\<lparr>pan_packet_count := 0\<rparr>) else s)
      in if i = profile_hogp \<or> i = profile_voice
         then (if profile_refcount s profile_hogp = 0 \<and> profile_refcount s profile_voice = 0
               then start_hogp_packet_count_timer (s\<lparr>hogp_packet_count := 0, voice_packet_count := 0\<rparr>)
               else s)
         else s)"

definition rtk_check_del_timer :: "tRTK_PROF \<Rightarrow> nat \<Rightarrow> tRTK_PROF" where
  "rtk_check_del_timer s i =
     (let s = (if i = profile_a2dp then stop_a2dp_packet_count_timer (s\<lparr>a2dp_packet_count := 0\<rparr>) else s);
          s = (if i = profile_pan then stop_pan_packet_count_timer (s\<lparr>pan_packet_count := 0\<rparr>) else s);
          s = (if i = profile_hogp
               then let s = s\<lparr>hogp_packet_count := 0\<rparr>
                    in if profile_refcount s profile_voice = 0 then stop_hogp_packet_count_timer s else s
               else s)
      in if i = profile_voice
         then let s = s\<lparr>voice_packet_count := 0\<rparr>
              in if profile_refcount s profile_hogp = 0 then stop_hogp_packet_count_timer s else s
         else s)"

definition IfNeedUpadte :: "tRTK_PROF \<Rightarrow> bool \<Rightarrow> tRTK_PROF" where
  "IfNeedUpadte s need_update = (if need_update then rtk_notify_profileinfo_to_fw s else s)"

definition upd_conn :: "tRTK_PROF \<Rightarrow> nat \<Rightarrow> (tRTK_CONN_PROF \<Rightarrow> tRTK_CONN_PROF) \<Rightarrow> tRTK_PROF" where
  "upd_conn s i f = s\<lparr>conn_hash := (conn_hash s)[i := f (conn_hash s ! i)]\<rparr>"

text \<open>The two branches of \<open>update_profile_connection\<close>: whether a report is due, and the state.\<close>

definition add_profile :: "tRTK_PROF \<Rightarrow> nat \<Rightarrow> nat \<Rightarrow> bool \<times> tRTK_PROF" where
  "add_profile s i k =
     (let n1 = (profile_refcount s k = 0);
          s = (if n1
               then let s = s\<lparr>profile_bitmap := profile_bitmap s OR BIT k\<rparr>;
                        s = (if k = profile_sco then s\<lparr>profile_status := profile_status s OR BIT k\<rparr> else s)
                    in rtk_check_setup_timer s k
               else s);
          s = s\<lparr>profile_refcount := (profile_refcount s)(k := profile_refcount s k + 1)\<rparr>;
          n2 = (cp_profile_refcount (conn_hash s ! i) k = 0);
          s = (if n2 then upd_conn s i (\<lambda>c. c\<lparr>cp_profile_bitmap := cp_profile_bitmap c OR BIT k\<rparr>) else s);
          s = upd_conn s i (\<lambda>c. c\<lparr>cp_profile_refcount :=
                (cp_profile_refcount c)(k := cp_profile_refcount c k + 1)\<rparr>)
      in (n1 \<or> n2, s))"

definition remove_profile :: "tRTK_PROF \<Rightarrow> nat \<Rightarrow> nat \<Rightarrow> bool \<times> tRTK_PROF" where
  "remove_profile s i k =
     (let s = s\<lparr>profile_refcount := (profile_refcount s)(k := profile_refcount s k - 1)\<rparr>;
          n1 = (profile_refcount s k = 0);
          s = (if n1
               then rtk_check_del_timer
                      (s\<lparr>profile_bitmap := profile_bitmap s AND NOT (BIT k),
                         profile_status := profile_status s AND NOT (BIT k)\<rparr>) k
               else s);
          s = upd_conn s i (\<lambda>c. c\<lparr>cp_profile_refcount :=
                (cp_profile_refcount c)(k := cp_profile_refcount c k - 1)\<rparr>);
          n2 = (cp_profile_refcount (conn_hash s ! i) k = 0);
          s = (if n2
               then let s = upd_conn s i (\<lambda>c. c\<lparr>cp_profile_bitmap := cp_profile_bitmap c AND NOT (BIT k)\<rparr>)
                    in if k = profile_hid \<and>
                          cp_profile_bitmap (conn_hash s ! i) AND BIT profile_hid_interval \<noteq> 0
                       then (upd_conn s i (\<lambda>c. c\<lparr>cp_profile_bitmap :=
                               cp_profile_bitmap c AND NOT (BIT profile_hid_interval)\<rparr>))
                            \<lparr>profile_refcount := (profile_refcount s)
                               (profile_hid_interval := profile_refcount s profile_hid_interval - 1)\<rparr>
                       else s
               else s)
      in (n1 \<or> n2, s))"

definition update_profile_connection :: "tRTK_PROF \<Rightarrow> nat \<Rightarrow> int \<Rightarrow> bool \<Rightarrow> tRTK_PROF" where
  "update_profile_connection s i profile_index is_add =
     (if profile_index < 0 then s
      else let (need_update, s) =
                 (if is_add then add_profile s i (nat profile_index)
                  else remove_profile s i (nat profile_index))
           in IfNeedUpadte s need_update)"

definition update_hid_active_state :: "tRTK_PROF \<Rightarrow> u16 \<Rightarrow> u16 \<Rightarrow> tRTK_PROF" where
  "update_hid_active_state s handle interval =
     (case find_connection_by_handle s handle of
        None \<Rightarrow> s
      | Some i \<Rightarrow>
          let bm = cp_profile_bitmap (conn_hash s ! i); k = profile_hid_interval in
          if bm AND BIT profile_hid = 0 then s
          else if interval < 60 then
            (if bm AND BIT k = 0
             then let s = upd_conn s i (\<lambda>c. c\<lparr>cp_profile_bitmap := cp_profile_bitmap c OR BIT k\<rparr>);
                      s = s\<lparr>profile_refcount := (profile_refcount s)(k := profile_refcount s k + 1)\<rparr>;
                      s = (if profile_refcount s k = 1
                           then s\<lparr>profile_status := profile_status s OR BIT profile_hid\<rparr> else s)
                  in rtk_notify_profileinfo_to_fw s
             else s)
          else
            (if bm AND BIT k \<noteq> 0
             then let s = upd_conn s i (\<lambda>c. c\<lparr>cp_profile_bitmap := cp_profile_bitmap c AND NOT (BIT k)\<rparr>);
                      s = s\<lparr>profile_refcount := (profile_refcount s)(k := profile_refcount s k - 1)\<rparr>;
                      s = (if profile_refcount s k = 0
                           then s\<lparr>profile_status := profile_status s AND NOT (BIT profile_hid)\<rparr> else s)
                  in rtk_notify_profileinfo_to_fw s
             else s))"

section \<open>L2CAP signalling\<close>

text \<open>\<open>direction\<close>: \<open>True\<close> for outgoing packets.\<close>

definition handle_l2cap_con_req :: "tRTK_PROF \<Rightarrow> u16 \<Rightarrow> u16 \<Rightarrow> u16 \<Rightarrow> bool \<Rightarrow> bool \<times> tRTK_PROF" where
  "handle_l2cap_con_req s handle psm scid direction =
     (let profile_index = psm_to_profile_index psm in
      if profile_index < 0 then (False, s)
      else case (if direction then find_profile_by_handle_scid s handle scid
                 else find_profile_by_handle_dcid s handle scid) of
             Some _ \<Rightarrow> (False, s)
           | None \<Rightarrow>
               if direction then list_allocate_add s handle psm profile_index 0 scid
               else list_allocate_add s handle psm profile_index scid 0)"

definition handle_l2cap_con_rsp ::
  "tRTK_PROF \<Rightarrow> u16 \<Rightarrow> u16 \<Rightarrow> u16 \<Rightarrow> bool \<Rightarrow> u8 \<Rightarrow> bool \<times> tRTK_PROF" where
  "handle_l2cap_con_rsp s handle dcid scid direction result =
     (case (if \<not> direction then find_profile_by_handle_scid s handle scid
            else find_profile_by_handle_dcid s handle scid) of
        None \<Rightarrow> (False, s)
      | Some j \<Rightarrow>
          if result = 0 then
            let p = profile_list s ! j;
                p = (if \<not> direction then p\<lparr>pi_dcid := dcid\<rparr> else p\<lparr>pi_scid := dcid\<rparr>);
                s = s\<lparr>profile_list := (profile_list s)[j := p]\<rparr>
            in case find_connection_by_handle s handle of
                 None \<Rightarrow> (True, s)
               | Some i \<Rightarrow> (True, update_profile_connection s i (uint (pi_profile_index p)) True)
          else (True, s))"

definition handle_l2cap_discon_req :: "tRTK_PROF \<Rightarrow> u16 \<Rightarrow> u16 \<Rightarrow> u16 \<Rightarrow> bool \<Rightarrow> bool \<times> tRTK_PROF" where
  "handle_l2cap_discon_req s handle dcid scid direction =
     (case (if \<not> direction then find_profile_by_handle_dcid_scid s handle scid dcid
            else find_profile_by_handle_dcid_scid s handle dcid scid) of
        None \<Rightarrow> (False, s)
      | Some j \<Rightarrow>
          (case find_connection_by_handle s handle of
             None \<Rightarrow> (False, s)
           | Some i \<Rightarrow>
               let idx = pi_profile_index (profile_list s ! j);
                   s = update_profile_connection s i (uint idx) False;
                   s = (if unat idx = profile_a2dp \<and>
                           cp_profile_bitmap (conn_hash s ! i) AND BIT profile_sink \<noteq> 0
                        then update_profile_connection s i (int profile_sink) False else s)
               in (True, delete_profile_from_hash s j)))"

end
