(* ===== verification/RtkParse.thy ===== *)
theory RtkParse
  imports RtkProfile
begin

text \<open>
  The event side of hardware/bt/src/rtk_parse.c: HCI events, HCI commands and L2CAP data seen on
  their way through the vendor library, the requests of the Wi-Fi driver, and the timers. Each handler
  takes the bytes of its message and is one transition of the module's state.
\<close>

section \<open>Data packets\<close>

text \<open>\<open>user_data\<close> points at an RTP header (12 bytes and \<open>cc\<close> words), one more byte and the SBC frame
  header, whose third byte is the bit pool.\<close>

definition packets_count :: "tRTK_PROF \<Rightarrow> u16 \<Rightarrow> u16 \<Rightarrow> u16 \<Rightarrow> bool \<Rightarrow> u8 list \<Rightarrow> tRTK_PROF" where
  "packets_count s handle scid len direction user_data =
     (case find_connection_by_handle s handle of
        None \<Rightarrow> s
      | Some i \<Rightarrow>
          if cp_type (conn_hash s ! i) \<noteq> 0 then s
          else case (if \<not> direction then find_profile_by_handle_scid s handle scid
                     else find_profile_by_handle_dcid s handle scid) of
                 None \<Rightarrow> s
               | Some j \<Rightarrow>
                   let idx = unat (pi_profile_index (profile_list s ! j));
                       s = (if idx = profile_a2dp \<and> len > 100
                            then let s = (if \<not> is_profile_busy s profile_a2dp
                                    then let s = update_profile_state s profile_a2dp True;
                                             s = (if \<not> direction
                                                  then update_profile_state
                                                         (update_profile_connection s i (int profile_sink) True)
                                                         profile_sink True
                                                  else s);
                                             cc = unat (byte_at user_data 0 AND 0x0f);
                                             bitpool = byte_at user_data (12 + cc * 4 + 1 + 2)
                                         in rtk_vendor_cmd_to_fw s HCI_VENDOR_ADD_BITPOOL_FW [bitpool] None
                                    else s)
                                 in s\<lparr>a2dp_packet_count := a2dp_packet_count s + 1\<rparr>
                            else s)
                   in if idx = profile_pan then s\<lparr>pan_packet_count := pan_packet_count s + 1\<rparr> else s)"

definition rtk_parse_l2cap_data :: "tRTK_PROF \<Rightarrow> u8 list \<Rightarrow> bool \<Rightarrow> tRTK_PROF" where
  "rtk_parse_l2cap_data s pp direction =
     (let w = uint16_at pp 0;
          flag = drop_bit 12 w AND 3;
          handle = w AND 0x0FFF;
          pdu_len = uint16_at pp 4;
          channel_ID = uint16_at pp 6
      in if flag \<noteq> 2 then s
         else if channel_ID = 0x0001 then
           let code = byte_at pp 8 in
           if code = 0x02
             then snd (handle_l2cap_con_req s handle (uint16_at pp 12) (uint16_at pp 14) direction)
           else if code = 0x03
             then snd (handle_l2cap_con_rsp s handle (uint16_at pp 12) (uint16_at pp 14) direction
                         (ucast (uint16_at pp 16)))
           else if code = 0x06
             then snd (handle_l2cap_discon_req s handle (uint16_at pp 12) (uint16_at pp 14) direction)
           else s
         else if flag \<noteq> 1 \<and> (is_profile_connected s profile_a2dp \<or> is_profile_connected s profile_pan)
           then packets_count s handle channel_ID pdu_len direction (drop 8 pp)
         else s)"

section \<open>Timers\<close>

definition timer_polling_handler :: "tRTK_PROF \<Rightarrow> tRTK_PROF" where
  "timer_polling_handler s =
     (if polling_enable s \<noteq> 0 then rtk_vendor_cmd_to_fw s HCI_VENDOR_MAILBOX_CMD [0x23] None else s)"

definition timer_a2dp_handler :: "tRTK_PROF \<Rightarrow> tRTK_PROF" where
  "timer_a2dp_handler s =
     (let s = (if a2dp_packet_count s = 0 \<and> is_profile_busy s profile_a2dp
               then let s = update_profile_state s profile_a2dp False
                    in if is_profile_busy s profile_sink then update_profile_state s profile_sink False else s
               else s)
      in s\<lparr>a2dp_packet_count := 0\<rparr>)"

definition timer_hogp_handler :: "tRTK_PROF \<Rightarrow> tRTK_PROF" where
  "timer_hogp_handler s =
     (let s = (if hogp_packet_count s = 0 \<and> is_profile_busy s profile_hogp
               then update_profile_state s profile_hogp False else s);
          s = s\<lparr>hogp_packet_count := 0\<rparr>;
          s = (if voice_packet_count s = 0 \<and> is_profile_busy s profile_voice
               then update_profile_state s profile_voice False else s)
      in s\<lparr>voice_packet_count := 0\<rparr>)"

definition timer_pan_handler :: "tRTK_PROF \<Rightarrow> tRTK_PROF" where
  "timer_pan_handler s =
     (let s = (if pan_packet_count s < 5
               then (if is_profile_busy s profile_pan then update_profile_state s profile_pan False else s)
               else (if \<not> is_profile_busy s profile_pan then update_profile_state s profile_pan True else s))
      in s\<lparr>pan_packet_count := 0\<rparr>)"

section \<open>Requests of the Wi-Fi driver\<close>

definition rtk_handle_bt_info_control :: "tRTK_PROF \<Rightarrow> u8 list \<Rightarrow> tRTK_PROF" where
  "rtk_handle_bt_info_control s p =
     (let enable = byte_at p 0; time = byte_at p 1; auto_report = byte_at p 2;
          s = (if enable \<noteq> 0 \<and> polling_enable s = 0 then start_polling_timer s (uint time * 1000) else s);
          s = (if enable = 0 \<and> polling_enable s \<noteq> 0 then stop_polling_timer s else s);
          s = s\<lparr>polling_enable := enable, polling_interval := time, autoreport := auto_report\<rparr>;
          s = rtk_vendor_cmd_to_fw s HCI_VENDOR_MAILBOX_CMD [0x28, 1, auto_report] None
      in rtk_notify_info_to_wifi s 0 [])"

definition ignore_wlan_active_control :: "tRTK_PROF \<Rightarrow> u8 list \<Rightarrow> tRTK_PROF" where
  "ignore_wlan_active_control s p = rtk_vendor_cmd_to_fw s HCI_VENDOR_MAILBOX_CMD [0x1B, 1, byte_at p 0] None"

definition lna_constrain_control :: "tRTK_PROF \<Rightarrow> u8 list \<Rightarrow> tRTK_PROF" where
  "lna_constrain_control s p = rtk_vendor_cmd_to_fw s HCI_VENDOR_MAILBOX_CMD [0x32, 1, byte_at p 0] None"

definition bt_power_decrease_control :: "tRTK_PROF \<Rightarrow> u8 list \<Rightarrow> tRTK_PROF" where
  "bt_power_decrease_control s p = rtk_vendor_cmd_to_fw s HCI_VENDOR_MAILBOX_CMD [0x17, 1, byte_at p 0] None"

definition bt_psd_mode_control :: "tRTK_PROF \<Rightarrow> u8 list \<Rightarrow> tRTK_PROF" where
  "bt_psd_mode_control s p = rtk_vendor_cmd_to_fw s HCI_VENDOR_MAILBOX_CMD [0x31, 1, byte_at p 0] None"

text \<open>Only two of the three announced parameter bytes are copied; the last byte of \<open>temp_cmd\<close> is
  indeterminate.\<close>

definition wifi_bw_chnl_notify :: "tRTK_PROF \<Rightarrow> u8 list \<Rightarrow> tRTK_PROF" where
  "wifi_bw_chnl_notify s p =
     rtk_vendor_cmd_to_fw s HCI_VENDOR_MAILBOX_CMD
       [0x11, 3, byte_at p 0, byte_at p 1, malloc_fill (pheap s) 4] None"

definition query_bt_afh_map :: "tRTK_PROF \<Rightarrow> u8 list \<Rightarrow> tRTK_PROF" where
  "query_bt_afh_map s p =
     (let s = s\<lparr>piconet_id := byte_at p 0, coex_mode := byte_at p 1\<rparr>
      in rtk_vendor_cmd_to_fw s HCI_VENDOR_MAILBOX_CMD [0x40, 2, piconet_id s, coex_mode s] None)"

definition bt_register_access :: "tRTK_PROF \<Rightarrow> u8 list \<Rightarrow> tRTK_PROF" where
  "bt_register_access s p =
     (if byte_at p 0 = 0
      then rtk_vendor_cmd_to_fw s HCI_VENDOR_MAILBOX_CMD
             ([0x43, 5, byte_at p 1] @ map (\<lambda>i. byte_at p (2 + i)) [0..<4]) None
      else rtk_vendor_cmd_to_fw s HCI_VENDOR_MAILBOX_CMD
             ([0x43, 5, byte_at p 1] @ map (\<lambda>i. byte_at p (2 + i)) [0..<8]) None)"

definition rtk_handle_bt_coex_control :: "tRTK_PROF \<Rightarrow> u8 list \<Rightarrow> tRTK_PROF" where
  "rtk_handle_bt_coex_control s p =
     (let opcode = byte_at p 0; p = drop 1 p in
      if opcode = 0x00 then rtk_notify_btpatch_version_to_wifi s
      else if opcode = 0x01 then ignore_wlan_active_control s p
      else if opcode = 0x02 then lna_constrain_control s p
      else if opcode = 0x03 then bt_power_decrease_control s p
      else if opcode = 0x04 then bt_psd_mode_control s p
      else if opcode = 0x05 then wifi_bw_chnl_notify s p
      else if opcode = 0x06 then query_bt_afh_map s p
      else if opcode = 0x07 then bt_register_access s p
      else s)"

text \<open>The greetings exchanged with the Wi-Fi driver, each with its terminating zero.\<close>

definition invite_req :: "u8 list" where
  "invite_req = [73, 78, 86, 73, 84, 69, 95, 82, 69, 81, 0]"
definition invite_rsp :: "u8 list" where
  "invite_rsp = [73, 78, 86, 73, 84, 69, 95, 82, 83, 80, 0]"
definition attend_req :: "u8 list" where
  "attend_req = [65, 84, 84, 69, 78, 68, 95, 82, 69, 81, 0]"
definition attend_ack :: "u8 list" where
  "attend_ack = [65, 84, 84, 69, 78, 68, 95, 65, 67, 75, 0]"
definition wifi_leave :: "u8 list" where
  "wifi_leave = [87, 73, 70, 73, 95, 76, 69, 65, 86, 69, 0]"
definition leave_ack :: "u8 list" where
  "leave_ack = [76, 69, 65, 86, 69, 95, 65, 67, 75, 0]"

text \<open>\<open>memcmp(msg, str, sizeof(str)) == 0\<close>\<close>

definition msg_is :: "u8 list \<Rightarrow> u8 list \<Rightarrow> bool" where
  "msg_is msg str \<longleftrightarrow> map (byte_at msg) [0..<length str] = str"

definition receive_from_wifi :: "tRTK_PROF \<Rightarrow> u8 list \<Rightarrow> tRTK_PROF" where
  "receive_from_wifi s msg =
     (let s = (if msg_is msg invite_rsp
               then rtk_notify_extension_version_to_wifi (s\<lparr>wifi_on := 1\<rparr>) else s);
          s = (if msg_is msg attend_req
               then rtk_notify_extension_version_to_wifi (coex_msg_send (s\<lparr>wifi_on := 1\<rparr>) attend_ack)
               else s)
      in if msg_is msg wifi_leave
         then let s = coex_msg_send (s\<lparr>wifi_on := 0\<rparr>) leave_ack
              in if polling_enable s \<noteq> 0 then stop_polling_timer (s\<lparr>polling_enable := 0\<rparr>) else s
         else s)"

definition rtk_handle_event_from_wifi :: "tRTK_PROF \<Rightarrow> u8 list \<Rightarrow> tRTK_PROF" where
  "rtk_handle_event_from_wifi s msg =
     (let s = receive_from_wifi s msg in
      if byte_at msg 0 = 0xFE
      then let extension_event = byte_at msg 2; p = drop 3 msg in
           if extension_event = 0x03 then rtk_handle_bt_info_control s p
           else if extension_event = 0x04 then rtk_handle_bt_coex_control s p
           else s
      else s)"

section \<open>Command completions of the firmware\<close>

text \<open>\<open>memcpy_s(rtk_prof.afh_map + off, 10, src, n)\<close>\<close>

definition set_afh :: "tRTK_PROF \<Rightarrow> nat \<Rightarrow> u8 list \<Rightarrow> tRTK_PROF" where
  "set_afh s off src = s\<lparr>afh_map := mem_write (afh_map s) off src\<rparr>"

definition bytes_at :: "u8 list \<Rightarrow> nat \<Rightarrow> nat \<Rightarrow> u8 list" where
  "bytes_at p off n = map (\<lambda>i. byte_at p (off + i)) [0..<n]"

text \<open>\<open>p\<close> points at the status byte. The lengths \<open>len - 5\<close> of the report and \<open>len - 2\<close> of an
  automatic report are passed on as 8-bit numbers.\<close>

definition rtk_handle_vender_mailbox_cmp_evt :: "tRTK_PROF \<Rightarrow> u8 list \<Rightarrow> u8 \<Rightarrow> tRTK_PROF" where
  "rtk_handle_vender_mailbox_cmp_evt s p len =
     (let status = byte_at p 0 in
      if len \<le> 4 then s
      else let subcmd = byte_at p 1; q = drop 2 p in
        if subcmd = 0x23 then
          (if status = 0 then rtk_notify_info_to_wifi s 1 (bytes_at q 0 (unat (len - 5))) else s)
        else if subcmd = 0x11 then rtk_notify_btcoex_to_wifi s 0x05 status
        else if subcmd = 0x17 then rtk_notify_btcoex_to_wifi s 0x03 status
        else if subcmd = 0x1B then rtk_notify_btcoex_to_wifi s 0x01 status
        else if subcmd = 0x31 then rtk_notify_btcoex_to_wifi s 0x04 status
        else if subcmd = 0x32 then rtk_notify_btcoex_to_wifi s 0x02 status
        else if subcmd = 0x40 then
          (if status = 0
           then let s = set_afh s 0 (bytes_at q 4 4)
                in rtk_vendor_cmd_to_fw s HCI_VENDOR_MAILBOX_CMD [0x41, 2, piconet_id s, coex_mode s] None
           else rtk_notify_afhmap_to_wifi (s\<lparr>afh_map := replicate 10 0\<rparr>))
        else if subcmd = 0x41 then
          (if status = 0
           then let s = set_afh s 4 (bytes_at q 4 4)
                in rtk_vendor_cmd_to_fw s HCI_VENDOR_MAILBOX_CMD [0x42, 2, piconet_id s, coex_mode s] None
           else rtk_notify_afhmap_to_wifi (s\<lparr>afh_map := replicate 10 0\<rparr>))
        else if subcmd = 0x42 then
          (if status = 0 then rtk_notify_afhmap_to_wifi (set_afh s 8 (bytes_at q 4 2))
           else rtk_notify_afhmap_to_wifi (s\<lparr>afh_map := replicate 10 0\<rparr>))
        else if subcmd = 0x43 then
          (if status = 0 then rtk_notify_regester_to_wifi s (bytes_at q 3 9) else s)
        else if subcmd = 0x44 then rtk_notify_btcoex_to_wifi s 0x07 status
        else s)"

definition hci_periodic_inquiry_mode :: "tRTK_PROF \<Rightarrow> u8 list \<Rightarrow> tRTK_PROF" where
  "hci_periodic_inquiry_mode s p =
     (if byte_at p 0 \<noteq> 0 \<and> isinquirying s \<noteq> 0
      then rtk_notify_btoperation_to_wifi (s\<lparr>isinquirying := 0\<rparr>) 2 [] else s)"

definition hci_read_local_version_info :: "tRTK_PROF \<Rightarrow> u8 list \<Rightarrow> tRTK_PROF" where
  "hci_read_local_version_info s p =
     (if byte_at p 0 = 0
      then s\<lparr>hci_reversion := uint16_at p 2, lmp_subversion := uint16_at p 7\<rparr> else s)"

definition rtk_handle_cmd_complete_evt :: "tRTK_PROF \<Rightarrow> u8 list \<Rightarrow> u8 \<Rightarrow> tRTK_PROF" where
  "rtk_handle_cmd_complete_evt s p len =
     (let opcode = uint16_at p 1; p = drop 3 p in
      if opcode = 0x0403 then hci_periodic_inquiry_mode s p
      else if opcode = 0x1001 then hci_read_local_version_info s p
      else if opcode = 0x0C03 then coex_msg_send s invite_req
      else if opcode = 0xfc1b then s\<lparr>poweroff_allowed := 1\<rparr>
      else if opcode = HCI_VENDOR_MAILBOX_CMD then rtk_handle_vender_mailbox_cmp_evt s p len
      else s)"

section \<open>Connection events\<close>

text \<open>The common tail of both branches of \<open>rtk_handle_connection_complete_evt\<close> for the connection at
  position \<open>i\<close>: clear its profiles, then register SCO links (type 0 or 2).\<close>

definition reset_connection :: "tRTK_PROF \<Rightarrow> nat \<Rightarrow> u8 \<Rightarrow> tRTK_PROF" where
  "reset_connection s i type =
     upd_conn s i (\<lambda>c. c\<lparr>cp_profile_bitmap := 0, cp_profile_refcount := (\<lambda>_. 0), cp_type := type\<rparr>)"

definition handle_connection_hci_conn_null :: "tRTK_PROF \<Rightarrow> u16 \<Rightarrow> u8 \<Rightarrow> tRTK_PROF" where
  "handle_connection_hci_conn_null s handle link_type =
     (case malloc (pheap s) 24 of
        (None, e) \<Rightarrow> s\<lparr>pheap := e\<rparr>
      | (Some _, e) \<Rightarrow>
          let s = s\<lparr>pheap := e\<rparr>; i = length (conn_hash s) in
          if link_type = 0 \<or> link_type = 2
          then update_profile_connection (add_connection_to_hash s (new_connection handle 1)) i (int profile_sco) True
          else add_connection_to_hash s (new_connection handle 0))"

definition rtk_handle_connection_complete_evt :: "tRTK_PROF \<Rightarrow> u8 list \<Rightarrow> tRTK_PROF" where
  "rtk_handle_connection_complete_evt s p =
     (let status = byte_at p 0; handle = uint16_at p 1; link_type = byte_at p 9 in
      if status = 0
      then let s = (if ispaging s \<noteq> 0
                    then rtk_notify_btoperation_to_wifi (s\<lparr>ispaging := 0\<rparr>) 4 [] else s)
           in case find_connection_by_handle s handle of
                None \<Rightarrow> handle_connection_hci_conn_null s handle link_type
              | Some i \<Rightarrow>
                  if link_type = 0 \<or> link_type = 2
                  then update_profile_connection (reset_connection s i 1) i (int profile_sco) True
                  else reset_connection s i 0
      else if ispaging s \<noteq> 0 then rtk_notify_btoperation_to_wifi (s\<lparr>ispaging := 0\<rparr>) 5 []
      else s)"

text \<open>The loop over the channel table: the entries of the handle that have both channel ids are
  unregistered and deleted. \<open>js\<close> is the part of the table still to visit.\<close>

fun disconnect_channels :: "tRTK_PROF \<Rightarrow> nat \<Rightarrow> u16 \<Rightarrow> tRTK_PROF_INFO list \<Rightarrow> tRTK_PROF_INFO list \<times> tRTK_PROF" where
  "disconnect_channels s i handle [] = ([], s)"
| "disconnect_channels s i handle (p # ps) =
     (if handle = pi_handle p \<and> pi_scid p \<noteq> 0 \<and> pi_dcid p \<noteq> 0
      then disconnect_channels (update_profile_connection s i (uint (pi_profile_index p)) False) i handle ps
      else let (kept, s) = disconnect_channels s i handle ps in (p # kept, s))"

definition handle_disconnect_hci_conn_type_zero :: "tRTK_PROF \<Rightarrow> nat \<Rightarrow> u16 \<Rightarrow> tRTK_PROF" where
  "handle_disconnect_hci_conn_type_zero s i handle =
     (let (kept, s) = disconnect_channels s i handle (profile_list s) in s\<lparr>profile_list := kept\<rparr>)"

definition disconnect_profiles :: "tRTK_PROF \<Rightarrow> nat \<Rightarrow> u16 \<Rightarrow> tRTK_PROF" where
  "disconnect_profiles s i handle =
     (let type = cp_type (conn_hash s ! i) in
      if type = 0 then handle_disconnect_hci_conn_type_zero s i handle
      else if type = 1 then update_profile_connection s i (int profile_sco) False
      else if type = 2 then
        let s = (if cp_profile_bitmap (conn_hash s ! i) AND BIT profile_hogp \<noteq> 0
                 then update_profile_connection s i (int profile_hogp) False else s);
            s = (if cp_profile_bitmap (conn_hash s ! i) AND BIT profile_voice \<noteq> 0
                 then update_profile_connection s i (int profile_voice) False else s)
        in update_profile_connection s i (int profile_hid) False
      else s)"

definition rtk_handle_disconnect_complete_evt :: "tRTK_PROF \<Rightarrow> u8 list \<Rightarrow> tRTK_PROF" where
  "rtk_handle_disconnect_complete_evt s p =
     (let s = (if ispairing s \<noteq> 0
               then rtk_notify_btoperation_to_wifi (s\<lparr>ispairing := 0\<rparr>) 7 [] else s);
          status = byte_at p 0; handle = uint16_at p 1
      in if status = 0
         then (case find_connection_by_handle s handle of
                 None \<Rightarrow> s
               | Some i \<Rightarrow> delete_connection_from_hash (disconnect_profiles s i handle) i)
         else s)"

definition handle_le_connection_hci_conn_null :: "tRTK_PROF \<Rightarrow> u16 \<Rightarrow> u16 \<Rightarrow> tRTK_PROF" where
  "handle_le_connection_hci_conn_null s handle interval =
     (case malloc (pheap s) 24 of
        (None, e) \<Rightarrow> s\<lparr>pheap := e\<rparr>
      | (Some _, e) \<Rightarrow>
          let s = s\<lparr>pheap := e\<rparr>; i = length (conn_hash s);
              s = add_connection_to_hash s (new_connection handle 2);
              s = update_profile_connection s i (int profile_hid) True
          in update_hid_active_state s handle interval)"

definition rtk_handle_le_connection_complete_evt :: "tRTK_PROF \<Rightarrow> u8 list \<Rightarrow> bool \<Rightarrow> tRTK_PROF" where
  "rtk_handle_le_connection_complete_evt s p enhanced =
     (let status = byte_at p 0; handle = uint16_at p 1;
          interval = uint16_at p (if enhanced then 23 else 11)
      in if status = 0
         then let s = (if ispaging s \<noteq> 0
                       then rtk_notify_btoperation_to_wifi (s\<lparr>ispaging := 0\<rparr>) 4 [] else s)
              in case find_connection_by_handle s handle of
                   None \<Rightarrow> handle_le_connection_hci_conn_null s handle interval
                 | Some i \<Rightarrow>
                     let s = update_profile_connection (reset_connection s i 2) i (int profile_hid) True
                     in update_hid_active_state s handle interval
         else if ispaging s \<noteq> 0 then rtk_notify_btoperation_to_wifi (s\<lparr>ispaging := 0\<rparr>) 5 []
         else s)"

definition rtk_handle_le_meta_evt :: "tRTK_PROF \<Rightarrow> u8 list \<Rightarrow> tRTK_PROF" where
  "rtk_handle_le_meta_evt s p =
     (let sub_event = byte_at p 0; p = drop 1 p in
      if sub_event = 0x01 then rtk_handle_le_connection_complete_evt s p False
      else if sub_event = 0x0a then rtk_handle_le_connection_complete_evt s p True
      else if sub_event = 0x03 then update_hid_active_state s (uint16_at p 1) (uint16_at p 3)
      else s)"

section \<open>Entry points\<close>

text \<open>Start and end of the operations the Wi-Fi driver is told about, as the event and command
  handlers spell them out.\<close>

definition inquiry_start :: "tRTK_PROF \<Rightarrow> tRTK_PROF" where
  "inquiry_start s =
     (if isinquirying s = 0 then rtk_notify_btoperation_to_wifi (s\<lparr>isinquirying := 1\<rparr>) 1 [] else s)"

definition inquiry_end :: "tRTK_PROF \<Rightarrow> tRTK_PROF" where
  "inquiry_end s =
     (if isinquirying s \<noteq> 0 then rtk_notify_btoperation_to_wifi (s\<lparr>isinquirying := 0\<rparr>) 2 [] else s)"

definition pair_start :: "tRTK_PROF \<Rightarrow> tRTK_PROF" where
  "pair_start s =
     (if ispairing s = 0 then rtk_notify_btoperation_to_wifi (s\<lparr>ispairing := 1\<rparr>) 6 [] else s)"

definition pair_end :: "tRTK_PROF \<Rightarrow> tRTK_PROF" where
  "pair_end s =
     (if ispairing s \<noteq> 0 then rtk_notify_btoperation_to_wifi (s\<lparr>ispairing := 0\<rparr>) 7 [] else s)"

definition page_start :: "tRTK_PROF \<Rightarrow> tRTK_PROF" where
  "page_start s =
     (if ispaging s = 0 then rtk_notify_btoperation_to_wifi (s\<lparr>ispaging := 1\<rparr>) 3 [] else s)"

definition rtk_parse_internal_event_intercept :: "tRTK_PROF \<Rightarrow> u8 list \<Rightarrow> tRTK_PROF" where
  "rtk_parse_internal_event_intercept s p_msg =
     (let event_code = byte_at p_msg 0; len = byte_at p_msg 1; p = drop 2 p_msg in
      if event_code = 0x01 then inquiry_end s
      else if event_code = 0x16 then pair_start s
      else if event_code = 0x31 then pair_start s
      else if event_code = 0x06 then pair_end s
      else if event_code = 0x18 then pair_end s
      else if event_code = 0x14 then update_hid_active_state s (uint16_at p 1) (uint16_at p 4)
      else if event_code = 0x0E then rtk_handle_cmd_complete_evt s p len
      else if event_code = 0x0F then
        let status = byte_at p 0; opcode = uint16_at p 2;
            s = (if opcode = 0x0401 \<and> status \<noteq> 0 then inquiry_end s else s)
        in if opcode = 0x0405 \<and> status = 0 then page_start s else s
      else if event_code = 0x03 \<or> event_code = 0x2C then rtk_handle_connection_complete_evt s p
      else if event_code = 0x05 then rtk_handle_disconnect_complete_evt s p
      else if event_code = 0xFF then
        (if uint16_at p 0 = 0x25 then rtk_notify_info_to_wifi s 2 (bytes_at p 2 (unat (len - 2))) else s)
      else if event_code = 0x3e then rtk_handle_le_meta_evt s p
      else s)"

definition rtk_parse_command :: "tRTK_PROF \<Rightarrow> u8 list \<Rightarrow> tRTK_PROF" where
  "rtk_parse_command s pp =
     (let cmd = uint16_at pp 0 in
      if cmd \<in> {0x0401, 0x0403} then inquiry_start s
      else if cmd \<in> {0x0402, 0x0404} then inquiry_end s
      else if cmd = 0x0409 then page_start s
      else s)"

definition rtk_add_le_profile :: "tRTK_PROF \<Rightarrow> u16 \<Rightarrow> u8 \<Rightarrow> tRTK_PROF" where
  "rtk_add_le_profile s handle profile_map =
     (case find_connection_by_handle s handle of
        None \<Rightarrow> s
      | Some i \<Rightarrow>
          let s = (if profile_map AND 0x01 \<noteq> 0 \<or> profile_map AND 0x02 \<noteq> 0
                   then update_profile_connection s i (int profile_hogp) True else s)
          in if profile_map AND 0x04 \<noteq> 0 then update_profile_connection s i (int profile_voice) True else s)"

definition rtk_delete_le_profile :: "tRTK_PROF \<Rightarrow> u16 \<Rightarrow> u8 \<Rightarrow> tRTK_PROF" where
  "rtk_delete_le_profile s handle profile_map =
     (case find_connection_by_handle s handle of
        None \<Rightarrow> s
      | Some i \<Rightarrow>
          let s = (if profile_map AND 0x01 \<noteq> 0 \<or> profile_map AND 0x02 \<noteq> 0
                   then update_profile_connection s i (int profile_hogp) False else s)
          in if profile_map AND 0x04 \<noteq> 0 then update_profile_connection s i (int profile_voice) False else s)"

definition rtk_add_le_data_count :: "tRTK_PROF \<Rightarrow> u8 \<Rightarrow> tRTK_PROF" where
  "rtk_add_le_data_count s data_type =
     (let s = (if data_type = 1 \<or> data_type = 2
               then let s = s\<lparr>hogp_packet_count := hogp_packet_count s + 1\<rparr>
                    in if \<not> is_profile_busy s profile_hogp then update_profile_state s profile_hogp True else s
               else s)
      in if data_type = 3
         then let s = s\<lparr>voice_packet_count := voice_packet_count s + 1\<rparr>
              in if \<not> is_profile_busy s profile_voice then update_profile_state s profile_voice True else s
         else s)"

definition rtk_set_bt_on :: "tRTK_PROF \<Rightarrow> u8 \<Rightarrow> tRTK_PROF" where
  "rtk_set_bt_on s on = rtk_vendor_cmd_to_fw (s\<lparr>bt_on := on\<rparr>) 0xfc1b [1] None"

text \<open>\<open>hw_process_event\<close>: \<open>True\<close> when the event belongs to the hardware configuration
  (\<open>hw_config_cback\<close> of hardware_uart.c).\<close>

definition hw_process_event :: "tRTK_PROF \<Rightarrow> u8 list \<Rightarrow> bool \<times> tRTK_PROF" where
  "hw_process_event s data =
     (let opcode = uint16_at data 3 in
      if opcode \<in> {0xFC17, 0xFC61, 0xFCEE, 0xFC20, 0x1001, 0xFC6D, 0x0C03} then (True, s)
      else if opcode \<in> {0xfc1b, 0xFC94, HCI_VENDOR_SET_PROFILE_REPORT_COMMAND, HCI_VENDOR_ADD_BITPOOL_FW,
                         HCI_VENDOR_MAILBOX_CMD}
        then (False, rtk_cmd_complete_cback s)
      else (False, s))"

section \<open>Start and stop of the module\<close>

text \<open>\<open>fd\<close>: what \<open>socket\<close> returns; \<open>bound\<close>, \<open>thread\<close>: the success of \<open>bind\<close> and
  \<open>pthread_create\<close>.\<close>

definition create_udpsocket_socket :: "tRTK_PROF \<Rightarrow> int \<Rightarrow> bool \<Rightarrow> bool \<Rightarrow> int \<times> tRTK_PROF" where
  "create_udpsocket_socket s fd bound thread =
     (if coex_recv_thread_running s \<noteq> 0 then (-1, s)
      else let s = s\<lparr>coex_recv_thread_running := 1, udpsocket := fd\<rparr> in
        if fd < 0 then (-1, s\<lparr>coex_recv_thread_running := 0\<rparr>)
        else if \<not> bound then (-1, s\<lparr>coex_recv_thread_running := 0\<rparr>)
        else if \<not> thread then (-1, s\<lparr>coex_recv_thread_running := 0\<rparr>)
        else (0, s))"

definition open_btcoex_chrdev :: "tRTK_PROF \<Rightarrow> int \<Rightarrow> bool \<Rightarrow> int \<times> tRTK_PROF" where
  "open_btcoex_chrdev s fd thread =
     (if coex_recv_thread_running s \<noteq> 0 then (-1, s)
      else let s = s\<lparr>coex_recv_thread_running := 1, btcoex_chr := fd\<rparr> in
        if fd < 0 then (-1, s\<lparr>coex_recv_thread_running := 0\<rparr>)
        else if \<not> thread then (-1, s\<lparr>coex_recv_thread_running := 0\<rparr>)
        else (0, s))"

text \<open>\<open>memset_s(&rtk_prof, ...)\<close> with zero.\<close>

definition prof_memset :: "tRTK_PROF \<Rightarrow> tRTK_PROF" where
  "prof_memset s =
     s\<lparr>conn_hash := [], profile_list := [], coex_list := [], current_cback := None,
       timer_a2dp_packet_count := None, timer_pan_packet_count := None, timer_hogp_packet_count := None,
       timer_polling := None, a2dp_packet_count := 0, pan_packet_count := 0, hogp_packet_count := 0,
       voice_packet_count := 0, profile_bitmap := 0, profile_status := 0, profile_refcount := (\<lambda>_. 0),
       ispairing := 0, isinquirying := 0, ispaging := 0, autoreport := 0, polling_enable := 0,
       polling_interval := 0, coex_recv_thread_running := 0, btcoex_chr := 0, udpsocket := 0,
       piconet_id := 0, coex_mode := 0, afh_map := replicate 10 0, hci_reversion := 0,
       lmp_subversion := 0, wifi_on := 0, bt_on := 0\<rparr>"

definition rtk_parse_init ::
  "tRTK_PROF \<Rightarrow> (nat \<Rightarrow> bool) \<Rightarrow> int \<Rightarrow> bool \<Rightarrow> bool \<Rightarrow> int \<Rightarrow> bool \<Rightarrow> tRTK_PROF" where
  "rtk_parse_init s tc fd bound thread chr chr_thread =
     (let s = prof_memset s;
          s = s\<lparr>timer_a2dp_packet_count := OsAllocateTimer (tc 0), timer_pan_packet_count := OsAllocateTimer (tc 1),
                timer_hogp_packet_count := OsAllocateTimer (tc 2), timer_polling := OsAllocateTimer (tc 3)\<rparr>;
          s = s\<lparr>profile_list := [], conn_hash := [], coex_list := []\<rparr>;
          (r, s) = create_udpsocket_socket s fd bound thread
      in if r < 0 then snd (open_btcoex_chrdev s chr chr_thread) else s)"

definition bt_leave :: "u8 list" where
  "bt_leave = [66, 84, 95, 76, 69, 65, 86, 69, 0]"

definition stop_btwifi_coex_receive_thread :: "tRTK_PROF \<Rightarrow> tRTK_PROF" where
  "stop_btwifi_coex_receive_thread s =
     (let s = (if wifi_on s \<noteq> 0 then coex_msg_send s bt_leave else s)
      in if coex_recv_thread_running s \<noteq> 0 then s\<lparr>coex_recv_thread_running := 0\<rparr> else s)"

definition rtk_parse_cleanup :: "tRTK_PROF \<Rightarrow> tRTK_PROF" where
  "rtk_parse_cleanup s =
     (let s = s\<lparr>timer_a2dp_packet_count := snd (OsFreeTimer (timer_a2dp_packet_count s)),
                timer_pan_packet_count := snd (OsFreeTimer (timer_pan_packet_count s)),
                timer_hogp_packet_count := snd (OsFreeTimer (timer_hogp_packet_count s)),
                timer_polling := snd (OsFreeTimer (timer_polling s))\<rparr>;
          s = s\<lparr>conn_hash := []\<rparr>;
          s = s\<lparr>profile_list := []\<rparr>;
          s = s\<lparr>coex_list := []\<rparr>;
          s = stop_btwifi_coex_receive_thread s
      in prof_memset s)"

end
