(* ===== verification/RtkProfileInv.thy ===== *)
theory RtkProfileInv
  imports RtkProfile
begin

text \<open>
  The bookkeeping invariant of hardware/bt/src/rtk_parse.c: the global reference counts are the sums
  of the counts of the connections, every bitmap agrees with its counts, and a busy profile is
  connected. Registering and unregistering a profile on a connection keep it; the report to the
  firmware is a faithful image of it.
\<close>

section \<open>Bits of profiles\<close>

lemma bit_BIT [simp]: "bit (BIT k) n \<longleftrightarrow> n = k \<and> k < 8"
  by (auto simp: BIT_def bit_simps)

lemma and_BIT_eq_0: "k < 8 \<Longrightarrow> x AND BIT k = 0 \<longleftrightarrow> \<not> bit x k"
  by (rule iffI, metis bit_0_eq bit_BIT bit_and_iff bot_apply bot_bool_def, rule bit_word_eqI)
    (auto simp: bit_and_iff)

lemma bit_or_BIT: "k < 8 \<Longrightarrow> bit (x OR BIT k) n \<longleftrightarrow> bit x n \<or> n = k"
  and bit_and_not_BIT: "k < 8 \<Longrightarrow> bit (x AND NOT (BIT k)) n \<longleftrightarrow> bit x n \<and> n \<noteq> k"
  by (auto simp: bit_simps dest: bit_imp_le_length)

lemma and_not_BIT_idle: "\<not> bit x k \<Longrightarrow> x AND NOT (BIT k) = x"
  by (rule bit_word_eqI) (auto simp: bit_simps)

section \<open>What reports and timers leave alone\<close>

text \<open>The part of the state the bookkeeping works on.\<close>

definition prof_view ::
  "tRTK_PROF \<Rightarrow> tRTK_CONN_PROF list \<times> tRTK_PROF_INFO list \<times> u8 \<times> u8 \<times> (nat \<Rightarrow> u8)" where
  "prof_view s = (conn_hash s, profile_list s, profile_bitmap s, profile_status s, profile_refcount s)"

lemma prof_viewD:
  assumes "prof_view s = prof_view t"
  shows "conn_hash s = conn_hash t" "profile_list s = profile_list t" "profile_bitmap s = profile_bitmap t"
    "profile_status s = profile_status t" "profile_refcount s = profile_refcount t"
  using assms by (simp_all add: prof_view_def)

lemma view_vendor_cmd [frame_simps]: "prof_view (rtk_vendor_cmd_to_fw s op ps cb) = prof_view s"
  by (auto simp: prof_view_def rtk_vendor_cmd_to_fw_def Let_def split: prod.split option.split)

lemma view_notify_fw [frame_simps]: "prof_view (rtk_notify_profileinfo_to_fw s) = prof_view s"
  by (auto simp: rtk_notify_profileinfo_to_fw_def Let_def prof_viewD [OF view_vendor_cmd] prof_view_def
      split: prod.split option.split)

lemma view_need_update [frame_simps]: "prof_view (IfNeedUpadte s b) = prof_view s"
  by (simp add: IfNeedUpadte_def view_notify_fw)

lemma view_setup_timer [frame_simps]: "prof_view (rtk_check_setup_timer s k) = prof_view s"
  by (simp add: rtk_check_setup_timer_def prof_view_def ptimer_defs Let_def)

lemma view_del_timer [frame_simps]: "prof_view (rtk_check_del_timer s k) = prof_view s"
  by (simp add: rtk_check_del_timer_def prof_view_def ptimer_defs Let_def)

lemmas view_need_updateD [simp] = prof_viewD [OF view_need_update]
lemmas view_notify_fwD [simp] = prof_viewD [OF view_notify_fw]
lemmas view_setup_timerD [simp] = prof_viewD [OF view_setup_timer]
lemmas view_del_timerD [simp] = prof_viewD [OF view_del_timer]

section \<open>The two branches of update\_profile\_connection, field by field\<close>

lemma upd_conn_fields [simp]:
  "conn_hash (upd_conn s i f) = (conn_hash s)[i := f (conn_hash s ! i)]"
  "profile_list (upd_conn s i f) = profile_list s" "profile_bitmap (upd_conn s i f) = profile_bitmap s"
  "profile_status (upd_conn s i f) = profile_status s" "profile_refcount (upd_conn s i f) = profile_refcount s"
  by (simp_all add: upd_conn_def)

definition conn_added :: "nat \<Rightarrow> tRTK_CONN_PROF \<Rightarrow> tRTK_CONN_PROF" where
  "conn_added k c =
     c\<lparr>cp_profile_bitmap :=
         (if cp_profile_refcount c k = 0 then cp_profile_bitmap c OR BIT k else cp_profile_bitmap c),
       cp_profile_refcount := (cp_profile_refcount c)(k := cp_profile_refcount c k + 1)\<rparr>"

definition conn_removed :: "nat \<Rightarrow> tRTK_CONN_PROF \<Rightarrow> tRTK_CONN_PROF" where
  "conn_removed k c =
     c\<lparr>cp_profile_refcount := (cp_profile_refcount c)(k := cp_profile_refcount c k - 1),
       cp_profile_bitmap :=
         (if cp_profile_refcount c k = 1
          then (if k = profile_hid
                then (cp_profile_bitmap c AND NOT (BIT k)) AND NOT (BIT profile_hid_interval)
                else cp_profile_bitmap c AND NOT (BIT k))
          else cp_profile_bitmap c)\<rparr>"

lemma add_profile_fields:
  assumes "i < length (conn_hash s)"
  shows "conn_hash (snd (add_profile s i k)) = (conn_hash s)[i := conn_added k (conn_hash s ! i)]"
    and "profile_list (snd (add_profile s i k)) = profile_list s"
    and "profile_bitmap (snd (add_profile s i k)) =
      (if profile_refcount s k = 0 then profile_bitmap s OR BIT k else profile_bitmap s)"
    and "profile_status (snd (add_profile s i k)) =
      (if profile_refcount s k = 0 \<and> k = profile_sco then profile_status s OR BIT k else profile_status s)"
    and "profile_refcount (snd (add_profile s i k)) = (profile_refcount s)(k := profile_refcount s k + 1)"
  using assms by (simp_all add: add_profile_def Let_def conn_added_def)

lemma remove_profile_fields:
  assumes "i < length (conn_hash s)" and "k \<noteq> profile_hid_interval"
  shows "conn_hash (snd (remove_profile s i k)) = (conn_hash s)[i := conn_removed k (conn_hash s ! i)]"
    and "profile_list (snd (remove_profile s i k)) = profile_list s"
    and "profile_bitmap (snd (remove_profile s i k)) =
      (if profile_refcount s k = 1 then profile_bitmap s AND NOT (BIT k) else profile_bitmap s)"
    and "profile_status (snd (remove_profile s i k)) =
      (if profile_refcount s k = 1 then profile_status s AND NOT (BIT k) else profile_status s)"
    and "profile_refcount (snd (remove_profile s i k)) =
      (if k = profile_hid \<and> cp_profile_refcount (conn_hash s ! i) k = 1 \<and>
          bit (cp_profile_bitmap (conn_hash s ! i)) profile_hid_interval
       then (profile_refcount s)(k := profile_refcount s k - 1,
              profile_hid_interval := profile_refcount s profile_hid_interval - 1)
       else (profile_refcount s)(k := profile_refcount s k - 1))"
  using assms by (auto simp: remove_profile_def Let_def conn_removed_def and_BIT_eq_0 bit_and_not_BIT
      and_not_BIT_idle profile_defs)

section \<open>The invariant\<close>

text \<open>The profiles that are counted per connection: all but \<open>profile_hid_interval\<close>, whose count is
  the number of connections that carry its bit.\<close>

definition counted :: "nat \<Rightarrow> bool" where
  "counted k \<longleftrightarrow> k < 8 \<and> k \<noteq> profile_hid_interval"

definition conn_total :: "tRTK_CONN_PROF list \<Rightarrow> nat \<Rightarrow> nat" where
  "conn_total cs k = sum_list (map (\<lambda>c. unat (cp_profile_refcount c k)) cs)"

definition hid_active :: "tRTK_CONN_PROF list \<Rightarrow> nat" where
  "hid_active cs = sum_list (map (\<lambda>c. of_bool (bit (cp_profile_bitmap c) profile_hid_interval)) cs)"

definition conn_ok :: "tRTK_CONN_PROF \<Rightarrow> bool" where
  "conn_ok c \<longleftrightarrow>
     (\<forall>k. counted k \<longrightarrow> (bit (cp_profile_bitmap c) k \<longleftrightarrow> cp_profile_refcount c k \<noteq> 0)) \<and>
     (bit (cp_profile_bitmap c) profile_hid_interval \<longrightarrow> bit (cp_profile_bitmap c) profile_hid)"

definition prof_inv :: "tRTK_PROF \<Rightarrow> bool" where
  "prof_inv s \<longleftrightarrow>
     list_all conn_ok (conn_hash s) \<and>
     (\<forall>k. counted k \<longrightarrow> unat (profile_refcount s k) = conn_total (conn_hash s) k) \<and>
     (\<forall>k. counted k \<longrightarrow> (bit (profile_bitmap s) k \<longleftrightarrow> profile_refcount s k \<noteq> 0)) \<and>
     unat (profile_refcount s profile_hid_interval) = hid_active (conn_hash s) \<and>
     (\<forall>k. bit (profile_status s) k \<longrightarrow> bit (profile_bitmap s) k)"


lemma sum_map_update:
  fixes f :: "'a \<Rightarrow> nat"
  assumes "i < length xs"
  shows "sum_list (map f (xs[i := y])) + f (xs ! i) = sum_list (map f xs) + f y"
  using assms
proof (induction xs arbitrary: i)
  case (Cons x xs)
  then show ?case by (cases i) (auto simp: algebra_simps)
qed simp

lemma conn_total_le: "i < length cs \<Longrightarrow> unat (cp_profile_refcount (cs ! i) k) \<le> conn_total cs k"
  unfolding conn_total_def by (rule member_le_sum_list) auto

lemma conn_total_update:
  "i < length cs \<Longrightarrow> conn_total (cs[i := c]) k + unat (cp_profile_refcount (cs ! i) k) =
     conn_total cs k + unat (cp_profile_refcount c k)"
  unfolding conn_total_def by (rule sum_map_update)

lemma hid_active_update:
  "i < length cs \<Longrightarrow> hid_active (cs[i := c]) + of_bool (bit (cp_profile_bitmap (cs ! i)) profile_hid_interval) =
     hid_active cs + of_bool (bit (cp_profile_bitmap c) profile_hid_interval)"
  unfolding hid_active_def by (rule sum_map_update)

lemma hid_active_le:
  "i < length cs \<Longrightarrow> of_bool (bit (cp_profile_bitmap (cs ! i)) profile_hid_interval) \<le> hid_active cs"
  unfolding hid_active_def by (rule member_le_sum_list) auto

lemma unat_inc: "(x :: u8) \<noteq> -1 \<Longrightarrow> unat (x + 1) = unat x + 1"
  and unat_dec: "(x :: u8) \<noteq> 0 \<Longrightarrow> unat (x - 1) = unat x - 1"
proof -
  show "x \<noteq> -1 \<Longrightarrow> unat (x + 1) = unat x + 1"
    by (metis add.commute add_eq_0_iff unatSuc Suc_eq_plus1)
  show "x \<noteq> 0 \<Longrightarrow> unat (x - 1) = unat x - 1"
    by (metis unat_minus_one)
qed

lemma unat_max [simp]: "unat (-1 :: u8) = 255"
  by (simp add: unsigned_minus_1_eq_mask mask_eq_exp_minus_1)

lemma unat_not_max: "(x :: u8) \<noteq> -1 \<Longrightarrow> unat x < 255"
proof -
  assume "x \<noteq> -1"
  then have "unat x \<noteq> unat (-1 :: u8)" by (simp add: word_unat_eq_iff)
  then show ?thesis using unsigned_less [of x, where ?'a = nat] by simp
qed

lemma conn_added_ok: "counted k \<Longrightarrow> conn_ok c \<Longrightarrow> cp_profile_refcount c k \<noteq> -1 \<Longrightarrow> conn_ok (conn_added k c)"
  by (auto simp: conn_ok_def conn_added_def counted_def bit_or_BIT eq_neg_iff_add_eq_0 profile_defs)

lemma conn_removed_ok: "counted k \<Longrightarrow> conn_ok c \<Longrightarrow> cp_profile_refcount c k \<noteq> 0 \<Longrightarrow> conn_ok (conn_removed k c)"
  by (auto simp: conn_ok_def conn_removed_def counted_def bit_and_not_BIT profile_defs)

lemma prof_invD:
  assumes "prof_inv s"
  shows "list_all conn_ok (conn_hash s)"
    and "counted k \<Longrightarrow> unat (profile_refcount s k) = conn_total (conn_hash s) k"
    and "counted k \<Longrightarrow> bit (profile_bitmap s) k \<longleftrightarrow> profile_refcount s k \<noteq> 0"
    and "unat (profile_refcount s profile_hid_interval) = hid_active (conn_hash s)"
    and "bit (profile_status s) k \<Longrightarrow> bit (profile_bitmap s) k"
  using assms by (auto simp: prof_inv_def)

lemma prof_inv_view: "prof_view s = prof_view t \<Longrightarrow> prof_inv s = prof_inv t"
  using prof_viewD [of s t] by (simp add: prof_inv_def)

lemma conn_ok_nth: "prof_inv s \<Longrightarrow> i < length (conn_hash s) \<Longrightarrow> conn_ok (conn_hash s ! i)"
  by (auto simp: prof_inv_def list_all_length)

lemma prof_inv_add:
  assumes inv: "prof_inv s" and i: "i < length (conn_hash s)" and k: "counted k"
    and room: "profile_refcount s k \<noteq> -1"
  shows "prof_inv (snd (add_profile s i k))"
proof -
  let ?c = "conn_hash s ! i"
  note tot = prof_invD(2) [OF inv]
  have "unat (cp_profile_refcount ?c k) \<le> unat (profile_refcount s k)"
    using conn_total_le [OF i] tot [OF k] by simp
  moreover have "unat (profile_refcount s k) < 255"
    by (rule unat_not_max [OF room])
  ultimately have room': "cp_profile_refcount ?c k \<noteq> -1" by auto
  have ok: "list_all conn_ok ((conn_hash s)[i := conn_added k ?c])"
    using prof_invD(1) [OF inv] conn_added_ok [OF k conn_ok_nth [OF inv i] room']
    by (auto simp: list_all_iff dest!: set_update_subset_insert [THEN subsetD])
  have t: "conn_total ((conn_hash s)[i := conn_added k ?c]) j =
      conn_total (conn_hash s) j + of_bool (j = k)" for j
    using conn_total_update [OF i, of "conn_added k ?c" j] unat_inc [OF room']
    by (auto simp: conn_added_def)
  have h: "hid_active ((conn_hash s)[i := conn_added k ?c]) = hid_active (conn_hash s)"
    using hid_active_update [OF i, of "conn_added k ?c"] k
    by (simp add: conn_added_def bit_or_BIT counted_def split: if_splits)
  show ?thesis
    using prof_invD [OF inv] ok t h k unat_inc [OF room] room
    by (auto simp: prof_inv_def add_profile_fields [OF i] bit_or_BIT counted_def profile_defs
        eq_neg_iff_add_eq_0)
qed

lemma list_all_update: "list_all P xs \<Longrightarrow> P x \<Longrightarrow> list_all P (xs[i := x])"
  by (auto simp: list_all_iff dest!: set_update_subset_insert [THEN subsetD])

lemma prof_inv_remove:
  assumes inv: "prof_inv s" and i: "i < length (conn_hash s)" and k: "counted k"
    and used: "cp_profile_refcount (conn_hash s ! i) k \<noteq> 0"
  shows "prof_inv (snd (remove_profile s i k))"
proof -
  let ?c = "conn_hash s ! i"
  let ?h = "k = profile_hid \<and> cp_profile_refcount ?c k = 1 \<and> bit (cp_profile_bitmap ?c) profile_hid_interval"
  note tot = prof_invD(2) [OF inv]
  have k': "k \<noteq> profile_hid_interval" using k by (simp add: counted_def)
  have "unat (cp_profile_refcount ?c k) \<le> unat (profile_refcount s k)"
    using conn_total_le [OF i] tot [OF k] by simp
  moreover have pos: "0 < unat (cp_profile_refcount ?c k)" using used by (simp add: unat_gt_0)
  ultimately have used': "profile_refcount s k \<noteq> 0" by auto
  have ok: "list_all conn_ok ((conn_hash s)[i := conn_removed k ?c])"
    by (rule list_all_update [OF prof_invD(1) [OF inv] conn_removed_ok [OF k conn_ok_nth [OF inv i] used]])
  have t: "conn_total ((conn_hash s)[i := conn_removed k ?c]) j =
      conn_total (conn_hash s) j - of_bool (j = k)" for j
    using conn_total_update [OF i, of "conn_removed k ?c" j] unat_dec [OF used] pos
    by (auto simp: conn_removed_def)
  have h: "hid_active ((conn_hash s)[i := conn_removed k ?c]) = hid_active (conn_hash s) - of_bool ?h"
    using hid_active_update [OF i, of "conn_removed k ?c"] k hid_active_le [OF i]
    by (auto simp: conn_removed_def bit_and_not_BIT counted_def profile_defs split: if_splits)
  have hd: "unat (profile_refcount s profile_hid_interval - 1) = hid_active (conn_hash s) - 1" if ?h
  proof -
    have "0 < unat (profile_refcount s profile_hid_interval)"
      using that hid_active_le [OF i] prof_invD(4) [OF inv] by simp
    then have "profile_refcount s profile_hid_interval \<noteq> 0" by (simp add: unat_gt_0)
    from unat_dec [OF this] show ?thesis using prof_invD(4) [OF inv] by simp
  qed
  show ?thesis
    using prof_invD [OF inv] ok t h hd k unat_dec [OF used'] used'
    by (auto simp: prof_inv_def remove_profile_fields [OF i k'] bit_and_not_BIT counted_def profile_defs)
qed

text \<open>The whole function, with the report to the firmware.\<close>

lemma view_update_profile_connection:
  "prof_view (update_profile_connection s i (int k) True) = prof_view (snd (add_profile s i k))"
  "prof_view (update_profile_connection s i (int k) False) = prof_view (snd (remove_profile s i k))"
  by (simp_all add: update_profile_connection_def case_prod_beta view_need_update)

lemma prof_inv_update:
  assumes "prof_inv s" and "i < length (conn_hash s)" and "counted k"
    and "if is_add then profile_refcount s k \<noteq> -1 else cp_profile_refcount (conn_hash s ! i) k \<noteq> 0"
  shows "prof_inv (update_profile_connection s i (int k) is_add)"
  using assms prof_inv_add prof_inv_remove prof_inv_view [OF view_update_profile_connection(1)]
    prof_inv_view [OF view_update_profile_connection(2)]
  by (cases is_add) auto

end
