(* ===== verification/RtkProperties.thy ===== *)
theory RtkProperties
  imports RtkParse RtkProfileInv
begin

text \<open>
  The properties of the coexistence module (hardware/bt/src/rtk_parse.c), stated over the model's
  operations and proved from the lemmas of the \<open>Rtk\<close> theories.
\<close>

section \<open>A concrete module state\<close>

definition prof_zero :: tRTK_PROF where
  "prof_zero = \<lparr>conn_hash = [], profile_list = [], coex_list = [], current_cback = None,
     timer_a2dp_packet_count = None, timer_pan_packet_count = None, timer_hogp_packet_count = None,
     timer_polling = None, a2dp_packet_count = 0, pan_packet_count = 0, hogp_packet_count = 0,
     voice_packet_count = 0, profile_bitmap = 0, profile_status = 0, profile_refcount = (\<lambda>_. 0),
     ispairing = 0, isinquirying = 0, ispaging = 0, autoreport = 0, polling_enable = 0,
     polling_interval = 0, coex_recv_thread_running = 1, btcoex_chr = 0, udpsocket = 7,
     piconet_id = 0, coex_mode = 0, afh_map = replicate 10 0, hci_reversion = 0, lmp_subversion = 0,
     wifi_on = 1, bt_on = 0, coex_cmd_send = False, poweroff_allowed = 0,
     pheap = \<lparr>malloc_ok = (\<lambda>_. True), malloc_n = 0, malloc_fill = (\<lambda>_. 0)\<rparr>,
     xmit = [], cbacks_called = [], wifi_msgs = [], stack_overrun = False\<rparr>"

lemma prof_zero_simps [simp]: "malloc_ok (pheap prof_zero) n" "\<not> coex_cmd_send prof_zero" "coex_list prof_zero = []"
  "conn_hash prof_zero = []" "profile_list prof_zero = []" "xmit prof_zero = []" "wifi_on prof_zero = 1"
  "profile_refcount prof_zero = (\<lambda>_. 0)" "profile_bitmap prof_zero = 0" "profile_status prof_zero = 0"
  "wifi_msgs prof_zero = []" "udpsocket prof_zero = 7" "\<not> stack_overrun prof_zero" "isinquirying prof_zero = 0"
  "afh_map prof_zero = replicate 10 0" "piconet_id prof_zero = 0" "coex_mode prof_zero = 0"
  "malloc_fill (pheap prof_zero) = (\<lambda>_. 0)"
  by (simp_all add: prof_zero_def)

text \<open>The same with one ACL connection, handle \<open>0x002a\<close>.\<close>

definition prof_one :: tRTK_PROF where
  "prof_one = add_connection_to_hash prof_zero (new_connection 0x2a 0)"

lemma prof_one_simps [simp]: "conn_hash prof_one = [new_connection 0x2a 0]" "profile_list prof_one = []"
  "profile_refcount prof_one = (\<lambda>_. 0)" "malloc_ok (pheap prof_one) n" "\<not> coex_cmd_send prof_one"
  "coex_list prof_one = []"
  by (simp_all add: prof_one_def add_connection_to_hash_def)

lemma prof_one_inv: "prof_inv prof_one"
  by (simp add: prof_inv_def prof_one_def add_connection_to_hash_def conn_ok_def new_connection_def
      conn_total_def hid_active_def)

section \<open>The command channel\<close>

text \<open>C18: from an idle channel, whatever the interleaving of new commands and completions, every command is
  handed to the controller at most once and in the order it was issued, at most one more command than
  completions is ever out, and once the channel is idle again nothing waits.\<close>

theorem coex_fifo:
  fixes s :: tRTK_PROF and ops :: "(u16 \<times> u8 list \<times> nat option) chan_op list"
  assumes "mem_ok s" and "\<not> coex_cmd_send s" and "coex_list s = []"
  defines "s' \<equiv> fold (chan_do submit_cmd rtk_cmd_complete_cback) ops s"
  shows "xmit s' @ waiting s' = xmit s @ map cmd_msg (submitted ops) \<and>
    length (xmit s') \<le> length (xmit s) + 1 + length (filter ((=) Complete) ops) \<and>
    (\<not> coex_cmd_send s' \<longrightarrow> xmit s' = xmit s @ map cmd_msg (submitted ops))"
proof -
  have w: "waiting s = []" using assms(3) by (simp add: waiting_def)
  then have "coex.settled s" by (simp add: coex.settled_def)
  from coex.run [OF assms(1) this, of ops] show ?thesis
    using assms(2) w unfolding s'_def by (auto simp: coex.settled_def)
qed

text \<open>Witness of C18: two commands, then one completion.\<close>

theorem coex_fifo_witness:
  "xmit (fold (chan_do submit_cmd rtk_cmd_complete_cback)
       [Submit (0xFC19, [1], None), Submit (0xFC8F, [2], None), Complete] prof_zero) =
     [(0xFC19, [0x19, 0xFC, 1, 1]), (0xFC8F, [0x8F, 0xFC, 1, 2])]"
proof -
  let ?ops = "[Submit (0xFC19, [1], None), Submit (0xFC8F, [2], None), Complete]"
  let ?s = "fold (chan_do submit_cmd rtk_cmd_complete_cback) ?ops prof_zero"
  have "waiting ?s = []"
    by (simp add: submit_cmd_def rtk_vendor_cmd_to_fw_def rtk_cmd_complete_cback_def malloc_def Let_def waiting_def)
  then show ?thesis
    using coex_fifo [of prof_zero ?ops]
    by (simp add: mem_ok_def cmd_msg_def vendor_cmd_def uint16_to_stream_def del: fold_simps)
qed

section \<open>Profiles\<close>

text \<open>C19: registering or unregistering a profile on a connection keeps the bookkeeping consistent: the
  global count of each profile is the sum of the counts of the connections, a bitmap has a profile's
  bit exactly when its count is not zero, and a busy profile is connected. Registering needs a counter
  that does not wrap, unregistering a connection that has the profile.\<close>

theorem prof_inv_kept:
  assumes "prof_inv s" and "i < length (conn_hash s)" and "k < 8" and "k \<noteq> profile_hid_interval"
    and "if is_add then profile_refcount s k \<noteq> 255 else cp_profile_refcount (conn_hash s ! i) k \<noteq> 0"
  shows "prof_inv (update_profile_connection s i (int k) is_add)"
proof -
  have max: "(-1 :: u8) = 255" by simp
  show ?thesis
    using prof_inv_update [OF assms(1,2), of k is_add, unfolded max] assms(3-5)
    by (simp add: counted_def)
qed

text \<open>Witness of C19: A2DP on the one connection.\<close>

theorem prof_inv_kept_witness: "prof_inv (update_profile_connection prof_one 0 2 True)"
  using prof_inv_kept [OF prof_one_inv, of 0 2 True] by (simp add: profile_defs)

text \<open>The reader of a report: the announced number of entries, then the status byte.\<close>

fun read_entries :: "nat \<Rightarrow> u8 list \<Rightarrow> ((u16 \<times> u8) list \<times> u8 list) option" where
  "read_entries 0 bs = Some ([], bs)"
| "read_entries (Suc n) (a # b # c # bs) =
     map_option (\<lambda>(es, r). ((stream_to_uint16 a b, c) # es, r)) (read_entries n bs)"
| "read_entries (Suc n) bs = None"

definition read_report :: "u8 list \<Rightarrow> ((u16 \<times> u8) list \<times> u8) option" where
  "read_report bs =
     (case bs of [] \<Rightarrow> None
      | n # r \<Rightarrow> (case read_entries (unat n) r of Some (es, [st]) \<Rightarrow> Some (es, st) | _ \<Rightarrow> None))"

definition active_conns :: "tRTK_PROF \<Rightarrow> tRTK_CONN_PROF list" where
  "active_conns s = filter (\<lambda>c. cp_profile_bitmap c \<noteq> 0) (conn_hash s)"

definition entry_bytes :: "tRTK_CONN_PROF \<Rightarrow> u8 list" where
  "entry_bytes c = uint16_to_stream (cp_handle c) @ [cp_profile_bitmap c]"

lemma of_nat_u8_eq_0: "n < 256 \<Longrightarrow> (of_nat n :: u8) = 0 \<longleftrightarrow> n = 0"
  by (simp add: word_unat_eq_iff unat_of_nat take_bit_nat_eq_self)

lemma profile_entries_all:
  "length (filter (\<lambda>c. cp_profile_bitmap c \<noteq> 0) cs) < 256 \<Longrightarrow>
    profile_entries (of_nat (length (filter (\<lambda>c. cp_profile_bitmap c \<noteq> 0) cs))) cs =
      concat (map entry_bytes (filter (\<lambda>c. cp_profile_bitmap c \<noteq> 0) cs))"
proof (induction cs)
  case (Cons c cs)
  let ?n = "length (filter (\<lambda>c. cp_profile_bitmap c \<noteq> 0) cs)"
  have lt: "?n < 256" using Cons.prems by (auto split: if_splits)
  have e: "concat (map entry_bytes (filter (\<lambda>c. cp_profile_bitmap c \<noteq> 0) cs)) = []" if "?n = 0"
    using that by simp
  show ?case using Cons.IH [OF lt] of_nat_u8_eq_0 [OF lt] e
    by (auto simp: Let_def entry_bytes_def)
qed simp

lemma read_entries_write:
  "read_entries (length cs) (concat (map entry_bytes cs) @ r) =
     Some (map (\<lambda>c. (cp_handle c, cp_profile_bitmap c)) cs, r)"
proof (induction cs)
  case (Cons c cs)
  then show ?case
    using uint16_stream_roundtrip [of "cp_handle c"] by (simp add: entry_bytes_def uint16_to_stream_def)
qed simp

lemma length_entries: "length (concat (map entry_bytes cs)) = 3 * length cs"
  by (induction cs) (simp_all add: entry_bytes_def)

text \<open>C21: with at most 84 active connections, the parameters of the profile report sent to the
  firmware decode to exactly the handles and bitmaps of the connections that carry a profile, in table
  order, followed by the busy status.\<close>

theorem profile_report_roundtrip:
  assumes "\<And>n. malloc_ok (pheap s) n" and "\<not> coex_cmd_send s" and "length (active_conns s) \<le> 84"
  shows "\<exists>params. xmit (rtk_notify_profileinfo_to_fw s) =
      xmit s @ [(0xFC19, [0x19, 0xFC, of_nat (length params)] @ params)] \<and>
    read_report params =
      Some (map (\<lambda>c. (cp_handle c, cp_profile_bitmap c)) (active_conns s), profile_status s)"
proof -
  let ?n = "length (active_conns s)" and ?es = "concat (map entry_bytes (active_conns s))"
  let ?p = "of_nat ?n # ?es @ [profile_status s]"
  have rep: "profile_report s = ?p"
    using profile_entries_all [of "conn_hash s"] assms(3)
    by (simp add: profile_report_def active_conns_def Let_def)
  have n8: "unat (of_nat ?n :: u8) = ?n" and n32: "(ucast (of_nat ?n :: u8) :: u32) = of_nat ?n"
    using assms(3) by (simp_all add: unsigned_of_nat take_bit_nat_eq_self)
  have "1 + of_nat ?n * 3 + 1 = (of_nat (3 * ?n + 2) :: u32)" by simp
  then have size: "unat (ucast (1 + of_nat ?n * 3 + 1 :: u32) :: u8) = 3 * ?n + 2"
    using assms(3) by (simp only: unsigned_of_nat) (simp add: take_bit_nat_eq_self)
  have len: "length ?p = 3 * ?n + 2" by (simp add: length_entries)
  have "xmit (rtk_notify_profileinfo_to_fw s) = xmit s @ [(0xFC19, [0x19, 0xFC, of_nat (length ?p)] @ ?p)]"
    using assms(1,2) rep len size
    by (simp add: rtk_notify_profileinfo_to_fw_def rtk_vendor_cmd_to_fw_def malloc_all_ok Let_def
        vendor_cmd_def uint16_to_stream_def HCI_VENDOR_SET_PROFILE_REPORT_COMMAND_def n32
        flip: active_conns_def)
  moreover have "read_report ?p = Some (map (\<lambda>c. (cp_handle c, cp_profile_bitmap c)) (active_conns s), profile_status s)"
    using read_entries_write [of "active_conns s" "[profile_status s]"] by (simp add: read_report_def n8)
  ultimately show ?thesis by blast
qed

text \<open>Witness of C21: A2DP on the connection with handle \<open>0x002a\<close>.\<close>

theorem profile_report_roundtrip_witness:
  "\<exists>params. xmit (rtk_notify_profileinfo_to_fw (prof_one\<lparr>conn_hash := [(new_connection 0x2a 0)\<lparr>cp_profile_bitmap := 4\<rparr>]\<rparr>)) =
      xmit prof_one @ [(0xFC19, [0x19, 0xFC, of_nat (length params)] @ params)] \<and>
    read_report params = Some ([(0x2a, 4)], 0)"
  using profile_report_roundtrip
    [of "prof_one\<lparr>conn_hash := [(new_connection 0x2a 0)\<lparr>cp_profile_bitmap := 4\<rparr>]\<rparr>"]
  by (simp add: active_conns_def prof_one_def add_connection_to_hash_def new_connection_def)

section \<open>L2CAP channels\<close>

lemma find_pos_None: "find_pos P xs = None \<longleftrightarrow> (\<forall>x \<in> set xs. \<not> P x)"
  by (induction xs) auto

lemma find_pos_Some: "find_pos P xs = Some i \<Longrightarrow> i < length xs \<and> P (xs ! i)"
  by (induction xs arbitrary: i) (auto split: if_splits)

lemma find_pos_snoc:
  "find_pos P xs = None \<Longrightarrow> find_pos P (xs @ [x]) = (if P x then Some (length xs) else None)"
  by (induction xs) (auto split: if_splits)

lemma find_pos_update: "i < length xs \<Longrightarrow> P y = P (xs ! i) \<Longrightarrow> find_pos P (xs[i := y]) = find_pos P xs"
  by (induction xs arbitrary: i) (auto split: nat.split)

lemma remove_pos_snoc [simp]: "remove_pos (length xs) (xs @ [x]) = xs"
  by (simp add: remove_pos_def)

lemma cp_handle_added [simp]: "cp_handle (conn_added k c) = cp_handle c"
  by (simp add: conn_added_def)

lemma find_connection_cong: "conn_hash s = conn_hash t \<Longrightarrow> find_connection_by_handle s h = find_connection_by_handle t h"
  by (simp add: find_connection_by_handle_def)

text \<open>Unregistering undoes registering, when the counter has room: the count, the two bitmaps and the
  status are as before.\<close>

lemma or_and_not_BIT: "k < 8 \<Longrightarrow> \<not> bit x k \<Longrightarrow> (x OR BIT k) AND NOT (BIT k) = x"
  by (rule bit_eqI) (auto simp: bit_or_BIT bit_and_not_BIT)

lemma conn_removed_added:
  assumes "conn_ok c" and "counted k" and "cp_profile_refcount c k \<noteq> -1"
  shows "conn_removed k (conn_added k c) = c"
proof -
  have b: "bit (cp_profile_bitmap c) k \<longleftrightarrow> cp_profile_refcount c k \<noteq> 0" "k < 8"
    and h: "bit (cp_profile_bitmap c) profile_hid_interval \<Longrightarrow> bit (cp_profile_bitmap c) profile_hid"
    using assms(1,2) by (auto simp: conn_ok_def counted_def)
  have one: "cp_profile_refcount c k + 1 = 1 \<longleftrightarrow> cp_profile_refcount c k = 0" by simp
  have hi: "cp_profile_bitmap c AND NOT (BIT profile_hid_interval) = cp_profile_bitmap c"
    if "\<not> bit (cp_profile_bitmap c) profile_hid"
    using h that by (blast intro: and_not_BIT_idle)
  show ?thesis
    using b hi one
    by (cases c) (auto simp: conn_removed_def conn_added_def or_and_not_BIT)
qed

lemma remove_profile_add:
  assumes inv: "prof_inv s" and i: "i < length (conn_hash s)" and k: "counted k" "k \<noteq> profile_sco"
    and room: "profile_refcount s k \<noteq> -1"
    and t: "prof_view t = prof_view (snd (add_profile s i k))"
  shows "prof_view (snd (remove_profile t i k)) = prof_view s"
proof -
  let ?c = "conn_hash s ! i"
  have c: "conn_ok ?c" by (rule conn_ok_nth [OF inv i])
  have "unat (cp_profile_refcount ?c k) \<le> unat (profile_refcount s k)"
    using conn_total_le [OF i, of k] prof_invD(2) [OF inv k(1)] by simp
  then have croom: "cp_profile_refcount ?c k \<noteq> -1"
    using unat_not_max [OF room] by (metis not_less unat_max)
  note tv = prof_viewD [OF t, unfolded add_profile_fields [OF i]]
  have it: "i < length (conn_hash t)" and k4: "k \<noteq> profile_hid_interval" and k8: "k < 8"
    using i k(1) by (simp_all add: tv counted_def)
  have ct: "conn_hash t ! i = conn_added k ?c" using i by (simp add: tv)
  have nob: "\<not> (cp_profile_refcount (conn_added k ?c) k = 1 \<and> k = profile_hid \<and>
      bit (cp_profile_bitmap (conn_added k ?c)) profile_hid_interval)"
    using c by (auto simp: conn_added_def conn_ok_def bit_or_BIT counted_def profile_defs split: if_splits)
  have z: "profile_refcount s k + 1 = 1 \<longleftrightarrow> profile_refcount s k = 0" by simp
  have bm: "(profile_bitmap s OR BIT k) AND NOT (BIT k) = profile_bitmap s"
    and st: "profile_status s AND NOT (BIT k) = profile_status s" if "profile_refcount s k = 0"
  proof -
    have nb: "\<not> bit (profile_bitmap s) k" using prof_invD(3) [OF inv k(1)] that by simp
    then show "(profile_bitmap s OR BIT k) AND NOT (BIT k) = profile_bitmap s"
      by (rule or_and_not_BIT [OF k8])
    show "profile_status s AND NOT (BIT k) = profile_status s"
      using nb prof_invD(5) [OF inv] by (blast intro: and_not_BIT_idle)
  qed
  show ?thesis
    unfolding prof_view_def remove_profile_fields [OF it k4] ct conn_removed_added [OF c k(1) croom]
    using nob bm st k(2) by (auto simp: tv z)
qed

lemma uint_of_profile: "k < 8 \<Longrightarrow> uint (of_nat k :: u8) = int k"
  and unat_of_profile: "k < 8 \<Longrightarrow> unat (of_nat k :: u8) = k"
  by (simp_all add: unsigned_of_nat take_bit_nat_eq_self)

text \<open>Request and successful response register the profile of the new channel.\<close>

lemma l2cap_opened:
  assumes "\<And>n. malloc_ok (pheap s) n" and "find_connection_by_handle s h = Some i" and "h AND 0xFFF = h"
    and "find_profile_by_handle_scid s h scid = None" and "psm_to_profile_index psm = int k" and "k < 8"
  defines "s1 \<equiv> snd (handle_l2cap_con_req s h psm scid True)"
  shows "\<exists>t p. snd (handle_l2cap_con_rsp s1 h dcid scid False 0) = update_profile_connection t i (int k) True \<and>
    p = \<lparr>pi_handle = h, pi_psm = psm, pi_dcid = dcid, pi_scid = scid, pi_profile_index = of_nat k\<rparr> \<and>
    prof_view t = (conn_hash s, profile_list s @ [p], profile_bitmap s, profile_status s, profile_refcount s)"
proof -
  let ?p = "\<lparr>pi_handle = h, pi_psm = psm, pi_dcid = 0, pi_scid = scid, pi_profile_index = of_nat k\<rparr>"
  have none: "find_pos (\<lambda>d. h = pi_handle d \<and> scid = pi_scid d) (profile_list s) = None"
    using assms(3,4) by (simp add: find_profile_by_handle_scid_def)
  have s1: "s1 = s\<lparr>pheap := pheap s1, profile_list := profile_list s @ [?p]\<rparr>"
    using assms(1,4,5)
    by (simp add: s1_def handle_l2cap_con_req_def list_allocate_add_def malloc_all_ok)
  let ?t = "s1\<lparr>profile_list := profile_list s @ [?p\<lparr>pi_dcid := dcid\<rparr>]\<rparr>"
  have f1: "find_profile_by_handle_scid s1 h scid = Some (length (profile_list s))"
    by (subst s1) (simp add: find_profile_by_handle_scid_def assms(3) find_pos_snoc [OF none])
  have pl1: "profile_list s1 = profile_list s @ [?p]" and ch1: "conn_hash s1 = conn_hash s"
    by (subst s1, simp)+
  have "find_connection_by_handle ?t h = Some i"
    using assms(2) by (simp add: find_connection_by_handle_def ch1)
  then have "snd (handle_l2cap_con_rsp s1 h dcid scid False 0) = update_profile_connection ?t i (int k) True"
    by (simp add: handle_l2cap_con_rsp_def f1 pl1 uint_of_profile [OF assms(6)])
  moreover have "prof_view ?t = (conn_hash s, profile_list s @ [?p\<lparr>pi_dcid := dcid\<rparr>], profile_bitmap s,
      profile_status s, profile_refcount s)"
    by (subst s1) (simp add: prof_view_def)
  ultimately show ?thesis by auto
qed

text \<open>A disconnection request removes the channel and unregisters its profile.\<close>

lemma l2cap_closed:
  assumes pl: "profile_list s = pl @ [p]" and p: "pi_handle p = h" "pi_dcid p = dcid" "pi_scid p = scid"
      "pi_profile_index p = of_nat k"
    and none: "find_pos (\<lambda>d. h = pi_handle d \<and> scid = pi_scid d) pl = None" and h: "h AND 0xFFF = h"
    and conn: "find_connection_by_handle s h = Some i" and k: "k < 8" "k \<noteq> profile_hid_interval"
    and sink: "\<not> bit (cp_profile_bitmap (conn_hash s ! i)) profile_sink"
  defines "r \<equiv> snd (remove_profile s i k)"
  shows "prof_view (snd (handle_l2cap_discon_req s h dcid scid True)) =
    (conn_hash r, pl, profile_bitmap r, profile_status r, profile_refcount r)"
proof -
  have i: "i < length (conn_hash s)"
    using conn by (auto simp: find_connection_by_handle_def dest: find_pos_Some)
  have none': "find_pos (\<lambda>d. h = pi_handle d \<and> dcid = pi_dcid d \<and> scid = pi_scid d) pl = None"
    using none by (auto simp: find_pos_None)
  have f: "find_profile_by_handle_dcid_scid s h dcid scid = Some (length pl)"
    by (simp add: find_profile_by_handle_dcid_scid_def h pl find_pos_snoc [OF none'] p)
  let ?u = "update_profile_connection s i (int k) False"
  have v: "prof_view ?u = prof_view r" by (simp add: view_update_profile_connection r_def)
  have "conn_hash ?u ! i = conn_removed k (conn_hash s ! i)"
    using prof_viewD(1) [OF v] i by (simp add: r_def remove_profile_fields(1) [OF i k(2)])
  then have nosink: "cp_profile_bitmap (conn_hash ?u ! i) AND BIT profile_sink = 0"
    using sink by (simp add: conn_removed_def and_BIT_eq_0 bit_and_not_BIT profile_defs k(1))
  have "profile_list r = pl @ [p]" by (simp add: r_def remove_profile_fields(2) [OF i k(2)] pl)
  then show ?thesis
    using prof_viewD [OF v] nosink
    by (simp add: handle_l2cap_discon_req_def f conn pl p uint_of_profile [OF k(1)] Let_def
        delete_profile_from_hash_def prof_view_def)
qed

lemma prof_inv_fields:
  assumes "prof_inv s" and "conn_hash t = conn_hash s" and "profile_bitmap t = profile_bitmap s"
    and "profile_status t = profile_status s" and "profile_refcount t = profile_refcount s"
  shows "prof_inv t"
  using assms by (simp add: prof_inv_def)

lemma psm_profile: "psm_to_profile_index psm = int k \<Longrightarrow> counted k \<and> k \<noteq> profile_sco \<and> k \<noteq> profile_sink"
  by (auto simp: psm_to_profile_index_def counted_def profile_defs split: if_splits)

text \<open>C20: an outgoing channel that is requested, accepted by the peer and disconnected again: while it is
  open its profile is registered on its connection and globally and the invariant holds, and after it the
  connections, the channels, the counts and the bitmaps are exactly what they were before.\<close>

theorem l2cap_lifecycle:
  fixes s :: tRTK_PROF and h psm scid dcid :: u16
  assumes inv: "prof_inv s" and mem: "\<And>n. malloc_ok (pheap s) n"
    and conn: "find_connection_by_handle s h = Some i" and h: "h AND 0xFFF = h"
    and new: "find_profile_by_handle_scid s h scid = None"
    and psm: "psm_to_profile_index psm = int k" and room: "profile_refcount s k \<noteq> -1"
    and sink: "\<not> bit (cp_profile_bitmap (conn_hash s ! i)) profile_sink"
  defines "s1 \<equiv> snd (handle_l2cap_con_req s h psm scid True)"
  defines "s2 \<equiv> snd (handle_l2cap_con_rsp s1 h dcid scid False 0)"
  defines "s3 \<equiv> snd (handle_l2cap_discon_req s2 h dcid scid True)"
  shows "bit (profile_bitmap s2) k \<and> bit (cp_profile_bitmap (conn_hash s2 ! i)) k \<and> prof_inv s2 \<and>
    prof_view s3 = prof_view s"
proof -
  have k: "counted k" "k \<noteq> profile_sco" "k \<noteq> profile_sink" using psm_profile [OF psm] by auto
  then have k8: "k < 8" and k4: "k \<noteq> profile_hid_interval" by (simp_all add: counted_def)
  obtain t p where s2: "s2 = update_profile_connection t i (int k) True"
    and p: "p = \<lparr>pi_handle = h, pi_psm = psm, pi_dcid = dcid, pi_scid = scid, pi_profile_index = of_nat k\<rparr>"
    and t: "prof_view t = (conn_hash s, profile_list s @ [p], profile_bitmap s, profile_status s, profile_refcount s)"
    using l2cap_opened [OF mem conn h new psm k8, of dcid] unfolding s2_def s1_def by blast
  from t have tf: "conn_hash t = conn_hash s" "profile_list t = profile_list s @ [p]" "profile_bitmap t = profile_bitmap s"
    "profile_status t = profile_status s" "profile_refcount t = profile_refcount s" by (simp_all add: prof_view_def)
  have i: "i < length (conn_hash t)" using conn by (auto simp: tf find_connection_by_handle_def dest: find_pos_Some)
  have invt: "prof_inv t" by (rule prof_inv_fields [OF inv tf(1,3,4,5)])
  have v: "prof_view s2 = prof_view (snd (add_profile t i k))" by (simp add: s2 view_update_profile_connection)
  note f2 = prof_viewD [OF v, unfolded add_profile_fields [OF i] tf]
  have inv2: "prof_inv s2" using prof_inv_update [OF invt i k(1), of True] room by (simp add: s2 tf)
  have c2: "conn_hash s2 ! i = conn_added k (conn_hash s ! i)" using i by (simp add: f2 tf)
  have conn2: "find_connection_by_handle s2 h = Some i"
    using conn i by (simp add: find_connection_by_handle_def f2 find_pos_update tf)
  have sink2: "\<not> bit (cp_profile_bitmap (conn_hash s2 ! i)) profile_sink"
    using sink k(3) k8 by (simp add: c2 conn_added_def bit_or_BIT)
  have none: "find_pos (\<lambda>d. h = pi_handle d \<and> scid = pi_scid d) (profile_list s) = None"
    using new by (simp add: find_profile_by_handle_scid_def h)
  have r: "prof_view (snd (remove_profile s2 i k)) = prof_view t"
    by (rule remove_profile_add [OF invt i k(1,2) _ v]) (simp add: tf room)
  have "prof_view s3 = prof_view s"
    using l2cap_closed [OF f2(2) _ _ _ _ none h conn2 k8 k4 sink2, of dcid] prof_viewD [OF r]
    unfolding s3_def by (simp add: p tf prof_view_def)
  moreover have "bit (profile_bitmap s2) k \<and> bit (cp_profile_bitmap (conn_hash s2 ! i)) k"
    using prof_invD(3) [OF inv k(1)] conn_ok_nth [OF invt i] k(1) k8
    by (simp add: f2(3) c2 conn_added_def bit_or_BIT tf conn_ok_def)
  ultimately show ?thesis using inv2 by simp
qed

text \<open>Witness of C20: an A2DP channel (PSM \<open>0x0019\<close>) on the one connection.\<close>

theorem l2cap_lifecycle_witness:
  "let s2 = snd (handle_l2cap_con_rsp (snd (handle_l2cap_con_req prof_one 0x2a 0x19 0x40 True)) 0x2a 0x41 0x40 False 0)
   in bit (profile_bitmap s2) profile_a2dp \<and>
      prof_view (snd (handle_l2cap_discon_req s2 0x2a 0x41 0x40 True)) = prof_view prof_one"
proof -
  have "find_connection_by_handle prof_one 0x2a = Some 0"
    and "find_profile_by_handle_scid prof_one 0x2a 0x40 = None"
    by (simp_all add: find_connection_by_handle_def find_profile_by_handle_scid_def new_connection_def)
  then show ?thesis
    using l2cap_lifecycle [OF prof_one_inv, where h = "0x2a" and i = 0 and scid = "0x40" and psm = "0x19"
      and k = profile_a2dp and dcid = "0x41"]
    by (simp add: Let_def psm_to_profile_index_def new_connection_def)
qed

section \<open>The channel map of the Wi-Fi driver\<close>

lemma vendor_cmd_frame [simp]:
  "afh_map (rtk_vendor_cmd_to_fw s op ps cb) = afh_map s" "piconet_id (rtk_vendor_cmd_to_fw s op ps cb) = piconet_id s"
  "coex_mode (rtk_vendor_cmd_to_fw s op ps cb) = coex_mode s" "wifi_on (rtk_vendor_cmd_to_fw s op ps cb) = wifi_on s"
  "wifi_msgs (rtk_vendor_cmd_to_fw s op ps cb) = wifi_msgs s" "udpsocket (rtk_vendor_cmd_to_fw s op ps cb) = udpsocket s"
  by (auto simp: rtk_vendor_cmd_to_fw_def Let_def split: prod.split option.split)

lemma bytes_at_append: "length xs = off \<Longrightarrow> length ys = n \<Longrightarrow> bytes_at (xs @ ys) off n = ys"
  by (simp add: bytes_at_def byte_at_def list_eq_iff_nth_eq nth_append)

lemma mem_write_parts:
  assumes "length d1 = 4" and "length d2 = 4" and "length d3 = 2" and "length m = 10"
  shows "mem_write (mem_write (mem_write m 0 d1) 4 d2) 8 d3 = d1 @ d2 @ d3"
  using assms by (simp add: mem_write_eq)

lemma vendor_cmd_ok: "(\<And>n. malloc_ok (pheap s) n) \<Longrightarrow> malloc_ok (pheap (rtk_vendor_cmd_to_fw s op ps cb)) n"
  using coex.submit_ok [of s "(op, ps, cb)"] by (simp add: mem_ok_def submit_cmd_def)

lemma coex_frame [simp]:
  "accepted (set_afh s off src) = accepted s" "coex_inv (set_afh s off src) = coex_inv s"
  "pheap (set_afh s off src) = pheap s" "accepted (rtk_notify_afhmap_to_wifi s) = accepted s"
  "piconet_id (set_afh s off src) = piconet_id s" "coex_mode (set_afh s off src) = coex_mode s"
  "accepted (s\<lparr>piconet_id := a, coex_mode := b\<rparr>) = accepted s" "coex_inv (s\<lparr>piconet_id := a, coex_mode := b\<rparr>) = coex_inv s"
  by (simp_all add: accepted_def coex_inv_def set_afh_def rtk_notify_afhmap_to_wifi_def send_stack_buf_def
      coex_msg_send_def)

lemma afh_part1:
  assumes "4 < l" and "length x = 4" and "length d = 4"
  shows "rtk_handle_vender_mailbox_cmp_evt s (0 # 0x40 # x @ d) l =
      rtk_vendor_cmd_to_fw (set_afh s 0 d) HCI_VENDOR_MAILBOX_CMD [0x41, 2, piconet_id s, coex_mode s] None"
    and "rtk_handle_vender_mailbox_cmp_evt s (0 # 0x41 # x @ d) l =
      rtk_vendor_cmd_to_fw (set_afh s 4 d) HCI_VENDOR_MAILBOX_CMD [0x42, 2, piconet_id s, coex_mode s] None"
  using assms
  by (simp_all add: rtk_handle_vender_mailbox_cmp_evt_def byte_at_def bytes_at_append Let_def set_afh_def
      linorder_not_le [symmetric])

lemma afh_part3:
  assumes "4 < l" and "length x = 4" and "length d = 2"
  shows "rtk_handle_vender_mailbox_cmp_evt s (0 # 0x42 # x @ d) l = rtk_notify_afhmap_to_wifi (set_afh s 8 d)"
  using assms
  by (simp add: rtk_handle_vender_mailbox_cmp_evt_def byte_at_def bytes_at_append Let_def set_afh_def
      linorder_not_le [symmetric])

text \<open>A query of the adaptive frequency hopping map, answered by three successful completions of
  the firmware with four, four and two bytes, ends in exactly one message to the Wi-Fi driver, which
  carries the query's parameters and the ten bytes in order; each answer but the last triggers the
  request of the next part.\<close>

theorem afh_map_assembled:
  fixes s :: tRTK_PROF and pid mode l1 l2 l3 :: u8 and d1 d2 d3 x1 x2 x3 :: "u8 list"
  assumes "\<And>n. malloc_ok (pheap s) n" and "coex_inv s" and "wifi_on s \<noteq> 0" and "udpsocket s > 0"
    and "length (afh_map s) = 10" and "length d1 = 4" and "length d2 = 4" and "length d3 = 2"
    and "length x1 = 4" and "length x2 = 4" and "length x3 = 4" and "4 < l1" and "4 < l2" and "4 < l3"
  defines "s0 \<equiv> query_bt_afh_map s [pid, mode]"
  defines "s1 \<equiv> rtk_handle_vender_mailbox_cmp_evt s0 ([0, 0x40] @ x1 @ d1) l1"
  defines "s2 \<equiv> rtk_handle_vender_mailbox_cmp_evt s1 ([0, 0x41] @ x2 @ d2) l2"
  defines "s3 \<equiv> rtk_handle_vender_mailbox_cmp_evt s2 ([0, 0x42] @ x3 @ d3) l3"
  shows "wifi_msgs s3 = wifi_msgs s @ [[0x09, 0xFD, 13, pid, mode, 10] @ d1 @ d2 @ d3] \<and>
    accepted s3 = accepted s @
      map (\<lambda>part. (0xFC8F, [0x8F, 0xFC, 4, part, 2, pid, mode])) [0x40, 0x41, 0x42]"
proof -
  let ?c = "\<lambda>s part. rtk_vendor_cmd_to_fw s HCI_VENDOR_MAILBOX_CMD [part, 2, piconet_id s, coex_mode s] None"
  have e0: "s0 = ?c (s\<lparr>piconet_id := pid, coex_mode := mode\<rparr>) 0x40"
    by (simp add: s0_def query_bt_afh_map_def byte_at_def Let_def)
  have e1: "s1 = ?c (set_afh s0 0 d1) 0x41" and e2: "s2 = ?c (set_afh s1 4 d2) 0x42"
    and e3: "s3 = rtk_notify_afhmap_to_wifi (set_afh s2 8 d3)"
    using assms(6-14) by (simp_all add: s1_def s2_def s3_def afh_part1 afh_part3 set_afh_def)
  have "wifi_msgs s3 = wifi_msgs s @ [[0x09, 0xFD, 13, pid, mode, 10] @ d1 @ d2 @ d3]"
    using assms(3,4,6-8) mem_write_parts [OF assms(6-8,5)]
    by (simp add: e3 e2 e1 e0 set_afh_def rtk_notify_afhmap_to_wifi_def send_stack_buf_def coex_msg_send_def
        uint16_to_stream_def)
  moreover have "accepted s3 = accepted s @
      map (\<lambda>part. (0xFC8F, [0x8F, 0xFC, 4, part, 2, pid, mode])) [0x40, 0x41, 0x42]"
    using assms(1,2)
    by (simp add: e3 e2 e1 e0 vendor_cmd_accepted vendor_cmd_inv vendor_cmd_ok HCI_VENDOR_MAILBOX_CMD_def
        vendor_cmd_def uint16_to_stream_def)
  ultimately show ?thesis ..
qed

text \<open>An instance of \<open>afh_map_assembled\<close>.\<close>

theorem afh_map_assembled_witness:
  "wifi_msgs (rtk_handle_vender_mailbox_cmp_evt (rtk_handle_vender_mailbox_cmp_evt
     (rtk_handle_vender_mailbox_cmp_evt (query_bt_afh_map prof_zero [1, 0])
       [0, 0x40, 0, 0, 0, 0, 1, 2, 3, 4] 13) [0, 0x41, 0, 0, 0, 0, 5, 6, 7, 8] 13)
     [0, 0x42, 0, 0, 0, 0, 9, 10] 11) = [[0x09, 0xFD, 13, 1, 0, 10, 1, 2, 3, 4, 5, 6, 7, 8, 9, 10]]"
  using afh_map_assembled [of prof_zero "[1, 2, 3, 4]" "[5, 6, 7, 8]" "[9, 10]"
      "[0, 0, 0, 0]" "[0, 0, 0, 0]" "[0, 0, 0, 0]" 13 13 11 1 0]
  by (simp add: coex_inv_def)

section \<open>Flaws of the event side\<close>

text \<open>C22: an automatic report of the controller whose length byte is below 2 or at least 254 makes the
  module write behind the stack buffer of its message to the Wi-Fi driver (the 8-bit length of the
  message wraps); every other length is safe.\<close>

theorem info_notify_overruns:
  "stack_overrun (rtk_parse_internal_event_intercept s ([0xFF, l, 0x25, 0] @ rest)) \<longleftrightarrow>
    stack_overrun s \<or> (wifi_on s \<noteq> 0 \<and> (l < 2 \<or> 254 \<le> l))"
proof -
  let ?n = "unat (l - 2)"
  have n: "unat (4 + (l - 2)) + 3 < 7 + ?n \<longleftrightarrow> l < 2 \<or> 254 \<le> l"
  proof -
    have "unat l < 256" using unsigned_less [of l] by simp
    then show ?thesis
      by (cases "254 \<le> unat l")
        (auto simp: word_less_nat_alt word_le_nat_alt unat_word_ariths unat_sub_if' mod_if)
  qed
  show ?thesis using n
    by (auto simp: rtk_parse_internal_event_intercept_def rtk_notify_info_to_wifi_def send_stack_buf_def
        coex_msg_send_def uint16_to_stream_def byte_at_def uint16_at_def stream_to_uint16_def bytes_at_def Let_def)
qed

lemma conn_hash_update: "\<exists>c. conn_hash (update_profile_connection s i k b) = (conn_hash s)[i := c]"
proof -
  have need: "conn_hash (IfNeedUpadte t n) = conn_hash t" for t n
    using prof_viewD(1) [OF view_need_update] .
  have a: "\<exists>c. conn_hash (snd (add_profile s i m)) = (conn_hash s)[i := c]" for m
    by (auto simp: add_profile_def Let_def)
  have r: "\<exists>c. conn_hash (snd (remove_profile s i m)) = (conn_hash s)[i := c]" for m
    by (auto simp: remove_profile_def Let_def)
  show ?thesis
  proof (cases "k < 0")
    case True
    then show ?thesis by (auto simp: update_profile_connection_def intro: exI [of _ "conn_hash s ! i"])
  next
    case False
    then show ?thesis using a [of "nat k"] r [of "nat k"]
      by (auto simp: update_profile_connection_def need split: prod.split)
  qed
qed

lemma conn_hash_disconnect: "\<exists>c. conn_hash (snd (disconnect_channels s i h ps)) = (conn_hash s)[i := c]"
proof (induction s i h ps rule: disconnect_channels.induct)
  case (2 s i h p ps)
  obtain c where "conn_hash (update_profile_connection s i (uint (pi_profile_index p)) False) = (conn_hash s)[i := c]"
    using conn_hash_update by blast
  then show ?case using 2 by (auto split: prod.split)
qed (metis disconnect_channels.simps(1) list_update_id snd_conv)

lemma remove_pos_update [simp]: "remove_pos i (xs[i := y]) = remove_pos i xs"
  by (simp add: remove_pos_def)

lemma handle_mask: "(h :: u16) AND 0xFFF = h \<Longrightarrow> h AND 0xEFF = h \<longleftrightarrow> \<not> bit h 8"
proof -
  assume h: "h AND 0xFFF = h"
  have "h AND 0xEFF = (h AND 0xFFF) AND NOT (push_bit 8 1)" by (simp add: and.assoc)
  also have "\<dots> = h AND NOT (push_bit 8 1)" by (simp only: h)
  finally have m: "h AND 0xEFF = h AND NOT (push_bit 8 1)" .
  have "h AND NOT (push_bit k 1) = h \<longleftrightarrow> \<not> bit h k" if "k < 16" for k
    using that by (auto simp: bit_exp_iff bit_not_iff bit_and_iff intro!: bit_word_eqI dest!: arg_cong [of _ _ "\<lambda>w. bit w k"])
  from this [of 8] show ?thesis by (simp add: m)
qed

text \<open>C23: a valid 12-bit handle with bit 8 set is stored in full but looked up under the mask
  \<open>0xEFF\<close>: the table entry of such a connection is never found again, and its disconnection leaves the
  entry behind. For every other handle connecting and disconnecting restores the table.\<close>

theorem handle_bit8_leaks:
  fixes s :: tRTK_PROF and h :: u16
  assumes mem: "\<And>n. malloc_ok (pheap s) n" and h: "h AND 0xFFF = h" and new: "find_connection_by_handle s h = None"
    and con: "byte_at p 0 = 0" "uint16_at p 1 = h" "byte_at p 9 = 1"
    and dis: "byte_at q 0 = 0" "uint16_at q 1 = h"
  defines "s1 \<equiv> rtk_handle_connection_complete_evt s p"
  shows "conn_hash (rtk_handle_disconnect_complete_evt s1 q) =
    (if bit h 8 then conn_hash s @ [new_connection h 0] else conn_hash s)"
proof -
  have op: "conn_hash (rtk_notify_btoperation_to_wifi t o' d) = conn_hash t" "pheap (rtk_notify_btoperation_to_wifi t o' d) = pheap t" for t o' d
    by (simp_all add: rtk_notify_btoperation_to_wifi_def send_stack_buf_def coex_msg_send_def Let_def)
  have e: "h AND 0xEFF = h \<longleftrightarrow> \<not> bit h 8" by (rule handle_mask [OF h])
  let ?c = "new_connection h 0"
  have c1: "conn_hash s1 = conn_hash s @ [?c]"
    using new mem con
    by (simp add: s1_def rtk_handle_connection_complete_evt_def handle_connection_hci_conn_null_def Let_def
        malloc_all_ok op find_connection_by_handle_def add_connection_to_hash_def)
  define t where "t = (if ispairing s1 \<noteq> 0 then rtk_notify_btoperation_to_wifi (s1\<lparr>ispairing := 0\<rparr>) 7 [] else s1)"
  have ct: "conn_hash t = conn_hash s @ [?c]" by (simp add: t_def op c1)
  have f: "find_connection_by_handle t h = (if bit h 8 then None else Some (length (conn_hash s)))"
    using new e by (simp add: find_connection_by_handle_def ct find_pos_snoc new_connection_def)
  have dz: "remove_pos i (conn_hash (handle_disconnect_hci_conn_type_zero t i h)) = remove_pos i (conn_hash t)" for i
    using conn_hash_disconnect [of t i h "profile_list t"]
    by (auto simp: handle_disconnect_hci_conn_type_zero_def split: prod.split)
  have "rtk_handle_disconnect_complete_evt s1 q =
      (case find_connection_by_handle t h of None \<Rightarrow> t
       | Some i \<Rightarrow> delete_connection_from_hash (disconnect_profiles t i h) i)"
    unfolding rtk_handle_disconnect_complete_evt_def Let_def dis t_def by simp
  then show ?thesis
    using f by (simp add: ct delete_connection_from_hash_def disconnect_profiles_def dz Let_def new_connection_def)
qed

text \<open>Witness of C23: the handles \<open>0x0100\<close> and \<open>0x000b\<close>.\<close>

theorem handle_bit8_leaks_witness:
  "conn_hash (rtk_handle_disconnect_complete_evt
     (rtk_handle_connection_complete_evt prof_zero [0, 0, 1, 0, 0, 0, 0, 0, 0, 1, 0]) [0, 0, 1, 0x13]) =
     [new_connection 0x100 0] \<and>
   conn_hash (rtk_handle_disconnect_complete_evt
     (rtk_handle_connection_complete_evt prof_zero [0, 0xb, 0, 0, 0, 0, 0, 0, 0, 1, 0]) [0, 0xb, 0, 0x13]) = []"
proof -
  have none: "find_connection_by_handle prof_zero h = None" for h
    by (simp add: find_connection_by_handle_def)
  have "bit (0x100 :: u16) 8" and "\<not> bit (0xb :: u16) 8" by simp_all
  then show ?thesis
    using handle_bit8_leaks [OF _ _ none, of "0x100" "[0, 0, 1, 0, 0, 0, 0, 0, 0, 1, 0]" "[0, 0, 1, 0x13]"]
      handle_bit8_leaks [OF _ _ none, of "0xb" "[0, 0xb, 0, 0, 0, 0, 0, 0, 0, 1, 0]" "[0, 0xb, 0, 0x13]"]
    by (simp add: byte_at_def uint16_at_def stream_to_uint16_def)
qed

text \<open>Channels only carry the profiles of their PSM. The sink profile, which incoming audio data adds to
  the connection itself, has no channel: a disconnection drops the connection but keeps its share of the
  global sink count.\<close>

lemma disconnect_keeps_sink:
  assumes "\<forall>p \<in> set ps. pi_profile_index p \<in> {1, 2, 3}" and "i < length (conn_hash s)"
  shows "profile_refcount (snd (disconnect_channels s i h ps)) profile_sink = profile_refcount s profile_sink"
  using assms
proof (induction s i h ps rule: disconnect_channels.induct)
  case (2 s i h p ps)
  let ?k = "unat (pi_profile_index p)" and ?u = "update_profile_connection s i (uint (pi_profile_index p)) False"
  have k: "?k \<noteq> profile_hid_interval" "?k \<noteq> profile_sink" using 2(3) by (auto simp: profile_defs)
  have v: "prof_view ?u = prof_view (snd (remove_profile s i ?k))"
    using view_update_profile_connection(2) [of s i ?k] by simp
  have "profile_refcount ?u profile_sink = profile_refcount s profile_sink"
    using k by (simp add: prof_viewD(5) [OF v] remove_profile_fields(5) [OF 2(4) k(1)])
      (simp add: profile_defs)
  moreover have "length (conn_hash ?u) = length (conn_hash s)"
    using conn_hash_update [of s i "uint (pi_profile_index p)" False] by auto
  ultimately show ?case using 2 by (auto split: prod.split)
qed simp

lemma disconnect_leaks_sink:
  fixes s :: tRTK_PROF and h :: u16
  assumes "\<forall>p \<in> set (profile_list s). pi_profile_index p \<in> {1, 2, 3}" and "ispairing s = 0"
    and conn: "find_connection_by_handle s h = Some i" and "cp_type (conn_hash s ! i) = 0"
    and dis: "byte_at q 0 = 0" "uint16_at q 1 = h"
  defines "s' \<equiv> rtk_handle_disconnect_complete_evt s q"
  shows "conn_hash s' = remove_pos i (conn_hash s) \<and> profile_refcount s' profile_sink = profile_refcount s profile_sink"
proof -
  have i: "i < length (conn_hash s)" using conn by (auto simp: find_connection_by_handle_def dest: find_pos_Some)
  show ?thesis
    using conn_hash_disconnect [of s i h "profile_list s"] disconnect_keeps_sink [OF assms(1) i, of h] assms(2-6)
    by (auto simp: s'_def rtk_handle_disconnect_complete_evt_def delete_connection_from_hash_def Let_def
        disconnect_profiles_def handle_disconnect_hci_conn_type_zero_def split: prod.split)
qed

end
