(* ===== verification/HwPatch.thy ===== *)
theory HwPatch
  imports BtSkbuff "HOL-Library.Monad_Syntax"
begin

text \<open>
  The pure parts of the controller start-up (hardware/bt/src/hardware_uart.c and hardware.c): the table
  of supported chips and its matching, baud rates, the vendor configuration file, and the extraction of
  the firmware patch from the firmware file. Memory accesses past the end of a block are errors: the
  functions whose accesses depend on the contents of a file return \<open>None\<close> for them.
\<close>

section \<open>Control block\<close>

datatype hw_cfg_state = HW_CFG_IDLE | HW_CFG_H5_INIT | HW_CFG_READ_LOCAL_VER | HW_CFG_READ_ECO_VER
  | HW_CFG_READ_CHIP_TYPE | HW_CFG_START | HW_CFG_SET_UART_BAUD_HOST | HW_CFG_SET_UART_BAUD_CONTROLLER
  | HW_CFG_SET_UART_HW_FLOW_CONTROL | HW_CFG_RESET_CHANNEL_CONTROLLER | HW_RESET_CONTROLLER
  | HARDWARE_INIT_COMPLETE | HW_CFG_DL_FW_PATCH

text \<open>\<open>bt_hw_cfg_cb_t\<close> without the fields of the USB variant, then the file-level variables
  (\<open>extra_extry\<close>, \<open>extra_entry_inx\<close>, the static \<open>alt_size\<close> of \<open>line_process\<close>), then the environment: the
  allocators, the files by name, the commands given to \<open>xmit_cb\<close> and whether it accepts the n-th one, the
  results given to \<open>init_cb\<close>, the settings of the host UART, the auto-restart option and whether the
  process was killed, and \<open>hw_fault\<close>, set by an access outside a block. A freed buffer is \<open>None\<close>.
  \<open>extra_stale\<close>: \<open>extra_entry_inx\<close> points into an earlier block.\<close>

record bt_hw_cfg_cb_t =
  hw_max_patch_size :: u32
  hw_baudrate :: u32
  hw_lmp_subversion :: u16
  hw_state :: hw_cfg_state
  hw_eversion :: u8
  hw_project_id_mask :: u32
  hw_hci_version :: u8
  hw_hci_revision :: u8
  hw_chip_type :: u8
  hw_dl_fw_flag :: u8
  hw_fw_len :: int
  hw_config_len :: nat
  hw_total_len :: u32
  hw_fw_buf :: "u8 list option"
  hw_config_buf :: "u8 list option"
  hw_total_buf :: "u8 list option"
  hw_patch_frag_cnt :: u8
  hw_patch_frag_idx :: u8
  hw_patch_frag_len :: u8
  hw_patch_frag_tail :: u8
  hw_flow_cntrl :: u8
  hw_heartbeat :: u8
  extra_extry :: "u8 list option"
  extra_entry_inx :: "nat option"
  extra_stale :: bool
  alt_size :: int
  hw_heap :: malloc_env
  hw_files :: "string \<Rightarrow> u8 list option"
  hw_xmit :: "(u16 \<times> u8 list) list"
  hw_xmit_ok :: "nat \<Rightarrow> bool"
  hw_init_cb :: "bool list"
  hw_host_bauds :: "u8 list"
  hw_host_fctrl :: "u8 list"
  hw_auto_restart :: bool
  hw_killed :: bool
  hw_h5_init_flags :: "int list"
  hw_fault :: bool

section \<open>Supported chips\<close>

record patch_info =
  pt_lmp_subversion :: u16
  pt_hci_version_mask :: u32
  pt_hci_revision_mask :: u32
  pt_chip_type_mask :: u32
  pt_project_id_mask :: u32
  pt_patch_name :: string
  pt_config_name :: string
  pt_mac_offset :: u16
  pt_max_patch_size :: u32

definition MASK_ALL :: u32 where "MASK_ALL = 0xFFFFFFFF"
definition CONFIG_MAC_OFFSET_GEN_1_2 :: u16 where "CONFIG_MAC_OFFSET_GEN_1_2 = 0x3C"
definition CONFIG_MAC_OFFSET_GEN_3PLUS :: u16 where "CONFIG_MAC_OFFSET_GEN_3PLUS = 0x44"
definition CONFIG_MAC_OFFSET_GEN_4PLUS :: u16 where "CONFIG_MAC_OFFSET_GEN_4PLUS = 0x30"
definition MAX_PATCH_SIZE_24K :: u32 where "MAX_PATCH_SIZE_24K = 1024 * 24"
definition MAX_PATCH_SIZE_40K :: u32 where "MAX_PATCH_SIZE_40K = 1024 * 40"

text \<open>\<open>1 << n\<close>. Shifts by 32 and more, which C leaves undefined, give 0.\<close>

definition mask_bit :: "nat \<Rightarrow> u32" where "mask_bit n = push_bit n 1"

definition patch :: "u16 \<Rightarrow> u32 \<Rightarrow> u32 \<Rightarrow> u32 \<Rightarrow> u32 \<Rightarrow> string \<Rightarrow> string \<Rightarrow> u16 \<Rightarrow> u32 \<Rightarrow> patch_info" where
  "patch lmp ver rvs chip proj fw cfg mac sz =
     \<lparr>pt_lmp_subversion = lmp, pt_hci_version_mask = ver, pt_hci_revision_mask = rvs, pt_chip_type_mask = chip,
      pt_project_id_mask = proj, pt_patch_name = fw, pt_config_name = cfg, pt_mac_offset = mac,
      pt_max_patch_size = sz\<rparr>"

definition patch_none :: patch_info where
  "patch_none = patch 0 MASK_ALL MASK_ALL MASK_ALL MASK_ALL ''rtl_none_fw'' ''rtl_none_config''
     CONFIG_MAC_OFFSET_GEN_1_2 MAX_PATCH_SIZE_24K"

text \<open>The table up to its terminator \<open>patch_none\<close>.\<close>

definition patch_table :: "patch_info list" where
  "patch_table =
    [patch 0x1200 MASK_ALL MASK_ALL MASK_ALL (mask_bit 0) ''rtl8723as_fw'' ''rtl8723as_config''
       CONFIG_MAC_OFFSET_GEN_1_2 MAX_PATCH_SIZE_24K,
     patch 0x8723 (NOT (mask_bit 4)) (NOT (mask_bit 0xd)) MASK_ALL (mask_bit 1) ''rtl8723bs_fw'' ''rtl8723bs_config''
       CONFIG_MAC_OFFSET_GEN_1_2 MAX_PATCH_SIZE_24K,
     patch 0x8821 MASK_ALL (NOT (mask_bit 0xc)) MASK_ALL (mask_bit 2) ''rtl8821as_fw'' ''rtl8821as_config''
       CONFIG_MAC_OFFSET_GEN_1_2 MAX_PATCH_SIZE_24K,
     patch 0x8761 MASK_ALL (NOT (mask_bit 0xb)) MASK_ALL (mask_bit 3) ''rtl8761at_fw'' ''rtl8761at_config''
       CONFIG_MAC_OFFSET_GEN_1_2 MAX_PATCH_SIZE_24K,
     patch 0x8761 MASK_ALL (mask_bit 0xb) MASK_ALL (mask_bit 14) ''rtl8761bt_fw'' ''rtl8761bt_config''
       CONFIG_MAC_OFFSET_GEN_4PLUS MAX_PATCH_SIZE_40K,
     patch 0x8723 (mask_bit 4) MASK_ALL MASK_ALL (mask_bit 4) ''rtl8703as_fw'' ''rtl8703as_config''
       CONFIG_MAC_OFFSET_GEN_1_2 MAX_PATCH_SIZE_24K,
     patch 0x8703 MASK_ALL MASK_ALL (mask_bit 7) (mask_bit 6) ''rtl8703bs_fw'' ''rtl8703bs_config''
       CONFIG_MAC_OFFSET_GEN_3PLUS MAX_PATCH_SIZE_24K,
     patch 0x8703 MASK_ALL MASK_ALL (mask_bit 5) (mask_bit 7) ''rtl8723cs_xx_fw'' ''rtl8723cs_xx_config''
       CONFIG_MAC_OFFSET_GEN_3PLUS MAX_PATCH_SIZE_24K,
     patch 0x8703 MASK_ALL MASK_ALL (mask_bit 3) (mask_bit 7) ''rtl8723cs_cg_fw'' ''rtl8723cs_cg_config''
       CONFIG_MAC_OFFSET_GEN_3PLUS MAX_PATCH_SIZE_24K,
     patch 0x8703 MASK_ALL MASK_ALL (mask_bit 4) (mask_bit 7) ''rtl8723cs_vf_fw'' ''rtl8723cs_vf_config''
       CONFIG_MAC_OFFSET_GEN_3PLUS MAX_PATCH_SIZE_24K,
     patch 0x8822 MASK_ALL (NOT (mask_bit 0xc)) MASK_ALL (mask_bit 8) ''rtl8822bs_fw'' ''rtl8822bs_config''
       CONFIG_MAC_OFFSET_GEN_3PLUS MAX_PATCH_SIZE_24K,
     patch 0x8822 MASK_ALL (mask_bit 0xc) MASK_ALL (mask_bit 13) ''rtl8822cs_fw'' ''rtl8822cs_config''
       CONFIG_MAC_OFFSET_GEN_4PLUS MAX_PATCH_SIZE_40K,
     patch 0x8723 MASK_ALL (mask_bit 0xd) (NOT (mask_bit 7)) (mask_bit 9) ''rtl8723ds_fw'' ''rtl8723ds_config''
       CONFIG_MAC_OFFSET_GEN_3PLUS MAX_PATCH_SIZE_40K,
     patch 0x8723 MASK_ALL (mask_bit 0xd) (mask_bit 7) (mask_bit 9) ''rtl8703cs_fw'' ''rtl8703cs_config''
       CONFIG_MAC_OFFSET_GEN_3PLUS MAX_PATCH_SIZE_40K,
     patch 0x8821 MASK_ALL (mask_bit 0xc) MASK_ALL (mask_bit 10) ''rtl8821cs_fw'' ''rtl8821cs_config''
       CONFIG_MAC_OFFSET_GEN_3PLUS MAX_PATCH_SIZE_40K]"

text \<open>\<open>mask != ALL && (mask & (1 << v)) == 0\<close> skips an entry.\<close>

definition mask_match :: "u32 \<Rightarrow> u8 \<Rightarrow> bool" where
  "mask_match m v \<longleftrightarrow> \<not> (m \<noteq> MASK_ALL \<and> m AND mask_bit (unat v) = 0)"

definition entry_match :: "bt_hw_cfg_cb_t \<Rightarrow> bool \<Rightarrow> patch_info \<Rightarrow> bool" where
  "entry_match cfg with_chip e \<longleftrightarrow>
     pt_lmp_subversion e = hw_lmp_subversion cfg \<and> mask_match (pt_hci_version_mask e) (hw_hci_version cfg) \<and>
     mask_match (pt_hci_revision_mask e) (hw_hci_revision cfg) \<and>
     (with_chip \<longrightarrow> mask_match (pt_chip_type_mask e) (hw_chip_type cfg))"

text \<open>\<open>with_chip\<close>: the flag \<open>PATCH_OPTIONAL_MATCH_FLAG_CHIPTYPE\<close> of \<open>mask\<close>.\<close>

definition check_match_state :: "bt_hw_cfg_cb_t \<Rightarrow> bool \<Rightarrow> nat" where
  "check_match_state cfg with_chip = length (filter (entry_match cfg with_chip) patch_table)"

definition get_patch_entry :: "bt_hw_cfg_cb_t \<Rightarrow> patch_info" where
  "get_patch_entry cfg = (case find (entry_match cfg True) patch_table of Some e \<Rightarrow> e | None \<Rightarrow> patch_none)"

section \<open>Baud rates\<close>

definition baudrates :: "(u32 \<times> u32) list" where
  "baudrates =
     [(0x00006004, 921600), (0x05F75004, 921600), (0x00004003, 1500000), (0x052A8002, 1500000),
      (0x04928002, 1500000), (0x00005002, 2000000), (0x00008001, 3000000), (0x04928001, 3000000),
      (0x06B58001, 3000000), (0x00007001, 3500000), (0x052A6001, 3500000), (0x00005001, 4000000),
      (0x0000701d, 115200), (0x0252C014, 115200)]"

definition rtk_speed_to_uart_speed :: "u32 \<Rightarrow> u32" where
  "rtk_speed_to_uart_speed rtk_speed =
     (case map_of baudrates rtk_speed of Some uart_speed \<Rightarrow> uart_speed | None \<Rightarrow> 115200)"

text \<open>The value is the \<open>USERIAL_BAUD\<close> symbol. \<open>LINE_SPEED_1M\<close> is defined as 4000000.\<close>

definition line_speed_to_userial_baud :: "u32 \<Rightarrow> u8" where
  "line_speed_to_userial_baud line_speed =
     (if line_speed = 4000000 then 15 else if line_speed = 3000000 then 14 else if line_speed = 2000000 then 13
      else if line_speed = 1500000 then 12 else if line_speed = 4000000 then 11 else if line_speed = 921600 then 10
      else if line_speed = 460800 then 9 else if line_speed = 230400 then 8 else if line_speed = 115200 then 7
      else if line_speed = 57600 then 6 else if line_speed = 19200 then 5 else if line_speed = 9600 then 4
      else if line_speed = 1200 then 2 else if line_speed = 600 then 1 else 7)"

section \<open>Memory blocks\<close>

text \<open>Reads and writes of a block that may miss it.\<close>

definition rd8 :: "u8 list \<Rightarrow> nat \<Rightarrow> u8 option" where
  "rd8 m i = (if i < length m then Some (m ! i) else None)"

definition rd16 :: "u8 list \<Rightarrow> nat \<Rightarrow> u16 option" where
  "rd16 m i = (if i + 1 < length m then Some (uint16_at m i) else None)"

definition rd32 :: "u8 list \<Rightarrow> nat \<Rightarrow> u32 option" where
  "rd32 m i = (if i + 3 < length m then Some (uint32_at m i) else None)"

definition rd_bytes :: "u8 list \<Rightarrow> nat \<Rightarrow> nat \<Rightarrow> u8 list option" where
  "rd_bytes m i n = (if i + n \<le> length m then Some (take n (drop i m)) else None)"

definition wr_bytes :: "u8 list \<Rightarrow> nat \<Rightarrow> u8 list \<Rightarrow> u8 list option" where
  "wr_bytes m i bs = (if i + length bs \<le> length m then Some (mem_write m i bs) else None)"

section \<open>Configuration file\<close>

definition RTK_VENDOR_CONFIG_MAGIC :: u32 where "RTK_VENDOR_CONFIG_MAGIC = 0x8723ab55"

text \<open>One entry of the configuration: \<open>off\<close> its offset field, \<open>len\<close> its length, \<open>d\<close> the position of its
  data in the block.\<close>

definition heartbeat_of :: "u8 \<Rightarrow> u8" where
  "heartbeat_of b = (if b AND 0x02 \<noteq> 0 \<and> b AND 0x10 \<noteq> 0 then 1 else 0)"

definition config_entry ::
  "u8 list \<Rightarrow> u16 \<Rightarrow> u16 \<Rightarrow> u8 \<Rightarrow> nat \<Rightarrow> u32 \<times> bt_hw_cfg_cb_t \<Rightarrow> u32 \<times> bt_hw_cfg_cb_t" where
  "config_entry buf mac_offset off len d = (\<lambda>(baudrate, s).
     if off = 0xc then
       (uint32_at buf d,
        if len \<ge> 12
        then let s = s\<lparr>hw_flow_cntrl := hw_flow_cntrl s OR 0x80\<rparr>
             in if byte_at buf (d + 12) AND 0x04 \<noteq> 0 then s\<lparr>hw_flow_cntrl := hw_flow_cntrl s OR 1\<rparr> else s
        else s)
     else if off = 0x017a then
       (baudrate, if mac_offset = CONFIG_MAC_OFFSET_GEN_1_2
                  then s\<lparr>hw_heartbeat := heartbeat_of (byte_at buf d)\<rparr> else s)
     else if off = 0x01be then
       (baudrate, if mac_offset = CONFIG_MAC_OFFSET_GEN_3PLUS \<or> mac_offset = CONFIG_MAC_OFFSET_GEN_4PLUS
                  then s\<lparr>hw_heartbeat := heartbeat_of (byte_at buf d)\<rparr> else s)
     else (baudrate, s))"

function parse_config_loop ::
  "u8 list \<Rightarrow> u16 \<Rightarrow> nat \<Rightarrow> nat \<Rightarrow> u32 \<times> bt_hw_cfg_cb_t \<Rightarrow> u32 \<times> bt_hw_cfg_cb_t" where
  "parse_config_loop buf mac_offset config_len i acc =
     (if i < config_len
      then let len = byte_at buf (6 + i + 2)
           in parse_config_loop buf mac_offset config_len (i + unat len + 3)
                (config_entry buf mac_offset (uint16_at buf (6 + i)) len (6 + i + 3) acc)
      else acc)"
  by pat_completeness auto
termination by (relation "measure (\<lambda>(_, _, n, i, _). n - i)") auto

declare parse_config_loop.simps [simp del]

text \<open>\<open>*filelen - sizeof(struct rtk_bt_vendor_config)\<close> is a difference of sizes: a file of less than six
  bytes makes it larger than any 16-bit length.\<close>

definition rtk_parse_config_file :: "u8 list \<Rightarrow> nat \<Rightarrow> u16 \<Rightarrow> bt_hw_cfg_cb_t \<Rightarrow> u32 \<times> bt_hw_cfg_cb_t" where
  "rtk_parse_config_file buf filelen mac_offset s =
     (let config_len = uint16_at buf 4 in
      if uint32_at buf 0 \<noteq> RTK_VENDOR_CONFIG_MAGIC then (0, s)
      else if int (unat config_len) \<noteq> (int filelen - 6) mod 2 ^ 64 then (0, s)
      else parse_config_loop buf mac_offset (unat config_len) 0 (0, s\<lparr>hw_heartbeat := 0\<rparr>))"

section \<open>Firmware file\<close>

text \<open>\<open>rtk_get_fw_project_id(p_buf)\<close>: the records before the extension signature, read backwards; \<open>i\<close> is
  the position of \<open>p_buf\<close> in the file. \<open>None\<close>: the walk leaves the file.\<close>

function rtk_get_fw_project_id :: "u8 list \<Rightarrow> nat \<Rightarrow> u8 option" where
  "rtk_get_fw_project_id fw i =
     (if i = 0 \<or> length fw \<le> i then None
      else let opcode = fw ! i; len = fw ! (i - 1) in
        if opcode = 0x00 \<and> len = 1 then (if i < 2 then None else Some (fw ! (i - 2)))
        else if i < unat len + 2 then None
        else let i' = i - (unat len + 2) in
          if fw ! i' \<noteq> 0xFF then rtk_get_fw_project_id fw i' else Some 0)"
  by pat_completeness auto
termination by (relation "measure (\<lambda>(_, i). i)") auto

declare rtk_get_fw_project_id.simps [simp del]

record rtk_epatch_entry =
  pe_chip_id :: u16
  pe_patch_length :: u16
  pe_patch_offset :: u32

text \<open>The loop of \<open>rtk_get_patch_entry\<close> over the \<open>k\<close> patches still to look at of \<open>n\<close>; the inner option is
  the pointer it returns.\<close>

fun patch_entry_loop :: "u8 list \<Rightarrow> u8 \<Rightarrow> nat \<Rightarrow> nat \<Rightarrow> rtk_epatch_entry option option" where
  "patch_entry_loop fw eversion n 0 = Some None"
| "patch_entry_loop fw eversion n (Suc k) =
     (let i = n - Suc k in
      do { chip_id \<leftarrow> rd16 fw (14 + 2 * i);
           if uint chip_id = uint eversion + 1
           then do { patch_length \<leftarrow> rd16 fw (14 + 2 * n + 2 * i);
                     patch_offset \<leftarrow> rd32 fw (14 + 4 * n + 4 * i);
                     Some (Some \<lparr>pe_chip_id = chip_id, pe_patch_length = patch_length,
                                 pe_patch_offset = patch_offset\<rparr>) }
           else patch_entry_loop fw eversion n k })"

definition rtk_get_patch_entry :: "malloc_env \<Rightarrow> u8 list \<Rightarrow> u8 \<Rightarrow> (rtk_epatch_entry option \<times> malloc_env) option" where
  "rtk_get_patch_entry heap fw eversion =
     (case malloc heap 16 of
        (None, e) \<Rightarrow> Some (None, e)
      | (Some _, e) \<Rightarrow>
          do { n \<leftarrow> rd16 fw 12;
               r \<leftarrow> patch_entry_loop fw eversion (unat n) (unat n);
               Some (r, e) })"

end
