(* ===== verification/HwAlt.thy ===== *)
theory HwAlt
  imports HwPatch
begin

text \<open>
  The alternative settings of hardware/bt/src/hardware_uart.c: the text file with extra configuration
  entries, the block the entries are collected in, and their merge into the vendor configuration. All
  functions here return \<open>None\<close> when they access memory outside a block or through a null pointer.
\<close>

section \<open>Strings\<close>

text \<open>All the tokens a loop around \<open>strsep\<close> sees.\<close>

fun split_on :: "u8 set \<Rightarrow> u8 list \<Rightarrow> u8 list list" where
  "split_on D [] = [[]]"
| "split_on D (c # cs) =
     (if c \<in> D then [] # split_on D cs
      else case split_on D cs of t # ts \<Rightarrow> (c # t) # ts | [] \<Rightarrow> [[c]])"

definition hex_digit :: "u8 \<Rightarrow> nat option" where
  "hex_digit c =
     (if 48 \<le> c \<and> c \<le> 57 then Some (unat c - 48)
      else if 65 \<le> c \<and> c \<le> 70 then Some (unat c - 55)
      else if 97 \<le> c \<and> c \<le> 102 then Some (unat c - 87) else None)"

fun hex_value :: "nat \<Rightarrow> u8 list \<Rightarrow> nat" where
  "hex_value acc [] = acc"
| "hex_value acc (c # cs) = (case hex_digit c of None \<Rightarrow> acc | Some d \<Rightarrow> hex_value (acc * 16 + d) cs)"

text \<open>\<open>strtoul(s, NULL, 16)\<close> with a 64-bit \<open>unsigned long\<close>: white space, a sign, an optional \<open>0x\<close>, digits;
  too large a number gives the largest one.\<close>

definition strtoul16 :: "u8 list \<Rightarrow> 64 word" where
  "strtoul16 cs =
     (let cs = dropWhile (\<lambda>c. c = 32 \<or> (9 \<le> c \<and> c \<le> 13)) cs;
          neg = (case cs of c # _ \<Rightarrow> c = 45 | [] \<Rightarrow> False);
          cs = (case cs of c # r \<Rightarrow> if c = 45 \<or> c = 43 then r else cs | [] \<Rightarrow> []);
          cs = (case cs of a # b # d # r \<Rightarrow>
                  if a = 48 \<and> (b = 120 \<or> b = 88) \<and> hex_digit d \<noteq> None then d # r else cs
                | _ \<Rightarrow> cs);
          v = hex_value 0 cs
      in if v \<ge> 2 ^ 64 then -1 else if neg then - of_nat v else of_nat v)"

definition bytes_of :: "string \<Rightarrow> u8 list" where
  "bytes_of = map of_char"

section \<open>The file of extra entries\<close>

fun fold_opt :: "('a \<Rightarrow> 's \<Rightarrow> 's option) \<Rightarrow> 'a list \<Rightarrow> 's \<Rightarrow> 's option" where
  "fold_opt f [] s = Some s"
| "fold_opt f (x # xs) s = Option.bind (f x s) (fold_opt f xs)"

definition extra_write :: "bt_hw_cfg_cb_t \<Rightarrow> nat \<Rightarrow> u8 list \<Rightarrow> bt_hw_cfg_cb_t option" where
  "extra_write s p bs =
     (if extra_stale s then Some s
      else case extra_extry s of
             None \<Rightarrow> None
           | Some m \<Rightarrow> map_option (\<lambda>m. s\<lparr>extra_extry := Some m\<rparr>) (wr_bytes m p bs))"

text \<open>\<open>line_process(buf, offset, t)\<close>: \<open>offs\<close> is \<open>offset[0..t-1]\<close> of an array of 256. The length field of the
  line is corrected to the number of data tokens, so it has no effect.\<close>

definition line_process :: "u8 list \<Rightarrow> u16 list \<times> bt_hw_cfg_cb_t \<Rightarrow> (u16 list \<times> bt_hw_cfg_cb_t) option" where
  "line_process buf = (\<lambda>(offs, s).
     if buf = [] \<or> hd buf = 35 \<or> hd buf = 91 then Some (offs, s)
     else if alt_size s > 512 - 4 then Some (offs, s)
     else let s = (if extra_entry_inx s = None then s\<lparr>extra_entry_inx := Some 0\<rparr> else s);
              argv = take 32 (filter (\<lambda>t. t \<noteq> []) (split_on {44, 32, 9} buf));
              argc = length argv
          in if argc < 4 then Some (offs, s)
             else if length offs \<ge> 256 then None
             else let off = ucast (strtoul16 (argv ! 0) OR push_bit 8 (strtoul16 (argv ! 1))) :: u16;
                      len = argc - 3;
                      p = the (extra_entry_inx s);
                      size = int len + 3
                  in do { s \<leftarrow> extra_write s p (uint16_to_stream off @ [of_nat len]);
                          if alt_size s + size > 512
                          then do { s \<leftarrow> extra_write s p [0, 0, 0]; Some (offs @ [off], s) }
                          else do { s \<leftarrow> extra_write s (p + 3) (map (\<lambda>t. ucast (strtoul16 t)) (drop 3 argv));
                                    Some (offs @ [off],
                                          s\<lparr>alt_size := alt_size s + size, extra_entry_inx := Some (p + len + 3)\<rparr>) } })"

definition EXTRA_CONFIG_FILE :: string where
  "EXTRA_CONFIG_FILE = ''/vendor/etc/bluetooth/rtk_btconfig.txt''"

text \<open>\<open>buf\<close> has 1024 bytes; two more than the file are needed. The strings end at the first zero byte.\<close>

definition parse_extra_config ::
  "string \<Rightarrow> patch_info \<Rightarrow> u16 list \<times> bt_hw_cfg_cb_t \<Rightarrow> (u16 list \<times> bt_hw_cfg_cb_t) option" where
  "parse_extra_config path patch_entry = (\<lambda>(offs, s).
     case hw_files s path of
       None \<Rightarrow> Some (offs, s)
     | Some c \<Rightarrow>
         let ret = min 1024 (length c) in
         if ret = 0 \<or> ret > 1022 then Some (offs, s)
         else let lines = split_on {10, 13} (takeWhile (\<lambda>b. b \<noteq> 0) (take ret c @ [10]));
                  ptr = hd lines
              in if take (length ptr) (bytes_of (pt_config_name patch_entry)) \<noteq> ptr then Some (offs, s)
                 else fold_opt line_process (filter (\<lambda>l. l \<noteq> []) (tl lines)) (offs, s))"

definition getAltSettings :: "patch_info \<Rightarrow> bt_hw_cfg_cb_t \<Rightarrow> (u16 list \<times> bt_hw_cfg_cb_t) option" where
  "getAltSettings patch_entry s =
     (let offs = [pt_mac_offset patch_entry] in
      if extra_extry s \<noteq> None then parse_extra_config EXTRA_CONFIG_FILE patch_entry (offs, s)
      else Some (offs, s))"

section \<open>Values of extra entries\<close>

text \<open>The search for an offset in the block of extra entries: position and length of the entry.\<close>

function alt_find :: "u8 list \<Rightarrow> u16 \<Rightarrow> nat \<Rightarrow> (nat \<times> nat) option option" where
  "alt_find m off p =
     (if p + 2 < length m
      then let o' = uint16_at m p; len = unat (m ! (p + 2)) in
           if o' = 0 then Some None
           else if o' = off then Some (Some (p, len))
           else alt_find m off (p + len + 3)
      else case rd16 m p of Some o' \<Rightarrow> if o' = 0 then Some None else None | None \<Rightarrow> None)"
  by pat_completeness auto
termination by (relation "measure (\<lambda>(m, _, p). length m - p)") auto

declare alt_find.simps [simp del]

text \<open>\<open>getmacaddr\<close> of hardware.c: the property it consults is always \<open>none\<close>.\<close>

definition getmacaddr :: "u8 list \<Rightarrow> int \<times> u8 list" where
  "getmacaddr addr = (-1, addr)"

definition getAltSettingVal ::
  "u8 list option \<Rightarrow> patch_info \<Rightarrow> u16 \<Rightarrow> u8 list \<Rightarrow> (nat \<times> u8 list) option" where
  "getAltSettingVal extra patch_entry offset val =
     (case extra of
        None \<Rightarrow> None
      | Some m \<Rightarrow>
          do { r \<leftarrow> alt_find m offset 0;
               (res, val) \<leftarrow>
                 (case r of
                    Some (p, len) \<Rightarrow>
                      if offset \<noteq> pt_mac_offset patch_entry
                      then do { d \<leftarrow> rd_bytes m (p + 3) len; v \<leftarrow> wr_bytes val 0 d; Some (len, v) }
                      else Some (0, val)
                  | None \<Rightarrow> Some (0, val));
               Some (if offset = pt_mac_offset patch_entry \<and> res = 0
                     then (case getmacaddr val of (r, v) \<Rightarrow> if r = 0 then (6, v) else (res, v))
                     else (res, val)) })"

section \<open>Merging\<close>

text \<open>What an entry of the configuration does to one requested offset: the device address and an extra
  entry of the same length are then settled.\<close>

definition settle_offset :: "u8 list option \<Rightarrow> patch_info \<Rightarrow> u16 \<Rightarrow> u8 \<Rightarrow> u16 \<Rightarrow> u16 option" where
  "settle_offset extra patch_entry e_off e_len o' =
     (if e_off \<noteq> o' then Some o'
      else if o' = pt_mac_offset patch_entry then Some 0
      else case extra of
             None \<Rightarrow> None
           | Some m \<Rightarrow>
               do { r \<leftarrow> alt_find m e_off 0;
                    Some (case r of Some (p, len) \<Rightarrow> if len = unat e_len then 0 else o' | None \<Rightarrow> o') })"

fun map_opt :: "('a \<Rightarrow> 'b option) \<Rightarrow> 'a list \<Rightarrow> 'b list option" where
  "map_opt f [] = Some []"
| "map_opt f (x # xs) = do { y \<leftarrow> f x; ys \<leftarrow> map_opt f xs; Some (y # ys) }"

text \<open>The loop over the entries of the configuration; \<open>i\<close> is the position of the entry after the header
  of six bytes.\<close>

function alt_replace ::
  "u8 list option \<Rightarrow> patch_info \<Rightarrow> nat \<Rightarrow> nat \<Rightarrow> u16 list \<Rightarrow> u8 list \<Rightarrow> u8 list \<Rightarrow>
     (nat \<times> u16 list \<times> u8 list \<times> u8 list) option" where
  "alt_replace extra patch_entry data_len i offs buf val =
     (if i < data_len
      then (case (rd16 buf (6 + i), rd8 buf (6 + i + 2)) of
              (Some e_off, Some e_len) \<Rightarrow>
                do { offs \<leftarrow> map_opt (settle_offset extra patch_entry e_off e_len) offs;
                     (res, val) \<leftarrow> getAltSettingVal extra patch_entry e_off val;
                     buf \<leftarrow> (if res = unat e_len then wr_bytes buf (6 + i + 3) (take (unat e_len) val) else Some buf);
                     alt_replace extra patch_entry data_len (i + unat e_len + 3) offs buf val }
            | _ \<Rightarrow> None)
      else Some (i, offs, buf, val))"
  by pat_completeness auto
termination by (relation "measure (\<lambda>(_, _, n, i, _). n - i)") auto

declare alt_replace.simps [simp del]

text \<open>The loop that appends the offsets that are left.\<close>

fun alt_append ::
  "u8 list option \<Rightarrow> patch_info \<Rightarrow> u16 list \<Rightarrow> nat \<Rightarrow> u8 list \<Rightarrow> u8 list \<Rightarrow> (nat \<times> u8 list) option" where
  "alt_append extra patch_entry [] i buf val = Some (i, buf)"
| "alt_append extra patch_entry (o' # offs) i buf val =
     (if o' = 0 then alt_append extra patch_entry offs i buf val
      else do { (res, val) \<leftarrow> getAltSettingVal extra patch_entry o' val;
                buf \<leftarrow> wr_bytes buf (6 + i + 2) [of_nat res];
                if (of_nat res :: u8) = 0 then alt_append extra patch_entry offs i buf val
                else do { buf \<leftarrow> wr_bytes buf (6 + i) (uint16_to_stream o');
                          buf \<leftarrow> wr_bytes buf (6 + i + 3) (take res val);
                          alt_append extra patch_entry offs (i + res + 3) buf val } })"

text \<open>The log loops print whole rows of sixteen bytes.\<close>

definition log_rows_ok :: "u8 list \<Rightarrow> nat \<Rightarrow> bool" where
  "log_rows_ok buf n \<longleftrightarrow> n div 16 * 16 + 16 \<le> length buf"

definition rtk_update_altsettings :: "patch_info \<Rightarrow> bt_hw_cfg_cb_t \<Rightarrow> bt_hw_cfg_cb_t option" where
  "rtk_update_altsettings patch_entry s =
     (case hw_config_buf s of
        None \<Rightarrow> None
      | Some buf \<Rightarrow>
          let (m, e) = malloc (hw_heap s) 512;
              s = s\<lparr>hw_heap := e, extra_extry := map_option (\<lambda>_. replicate 512 0) m,
                    extra_stale := (extra_entry_inx s \<noteq> None)\<rparr>
          in if \<not> log_rows_ok buf (hw_config_len s) then None
             else do { data_len \<leftarrow> rd16 buf 4;
                       (offs, s) \<leftarrow> getAltSettings patch_entry s;
                       if int (unat data_len) \<noteq> (int (hw_config_len s) - 6) mod 2 ^ 64 then Some s
                       else do { (i, offs, buf, val) \<leftarrow>
                                   alt_replace (extra_extry s) patch_entry (unat data_len) 0 offs buf (replicate 256 0);
                                 (i, buf) \<leftarrow> alt_append (extra_extry s) patch_entry offs i buf val;
                                 buf \<leftarrow> wr_bytes buf 4 (uint16_to_stream (of_nat i));
                                 if log_rows_ok buf (i + 6)
                                 then Some (s\<lparr>hw_config_buf := Some buf, hw_config_len := i + 6,
                                              extra_extry := None,
                                              extra_entry_inx :=
                                                (if extra_extry s = None then extra_entry_inx s else None)\<rparr>)
                                 else None } })"

end
