(* ===== verification/HwConfig.thy ===== *)
theory HwConfig
  imports HwAlt
begin

text \<open>
  The start-up of the controller (hardware/bt/src/hardware_uart.c): loading the configuration and the
  firmware file, building the image to download, and \<open>hw_config_cback\<close>, which advances the start-up by
  one command at every event of the controller. \<open>None\<close> is an access outside a block. The callbacks of
  the stack are registered before the start-up begins.
\<close>

section \<open>Files\<close>

definition firmware_path :: "string \<Rightarrow> string" where
  "firmware_path name = ''/vendor/etc/firmware/'' @ name"

text \<open>The length it returns, and the state; on failure the baud rate is left alone. The block is larger
  than the file by the room for extra entries.\<close>

definition rtk_get_bt_config :: "bt_hw_cfg_cb_t \<Rightarrow> string \<Rightarrow> u16 \<Rightarrow> nat \<times> bt_hw_cfg_cb_t" where
  "rtk_get_bt_config s name mac_offset =
     (case hw_files s (firmware_path name) of
        None \<Rightarrow> (0, s)
      | Some c \<Rightarrow>
          if length c > 0x100 * 14 then (0, s)
          else (case malloc (hw_heap s) (0x100 * 14 + 0x100 * 2) of
                  (None, e) \<Rightarrow> (0, s\<lparr>hw_heap := e, hw_config_buf := None\<rparr>)
                | (Some blk, e) \<Rightarrow>
                    let buf = mem_write blk 0 c;
                        (baudrate, s) =
                          rtk_parse_config_file buf (length c) mac_offset (s\<lparr>hw_heap := e, hw_config_buf := Some buf\<rparr>)
                    in (length c, s\<lparr>hw_baudrate := baudrate\<rparr>)))"

definition rtk_get_bt_firmware :: "bt_hw_cfg_cb_t \<Rightarrow> string \<Rightarrow> int \<times> bt_hw_cfg_cb_t" where
  "rtk_get_bt_firmware s name =
     (case hw_files s (firmware_path name) of
        None \<Rightarrow> (-1, s)
      | Some c \<Rightarrow>
          (case malloc (hw_heap s) (length c) of
             (None, e) \<Rightarrow> (-1, s\<lparr>hw_heap := e, hw_fw_buf := None\<rparr>)
           | (Some _, e) \<Rightarrow> (int (length c), s\<lparr>hw_heap := e, hw_fw_buf := Some c\<rparr>)))"

section \<open>The image to download\<close>

definition RTK_EPATCH_SIGNATURE :: "u8 list" where
  "RTK_EPATCH_SIGNATURE = [0x52, 0x65, 0x61, 0x6C, 0x74, 0x65, 0x63, 0x68]"
definition EXTENSION_SECTION_SIGNATURE :: "u8 list" where
  "EXTENSION_SECTION_SIGNATURE = [0x51, 0x04, 0xFD, 0x77]"
definition LMPSUBVERSION_8723a :: u16 where "LMPSUBVERSION_8723a = 0x1200"

text \<open>The block of statements in front of each return: the two file buffers are freed.\<close>

definition drop_files :: "bt_hw_cfg_cb_t \<Rightarrow> u8 \<Rightarrow> bt_hw_cfg_cb_t" where
  "drop_files s flag =
     (let s = s\<lparr>hw_dl_fw_flag := flag\<rparr>;
          s = (if hw_fw_len s > 0 then s\<lparr>hw_fw_buf := None, hw_fw_len := 0\<rparr> else s)
      in if hw_config_len s > 0 then s\<lparr>hw_config_buf := None, hw_config_len := 0\<rparr> else s)"

definition config_bytes :: "bt_hw_cfg_cb_t \<Rightarrow> u8 list option" where
  "config_bytes s =
     (if hw_config_len s = 0 then Some []
      else case hw_config_buf s of None \<Rightarrow> None | Some buf \<Rightarrow> rd_bytes buf 0 (hw_config_len s))"

text \<open>The patch is copied from the file, its last four bytes are replaced by the version, and the
  configuration follows. The versions read for the log lie up to twelve bytes before the patch's end.\<close>

definition build_image :: "u8 list \<Rightarrow> rtk_epatch_entry \<Rightarrow> u8 list \<Rightarrow> u8 list option" where
  "build_image fw e cfg =
     (let len = unat (pe_patch_length e) in
      do { code \<leftarrow> rd_bytes fw (unat (pe_patch_offset e)) len;
           version \<leftarrow> rd_bytes fw 8 4;
           if len < 12 then None else Some (take (len - 4) code @ version @ cfg) })"

definition rtk_get_bt_final_patch :: "bt_hw_cfg_cb_t \<Rightarrow> bt_hw_cfg_cb_t option" where
  "rtk_get_bt_final_patch s =
     (case hw_fw_buf s of
        None \<Rightarrow> None
      | Some fw \<Rightarrow>
          do { sig \<leftarrow> rd_bytes fw 0 8;
               if hw_lmp_subversion s = LMPSUBVERSION_8723a then
                 (if sig = RTK_EPATCH_SIGNATURE then Some (drop_files s 0)
                  else do { cfg \<leftarrow> config_bytes s;
                            let s = s\<lparr>hw_total_len := of_nat (length fw + length cfg)\<rparr> in
                            (case malloc (hw_heap s) (unat (hw_total_len s)) of
                               (None, e) \<Rightarrow> Some (drop_files (s\<lparr>hw_heap := e, hw_total_buf := None\<rparr>) 0)
                             | (Some _, e) \<Rightarrow>
                                 Some (drop_files (s\<lparr>hw_heap := e, hw_total_buf := Some (fw @ cfg)\<rparr>) 1)) })
               else if sig \<noteq> RTK_EPATCH_SIGNATURE then Some (drop_files s 0)
               else if drop (length fw - 4) fw \<noteq> EXTENSION_SECTION_SIGNATURE then Some (drop_files s 0)
               else do { proj_id \<leftarrow> rtk_get_fw_project_id fw (length fw - 5);
                         if hw_project_id_mask s \<noteq> MASK_ALL \<and>
                            hw_project_id_mask s AND mask_bit (unat proj_id) = 0
                         then Some (drop_files s 0)
                         else do { (entry, e) \<leftarrow> rtk_get_patch_entry (hw_heap s) fw (hw_eversion s);
                                   let s = s\<lparr>hw_heap := e\<rparr> in
                                   (case entry of
                                      None \<Rightarrow> Some (drop_files s 0)
                                    | Some en \<Rightarrow>
                                        do { cfg \<leftarrow> config_bytes s;
                                             let s = s\<lparr>hw_total_len := ucast (pe_patch_length en) + of_nat (length cfg)\<rparr> in
                                             (case malloc (hw_heap s) (unat (hw_total_len s)) of
                                                (None, e) \<Rightarrow> Some (drop_files (s\<lparr>hw_heap := e, hw_total_buf := None\<rparr>) 0)
                                              | (Some _, e) \<Rightarrow>
                                                  do { img \<leftarrow> build_image fw en cfg;
                                                       Some (s\<lparr>hw_heap := e, hw_total_buf := Some img,
                                                               hw_dl_fw_flag := 1\<rparr>) }) }) } } })"

section \<open>Commands\<close>

definition HCI_VSC_DOWNLOAD_FW_PATCH :: u16 where "HCI_VSC_DOWNLOAD_FW_PATCH = 0xFC20"
definition HCI_VSC_READ_ROM_VERSION :: u16 where "HCI_VSC_READ_ROM_VERSION = 0xFC6D"
definition HCI_VSC_READ_CHIP_TYPE :: u16 where "HCI_VSC_READ_CHIP_TYPE = 0xFC61"
definition HCI_READ_LMP_VERSION :: u16 where "HCI_READ_LMP_VERSION = 0x1001"

lemmas hw_opcode_defs = HCI_VSC_H5_INIT_def HCI_VSC_UPDATE_BAUDRATE_def HCI_VSC_DOWNLOAD_FW_PATCH_def
  HCI_VSC_READ_ROM_VERSION_def HCI_VSC_READ_CHIP_TYPE_def HCI_READ_LMP_VERSION_def

text \<open>\<open>bt_vendor_cbacks->xmit_cb(opcode, p_buf)\<close> with the command in \<open>p_buf\<close>: its answer is \<open>is_proceeding\<close>.\<close>

definition xmit_cb :: "bt_hw_cfg_cb_t \<Rightarrow> u16 \<Rightarrow> u8 list \<Rightarrow> bool \<times> bt_hw_cfg_cb_t" where
  "xmit_cb s opcode params =
     (hw_xmit_ok s (length (hw_xmit s)),
      s\<lparr>hw_xmit := hw_xmit s @ [(opcode, uint16_to_stream opcode @ [of_nat (length params)] @ params)]\<rparr>)"

definition hw_config_set_controller_baudrate :: "bt_hw_cfg_cb_t \<Rightarrow> u32 \<Rightarrow> bool \<times> bt_hw_cfg_cb_t" where
  "hw_config_set_controller_baudrate s baudrate = xmit_cb s HCI_VSC_UPDATE_BAUDRATE (uint32_to_stream baudrate)"

definition hci_download_patch_h4 :: "bt_hw_cfg_cb_t \<Rightarrow> u8 \<Rightarrow> u8 list \<Rightarrow> bool \<times> bt_hw_cfg_cb_t" where
  "hci_download_patch_h4 s index data =
     xmit_cb (s\<lparr>hw_state := HW_CFG_DL_FW_PATCH\<rparr>) HCI_VSC_DOWNLOAD_FW_PATCH (index # data)"

section \<open>The states of the start-up\<close>

text \<open>Each function is the code from one case label of \<open>hw_config_cback\<close> to the end of the switch; gotos
  and fall-through are calls. The result is \<open>is_proceeding\<close> and the state. \<open>ev\<close> is the event, \<open>None\<close> for a
  null pointer.\<close>

definition ev_opcode :: "u8 list option \<Rightarrow> u16" where
  "ev_opcode ev = (case ev of None \<Rightarrow> 0 | Some p \<Rightarrow> uint16_at p 3)"

definition ev_status :: "u8 list option \<Rightarrow> u8" where
  "ev_status ev = (case ev of None \<Rightarrow> 0 | Some p \<Rightarrow> byte_at p 5)"

text \<open>\<open>DOWNLOAD_FW\<close>. The index of a fragment runs from 0 to 127, then from 1 again; bit 7 marks the last.\<close>

definition frag_index :: "u8 \<Rightarrow> u8" where
  "frag_index idx = (if idx \<noteq> 0 then (idx - 1) mod 0x7f + 1 else 0)"

definition send_fragment :: "bt_hw_cfg_cb_t \<Rightarrow> u8 \<Rightarrow> (bool \<times> bt_hw_cfg_cb_t) option" where
  "send_fragment s iIndexRx =
     (let idx = hw_patch_frag_idx s; cnt = hw_patch_frag_cnt s;
          (iIndexRx, s) =
            (if idx < cnt
             then (if uint idx = uint cnt - 1
                   then (frag_index idx OR 0x80, s\<lparr>hw_patch_frag_len := hw_patch_frag_tail s\<rparr>)
                   else (frag_index idx AND 0x7F, s\<lparr>hw_patch_frag_len := 252\<rparr>))
             else (iIndexRx, s))
      in case hw_total_buf s of
           None \<Rightarrow> None
         | Some buf \<Rightarrow>
             do { data \<leftarrow> rd_bytes buf (unat idx * 252) (unat (hw_patch_frag_len s));
                  Some (hci_download_patch_h4 s iIndexRx data) })"

definition hw_download :: "bt_hw_cfg_cb_t \<Rightarrow> u8 list option \<Rightarrow> (bool \<times> bt_hw_cfg_cb_t) option" where
  "hw_download s ev =
     (if ev_opcode ev = HCI_VSC_DOWNLOAD_FW_PATCH
      then let iIndexRx = byte_at (the ev) 6;
               s = s\<lparr>hw_patch_frag_idx := hw_patch_frag_idx s + 1\<rparr>
           in if iIndexRx AND 0x80 \<noteq> 0
              then Some (True, s\<lparr>hw_total_buf := None, hw_total_len := 0, hw_init_cb := hw_init_cb s @ [True],
                                 hw_state := HW_CFG_IDLE, hw_h5_init_flags := hw_h5_init_flags s @ [0]\<rparr>)
              else send_fragment s iIndexRx
      else send_fragment s 0)"

text \<open>\<open>SET_HW_FLCNTRL\<close>: hardware flow control is switched off in either case.\<close>

definition hw_set_flow :: "bt_hw_cfg_cb_t \<Rightarrow> u8 list option \<Rightarrow> (bool \<times> bt_hw_cfg_cb_t) option" where
  "hw_set_flow s ev =
     hw_download (s\<lparr>hw_host_fctrl := hw_host_fctrl s @ [0], hw_state := HW_CFG_DL_FW_PATCH\<rparr>) ev"

definition hw_set_baud_host :: "bt_hw_cfg_cb_t \<Rightarrow> u8 list option \<Rightarrow> (bool \<times> bt_hw_cfg_cb_t) option" where
  "hw_set_baud_host s ev =
     (let s = s\<lparr>hw_host_bauds := hw_host_bauds s @
                  [line_speed_to_userial_baud (rtk_speed_to_uart_speed (hw_baudrate s))]\<rparr>
      in if hw_flow_cntrl s AND 0x80 = 0 then hw_download s ev else hw_set_flow s ev)"

definition hw_set_baud_controller :: "bt_hw_cfg_cb_t \<Rightarrow> bool \<times> bt_hw_cfg_cb_t" where
  "hw_set_baud_controller s =
     hw_config_set_controller_baudrate (s\<lparr>hw_state := HW_CFG_SET_UART_BAUD_HOST\<rparr>) (hw_baudrate s)"

text \<open>The fragments of the image: \<open>PATCH_DATA_FIELD_MAX_SIZE\<close> is 252.\<close>

definition set_fragments :: "bt_hw_cfg_cb_t \<Rightarrow> bt_hw_cfg_cb_t" where
  "set_fragments s =
     (let cnt = ucast (hw_total_len s div 252) :: u8; tail = ucast (hw_total_len s mod 252) :: u8
      in if tail \<noteq> 0 then s\<lparr>hw_patch_frag_cnt := cnt + 1, hw_patch_frag_tail := tail\<rparr>
         else s\<lparr>hw_patch_frag_cnt := cnt, hw_patch_frag_tail := 252\<rparr>)"

text \<open>\<open>CFG_START\<close>.\<close>

definition load_image :: "patch_info \<Rightarrow> bt_hw_cfg_cb_t \<Rightarrow> bt_hw_cfg_cb_t option" where
  "load_image e s =
     (let s = s\<lparr>hw_max_patch_size := pt_max_patch_size e\<rparr>;
          (n, s) = rtk_get_bt_config s (pt_config_name e) (pt_mac_offset e);
          s = s\<lparr>hw_config_len := n\<rparr>
      in do { s \<leftarrow> rtk_update_altsettings e s;
              let (fw_len, s) = rtk_get_bt_firmware s (pt_patch_name e);
                  s = s\<lparr>hw_fw_len := fw_len\<rparr>
              in if fw_len < 0 then Some (s\<lparr>hw_fw_len := 0\<rparr>)
                 else rtk_get_bt_final_patch (s\<lparr>hw_project_id_mask := pt_project_id_mask e\<rparr>) })"

definition hw_cfg_start :: "bt_hw_cfg_cb_t \<Rightarrow> u8 list option \<Rightarrow> (bool \<times> bt_hw_cfg_cb_t) option" where
  "hw_cfg_start s ev =
     (let e = get_patch_entry s in
      if pt_lmp_subversion e = 0 then Some (False, s)
      else do { s \<leftarrow> load_image e s;
                if hw_total_len s > hw_max_patch_size s then Some (False, s)
                else if hw_total_len s > 0 \<and> hw_dl_fw_flag s \<noteq> 0
                then let s = set_fragments s in
                     if hw_baudrate s = 0 \<and> hw_flow_cntrl s AND 0x80 = 0 then hw_download s ev
                     else if hw_baudrate s = 0 then hw_set_flow s ev
                     else Some (hw_set_baud_controller s)
                else Some (False, s) })"

definition hw_read_chip_type :: "bt_hw_cfg_cb_t \<Rightarrow> u8 list option \<Rightarrow> (bool \<times> bt_hw_cfg_cb_t) option" where
  "hw_read_chip_type s ev =
     (case ev of
        None \<Rightarrow> Some (False, s)
      | Some p \<Rightarrow>
          if byte_at p 5 \<noteq> 0 then Some (False, s)
          else let s = s\<lparr>hw_chip_type := byte_at p 6 AND 0x0F\<rparr> in
            if check_match_state s True > 1 then Some (False, s)
            else hw_cfg_start (s\<lparr>hw_state := HW_CFG_START\<rparr>) ev)"

definition hw_read_eco_ver :: "bt_hw_cfg_cb_t \<Rightarrow> u8 list option \<Rightarrow> (bool \<times> bt_hw_cfg_cb_t) option" where
  "hw_read_eco_ver s ev =
     (let go = (\<lambda>s. if check_match_state s False > 1
                    then Some (xmit_cb (s\<lparr>hw_state := HW_CFG_READ_CHIP_TYPE\<rparr>) HCI_VSC_READ_CHIP_TYPE
                                 (0x00 # uint32_to_stream 0xB000A094))
                    else hw_cfg_start (s\<lparr>hw_state := HW_CFG_START\<rparr>) ev)
      in case ev of
           Some p \<Rightarrow>
             if ev_status ev = 0 then go (s\<lparr>hw_eversion := byte_at p 6\<rparr>)
             else if ev_status ev = 1 then go (s\<lparr>hw_eversion := 0\<rparr>)
             else Some (False, s)
         | None \<Rightarrow> Some (False, s))"

text \<open>The 16-bit values read for the two HCI numbers are stored in 8-bit fields.\<close>

definition hw_read_local_ver :: "bt_hw_cfg_cb_t \<Rightarrow> u8 list option \<Rightarrow> (bool \<times> bt_hw_cfg_cb_t) option" where
  "hw_read_local_ver s ev =
     (case ev of
        Some p \<Rightarrow>
          if ev_status ev = 0
          then let s = s\<lparr>hw_hci_version := ucast (uint16_at p 6), hw_hci_revision := ucast (uint16_at p 7),
                         hw_lmp_subversion := uint16_at p 12\<rparr>
               in if hw_lmp_subversion s = LMPSUBVERSION_8723a
                  then hw_cfg_start (s\<lparr>hw_state := HW_CFG_START\<rparr>) ev
                  else Some (xmit_cb (s\<lparr>hw_state := HW_CFG_READ_ECO_VER\<rparr>) HCI_VSC_READ_ROM_VERSION [])
          else Some (False, s)
      | None \<Rightarrow> Some (False, s))"

definition hw_h5_init :: "bt_hw_cfg_cb_t \<Rightarrow> bool \<times> bt_hw_cfg_cb_t" where
  "hw_h5_init s = xmit_cb (s\<lparr>hw_state := HW_CFG_READ_LOCAL_VER\<rparr>) HCI_READ_LMP_VERSION []"

definition hw_config_switch :: "bt_hw_cfg_cb_t \<Rightarrow> u8 list option \<Rightarrow> (bool \<times> bt_hw_cfg_cb_t) option" where
  "hw_config_switch s ev =
     (case hw_state s of
        HW_CFG_H5_INIT \<Rightarrow> Some (hw_h5_init s)
      | HW_CFG_READ_LOCAL_VER \<Rightarrow> hw_read_local_ver s ev
      | HW_CFG_READ_ECO_VER \<Rightarrow> hw_read_eco_ver s ev
      | HW_CFG_READ_CHIP_TYPE \<Rightarrow> hw_read_chip_type s ev
      | HW_CFG_START \<Rightarrow> hw_cfg_start s ev
      | HW_CFG_SET_UART_BAUD_CONTROLLER \<Rightarrow> Some (hw_set_baud_controller s)
      | HW_CFG_SET_UART_BAUD_HOST \<Rightarrow> hw_set_baud_host s ev
      | HW_CFG_SET_UART_HW_FLOW_CONTROL \<Rightarrow> hw_set_flow s ev
      | HW_CFG_DL_FW_PATCH \<Rightarrow> hw_download s ev
      | _ \<Rightarrow> Some (False, s))"

definition hw_abort :: "bt_hw_cfg_cb_t \<Rightarrow> bt_hw_cfg_cb_t" where
  "hw_abort s =
     (let s = s\<lparr>hw_init_cb := hw_init_cb s @ [False]\<rparr>;
          s = (if hw_config_len s \<noteq> 0 then s\<lparr>hw_config_buf := None, hw_config_len := 0\<rparr> else s);
          s = (if hw_fw_len s \<noteq> 0 then s\<lparr>hw_fw_buf := None, hw_fw_len := 0\<rparr> else s);
          s = (if hw_total_len s \<noteq> 0 then s\<lparr>hw_total_buf := None, hw_total_len := 0\<rparr> else s)
      in s\<lparr>hw_state := HW_CFG_IDLE\<rparr>)"

definition hw_config_cback :: "bt_hw_cfg_cb_t \<Rightarrow> u8 list option \<Rightarrow> bt_hw_cfg_cb_t" where
  "hw_config_cback s ev =
     (if ev_opcode ev = HCI_VSC_H5_INIT \<and> ev_status ev \<noteq> 0
      then (if hw_auto_restart s then s\<lparr>hw_init_cb := hw_init_cb s @ [False], hw_killed := True\<rparr> else s)
      else let (p_buf, s) =
                 (if ev_status ev = 0 \<or> ev_opcode ev = HCI_VSC_READ_ROM_VERSION
                  then (case malloc (hw_heap s) 266 of (b, e) \<Rightarrow> (b \<noteq> None, s\<lparr>hw_heap := e\<rparr>))
                  else (False, s))
           in case (if p_buf then hw_config_switch s ev else Some (False, s)) of
                None \<Rightarrow> s\<lparr>hw_fault := True\<rparr>
              | Some (True, s) \<Rightarrow> s
              | Some (False, s) \<Rightarrow> hw_abort s)"

text \<open>\<open>memset_s(&hw_cfg_cb, ...)\<close> with zero.\<close>

definition hw_cfg_memset :: "bt_hw_cfg_cb_t \<Rightarrow> bt_hw_cfg_cb_t" where
  "hw_cfg_memset s =
     s\<lparr>hw_max_patch_size := 0, hw_baudrate := 0, hw_lmp_subversion := 0, hw_state := HW_CFG_IDLE, hw_eversion := 0,
       hw_project_id_mask := 0, hw_hci_version := 0, hw_hci_revision := 0, hw_chip_type := 0, hw_dl_fw_flag := 0,
       hw_fw_len := 0, hw_config_len := 0, hw_total_len := 0, hw_fw_buf := None, hw_config_buf := None,
       hw_total_buf := None, hw_patch_frag_cnt := 0, hw_patch_frag_idx := 0, hw_patch_frag_len := 0,
       hw_patch_frag_tail := 0, hw_flow_cntrl := 0, hw_heartbeat := 0\<rparr>"

text \<open>\<open>h4\<close>: the flag \<open>RTKBT_TRANS_H4\<close> of \<open>transtype\<close>. The answer of \<open>xmit_cb\<close> is ignored.\<close>

definition hw_config_start :: "bt_hw_cfg_cb_t \<Rightarrow> bool \<Rightarrow> bt_hw_cfg_cb_t" where
  "hw_config_start s h4 =
     (let s = (hw_cfg_memset s)\<lparr>hw_dl_fw_flag := 1, hw_chip_type := 0x1F\<rparr> in
      case malloc (hw_heap s) 11 of
        (None, e) \<Rightarrow> s\<lparr>hw_heap := e, hw_init_cb := hw_init_cb s @ [False]\<rparr>
      | (Some _, e) \<Rightarrow>
          let s = s\<lparr>hw_heap := e\<rparr> in
          if h4 then snd (xmit_cb (s\<lparr>hw_state := HW_CFG_READ_LOCAL_VER\<rparr>) HCI_READ_LMP_VERSION [])
          else snd (xmit_cb (s\<lparr>hw_state := HW_CFG_H5_INIT\<rparr>) HCI_VSC_H5_INIT []))"

text \<open>The answer of hardware.c to the heartbeat module.\<close>

definition get_heartbeat_from_hardware :: "bt_hw_cfg_cb_t \<Rightarrow> u8" where
  "get_heartbeat_from_hardware s = hw_heartbeat s"

end
