(* ===== verification/HwProperties.thy ===== *)
theory HwProperties
  imports HwConfig
begin

text \<open>
  The properties of the controller start-up (hardware/bt/src/hardware_uart.c and hardware.c).
\<close>

section \<open>Download of the image\<close>

text \<open>The fragments of an image, and the command that carries the \<open>k\<close>-th of \<open>n\<close>.\<close>

definition frag :: "u8 list \<Rightarrow> nat \<Rightarrow> u8 list" where
  "frag img k = take 252 (drop (252 * k) img)"

definition frag_count :: "u8 list \<Rightarrow> nat" where
  "frag_count img = (length img + 251) div 252"

definition frag_cmd :: "u8 list \<Rightarrow> nat \<Rightarrow> u16 \<times> u8 list" where
  "frag_cmd img k =
     (0xFC20, [0x20, 0xFC, of_nat (1 + length (frag img k)),
               (if k = 0 then 0 else of_nat ((k - 1) mod 127 + 1)) OR (if Suc k = frag_count img then 0x80 else 0)] @
              frag img k)"

lemma concat_frags_upto: "concat (map (frag img) [0..<n]) = take (252 * n) img"
proof (induction n)
  case (Suc n)
  have "take (252 * Suc n) img = take (252 * n) img @ frag img n"
    using take_add [of "252 * n" 252 img] by (simp add: frag_def add.commute)
  then show ?case using Suc by simp
qed simp

lemma concat_frags: "concat (map (frag img) [0..<frag_count img]) = img"
  by (simp add: concat_frags_upto frag_count_def)

text \<open>The control block in the middle of a download: \<open>k\<close> fragments were answered, \<open>k + 1\<close> were sent.\<close>

definition frags_ok :: "u8 list \<Rightarrow> bt_hw_cfg_cb_t \<Rightarrow> bool" where
  "frags_ok img s \<longleftrightarrow>
     hw_total_buf s = Some img \<and> 0 < length img \<and> length img \<le> 40960 \<and>
     unat (hw_patch_frag_cnt s) = frag_count img \<and> unat (hw_patch_frag_tail s) = length (frag img (frag_count img - 1)) \<and>
     (\<forall>n. malloc_ok (hw_heap s) n) \<and> (\<forall>n. hw_xmit_ok s n)"

lemma frag_count_eq: "frag_count img = length img div 252 + (if length img mod 252 = 0 then 0 else 1)"
proof -
  have "(n + 251) div 252 = q + (if r = 0 then 0 else 1)" if "n = 252 * q + r" "r < 252" for n q r :: nat
    using that by (intro div_nat_eqI) auto
  from this [of "length img" "length img div 252" "length img mod 252"] show ?thesis
    by (simp add: frag_count_def)
qed

lemma length_last_frag:
  assumes "0 < length img"
  shows "length (frag img (frag_count img - 1)) = (if length img mod 252 = 0 then 252 else length img mod 252)"
proof -
  let ?q = "length img div 252" and ?r = "length img mod 252"
  have n: "length img = 252 * ?q + ?r" and r: "?r < 252" by simp_all
  show ?thesis
  proof (cases "?r = 0")
    case True
    then have "0 < ?q" using n assms by (cases ?q) auto
    then show ?thesis using n True by (simp add: frag_def frag_count_eq diff_mult_distrib2)
  next
    case False
    then have "length (frag img ?q) = ?r" using r by (simp add: frag_def minus_mult_div_eq_mod)
    then show ?thesis using False by (simp add: frag_count_eq)
  qed
qed

lemma set_fragments_ok:
  assumes "hw_total_buf s = Some img" and "hw_total_len s = of_nat (length img)" and "0 < length img"
    and "length img \<le> 40960" and "\<forall>n. malloc_ok (hw_heap s) n" and "\<forall>n. hw_xmit_ok s n"
  shows "frags_ok img (set_fragments s)"
proof -
  let ?n = "length img"
  have u: "unat (of_nat ?n :: u32) = ?n" using assms(4) by (simp add: unat_of_nat take_bit_nat_eq_self)
  have d: "unat (hw_total_len s div 252) = ?n div 252" and m: "unat (hw_total_len s mod 252) = ?n mod 252"
    by (simp_all add: assms(2) unat_div unat_mod u)
  have cnt: "unat (ucast (hw_total_len s div 252) :: u8) = ?n div 252"
    using assms(4) by (simp add: unsigned_ucast_eq d take_bit_nat_eq_self)
  have tl: "unat (ucast (hw_total_len s mod 252) :: u8) = ?n mod 252"
    by (simp add: unsigned_ucast_eq m take_bit_nat_eq_self)
  have z: "ucast (hw_total_len s mod 252) = (0 :: u8) \<longleftrightarrow> ?n mod 252 = 0"
    by (metis tl unsigned_0 unsigned_word_eqI)
  have inc: "unat ((ucast (hw_total_len s div 252) :: u8) + 1) = ?n div 252 + 1"
    using assms(4) by (simp add: unat_word_ariths cnt)
  note ll = length_last_frag [OF assms(3)]
  show ?thesis
  proof (cases "?n mod 252 = 0")
    case True
    then show ?thesis using assms(1,3-6) cnt ll
      by (simp add: frags_ok_def set_fragments_def Let_def z) (simp add: frag_count_eq)
  next
    case False
    then show ?thesis using assms(1,3-6) tl inc ll
      by (simp add: frags_ok_def set_fragments_def Let_def z) (simp add: frag_count_eq)
  qed
qed

lemma frag_count_le: "length img \<le> 40960 \<Longrightarrow> frag_count img \<le> 163"
  by (simp add: frag_count_def div_le_mono [of _ "40960 + 251" 252, simplified])

lemma frag_start: "k < frag_count img \<Longrightarrow> 252 * k < length img"
  using less_eq_div_iff_mult_less_eq [of 252 "Suc k" "length img + 251"]
  by (simp add: frag_count_def Suc_le_eq)

lemma eq_of_unat: "unat w = n \<Longrightarrow> w = of_nat n"
  by auto

lemma frag_index_eq:
  assumes "unat idx = k"
  shows "frag_index idx = (if k = 0 then 0 else of_nat ((k - 1) mod 127 + 1))"
proof (cases "k = 0")
  case True
  then have "idx = 0" using assms by (simp add: unat_eq_0)
  then show ?thesis using True by (simp add: frag_index_def)
next
  case False
  then have nz: "idx \<noteq> 0" using assms by auto
  have "unat (idx - 1) = k - 1" using nz assms by (simp add: unat_minus_one)
  then have "unat ((idx - 1) mod 0x7f) = (k - 1) mod 127" by (simp add: unat_mod)
  then have "(idx - 1) mod 0x7f = of_nat ((k - 1) mod 127)" by (rule eq_of_unat)
  then show ?thesis using nz False by (simp add: frag_index_def add.commute)
qed

lemma and_7f: "m < 128 \<Longrightarrow> (of_nat m :: u8) AND 0x7F = of_nat m"
proof -
  have "(0x7F :: u8) = mask 7" by (simp add: mask_eq_exp_minus_1)
  then show "m < 128 \<Longrightarrow> (of_nat m :: u8) AND 0x7F = of_nat m"
    by (simp only: take_bit_eq_mask [symmetric] flip: of_nat_take_bit)
      (simp add: take_bit_nat_eq_self)
qed

text \<open>Sending fragment \<open>k\<close> produces its command.\<close>

lemma send_fragment_ok:
  assumes ok: "frags_ok img s" and k: "unat (hw_patch_frag_idx s) = k" "k < frag_count img"
  shows "\<exists>n. send_fragment s r = Some (True, s\<lparr>hw_patch_frag_len := n, hw_state := HW_CFG_DL_FW_PATCH,
    hw_xmit := hw_xmit s @ [frag_cmd img k]\<rparr>)"
proof -
  let ?n = "frag_count img"
  have buf: "hw_total_buf s = Some img" and cnt: "unat (hw_patch_frag_cnt s) = ?n"
    and tl: "unat (hw_patch_frag_tail s) = length (frag img (?n - 1))" and len: "length img \<le> 40960"
    and x: "\<And>n. hw_xmit_ok s n"
    using ok by (auto simp: frags_ok_def)
  have lt: "hw_patch_frag_idx s < hw_patch_frag_cnt s" using k cnt by (simp add: word_less_nat_alt)
  have last: "uint (hw_patch_frag_idx s) = uint (hw_patch_frag_cnt s) - 1 \<longleftrightarrow> Suc k = ?n"
    using k cnt by (simp add: uint_nat) linarith
  define m where "m = (k - 1) mod 127 + 1"
  have m: "m < 128" by (simp add: m_def less_Suc_eq_le)
  have idx: "frag_index (hw_patch_frag_idx s) = (if k = 0 then 0 else of_nat m)"
    using frag_index_eq [OF k(1)] by (simp add: m_def)
  have full: "length (frag img k) = 252" if "Suc k \<noteq> ?n"
    using that k(2) by (simp add: frag_def frag_count_def)
  have dat: "rd_bytes img (k * 252) (length (frag img k)) = Some (frag img k)"
    using frag_start [OF k(2)] by (auto simp: rd_bytes_def frag_def mult.commute min_def)
  have sel: "(if uint (hw_patch_frag_idx s) = uint (hw_patch_frag_cnt s) - 1
      then (frag_index (hw_patch_frag_idx s) OR 0x80, s\<lparr>hw_patch_frag_len := hw_patch_frag_tail s\<rparr>)
      else (frag_index (hw_patch_frag_idx s) AND 0x7F, s\<lparr>hw_patch_frag_len := 252\<rparr>)) =
    ((if k = 0 then 0 else of_nat m) OR (if Suc k = ?n then 0x80 else 0),
     s\<lparr>hw_patch_frag_len := of_nat (length (frag img k))\<rparr>)"
  proof (cases "Suc k = ?n")
    case True
    then have "hw_patch_frag_tail s = of_nat (length (frag img k))"
      using tl by (intro eq_of_unat) (simp flip: True)
    then show ?thesis using True last idx by simp
  next
    case False
    then show ?thesis using full and_7f [OF m] last idx by simp
  qed
  have n8: "unat (of_nat (length (frag img k)) :: u8) = length (frag img k)"
    by (simp add: unat_of_nat take_bit_nat_eq_self frag_def)
  show ?thesis
    using k(1)
    by (intro exI [of _ "of_nat (length (frag img k))"])
      (simp add: send_fragment_def Let_def lt sel buf n8 dat hci_download_patch_h4_def xmit_cb_def x
        frag_cmd_def m_def hw_opcode_defs uint16_to_stream_def)
qed

text \<open>An acknowledgement of a fragment: command complete without error; the controller marks the answer to
  the last fragment with bit 7.\<close>

definition dl_ack :: "bool \<Rightarrow> u8 list \<Rightarrow> bool" where
  "dl_ack final p \<longleftrightarrow> uint16_at p 3 = 0xFC20 \<and> byte_at p 5 = 0 \<and> (byte_at p 6 AND 0x80 \<noteq> 0 \<longleftrightarrow> final)"

definition dl_at :: "u8 list \<Rightarrow> nat \<Rightarrow> bt_hw_cfg_cb_t \<Rightarrow> bt_hw_cfg_cb_t \<Rightarrow> bool" where
  "dl_at img k s0 s \<longleftrightarrow>
     frags_ok img s \<and> hw_state s = HW_CFG_DL_FW_PATCH \<and> unat (hw_patch_frag_idx s) = k \<and> k < frag_count img \<and>
     hw_xmit s = hw_xmit s0 @ map (frag_cmd img) [0..<Suc k] \<and> hw_init_cb s = hw_init_cb s0 \<and>
     hw_fault s = hw_fault s0"

lemma dl_cback:
  assumes "\<forall>n. malloc_ok (hw_heap s) n" and "hw_state s = HW_CFG_DL_FW_PATCH" and "dl_ack final p"
  shows "\<exists>e. (\<forall>n. malloc_ok e n) \<and> hw_config_cback s (Some p) =
    (case hw_download (s\<lparr>hw_heap := e\<rparr>) (Some p) of None \<Rightarrow> s\<lparr>hw_heap := e, hw_fault := True\<rparr>
     | Some (True, s) \<Rightarrow> s | Some (False, s) \<Rightarrow> hw_abort s)"
  using assms
  by (intro exI [of _ "hw_heap s\<lparr>malloc_n := Suc (malloc_n (hw_heap s))\<rparr>"])
    (auto simp: hw_config_cback_def dl_ack_def ev_opcode_def ev_status_def hw_opcode_defs malloc_def
      hw_config_switch_def Let_def)

lemma dl_next:
  assumes at: "dl_at img k s0 s" and more: "Suc k < frag_count img" and ack: "dl_ack False p"
  shows "dl_at img (Suc k) s0 (hw_config_cback s (Some p))"
proof -
  have ok: "frags_ok img s" and st: "hw_state s = HW_CFG_DL_FW_PATCH" and idx: "unat (hw_patch_frag_idx s) = k"
    and m: "\<forall>n. malloc_ok (hw_heap s) n" using at by (auto simp: dl_at_def frags_ok_def)
  obtain e where e: "\<forall>n. malloc_ok e n" and c: "hw_config_cback s (Some p) =
    (case hw_download (s\<lparr>hw_heap := e\<rparr>) (Some p) of None \<Rightarrow> s\<lparr>hw_heap := e, hw_fault := True\<rparr>
     | Some (True, s) \<Rightarrow> s | Some (False, s) \<Rightarrow> hw_abort s)"
    using dl_cback [OF m st ack] by blast
  let ?t = "s\<lparr>hw_heap := e, hw_patch_frag_idx := hw_patch_frag_idx s + 1\<rparr>"
  have "frag_count img \<le> 163" using ok by (intro frag_count_le) (simp add: frags_ok_def)
  then have idx': "unat (hw_patch_frag_idx ?t) = Suc k" using idx more by (simp add: unat_word_ariths)
  have "frags_ok img ?t" using ok e by (simp add: frags_ok_def)
  from send_fragment_ok [OF this idx' more] obtain n where
    "send_fragment ?t (byte_at p 6) = Some (True, ?t\<lparr>hw_patch_frag_len := n, hw_state := HW_CFG_DL_FW_PATCH,
      hw_xmit := hw_xmit ?t @ [frag_cmd img (Suc k)]\<rparr>)" by blast
  moreover have "hw_download (s\<lparr>hw_heap := e\<rparr>) (Some p) = send_fragment ?t (byte_at p 6)"
    using ack by (simp add: hw_download_def dl_ack_def ev_opcode_def hw_opcode_defs Let_def)
  ultimately show ?thesis
    using at more idx' e by (simp add: c dl_at_def frags_ok_def)
qed

lemma dl_last:
  assumes at: "dl_at img k s0 s" and fin: "Suc k = frag_count img" and ack: "dl_ack True p"
  defines "s' \<equiv> hw_config_cback s (Some p)"
  shows "hw_xmit s' = hw_xmit s0 @ map (frag_cmd img) [0..<frag_count img]" and "hw_init_cb s' = hw_init_cb s0 @ [True]"
    and "hw_state s' = HW_CFG_IDLE" and "hw_fault s' = hw_fault s0" and "hw_total_buf s' = None"
proof -
  have st: "hw_state s = HW_CFG_DL_FW_PATCH" and m: "\<forall>n. malloc_ok (hw_heap s) n"
    using at by (auto simp: dl_at_def frags_ok_def)
  obtain e where c: "s' = (case hw_download (s\<lparr>hw_heap := e\<rparr>) (Some p) of None \<Rightarrow> s\<lparr>hw_heap := e, hw_fault := True\<rparr>
     | Some (True, s) \<Rightarrow> s | Some (False, s) \<Rightarrow> hw_abort s)"
    using dl_cback [OF m st ack] unfolding s'_def by blast
  show "hw_xmit s' = hw_xmit s0 @ map (frag_cmd img) [0..<frag_count img]" and "hw_init_cb s' = hw_init_cb s0 @ [True]"
    and "hw_state s' = HW_CFG_IDLE" and "hw_fault s' = hw_fault s0" and "hw_total_buf s' = None"
    using ack at unfolding dl_at_def fin
    by (simp_all add: c hw_download_def dl_ack_def ev_opcode_def hw_opcode_defs Let_def dl_at_def)
qed

lemma dl_run:
  "dl_at img k s0 s \<Longrightarrow> k + length ps < frag_count img \<Longrightarrow> list_all (dl_ack False) ps \<Longrightarrow>
    dl_at img (k + length ps) s0 (fold (\<lambda>p s. hw_config_cback s (Some p)) ps s)"
proof (induction ps arbitrary: k s)
  case (Cons p ps)
  then have "dl_at img (Suc k) s0 (hw_config_cback s (Some p))" using dl_next [of img k s0 s p] by auto
  from Cons.IH [OF this] show ?case using Cons.prems by simp
qed simp

text \<open>C33: once an image of at most 40 kilobytes is ready, the download sends it in fragments of 252 bytes,
  numbered as the controller expects and the last one marked: put together, the fragments are the image.
  When the controller has acknowledged all of them, success is reported once and nothing was accessed
  outside the image.\<close>

theorem hw_download_exact:
  assumes "hw_total_buf s = Some img" and "hw_total_len s = of_nat (length img)" and "0 < length img"
    and "length img \<le> 40960" and "hw_patch_frag_idx s = 0" and "\<forall>n. malloc_ok (hw_heap s) n" and "\<forall>n. hw_xmit_ok s n"
    and "ev_opcode ev \<noteq> 0xFC20"
    and "Suc (length acks) = frag_count img" and "list_all (dl_ack False) acks" and "dl_ack True lst"
  shows "\<exists>s1. hw_download (set_fragments s) ev = Some (True, s1) \<and>
    (let s2 = fold (\<lambda>p s. hw_config_cback s (Some p)) (acks @ [lst]) s1
     in hw_xmit s2 = hw_xmit s @ map (frag_cmd img) [0..<frag_count img] \<and>
        concat (map (frag img) [0..<frag_count img]) = img \<and>
        hw_init_cb s2 = hw_init_cb s @ [True] \<and> hw_state s2 = HW_CFG_IDLE \<and> hw_fault s2 = hw_fault s)"
proof -
  let ?t = "set_fragments s"
  have same: "hw_xmit ?t = hw_xmit s" "hw_init_cb ?t = hw_init_cb s" "hw_fault ?t = hw_fault s"
    "hw_patch_frag_idx ?t = hw_patch_frag_idx s" by (simp_all add: set_fragments_def Let_def)
  have ok: "frags_ok img ?t" by (rule set_fragments_ok [OF assms(1-4,6,7)])
  have idx: "unat (hw_patch_frag_idx ?t) = 0" using assms(5) same by simp
  have pos: "0 < frag_count img" using assms(9) by simp
  obtain n where f: "send_fragment ?t 0 = Some (True, ?t\<lparr>hw_patch_frag_len := n, hw_state := HW_CFG_DL_FW_PATCH,
      hw_xmit := hw_xmit ?t @ [frag_cmd img 0]\<rparr>)" (is "_ = Some (True, ?s1)")
    using send_fragment_ok [OF ok idx pos] by blast
  have at: "dl_at img 0 s ?s1" using ok idx pos same by (simp add: dl_at_def frags_ok_def)
  have "hw_download ?t ev = Some (True, ?s1)" using assms(8) f by (simp add: hw_download_def hw_opcode_defs)
  moreover have "dl_at img (length acks) s (fold (\<lambda>p s. hw_config_cback s (Some p)) acks ?s1)"
    using dl_run [OF at _ assms(10)] assms(9) by simp
  note dl_last [OF this assms(9,11)]
  ultimately show ?thesis by (auto simp: Let_def concat_frags)
qed

text \<open>A concrete control block with the image in place.\<close>

definition hw_zero :: bt_hw_cfg_cb_t where
  "hw_zero =
     \<lparr>hw_max_patch_size = 0, hw_baudrate = 0, hw_lmp_subversion = 0, hw_state = HW_CFG_IDLE, hw_eversion = 0,
      hw_project_id_mask = 0, hw_hci_version = 0, hw_hci_revision = 0, hw_chip_type = 0, hw_dl_fw_flag = 0,
      hw_fw_len = 0, hw_config_len = 0, hw_total_len = 0, hw_fw_buf = None, hw_config_buf = None,
      hw_total_buf = None, hw_patch_frag_cnt = 0, hw_patch_frag_idx = 0, hw_patch_frag_len = 0,
      hw_patch_frag_tail = 0, hw_flow_cntrl = 0, hw_heartbeat = 0, extra_extry = None, extra_entry_inx = None,
      extra_stale = False, alt_size = 0,
      hw_heap = \<lparr>malloc_ok = (\<lambda>_. True), malloc_n = 0, malloc_fill = (\<lambda>_. 0)\<rparr>, hw_files = (\<lambda>_. None),
      hw_xmit = [], hw_xmit_ok = (\<lambda>_. True), hw_init_cb = [], hw_host_bauds = [], hw_host_fctrl = [],
      hw_auto_restart = False, hw_killed = False, hw_h5_init_flags = [], hw_fault = False\<rparr>"

definition hw_ready :: "u8 list \<Rightarrow> bt_hw_cfg_cb_t" where
  "hw_ready img = hw_zero\<lparr>hw_total_buf := Some img, hw_total_len := of_nat (length img)\<rparr>"

lemma hw_ready_simps: "hw_total_buf (hw_ready img) = Some img" "hw_total_len (hw_ready img) = of_nat (length img)"
  "hw_patch_frag_idx (hw_ready img) = 0" "malloc_ok (hw_heap (hw_ready img)) n" "hw_xmit_ok (hw_ready img) n"
  "hw_xmit (hw_ready img) = []" "hw_init_cb (hw_ready img) = []" "\<not> hw_fault (hw_ready img)"
  by (simp_all add: hw_ready_def hw_zero_def)

text \<open>Witness of C33: an image of 300 bytes, two fragments.\<close>

theorem hw_download_exact_witness:
  "\<exists>s1. hw_download (set_fragments (hw_ready (replicate 300 7))) None = Some (True, s1) \<and>
    hw_init_cb (fold (\<lambda>p s. hw_config_cback s (Some p))
      [[0x0E, 5, 1, 0x20, 0xFC, 0, 0], [0x0E, 5, 1, 0x20, 0xFC, 0, 0x81]] s1) = [True]"
proof -
  have a: "dl_ack False [0x0E, 5, 1, 0x20, 0xFC, 0, 0]" "dl_ack True [0x0E, 5, 1, 0x20, 0xFC, 0, 0x81]"
    by (simp_all add: dl_ack_def uint16_at_def byte_at_def stream_to_uint16_def)
  have n: "ev_opcode None \<noteq> 0xFC20" "Suc (length [[0x0E, 5, 1, 0x20, 0xFC, 0, 0 :: u8]]) = frag_count (replicate 300 (7 :: u8))"
    by (simp_all add: ev_opcode_def frag_count_def)
  show ?thesis
    using hw_download_exact [OF hw_ready_simps(1,2) _ _ hw_ready_simps(3) _ _ n, of "[0x0E, 5, 1, 0x20, 0xFC, 0, 0x81]"] a
    by (auto simp: hw_ready_simps Let_def)
qed

section \<open>Baud rates\<close>

text \<open>The speed a \<open>USERIAL_BAUD\<close> symbol stands for.\<close>

definition userial_speed :: "u8 \<Rightarrow> u32 option" where
  "userial_speed b =
     map_of [(1, 600), (2, 1200), (4, 9600), (5, 19200), (6, 57600), (7, 115200), (8, 230400), (9, 460800),
             (10, 921600), (11, 1000000), (12, 1500000), (13, 2000000), (14, 3000000), (15, 4000000)] b"


section \<open>A missing configuration file\<close>

text \<open>When the chip is known but its configuration file cannot be loaded, the start-up goes on to merge
  settings into the configuration and dereferences a null pointer, whatever the firmware file holds.\<close>

theorem hw_missing_config:
  assumes "pt_lmp_subversion (get_patch_entry s) \<noteq> 0" and "hw_config_buf s = None"
    and "hw_files s (firmware_path (pt_config_name (get_patch_entry s))) = None"
  shows "hw_cfg_start s ev = None"
  using assms
  by (simp add: hw_cfg_start_def load_image_def rtk_get_bt_config_def rtk_update_altsettings_def Let_def)

text \<open>An instance of \<open>hw_missing_config\<close>: an RTL8822CS without files.\<close>

theorem hw_missing_config_witness:
  "hw_cfg_start (hw_zero\<lparr>hw_lmp_subversion := 0x8822, hw_hci_version := 10, hw_hci_revision := 0xc\<rparr>) None = None"
proof -
  let ?s = "hw_zero\<lparr>hw_lmp_subversion := 0x8822, hw_hci_version := 10, hw_hci_revision := 0xc\<rparr>"
  have "pt_lmp_subversion (get_patch_entry ?s) \<noteq> 0"
    by (simp add: get_patch_entry_def patch_table_def patch_def entry_match_def mask_match_def MASK_ALL_def
        mask_bit_def hw_zero_def)
  then show ?thesis by (intro hw_missing_config) (simp_all add: hw_zero_def)
qed

section \<open>Every event is answered\<close>

text \<open>What the stack sees of the start-up, and what one call of the switch does to it: one command is sent, or
  success is reported, or nothing happens and the call says so.\<close>

definition hw_io :: "bt_hw_cfg_cb_t \<Rightarrow> (u16 \<times> u8 list) list \<times> bool list \<times> (nat \<Rightarrow> bool)" where
  "hw_io s = (hw_xmit s, hw_init_cb s, hw_xmit_ok s)"

definition hw_outcome :: "bt_hw_cfg_cb_t \<Rightarrow> bool \<times> bt_hw_cfg_cb_t \<Rightarrow> bool" where
  "hw_outcome s = (\<lambda>(proceeding, s').
     if proceeding
     then (\<exists>c. hw_xmit s' = hw_xmit s @ [c]) \<and> hw_init_cb s' = hw_init_cb s \<and> hw_state s' \<noteq> HW_CFG_IDLE \<or>
          hw_xmit s' = hw_xmit s \<and> hw_init_cb s' = hw_init_cb s @ [True] \<and> hw_state s' = HW_CFG_IDLE
     else hw_io s' = hw_io s)"

lemma outcome_io: "hw_io s = hw_io t \<Longrightarrow> hw_outcome s r = hw_outcome t r"
  by (simp add: hw_outcome_def hw_io_def split: prod.split)

text \<open>Loading files and building the image is invisible to the stack.\<close>

lemma io_config_entry: "hw_io (snd (config_entry buf mac off len d acc)) = hw_io (snd acc)"
  by (cases acc) (auto simp: config_entry_def hw_io_def Let_def)

lemma io_parse_loop: "hw_io (snd (parse_config_loop buf mac n i acc)) = hw_io (snd acc)"
  by (induction buf mac n i acc rule: parse_config_loop.induct)
    (subst parse_config_loop.simps, simp add: io_config_entry Let_def)

lemma io_get_config: "hw_io (snd (rtk_get_bt_config s name mac)) = hw_io s"
proof -
  have upd: "hw_io (t\<lparr>hw_baudrate := b\<rparr>) = hw_io t" "hw_io (t\<lparr>hw_heap := e, hw_config_buf := c\<rparr>) = hw_io t"
    "hw_io (t\<lparr>hw_heartbeat := h\<rparr>) = hw_io t" for t b e c h by (simp_all add: hw_io_def)
  have "hw_io (snd (rtk_parse_config_file buf n mac t)) = hw_io t" for buf n t
    by (simp add: rtk_parse_config_file_def io_parse_loop Let_def upd)
  then show ?thesis
    by (auto simp: rtk_get_bt_config_def upd Let_def split: option.split prod.split) (metis snd_conv upd(2))
qed

lemma io_get_firmware: "hw_io (snd (rtk_get_bt_firmware s name)) = hw_io s"
  by (auto simp: rtk_get_bt_firmware_def hw_io_def split: option.split prod.split)

lemma io_drop_files: "hw_io (drop_files s f) = hw_io s"
  by (simp add: drop_files_def hw_io_def Let_def)

lemma bind_SomeE: "Option.bind x f = Some y \<Longrightarrow> (\<And>a. x = Some a \<Longrightarrow> f a = Some y \<Longrightarrow> P) \<Longrightarrow> P"
  by (cases x) simp_all

lemma io_extra_write: "extra_write s p bs = Some s' \<Longrightarrow> hw_io s' = hw_io s"
  by (auto simp: extra_write_def hw_io_def split: if_splits option.splits)

lemma io_line: "line_process buf acc = Some acc' \<Longrightarrow> hw_io (snd acc') = hw_io (snd acc)"
  by (cases acc) (auto simp: line_process_def Let_def hw_io_def dest!: io_extra_write split: if_splits elim!: bind_SomeE)

lemma io_fold: "(\<And>x a b. f x a = Some b \<Longrightarrow> hw_io (snd b) = hw_io (snd a)) \<Longrightarrow> fold_opt f xs a = Some b \<Longrightarrow>
    hw_io (snd b) = hw_io (snd a)"
  by (induction xs arbitrary: a) (auto elim!: bind_SomeE)

lemma io_alt: "getAltSettings e s = Some r \<Longrightarrow> hw_io (snd r) = hw_io s"
  by (auto simp: getAltSettings_def parse_extra_config_def Let_def dest!: io_fold [OF io_line, rotated]
      split: if_splits option.splits)

lemma io_altsettings: "rtk_update_altsettings e s = Some s' \<Longrightarrow> hw_io s' = hw_io s"
  by (auto simp: rtk_update_altsettings_def Let_def split: option.splits prod.splits if_splits elim!: bind_SomeE
      dest!: io_alt) (simp_all add: hw_io_def)

lemma io_final_patch: "rtk_get_bt_final_patch s = Some s' \<Longrightarrow> hw_io s' = hw_io s"
  by (auto simp: rtk_get_bt_final_patch_def Let_def elim!: bind_SomeE split: if_splits option.splits prod.splits
      simp: io_drop_files) (simp_all add: hw_io_def)

lemma io_load_image: "load_image e s = Some s' \<Longrightarrow> hw_io s' = hw_io s"
proof -
  assume l: "load_image e s = Some s'"
  define t where "t = (case rtk_get_bt_config (s\<lparr>hw_max_patch_size := pt_max_patch_size e\<rparr>) (pt_config_name e) (pt_mac_offset e)
    of (n, s) \<Rightarrow> s\<lparr>hw_config_len := n\<rparr>)"
  have t: "hw_io t = hw_io s"
    using io_get_config [of "s\<lparr>hw_max_patch_size := pt_max_patch_size e\<rparr>" "pt_config_name e" "pt_mac_offset e"]
    by (auto simp: t_def hw_io_def split: prod.split)
  obtain u where u: "rtk_update_altsettings e t = Some u" and r: "(case rtk_get_bt_firmware u (pt_patch_name e) of (fw_len, s) \<Rightarrow>
      let s = s\<lparr>hw_fw_len := fw_len\<rparr> in if fw_len < 0 then Some (s\<lparr>hw_fw_len := 0\<rparr>)
        else rtk_get_bt_final_patch (s\<lparr>hw_project_id_mask := pt_project_id_mask e\<rparr>)) = Some s'"
    using l by (auto simp: load_image_def t_def Let_def split: prod.splits elim!: bind_SomeE)
  have "hw_io s' = hw_io u"
    using r io_get_firmware [of u "pt_patch_name e"]
    by (auto simp: Let_def split: prod.splits if_splits dest!: io_final_patch) (simp_all add: hw_io_def)
  then show ?thesis using io_altsettings [OF u] t by simp
qed

text \<open>The states of the switch.\<close>

lemma outcome_xmit:
  "\<forall>n. hw_xmit_ok s n \<Longrightarrow> hw_state s \<noteq> HW_CFG_IDLE \<Longrightarrow> hw_outcome s (xmit_cb s op ps)"
  by (simp add: hw_outcome_def xmit_cb_def)

lemma outcome_fragment:
  "\<forall>n. hw_xmit_ok s n \<Longrightarrow> send_fragment s r = Some o' \<Longrightarrow> hw_outcome s o'"
  by (auto simp: send_fragment_def Let_def hci_download_patch_h4_def xmit_cb_def hw_outcome_def
      split: if_splits option.splits elim!: bind_SomeE)

lemma outcome_via: "hw_outcome t o' \<Longrightarrow> hw_io t = hw_io s \<Longrightarrow> hw_outcome s o'"
  using outcome_io by blast

lemma outcome_download:
  assumes x: "\<forall>n. hw_xmit_ok s n" and r: "hw_download s ev = Some o'"
  shows "hw_outcome s o'"
proof -
  let ?t = "s\<lparr>hw_patch_frag_idx := hw_patch_frag_idx s + 1\<rparr>" and ?i = "byte_at (the ev) 6"
  have io: "hw_io ?t = hw_io s" and x': "\<forall>n. hw_xmit_ok ?t n" using x by (simp_all add: hw_io_def)
  consider (last) "o' = (True, ?t\<lparr>hw_total_buf := None, hw_total_len := 0, hw_init_cb := hw_init_cb s @ [True],
      hw_state := HW_CFG_IDLE, hw_h5_init_flags := hw_h5_init_flags s @ [0]\<rparr>)"
    | (send) "send_fragment ?t ?i = Some o'" | (first) "send_fragment s 0 = Some o'"
    using r by (auto simp: hw_download_def Let_def split: if_splits)
  then show ?thesis
  proof cases
    case last
    then show ?thesis by (simp add: hw_outcome_def)
  next
    case send
    then show ?thesis by (rule outcome_via [OF outcome_fragment [OF x'] io])
  next
    case first
    then show ?thesis by (rule outcome_fragment [OF x])
  qed
qed

lemma outcome_flow:
  assumes x: "\<forall>n. hw_xmit_ok s n" and r: "hw_set_flow s ev = Some o'"
  shows "hw_outcome s o'"
proof -
  let ?t = "s\<lparr>hw_host_fctrl := hw_host_fctrl s @ [0], hw_state := HW_CFG_DL_FW_PATCH\<rparr>"
  have x': "\<forall>n. hw_xmit_ok ?t n" and io: "hw_io ?t = hw_io s" using x by (simp_all add: hw_io_def)
  show ?thesis using r unfolding hw_set_flow_def by (rule outcome_via [OF outcome_download [OF x'] io])
qed

lemma outcome_baud_host:
  assumes x: "\<forall>n. hw_xmit_ok s n" and r: "hw_set_baud_host s ev = Some o'"
  shows "hw_outcome s o'"
proof -
  define t where "t = s\<lparr>hw_host_bauds := hw_host_bauds s @
    [line_speed_to_userial_baud (rtk_speed_to_uart_speed (hw_baudrate s))]\<rparr>"
  have "hw_download t ev = Some o' \<or> hw_set_flow t ev = Some o'"
    using r by (auto simp: hw_set_baud_host_def t_def Let_def split: if_splits)
  moreover have "\<forall>n. hw_xmit_ok t n" and io: "hw_io t = hw_io s" using x by (simp_all add: t_def hw_io_def)
  ultimately show ?thesis by (blast intro: outcome_via [OF _ io] outcome_download outcome_flow)
qed

lemma outcome_baud_controller: "\<forall>n. hw_xmit_ok s n \<Longrightarrow> hw_outcome s (hw_set_baud_controller s)"
  by (simp add: hw_set_baud_controller_def hw_config_set_controller_baudrate_def xmit_cb_def hw_outcome_def)

lemma outcome_start:
  assumes x: "\<forall>n. hw_xmit_ok s n" and r: "hw_cfg_start s ev = Some o'"
  shows "hw_outcome s o'"
proof (cases "pt_lmp_subversion (get_patch_entry s) = 0")
  case True
  then show ?thesis using r by (auto simp: hw_cfg_start_def hw_outcome_def)
next
  case False
  then obtain t where l: "load_image (get_patch_entry s) s = Some t"
    and c: "(if hw_total_len t > hw_max_patch_size t then Some (False, t)
      else if hw_total_len t > 0 \<and> hw_dl_fw_flag t \<noteq> 0
      then let s = set_fragments t in
        if hw_baudrate s = 0 \<and> hw_flow_cntrl s AND 0x80 = 0 then hw_download s ev
        else if hw_baudrate s = 0 then hw_set_flow s ev else Some (hw_set_baud_controller s)
      else Some (False, t)) = Some o'"
    using r by (auto simp: hw_cfg_start_def Let_def elim!: bind_SomeE)
  have io: "hw_io t = hw_io s" by (rule io_load_image [OF l])
  then have x': "\<forall>n. hw_xmit_ok (set_fragments t) n" and io': "hw_io (set_fragments t) = hw_io s"
    using x by (simp_all add: hw_io_def set_fragments_def Let_def)
  consider "o' = (False, t)" | "hw_download (set_fragments t) ev = Some o'" | "hw_set_flow (set_fragments t) ev = Some o'"
    | "o' = hw_set_baud_controller (set_fragments t)"
    using c unfolding Let_def by (metis option.inject)
  then show ?thesis
  proof cases
    case 1
    then show ?thesis using io by (simp add: hw_outcome_def)
  next
    case 2
    then show ?thesis by (rule outcome_via [OF outcome_download [OF x'] io'])
  next
    case 3
    then show ?thesis by (rule outcome_via [OF outcome_flow [OF x'] io'])
  next
    case 4
    then show ?thesis using outcome_via [OF outcome_baud_controller [OF x'] io'] by simp
  qed
qed

lemma outcome_sent:
  assumes x: "\<forall>n. hw_xmit_ok t n" and st: "hw_state t \<noteq> HW_CFG_IDLE" and io: "hw_io t = hw_io s"
  shows "hw_outcome s (xmit_cb t op ps)"
  by (rule outcome_via [OF outcome_xmit [OF x st] io])

lemma outcome_started:
  assumes "\<forall>n. hw_xmit_ok s n" and "hw_cfg_start t ev = Some o'" and io: "hw_io t = hw_io s"
  shows "hw_outcome s o'"
proof -
  have "\<forall>n. hw_xmit_ok t n" using assms(1) io by (simp add: hw_io_def)
  then show ?thesis by (rule outcome_via [OF outcome_start [OF _ assms(2)] io])
qed

lemma outcome_stop: "hw_io t = hw_io s \<Longrightarrow> hw_outcome s (False, t)"
  by (simp add: hw_outcome_def)

lemma outcome_chip_type:
  assumes x: "\<forall>n. hw_xmit_ok s n" and r: "hw_read_chip_type s ev = Some o'"
  shows "hw_outcome s o'"
  using r x unfolding hw_read_chip_type_def Let_def
  by (auto split: option.splits if_splits intro: outcome_stop outcome_started [OF x] simp: hw_io_def)

lemma outcome_eco_ver:
  assumes x: "\<forall>n. hw_xmit_ok s n" and r: "hw_read_eco_ver s ev = Some o'"
  shows "hw_outcome s o'"
  using r x unfolding hw_read_eco_ver_def Let_def
  by (auto split: option.splits if_splits intro: outcome_stop outcome_sent outcome_started [OF x] simp: hw_io_def)

lemma outcome_local_ver:
  assumes x: "\<forall>n. hw_xmit_ok s n" and r: "hw_read_local_ver s ev = Some o'"
  shows "hw_outcome s o'"
  using r x unfolding hw_read_local_ver_def Let_def
  by (auto split: option.splits if_splits intro: outcome_stop outcome_sent outcome_started [OF x] simp: hw_io_def)

lemma outcome_switch:
  assumes x: "\<forall>n. hw_xmit_ok s n" and r: "hw_config_switch s ev = Some o'"
  shows "hw_outcome s o'"
proof -
  have init: "hw_outcome s (hw_h5_init s)"
    unfolding hw_h5_init_def by (rule outcome_sent) (simp_all add: x hw_io_def)
  show ?thesis
    using r init outcome_stop [of s s] outcome_baud_controller [OF x]
    by (auto simp: hw_config_switch_def split: hw_cfg_state.splits
        intro: outcome_local_ver [OF x] outcome_eco_ver [OF x] outcome_chip_type [OF x] outcome_start [OF x]
          outcome_baud_host [OF x] outcome_flow [OF x] outcome_download [OF x])
qed

text \<open>C35: when the stack accepts commands, every event of the start-up is answered: the library sends
  exactly one command and stays in the start-up, or it reports the result exactly once and is idle again.
  The only exceptions are a memory fault and the failed H5 initialisation, which is dropped silently
  unless automatic restart is configured.\<close>

theorem hw_event_answered:
  assumes "\<forall>n. hw_xmit_ok s n" and "\<not> (ev_opcode ev = 0xFCEE \<and> ev_status ev \<noteq> 0)"
  defines "s' \<equiv> hw_config_cback s ev"
  shows "hw_fault s' \<or>
    (\<exists>c. hw_xmit s' = hw_xmit s @ [c]) \<and> hw_init_cb s' = hw_init_cb s \<and> hw_state s' \<noteq> HW_CFG_IDLE \<or>
    hw_xmit s' = hw_xmit s \<and> (\<exists>r. hw_init_cb s' = hw_init_cb s @ [r]) \<and> hw_state s' = HW_CFG_IDLE"
proof -
  obtain p e where cb: "s' = (case (if p then hw_config_switch (s\<lparr>hw_heap := e\<rparr>) ev else Some (False, s\<lparr>hw_heap := e\<rparr>)) of
      None \<Rightarrow> s\<lparr>hw_heap := e, hw_fault := True\<rparr> | Some (True, s) \<Rightarrow> s | Some (False, s) \<Rightarrow> hw_abort s)"
  proof (cases "ev_status ev = 0 \<or> ev_opcode ev = HCI_VSC_READ_ROM_VERSION")
    case True
    obtain b e where "malloc (hw_heap s) 266 = (b, e)" by fastforce
    then show ?thesis
      using True that [of e "b \<noteq> None"]
      unfolding s'_def hw_config_cback_def HCI_VSC_H5_INIT_def if_not_P [OF assms(2)] by (simp add: Let_def)
  next
    case False
    then show ?thesis
      using that [of "hw_heap s" False]
      unfolding s'_def hw_config_cback_def HCI_VSC_H5_INIT_def if_not_P [OF assms(2)] by (simp add: Let_def)
  qed
  let ?t = "s\<lparr>hw_heap := e\<rparr>"
  have x: "\<forall>n. hw_xmit_ok ?t n" using assms(1) by simp
  have ab: "hw_xmit (hw_abort u) = hw_xmit u" "hw_init_cb (hw_abort u) = hw_init_cb u @ [False]"
    "hw_state (hw_abort u) = HW_CFG_IDLE" for u by (simp_all add: hw_abort_def Let_def)
  have "hw_outcome ?t o'" if "(if p then hw_config_switch ?t ev else Some (False, ?t)) = Some o'" for o'
    using that outcome_switch [OF x] outcome_stop [of ?t ?t] by (auto split: if_splits)
  then show ?thesis
    unfolding cb by (auto simp: hw_outcome_def hw_io_def ab split: option.split bool.split)
qed

text \<open>Witness of C35: the answer to the H5 initialisation is followed by a command.\<close>

theorem hw_event_answered_witness:
  "hw_xmit (hw_config_cback (hw_zero\<lparr>hw_state := HW_CFG_H5_INIT\<rparr>) (Some [0x0E, 4, 1, 0xEE, 0xFC, 0])) =
     [(0x1001, [1, 0x10, 0])]"
proof -
  let ?s = "hw_zero\<lparr>hw_state := HW_CFG_H5_INIT\<rparr>" and ?ev = "Some [0x0E, 4, 1, 0xEE, 0xFC, 0 :: u8]"
  have "hw_config_cback ?s ?ev = snd (hw_h5_init (?s\<lparr>hw_heap := snd (malloc (hw_heap ?s) 266)\<rparr>))"
    by (simp add: hw_config_cback_def ev_opcode_def ev_status_def byte_at_def hw_config_switch_def hw_h5_init_def
        xmit_cb_def malloc_def hw_zero_def Let_def)
  moreover have "\<not> (ev_opcode ?ev = 0xFCEE \<and> ev_status ?ev \<noteq> 0)" by (simp add: ev_status_def byte_at_def)
  moreover note hw_event_answered [of ?s ?ev]
  ultimately show ?thesis
    by (simp add: hw_h5_init_def xmit_cb_def hw_zero_def hw_opcode_defs uint16_to_stream_def)
qed

section \<open>The image of a firmware file\<close>

text \<open>The layout of a firmware file: signature, version, number of patches, then the chip ids, the lengths and
  the offsets of the patches, the code, a record with the project id, and the extension signature.\<close>

definition epatch_file :: "u8 list \<Rightarrow> (u16 \<times> u16 \<times> u32) list \<Rightarrow> u8 list \<Rightarrow> u8 \<Rightarrow> u8 list" where
  "epatch_file version ps code project =
     RTK_EPATCH_SIGNATURE @ version @ uint16_to_stream (of_nat (length ps)) @
     concat (map (\<lambda>(c, l, f). uint16_to_stream c) ps) @ concat (map (\<lambda>(c, l, f). uint16_to_stream l) ps) @
     concat (map (\<lambda>(c, l, f). uint32_to_stream f) ps) @ code @ [project, 1, 0] @ EXTENSION_SECTION_SIGNATURE"

text \<open>Elements of a table of fixed-size elements.\<close>

lemma take_drop_concat:
  assumes "\<And>x. length (f x) = m" and "i < length ws"
  shows "take m (drop (m * i) (concat (map f ws) @ r)) = f (ws ! i)"
  using assms(2)
proof (induction ws arbitrary: i)
  case (Cons w ws)
  then show ?case using assms(1) by (cases i) (simp_all add: drop_append)
qed simp

lemma byte_at_piece: "take k (drop p m) = bs \<Longrightarrow> length bs = k \<Longrightarrow> j < k \<Longrightarrow> byte_at m (p + j) = bs ! j \<and> p + j < length m"
  by (auto simp: byte_at_def)

lemma rd16_piece:
  assumes "take 2 (drop p m) = uint16_to_stream w"
  shows "rd16 m p = Some w"
  using byte_at_piece [OF assms, of 0] byte_at_piece [OF assms, of 1] uint16_stream_roundtrip [of w]
  by (simp add: rd16_def uint16_at_def)

lemma rd32_piece:
  assumes "take 4 (drop p m) = uint32_to_stream w"
  shows "rd32 m p = Some w"
proof -
  have l: "length (uint32_to_stream w) = 4" by (simp add: uint32_to_stream_def)
  show ?thesis
    using byte_at_piece [OF assms l, of 0] byte_at_piece [OF assms l, of 1] byte_at_piece [OF assms l, of 2]
      byte_at_piece [OF assms l, of 3] uint32_stream_roundtrip [of w]
    by (simp add: rd32_def uint32_at_def)
qed

lemma rd_table:
  fixes ps :: "'a list" and f :: "'a \<Rightarrow> u8 list"
  assumes "\<And>x. length (f x) = m" and "i < length ps" and "length pre = a"
  shows "take m (drop (a + m * i) (pre @ concat (map f ps) @ r)) = f (ps ! i)"
  using take_drop_concat [of f m i ps r] assms by simp

text \<open>The three tables of the file.\<close>

lemma epatch_tables:
  assumes v: "length version = 4" and i: "i < length ps" and p: "ps ! i = (c, l, f)"
    and fw: "fw = epatch_file version ps code project" and n_def: "n = length ps"
  shows "rd16 fw (14 + 2 * i) = Some c" and "rd16 fw (14 + 2 * n + 2 * i) = Some l"
    and "rd32 fw (14 + 4 * n + 4 * i) = Some f"
proof -
  have l: "length (concat (map (\<lambda>(c, l, f). uint16_to_stream c) ps)) = 2 * n"
    "length (concat (map (\<lambda>(c, l, f). uint16_to_stream l) ps)) = 2 * n"
    by (simp_all add: n_def length_concat comp_def case_prod_beta sum_list_triv mult.commute)
  let ?pre = "RTK_EPATCH_SIGNATURE @ version @ uint16_to_stream (of_nat (length ps))"
  let ?cs = "concat (map (\<lambda>(c, l, f). uint16_to_stream c) ps)" and ?ls = "concat (map (\<lambda>(c, l, f). uint16_to_stream l) ps)"
    and ?fs = "concat (map (\<lambda>(c, l, f). uint32_to_stream f) ps)"
  let ?rest = "code @ [project, 1, 0] @ EXTENSION_SECTION_SIGNATURE"
  have pre: "length ?pre = 14" using v by (simp add: RTK_EPATCH_SIGNATURE_def)
  have "take 2 (drop (14 + 2 * i) (?pre @ ?cs @ ?ls @ ?fs @ ?rest)) = uint16_to_stream c"
    using rd_table [OF _ i pre, of "\<lambda>(c, l, f). uint16_to_stream c" 2 "?ls @ ?fs @ ?rest"] p by (simp add: case_prod_beta)
  then show "rd16 fw (14 + 2 * i) = Some c" by (intro rd16_piece) (simp add: fw epatch_file_def)
  have "take 2 (drop (14 + 2 * n + 2 * i) ((?pre @ ?cs) @ ?ls @ ?fs @ ?rest)) = uint16_to_stream l"
    using rd_table [OF _ i, of "\<lambda>(c, l, f). uint16_to_stream l" 2 "?pre @ ?cs" "14 + 2 * n" "?fs @ ?rest"] p pre l
    by (simp add: case_prod_beta)
  then show "rd16 fw (14 + 2 * n + 2 * i) = Some l" by (intro rd16_piece) (simp add: fw epatch_file_def)
  have "take 4 (drop (14 + 4 * n + 4 * i) ((?pre @ ?cs @ ?ls) @ ?fs @ ?rest)) = uint32_to_stream f"
    using rd_table [OF _ i, of "\<lambda>(c, l, f). uint32_to_stream f" 4 "?pre @ ?cs @ ?ls" "14 + 4 * n" ?rest] p pre l
    by (simp add: case_prod_beta uint32_to_stream_def)
  then show "rd32 fw (14 + 4 * n + 4 * i) = Some f" by (intro rd32_piece) (simp add: fw epatch_file_def)
qed

definition to_entry :: "u16 \<times> u16 \<times> u32 \<Rightarrow> rtk_epatch_entry" where
  "to_entry = (\<lambda>(c, l, f). \<lparr>pe_chip_id = c, pe_patch_length = l, pe_patch_offset = f\<rparr>)"

definition for_version :: "u8 \<Rightarrow> u16 \<times> u16 \<times> u32 \<Rightarrow> bool" where
  "for_version eversion = (\<lambda>(c, l, f). uint c = uint eversion + 1)"

lemma patch_loop_find:
  assumes v: "length version = 4" and fw: "fw = epatch_file version ps code project" and "k \<le> length ps"
  shows "patch_entry_loop fw ev (length ps) k =
    Some (map_option to_entry (find (for_version ev) (drop (length ps - k) ps)))"
  using assms(3)
proof (induction k)
  case (Suc k)
  let ?i = "length ps - Suc k"
  have i: "?i < length ps" using Suc.prems by simp
  obtain c l f where p: "ps ! ?i = (c, l, f)" by (cases "ps ! ?i")
  note t = epatch_tables [OF v i p fw refl]
  have d: "drop ?i ps = (c, l, f) # drop (length ps - k) ps"
    using i p Suc.prems by (metis Cons_nth_drop_Suc Suc_diff_Suc Suc_le_eq)
  show ?case using Suc t by (simp add: Let_def d for_version_def to_entry_def)
qed simp

lemma epatch_ends:
  assumes "length version = 4" and fw: "fw = epatch_file version ps code project"
  shows "rd_bytes fw 0 8 = Some RTK_EPATCH_SIGNATURE" and "rd_bytes fw 8 4 = Some version"
    and "drop (length fw - 4) fw = EXTENSION_SECTION_SIGNATURE"
    and "rtk_get_fw_project_id fw (length fw - 5) = Some project"
proof -
  have f: "fw = (RTK_EPATCH_SIGNATURE @ version @ x) @ [project, 1, 0] @ EXTENSION_SECTION_SIGNATURE"
    if "x = uint16_to_stream (of_nat (length ps)) @
     concat (map (\<lambda>(c, l, f). uint16_to_stream c) ps) @ concat (map (\<lambda>(c, l, f). uint16_to_stream l) ps) @
     concat (map (\<lambda>(c, l, f). uint32_to_stream f) ps) @ code" for x
    using that by (simp add: fw epatch_file_def)
  then obtain x where f: "fw = RTK_EPATCH_SIGNATURE @ version @ x @ [project, 1, 0] @ EXTENSION_SECTION_SIGNATURE" by simp
  let ?n = "12 + length x"
  have sl: "length RTK_EPATCH_SIGNATURE = 8" by (simp add: RTK_EPATCH_SIGNATURE_def)
  show "rd_bytes fw 0 8 = Some RTK_EPATCH_SIGNATURE" and "rd_bytes fw 8 4 = Some version"
    using assms(1) sl by (simp_all add: rd_bytes_def f)
  show "drop (length fw - 4) fw = EXTENSION_SECTION_SIGNATURE"
    by (simp add: f EXTENSION_SECTION_SIGNATURE_def)
  have g: "fw = (RTK_EPATCH_SIGNATURE @ version @ x) @ [project, 1, 0] @ EXTENSION_SECTION_SIGNATURE" by (simp add: f)
  have len: "length fw = ?n + 7" using assms(1) sl by (simp add: f EXTENSION_SECTION_SIGNATURE_def)
  have at: "fw ! (?n + j) = ([project, 1, 0] @ EXTENSION_SECTION_SIGNATURE) ! j" for j
    unfolding g using nth_append_length_plus [of "RTK_EPATCH_SIGNATURE @ version @ x"] assms(1) sl by (simp add: add.assoc)
  show "rtk_get_fw_project_id fw (length fw - 5) = Some project"
    using at [of 0] at [of 1] at [of 2]
    by (subst rtk_get_fw_project_id.simps) (simp add: len Let_def)
qed

text \<open>C34: from a firmware file laid out as the format says, the library picks the first patch made for the
  chip's version and builds the image from the code of that patch, with the file's version in its last
  four bytes, followed by the configuration; the announced length is that of the image.\<close>

theorem hw_image_built:
  assumes lay: "img = epatch_file version ps code project" and fw: "hw_fw_buf s = Some img"
    and v: "length version = 4" and n: "length ps < 65536"
    and chip: "hw_lmp_subversion s \<noteq> 0x1200"
    and proj: "hw_project_id_mask s = 0xFFFFFFFF \<or> hw_project_id_mask s AND mask_bit (unat project) \<noteq> 0"
    and pick: "find (for_version (hw_eversion s)) ps = Some (c, l, f)"
    and fits: "12 \<le> l" "unat f + unat l \<le> length img"
    and cfg: "hw_config_buf s = Some buf" "hw_config_len s \<le> length buf"
    and mem: "\<And>n. malloc_ok (hw_heap s) n"
  shows "\<exists>s'. rtk_get_bt_final_patch s = Some s' \<and> hw_dl_fw_flag s' = 1 \<and>
    hw_total_buf s' = Some (take (unat l - 4) (drop (unat f) img) @ version @ take (hw_config_len s) buf) \<and>
    hw_total_len s' = of_nat (unat l + hw_config_len s) \<and>
    length (the (hw_total_buf s')) = unat l + hw_config_len s"
proof -
  note e = epatch_ends [OF v lay]
  have l12: "12 \<le> unat l" using fits(1) by (simp add: word_le_nat_alt)
  have entry: "rtk_get_patch_entry (hw_heap s) img (hw_eversion s) =
      Some (Some (to_entry (c, l, f)), (hw_heap s)\<lparr>malloc_n := Suc (malloc_n (hw_heap s))\<rparr>)"
  proof -
    have "take 2 (drop 12 img) = uint16_to_stream (of_nat (length ps))"
      using v by (simp add: lay epatch_file_def RTK_EPATCH_SIGNATURE_def)
    then have "rd16 img 12 = Some (of_nat (length ps))" by (rule rd16_piece)
    moreover have "unat (of_nat (length ps) :: u16) = length ps"
      using n by (simp add: unat_of_nat take_bit_nat_eq_self)
    ultimately show ?thesis
      using patch_loop_find [OF v lay order_refl] pick mem by (simp add: rtk_get_patch_entry_def malloc_def)
  qed
  have cb: "config_bytes s = Some (take (hw_config_len s) buf)" "config_bytes (s\<lparr>hw_heap := h\<rparr>) = Some (take (hw_config_len s) buf)" for h
    using cfg by (auto simp: config_bytes_def rd_bytes_def)
  have bi: "build_image img (to_entry (c, l, f)) d = Some (take (unat l - 4) (drop (unat f) img) @ version @ d)" for d
    using fits(2) l12 e(2) by (simp add: build_image_def to_entry_def rd_bytes_def Let_def min_def)
  have np: "\<not> (hw_project_id_mask s \<noteq> MASK_ALL \<and> hw_project_id_mask s AND mask_bit (unat project) = 0)"
    using proj by (auto simp: MASK_ALL_def)
  have "rtk_get_bt_final_patch s = Some (s\<lparr>hw_total_len := ucast l + of_nat (length (take (hw_config_len s) buf)),
      hw_heap := (hw_heap s)\<lparr>malloc_n := Suc (Suc (malloc_n (hw_heap s)))\<rparr>,
      hw_total_buf := Some (take (unat l - 4) (drop (unat f) img) @ version @ take (hw_config_len s) buf),
      hw_dl_fw_flag := 1\<rparr>)"
    unfolding rtk_get_bt_final_patch_def
    by (simp add: fw e LMPSUBVERSION_8723a_def chip np entry cb bi malloc_def mem Let_def del: not_False_eq_True)
      (simp add: to_entry_def)
  then show ?thesis using fits(2) l12 v cfg(2) by (simp add: unat_of_nat min_def)
qed

text \<open>Witness of C34: one patch of twelve bytes for version 0 and two bytes of configuration.\<close>

theorem hw_image_built_witness:
  "\<exists>s'. rtk_get_bt_final_patch
      (hw_zero\<lparr>hw_fw_buf := Some (epatch_file [1, 2, 3, 4] [(1, 12, 22)] [9, 9, 9, 9, 9, 9, 9, 9, 8, 8, 8, 8] 13), hw_lmp_subversion := 0x8822,
        hw_project_id_mask := 0xFFFFFFFF, hw_config_buf := Some [5, 6], hw_config_len := 2\<rparr>) = Some s' \<and>
    hw_total_buf s' = Some [9, 9, 9, 9, 9, 9, 9, 9, 1, 2, 3, 4, 5, 6]"
proof -
  let ?img = "epatch_file [1, 2, 3, 4] [(1, 12, 22)] [9, 9, 9, 9, 9, 9, 9, 9, 8, 8, 8, 8] 13"
  let ?s = "hw_zero\<lparr>hw_fw_buf := Some ?img, hw_lmp_subversion := 0x8822,
        hw_project_id_mask := 0xFFFFFFFF, hw_config_buf := Some [5, 6], hw_config_len := 2\<rparr>"
  have img: "take 8 (drop 22 ?img) = [9, 9, 9, 9, 9, 9, 9, 9]" "22 + 12 \<le> length ?img"
    by (simp_all add: epatch_file_def RTK_EPATCH_SIGNATURE_def EXTENSION_SECTION_SIGNATURE_def uint16_to_stream_def
        uint32_to_stream_def)
  have "find (for_version (hw_eversion ?s)) [(1, 12, 22)] = Some (1, 12, 22)"
    by (simp add: for_version_def hw_zero_def)
  then show ?thesis
    using hw_image_built [OF refl, of ?s "[1, 2, 3, 4]" "[(1, 12, 22)]" "[9, 9, 9, 9, 9, 9, 9, 9, 8, 8, 8, 8]" 13 1 12 22 "[5, 6]"] img
    by (auto simp: hw_zero_def)
qed

end
