(* ===== verification/VndState.thy ===== *)
theory VndState
  imports H5Api RtkParse HwConfig
begin

text \<open>
  The state shared by the parts of the vendor library that move packets between the Bluetooth stack
  and the UART: the globals of hardware/bt/src/userial_vendor.c, rtk_poll.c, rtk_heartbeat.c and
  rtk_btservice.c, with the transport, the coexistence module and the hardware configuration as
  parts; and the system calls they make on file descriptors, as a part of the state.
\<close>

section \<open>Faults\<close>

text \<open>How a call can fail to return: a failed \<open>assert\<close>, a loop that never ends, or undefined
  behaviour of C (a null pointer, a write past the end of an array, a division by zero).\<close>

datatype vnd_fault =
  Assertion_failed | Never_returns | Null_dereference | Buffer_overrun | Division_by_zero

text \<open>Sequencing of calls that may not return.\<close>

definition bind :: "vnd_fault + 'a \<Rightarrow> ('a \<Rightarrow> vnd_fault + 'b) \<Rightarrow> vnd_fault + 'b" where
  "bind r f = (case r of Inl e \<Rightarrow> Inl e | Inr x \<Rightarrow> f x)"

lemma bind_simps [simp]: "bind (Inl e) f = Inl e" "bind (Inr x) f = f x"
  by (simp_all add: bind_def)

lemma bind_eq_Inr: "bind r f = Inr y \<longleftrightarrow> (\<exists>x. r = Inr x \<and> f x = Inr y)"
  by (cases r) auto

lemma bind_assoc: "bind (bind r f) g = bind r (\<lambda>x. bind (f x) g)"
  by (cases r) auto

lemma bind_Inr [simp]: "bind r Inr = r"
  by (cases r) auto

text \<open>A sequence of calls, the first that does not return ending it.\<close>

primrec run_calls :: "('c \<Rightarrow> 's \<Rightarrow> vnd_fault + 's) \<Rightarrow> 'c list \<Rightarrow> 's \<Rightarrow> vnd_fault + 's" where
  "run_calls f [] s = Inr s"
| "run_calls f (c # cs) s = bind (f c s) (run_calls f cs)"

lemma run_calls_append: "run_calls f (cs @ ds) s = bind (run_calls f cs s) (run_calls f ds)"
proof (induction cs arbitrary: s)
  case (Cons c cs)
  then show ?case by (cases "f c s") simp_all
qed simp

section \<open>Packet assembly\<close>

text \<open>The states of the three packet assemblers, and the packet types (\<open>serial_data_type_t\<close>).\<close>

datatype rtkbt_packet =
  RTKBT_PACKET_IDLE | RTKBT_PACKET_TYPE | RTKBT_PACKET_HEADER | RTKBT_PACKET_CONTENT | RTKBT_PACKET_END

definition DATA_TYPE_COMMAND :: u8 where "DATA_TYPE_COMMAND = 1"
definition DATA_TYPE_ACL :: u8 where "DATA_TYPE_ACL = 2"
definition DATA_TYPE_SCO :: u8 where "DATA_TYPE_SCO = 3"
definition DATA_TYPE_EVENT :: u8 where "DATA_TYPE_EVENT = 4"
definition DATA_TYPE_H5 :: u8 where "DATA_TYPE_H5 = 5"

lemmas data_type_defs = DATA_TYPE_COMMAND_def DATA_TYPE_ACL_def DATA_TYPE_SCO_def DATA_TYPE_EVENT_def
  DATA_TYPE_H5_def

text \<open>\<open>hci_preamble_sizes[HCI_PACKET_TYPE_TO_INDEX(type)]\<close>, for the four types the callers let pass.\<close>

definition hci_preamble_sizes :: "u8 \<Rightarrow> nat" where
  "hci_preamble_sizes type =
     (if type = DATA_TYPE_COMMAND then 3 else if type = DATA_TYPE_ACL then 4
      else if type = DATA_TYPE_SCO then 3 else 2)"

text \<open>\<open>memcpy_s(&buf[off], n, src, n)\<close> and \<open>read(fd, &buf[off], n)\<close> into a static array: the bound
  given is the number of bytes, not the room in the array, so nothing stops a write past its end.\<close>

definition array_write :: "u8 list \<Rightarrow> nat \<Rightarrow> u8 list \<Rightarrow> vnd_fault + u8 list" where
  "array_write buf off src =
     (if off + length src \<le> length buf then Inr (take off buf @ src @ drop (off + length src) buf)
      else Inl Buffer_overrun)"

record rtkbt_version_t =
  rv_hci_version :: u8
  rv_hci_revision :: u16
  rv_lmp_version :: u8
  rv_manufacturer :: u16
  rv_lmp_subversion :: u16

record rtkbt_lescn_t =
  adverting_type :: u8
  adverting_enable :: bool
  adverting_start :: bool
  connetion_enable :: bool

text \<open>The variables of the assembler between the UART and the stack (those under \<open>RTK_HANDLE_EVENT\<close>).\<close>

record recv_vars_t =
  received_packet_state :: rtkbt_packet
  received_packet_bytes_need :: nat
  recv_packet_current_type :: u8
  received_resvered_header :: "u8 list"
  received_resvered_length :: nat
  rtkbt_version :: rtkbt_version_t
  rtkbt_adv_con :: rtkbt_lescn_t

section \<open>Timers and services\<close>

datatype poll_state_t = POLL_DISABLED | POLL_ENABLED

record bt_poll_cb_t =
  poll_state :: poll_state_t
  poll_timer_created :: bool
  poll_timer_id :: nat
  poll_timeout_ms :: u32

text \<open>The completion callbacks of service commands: that of the heartbeat and that of a client.\<close>

datatype service_cback = Heartbeat_Cmpl | Client_Cmd

record Rtkqueuedata =
  rq_client_sock :: int
  rq_opcode :: u16
  rq_parameter :: "u8 list"
  rq_complete_cback :: service_cback

record Rtk_Btservice_Info =
  current_client_sock :: int
  autopair_fd :: int
  cmdqueue_sem :: nat
  cmdsend_sem :: nat
  timer_hcicmd_reply :: "itimerspec option"
  cmdqueue_list :: "Rtkqueuedata list"
  cmdqueue_locked :: bool
  cmdqueue_thread_running :: bool
  epoll_thread_running :: bool
  current_complete_cback :: "service_cback option"

section \<open>The library\<close>

text \<open>What a \<open>read\<close> on the stack's socket returns: an error, or the bytes that are there, of which the
  call takes as many as it asked for.\<close>

datatype host_read = Read_error | Read_data "u8 list"

text \<open>The static variables under their names (a \<open>u_\<close> prefix where a name is taken), then the
  environment. The queues hold the bytes of their buffers; \<open>data_order\<close> is true for received data.
  The timers of rtk_poll.c are the kernel's: \<open>poll_timers ! id\<close> is \<open>None\<close> after deletion, and
  \<open>bad_timer\<close> is set when a deleted timer is used. \<open>uart_wr\<close> and \<open>host_wr\<close> are the results of the
  coming \<open>write\<close> calls on the UART and on the stack's socket (at most 0: nothing was written; a write
  not listed takes everything), \<open>uart_out\<close> and \<open>host_out\<close> what was written.\<close>

record vnd_lib =
  h5_cb :: tHCI_H5_CB
  prof_cb :: tRTK_PROF
  hw_cb :: bt_hw_cfg_cb_t
  rtkbt_transtype :: u8
  u_fd :: int
  thread_running :: bool
  btdriver_state :: bool
  u_recv_data :: "u8 list list"
  u_send_data :: "u8 list list"
  data_order :: "bool list"
  event_count :: nat
  rtk_parse_manager :: bool
  packet_recv_state :: rtkbt_packet
  packet_bytes_need :: nat
  current_type :: u8
  h4_read_buffer :: "u8 list"
  h4_read_length :: nat
  coex_packet_recv_state :: rtkbt_packet
  coex_packet_bytes_need :: nat
  coex_current_type :: u8
  coex_resvered_buffer :: "u8 list"
  coex_resvered_length :: nat
  recv_vars :: recv_vars_t
  voice_settings :: u16
  bt_poll_cb :: bt_poll_cb_t
  heartBeatLog :: int
  heartBeatTimeout :: int
  heartbeatFlag :: bool
  heartbeatCount :: nat
  nextSeqNum :: u16
  cleanupFlag :: u16
  rtk_btservice :: "Rtk_Btservice_Info option"
  vheap :: malloc_env
  poll_timers :: "itimerspec option list"
  bad_timer :: bool
  timer_create_ok :: bool
  heartbeat_conf :: "u8 list option"
  uart_wr :: "int list"
  uart_out :: "u8 list"
  host_wr :: "int list"
  host_out :: "u8 list"
  host_in :: "host_read list"
  client_out :: "(int \<times> u8 list) list"
  iso_cfg :: "u16 list"
  btsnoop :: "(u16 \<times> u8 list \<times> bool) list"

definition RTKBT_TRANS_H4 :: u8 where "RTKBT_TRANS_H4 = 0x20"
definition RTKBT_TRANS_H5 :: u8 where "RTKBT_TRANS_H5 = 0x10"
definition RTKBT_TRANS_UART :: u8 where "RTKBT_TRANS_UART = 0x01"
definition RTKBT_TRANS_USB :: u8 where "RTKBT_TRANS_USB = 0x02"

lemmas transtype_defs = RTKBT_TRANS_H4_def RTKBT_TRANS_H5_def RTKBT_TRANS_UART_def RTKBT_TRANS_USB_def

section \<open>Assemblers\<close>

text \<open>The contract of a packet assembler: what a call with some bytes does is what it does byte by byte,
  for the streams of bytes it \<open>admits\<close>. A client may then cut such a stream in pieces as it likes.\<close>

locale byte_machine =
  fixes wf :: "'s \<Rightarrow> bool" and admits :: "'s \<Rightarrow> u8 list \<Rightarrow> bool"
    and feed :: "u8 list \<Rightarrow> 's \<Rightarrow> vnd_fault + 's" and step :: "u8 \<Rightarrow> 's \<Rightarrow> vnd_fault + 's"
  assumes step_wf: "wf s \<Longrightarrow> admits s (b # bs) \<Longrightarrow> step b s = Inr s' \<Longrightarrow> wf s' \<and> admits s' bs"
    and feed_Cons: "wf s \<Longrightarrow> admits s (b # bs) \<Longrightarrow> feed (b # bs) s = bind (step b s) (if bs = [] then Inr else feed bs)"
    and admits_prefix: "admits s (bs @ cs) \<Longrightarrow> admits s bs"
begin

lemma steps_wf: "wf s \<Longrightarrow> admits s (bs @ cs) \<Longrightarrow> run_calls step bs s = Inr s' \<Longrightarrow> wf s' \<and> admits s' cs"
  by (induction bs arbitrary: s) (auto simp: bind_eq_Inr dest: step_wf)

lemma feed_steps: "wf s \<Longrightarrow> admits s bs \<Longrightarrow> bs \<noteq> [] \<Longrightarrow> feed bs s = run_calls step bs s"
proof (induction bs arbitrary: s)
  case (Cons b bs)
  show ?case
  proof (cases "step b s")
    case (Inr s')
    then show ?thesis using Cons.IH [of s'] step_wf [OF Cons.prems(1,2) Inr] by (auto simp: feed_Cons [OF Cons.prems(1,2)])
  qed (simp add: feed_Cons [OF Cons.prems(1,2)])
qed simp

lemma feed_chunks:
  "wf s \<Longrightarrow> admits s (concat chunks) \<Longrightarrow> [] \<notin> set chunks \<Longrightarrow>
     run_calls feed chunks s = run_calls step (concat chunks) s"
proof (induction chunks arbitrary: s)
  case (Cons c cs)
  have c: "feed c s = run_calls step c s"
    using Cons.prems admits_prefix [of s c "concat cs"] by (intro feed_steps) auto
  show ?case
  proof (cases "feed c s")
    case (Inr s')
    then show ?thesis using Cons.IH [of s'] Cons.prems steps_wf [of s c "concat cs" s'] c by (simp add: run_calls_append)
  qed (use c in \<open>simp add: run_calls_append\<close>)
qed simp

text \<open>Two ways of cutting the same bytes.\<close>

lemma chunking_irrelevant:
  assumes "wf s" and "admits s (concat xs)" and "[] \<notin> set xs" and "[] \<notin> set ys" and "concat xs = concat ys"
  shows "run_calls feed xs s = run_calls feed ys s"
  using assms by (simp add: feed_chunks)

text \<open>What whole packets do, when a call with a single one is known.\<close>

lemma feed_packets:
  assumes packet: "\<And>s x. I s \<Longrightarrow> P x \<Longrightarrow> bytes x \<noteq> [] \<and> feed (bytes x) s = Inr (deliver x s) \<and> I (deliver x s)"
    and I: "\<And>s. I s \<Longrightarrow> wf s"
  shows "I s \<Longrightarrow> \<forall>x \<in> set ps. P x \<Longrightarrow> admits s (concat (map bytes ps)) \<Longrightarrow>
    run_calls step (concat (map bytes ps)) s = Inr (fold deliver ps s)"
proof (induction ps arbitrary: s)
  case (Cons x ps)
  have x: "bytes x \<noteq> []" "feed (bytes x) s = Inr (deliver x s)" "I (deliver x s)"
    using packet Cons.prems by auto
  have a: "admits s (bytes x)" using Cons.prems(3) admits_prefix by auto
  have r: "run_calls step (bytes x) s = Inr (deliver x s)"
    using feed_steps [OF I [OF Cons.prems(1)] a x(1)] x(2) by simp
  then have "admits (deliver x s) (concat (map bytes ps))"
    using steps_wf [OF I [OF Cons.prems(1)], of "bytes x" "concat (map bytes ps)"] Cons.prems(3) by simp
  then show ?case using Cons.IH [OF x(3)] Cons.prems(2) r by (simp add: run_calls_append)
qed simp

end

section \<open>Arrays\<close>

lemma array_write_Inr:
  "off + length src \<le> length buf \<Longrightarrow> array_write buf off src = Inr (take off buf @ src @ drop (off + length src) buf)"
  by (simp add: array_write_def)

lemma array_write_fails: "array_write buf off src = Inl e \<longleftrightarrow> length buf < off + length src \<and> e = Buffer_overrun"
  by (auto simp: array_write_def)

lemma array_write_length: "array_write buf off src = Inr buf' \<Longrightarrow> length buf' = length buf"
  by (auto simp: array_write_def split: if_splits)

text \<open>Two adjacent writes are one.\<close>

lemma array_write_append:
  "bind (array_write buf off a) (\<lambda>buf. array_write buf (off + length a) b) = array_write buf off (a @ b)"
proof (cases "off + length (a @ b) \<le> length buf")
  case True
  then show ?thesis by (simp add: array_write_def ac_simps)
next
  case False
  then show ?thesis by (simp add: array_write_def)
qed

end
