(* ===== verification/UserialIo.thy ===== *)
theory UserialIo
  imports VndState
begin

text \<open>
  Writing in hardware/bt/src/userial_vendor.c: the loops that hand bytes to the UART and to the
  socket of the Bluetooth stack, the copies of all traffic queued for the coexistence thread, and the
  callbacks of the three-wire transport.
\<close>

section \<open>Write loops\<close>

text \<open>The loop around \<open>write\<close> that all writers share: it goes on after a short write and gives up when
  nothing was written. The results of the calls come from the list; the bytes written are returned with
  the results not used.\<close>

fun write_loop :: "int list \<Rightarrow> u8 list \<Rightarrow> u8 list \<times> int list" where
  "write_loop ws [] = ([], ws)"
| "write_loop [] data = (data, [])"
| "write_loop (ret # ws) data =
     (if ret \<le> 0 then ([], ws)
      else let (rest, ws) = write_loop ws (drop (nat ret) data) in (take (nat ret) data @ rest, ws))"

definition h4_int_transmit_data :: "vnd_lib \<Rightarrow> u8 list \<Rightarrow> vnd_fault + (nat \<times> vnd_lib)" where
  "h4_int_transmit_data v data =
     (if data = [] then Inl Assertion_failed
      else if \<not> btdriver_state v then Inr (0, v)
      else let (sent, ws) = write_loop (uart_wr v) data
           in Inr (length sent, v\<lparr>uart_out := uart_out v @ sent, uart_wr := ws\<rparr>))"

definition h5_int_transmit_data_cb :: "vnd_lib \<Rightarrow> u8 \<Rightarrow> u8 list \<Rightarrow> vnd_fault + (nat \<times> vnd_lib)" where
  "h5_int_transmit_data_cb v type data =
     (if data = [] then Inl Assertion_failed
      else if type \<noteq> DATA_TYPE_H5 then Inr (0, v)
      else if \<not> btdriver_state v then Inr (0, v)
      else let (sent, ws) = write_loop (uart_wr v) data
           in Inr (length sent, v\<lparr>uart_out := uart_out v @ sent, uart_wr := ws\<rparr>))"

section \<open>Copies for the coexistence thread\<close>

text \<open>\<open>userial_enqueue_coex_rawdata\<close>: the two buffers are used without a check of the allocations.\<close>

definition userial_enqueue_coex_rawdata :: "vnd_lib \<Rightarrow> u8 list \<Rightarrow> bool \<Rightarrow> vnd_fault + vnd_lib" where
  "userial_enqueue_coex_rawdata v buffer is_recved =
     (case RtbAllocate (vheap v) (of_nat (length buffer)) 0 of
        (skb_data, e) \<Rightarrow>
          case RtbAllocate e 1 0 of
            (skb_type, e) \<Rightarrow>
              if skb_data = None \<or> skb_type = None then Inl Null_dereference
              else let v = v\<lparr>vheap := e\<rparr>;
                       v = (if is_recved then v\<lparr>u_recv_data := u_recv_data v @ [buffer]\<rparr>
                            else v\<lparr>u_send_data := u_send_data v @ [buffer]\<rparr>)
                   in Inr (v\<lparr>data_order := data_order v @ [is_recved], event_count := event_count v + 1\<rparr>))"

text \<open>\<open>userial_recv_rawdata_hook\<close>: an event made up by the library, sent to the stack as if it had been
  received.\<close>

definition userial_recv_rawdata_hook :: "vnd_lib \<Rightarrow> u8 list \<Rightarrow> vnd_fault + vnd_lib" where
  "userial_recv_rawdata_hook v buffer =
     (let (sent, ws) = (if thread_running v then write_loop (host_wr v) buffer else ([], host_wr v));
          v = v\<lparr>host_out := host_out v @ sent, host_wr := ws\<rparr>
      in if buffer \<noteq> [] \<and> thread_running v then userial_enqueue_coex_rawdata v buffer True else Inr v)"

section \<open>Calls into the transport\<close>

text \<open>A call of the transport hands frames to \<open>h5_int_transmit_data_cb\<close> and events to
  \<open>userial_recv_rawdata_hook\<close>; its model lists them, and they are executed here.\<close>

primrec h5_transmit :: "vnd_lib \<Rightarrow> u8 list list \<Rightarrow> vnd_fault + vnd_lib" where
  "h5_transmit v [] = Inr v"
| "h5_transmit v (f # fs) = bind (h5_int_transmit_data_cb v DATA_TYPE_H5 f) (\<lambda>(n, v). h5_transmit v fs)"

primrec h5_hooks :: "vnd_lib \<Rightarrow> u8 list list \<Rightarrow> vnd_fault + vnd_lib" where
  "h5_hooks v [] = Inr v"
| "h5_hooks v (p # ps) = bind (userial_recv_rawdata_hook v p) (\<lambda>v. h5_hooks v ps)"

definition h5_call :: "vnd_lib \<Rightarrow> tHCI_H5_CB \<Rightarrow> vnd_fault + vnd_lib" where
  "h5_call v h =
     bind (h5_transmit (v\<lparr>h5_cb := h\<rparr>) (drop (length (transmitted (h5_cb v))) (transmitted h)))
       (\<lambda>w. h5_hooks w (drop (length (rawdata_hook (h5_cb v))) (rawdata_hook h)))"

section \<open>Packets to the controller\<close>

definition userial_send_cmd_to_controller :: "vnd_lib \<Rightarrow> u8 list \<Rightarrow> vnd_fault + vnd_lib" where
  "userial_send_cmd_to_controller v recv_buffer =
     bind (if rtkbt_transtype v AND RTKBT_TRANS_H4 \<noteq> 0
           then bind (h4_int_transmit_data v recv_buffer) (\<lambda>(n, v). Inr v)
           else h5_call v (snd (hci_h5_send_cmd (h5_cb v) DATA_TYPE_COMMAND (drop 1 recv_buffer))))
       (\<lambda>v. userial_enqueue_coex_rawdata v recv_buffer False)"

definition userial_send_acl_to_controller :: "vnd_lib \<Rightarrow> u8 list \<Rightarrow> vnd_fault + vnd_lib" where
  "userial_send_acl_to_controller v recv_buffer =
     bind (if rtkbt_transtype v AND RTKBT_TRANS_H4 \<noteq> 0
           then bind (h4_int_transmit_data v recv_buffer) (\<lambda>(n, v). Inr v)
           else h5_call v (snd (hci_h5_send_acl_data (h5_cb v) DATA_TYPE_ACL (drop 1 recv_buffer))))
       (\<lambda>v. userial_enqueue_coex_rawdata v recv_buffer False)"

definition userial_send_sco_to_controller :: "vnd_lib \<Rightarrow> u8 list \<Rightarrow> vnd_fault + vnd_lib" where
  "userial_send_sco_to_controller v recv_buffer =
     bind (if rtkbt_transtype v AND RTKBT_TRANS_H4 \<noteq> 0
           then bind (h4_int_transmit_data v recv_buffer) (\<lambda>(n, v). Inr v)
           else h5_call v (snd (hci_h5_send_sco_data (h5_cb v) DATA_TYPE_SCO (drop 1 recv_buffer))))
       (\<lambda>v. userial_enqueue_coex_rawdata v recv_buffer False)"

section \<open>Facts\<close>

text \<open>What a loop writes is always a prefix of the data, and everything unless a write failed.\<close>

lemma write_loop_prefix: "\<exists>rest. data = fst (write_loop ws data) @ rest"
proof (induction ws data rule: write_loop.induct)
  case (3 ret ws b bs)
  show ?case
  proof (cases "ret \<le> 0")
    case False
    then obtain rest where "drop (nat ret) (b # bs) = fst (write_loop ws (drop (nat ret) (b # bs))) @ rest"
      using 3 by blast
    then have "b # bs = take (nat ret) (b # bs) @ fst (write_loop ws (drop (nat ret) (b # bs))) @ rest"
      using append_take_drop_id [of "nat ret" "b # bs"] by metis
    then show ?thesis using False by (auto simp: case_prod_beta)
  qed simp
qed simp_all

lemma write_loop_all: "\<forall>ret \<in> set ws. 0 < ret \<Longrightarrow> fst (write_loop ws data) = data"
proof (induction ws data rule: write_loop.induct)
  case (3 ret ws b bs)
  then have "fst (write_loop ws (drop (nat ret) (b # bs))) = drop (nat ret) (b # bs)" by simp
  then show ?case
    using 3(2) append_take_drop_id [of "nat ret" "b # bs"] by (simp add: case_prod_beta)
qed simp_all

lemma write_loop_left: "set (snd (write_loop ws data)) \<subseteq> set ws"
  by (induction ws data rule: write_loop.induct) (auto simp: case_prod_beta)

text \<open>Every failed or short write is used up: the writes of a loop end.\<close>

lemma write_loop_empty [simp]: "write_loop [] data = (data, [])"
  by (cases data) simp_all

definition vmem_ok :: "vnd_lib \<Rightarrow> bool" where
  "vmem_ok v \<longleftrightarrow> (\<forall>n. malloc_ok (vheap v) n)"

lemma RtbAllocate_ok:
  assumes "\<And>n. malloc_ok e n"
  shows "\<exists>b e'. RtbAllocate e l h = (Some b, e') \<and> malloc_ok e' = malloc_ok e"
  using assms by (simp add: RtbAllocate_def malloc_def Let_def)

lemma enqueue_coex_ok:
  assumes "vmem_ok v"
  obtains e where "malloc_ok e = malloc_ok (vheap v)"
    "userial_enqueue_coex_rawdata v buffer r = Inr (v\<lparr>vheap := e,
       u_recv_data := (if r then u_recv_data v @ [buffer] else u_recv_data v),
       u_send_data := (if r then u_send_data v else u_send_data v @ [buffer]),
       data_order := data_order v @ [r], event_count := event_count v + 1\<rparr>)"
proof -
  have m: "\<And>n. malloc_ok (vheap v) n" using assms by (simp add: vmem_ok_def)
  obtain b e where b: "RtbAllocate (vheap v) (of_nat (length buffer)) 0 = (Some b, e)" "malloc_ok e = malloc_ok (vheap v)"
    using RtbAllocate_ok [OF m] by blast
  have m': "\<And>n. malloc_ok e n" using m b(2) by simp
  obtain t e' where t: "RtbAllocate e 1 0 = (Some t, e')" "malloc_ok e' = malloc_ok e"
    using RtbAllocate_ok [OF m', of 1 0] by blast
  show thesis
    by (rule that [of e']) (use b t in \<open>simp_all add: userial_enqueue_coex_rawdata_def Let_def\<close>)
qed

end
