(* ===== verification/UserialCoex.thy ===== *)
theory UserialCoex
  imports UserialIo
begin

text \<open>
  The coexistence thread of hardware/bt/src/userial_vendor.c: it takes the queued copies of the
  traffic, puts the received bytes together to packets again and shows every packet to the
  coexistence module and to the packet log.
\<close>

section \<open>The receiving direction\<close>

text \<open>The end of \<open>userial_coex_recv_data_handler\<close>, common to all paths that complete a packet.\<close>

definition coex_reset :: "vnd_lib \<Rightarrow> vnd_lib" where
  "coex_reset v = v\<lparr>coex_packet_recv_state := RTKBT_PACKET_IDLE, coex_packet_bytes_need := 0,
     coex_current_type := 0, coex_resvered_length := 0\<rparr>"

text \<open>\<open>case RTKBT_PACKET_END\<close>. The coexistence module is given the static array.\<close>

definition coex_packet_end :: "vnd_lib \<Rightarrow> vnd_lib" where
  "coex_packet_end v =
     (let buf = coex_resvered_buffer v;
          t = coex_current_type v;
          event = (if t = DATA_TYPE_EVENT then 0x1000 else if t = DATA_TYPE_ACL then 0x1100
                   else if t = DATA_TYPE_SCO then 0x1200 else 0x1300);
          v = (if t = DATA_TYPE_EVENT \<and> rtk_parse_manager v
               then v\<lparr>prof_cb := rtk_parse_internal_event_intercept (prof_cb v) buf\<rparr>
               else if t = DATA_TYPE_ACL \<and> rtk_parse_manager v
               then v\<lparr>prof_cb := rtk_parse_l2cap_data (prof_cb v) buf False\<rparr>
               else v)
      in v\<lparr>btsnoop := btsnoop v @ [(event, take (coex_resvered_length v) buf, True)]\<rparr>)"

text \<open>The cases of the \<open>switch\<close>, each falling through to the next. \<open>p_data\<close> are the bytes not yet
  taken; the result is their number taken, counted from \<open>total_length\<close>.\<close>

definition coex_content :: "vnd_lib \<Rightarrow> u8 list \<Rightarrow> nat \<Rightarrow> vnd_fault + (nat \<times> vnd_lib)" where
  "coex_content v p_data total_length =
     (let need = coex_packet_bytes_need v; len = coex_resvered_length v in
      if need \<le> length p_data
      then bind (array_write (coex_resvered_buffer v) len (take need p_data))
        (\<lambda>buf. let v = v\<lparr>coex_resvered_buffer := buf, coex_resvered_length := len + need,
                         coex_packet_bytes_need := 0, coex_packet_recv_state := RTKBT_PACKET_END\<rparr>
               in Inr (total_length - (length p_data - need), coex_reset (coex_packet_end v)))
      else bind (array_write (coex_resvered_buffer v) len p_data)
        (\<lambda>buf. Inr (total_length, v\<lparr>coex_resvered_buffer := buf, coex_resvered_length := len + length p_data,
                                    coex_packet_bytes_need := need - length p_data\<rparr>)))"

definition coex_content_length :: "u8 \<Rightarrow> u8 list \<Rightarrow> nat" where
  "coex_content_length type buf =
     (if type = DATA_TYPE_ACL then unat (uint16_at buf 2)
      else if type = DATA_TYPE_EVENT then unat (byte_at buf 1) else unat (byte_at buf 2))"

definition coex_header :: "vnd_lib \<Rightarrow> u8 list \<Rightarrow> nat \<Rightarrow> vnd_fault + (nat \<times> vnd_lib)" where
  "coex_header v p_data total_length =
     (let need = coex_packet_bytes_need v; len = coex_resvered_length v in
      if need \<le> length p_data
      then bind (array_write (coex_resvered_buffer v) len (take need p_data))
        (\<lambda>buf. coex_content
           (v\<lparr>coex_resvered_buffer := buf, coex_resvered_length := len + need,
              coex_packet_recv_state := RTKBT_PACKET_CONTENT,
              coex_packet_bytes_need := coex_content_length (coex_current_type v) buf\<rparr>)
           (drop need p_data) total_length)
      else bind (array_write (coex_resvered_buffer v) len p_data)
        (\<lambda>buf. Inr (total_length, v\<lparr>coex_resvered_buffer := buf, coex_resvered_length := len + length p_data,
                                    coex_packet_bytes_need := need - length p_data\<rparr>)))"

definition coex_type :: "vnd_lib \<Rightarrow> u8 list \<Rightarrow> nat \<Rightarrow> vnd_fault + (nat \<times> vnd_lib)" where
  "coex_type v p_data total_length =
     (let need = (if coex_current_type v = DATA_TYPE_ACL then 4
                  else if coex_current_type v = DATA_TYPE_EVENT then 2 else 3)
      in coex_header (v\<lparr>coex_packet_bytes_need := need, coex_resvered_length := 0,
                        coex_packet_recv_state := RTKBT_PACKET_HEADER\<rparr>) p_data total_length)"

text \<open>The loop over the type bytes ends with its first round: a byte that is no type fails the
  assertion.\<close>

definition coex_idle :: "vnd_lib \<Rightarrow> u8 list \<Rightarrow> nat \<Rightarrow> vnd_fault + (nat \<times> vnd_lib)" where
  "coex_idle v p_data total_length =
     (let v = v\<lparr>coex_packet_bytes_need := 1\<rparr> in
      case p_data of
        [] \<Rightarrow> coex_type (v\<lparr>coex_current_type := 0, coex_packet_recv_state := RTKBT_PACKET_TYPE\<rparr>) [] total_length
      | type # p_data \<Rightarrow>
          if type > DATA_TYPE_COMMAND \<and> type \<le> DATA_TYPE_EVENT
          then coex_type (v\<lparr>coex_current_type := type, coex_packet_recv_state := RTKBT_PACKET_TYPE\<rparr>) p_data total_length
          else Inl Assertion_failed)"

definition userial_coex_recv_data_handler :: "vnd_lib \<Rightarrow> u8 list \<Rightarrow> vnd_fault + (nat \<times> vnd_lib)" where
  "userial_coex_recv_data_handler v recv_buffer =
     (let total_length = length recv_buffer in
      case coex_packet_recv_state v of
        RTKBT_PACKET_IDLE \<Rightarrow> coex_idle v recv_buffer total_length
      | RTKBT_PACKET_TYPE \<Rightarrow> coex_type v recv_buffer total_length
      | RTKBT_PACKET_HEADER \<Rightarrow> coex_header v recv_buffer total_length
      | RTKBT_PACKET_CONTENT \<Rightarrow> coex_content v recv_buffer total_length
      | RTKBT_PACKET_END \<Rightarrow> Inr (0, coex_reset (coex_packet_end v)))"

section \<open>The sending direction\<close>

definition userial_coex_send_data_handler :: "vnd_lib \<Rightarrow> u8 list \<Rightarrow> vnd_lib" where
  "userial_coex_send_data_handler v send_buffer =
     (let t = byte_at send_buffer 0;
          event = (if t = DATA_TYPE_COMMAND then 0x2000 else if t = DATA_TYPE_ACL then 0x2100
                   else if t = DATA_TYPE_SCO then 0x2200 else 0);
          v = (if t = DATA_TYPE_COMMAND \<and> rtk_parse_manager v
               then v\<lparr>prof_cb := rtk_parse_command (prof_cb v) (drop 1 send_buffer)\<rparr>
               else if t = DATA_TYPE_ACL \<and> rtk_parse_manager v
               then v\<lparr>prof_cb := rtk_parse_l2cap_data (prof_cb v) (drop 1 send_buffer) True\<rparr>
               else v)
      in v\<lparr>btsnoop := btsnoop v @ [(event, drop 1 send_buffer, False)]\<rparr>)"

section \<open>The thread\<close>

text \<open>A call that completes no packet takes everything; one that starts a packet takes its type.\<close>

definition takes :: "nat \<Rightarrow> nat \<Rightarrow> vnd_fault + (nat \<times> vnd_lib) \<Rightarrow> bool" where
  "takes all left r \<longleftrightarrow>
     (\<forall>n v. r = Inr (n, v) \<longrightarrow> all - left \<le> n \<and> (n = all \<or> coex_packet_recv_state v = RTKBT_PACKET_IDLE))"

lemma takes_content: "takes all (length p) (coex_content v p all)"
  by (auto simp: takes_def coex_content_def Let_def bind_eq_Inr coex_reset_def)

lemma takes_mono: "takes all l r \<Longrightarrow> l \<le> l' \<Longrightarrow> takes all l' r"
  by (force simp: takes_def)

lemma takes_bind: "(\<And>x. takes all l (f x)) \<Longrightarrow> takes all l (bind r f)"
  by (cases r) (simp_all add: takes_def)

lemma takes_header: "takes all (length p) (coex_header v p all)"
proof -
  have "takes all (length p) (coex_content w (drop n p) all)" for w n
    by (rule takes_mono [OF takes_content]) simp
  then show ?thesis
    by (auto simp: coex_header_def Let_def intro!: takes_bind) (simp add: takes_def)
qed

lemma takes_type: "takes all (length p) (coex_type v p all)"
  by (simp add: coex_type_def Let_def takes_header)

lemma takes_idle: "takes (length p) (length p - 1) (coex_idle v p (length p))"
proof (cases p)
  case Nil
  then show ?thesis using takes_type [of 0 "[]"] by (simp add: coex_idle_def Let_def)
next
  case (Cons b bs)
  then show ?thesis using takes_type [of "length p" bs] by (simp add: coex_idle_def Let_def takes_def [of _ _ "Inl _"])
qed

lemma takes_handler:
  "takes (length p) (if coex_packet_recv_state v = RTKBT_PACKET_IDLE then length p - 1 else length p)
     (userial_coex_recv_data_handler v p)"
  using takes_idle takes_type takes_header takes_content
  by (simp add: userial_coex_recv_data_handler_def Let_def split: rtkbt_packet.split)
    (simp add: takes_def coex_reset_def)

lemma coex_handler_takes:
  assumes "userial_coex_recv_data_handler v data = Inr (n, v')" and "n < length data"
  shows "coex_packet_recv_state v' = RTKBT_PACKET_IDLE"
    and "coex_packet_recv_state v = RTKBT_PACKET_IDLE \<Longrightarrow> 0 < n"
  using assms takes_handler [of data v] by (force simp: takes_def)+

text \<open>The \<open>do\<close> loop over one received buffer.\<close>

function coex_recv_loop :: "vnd_lib \<Rightarrow> u8 list \<Rightarrow> vnd_fault + vnd_lib" where
  "coex_recv_loop v data =
     (case userial_coex_recv_data_handler v data of
        Inl e \<Rightarrow> Inl e
      | Inr (n, v) \<Rightarrow> if n < length data then coex_recv_loop v (drop n data) else Inr v)"
  by pat_completeness auto
termination
proof (relation "measures [\<lambda>(v, data). length data,
    \<lambda>(v, data). if coex_packet_recv_state v = RTKBT_PACKET_IDLE then 0 else 1]")
  fix v data x n v'
  assume "userial_coex_recv_data_handler v data = Inr x" "(n, v') = x" "n < length data"
  with coex_handler_takes [of v data n v']
  show "((v', drop n data), v, data) \<in> measures [\<lambda>(v, data). length data,
    \<lambda>(v, data). if coex_packet_recv_state v = RTKBT_PACKET_IDLE then 0 else 1]" by (cases n) auto
qed simp

declare coex_recv_loop.simps [simp del]

text \<open>\<open>userial_coex_handler\<close>: the queues are emptied in the order of \<open>data_order\<close>. A type without
  data is skipped.\<close>

fun coex_drain :: "bool list \<Rightarrow> vnd_lib \<Rightarrow> vnd_fault + vnd_lib" where
  "coex_drain [] v = Inr v"
| "coex_drain (received # order) v =
     (let v = v\<lparr>data_order := order\<rparr> in
      if received
      then case u_recv_data v of
             [] \<Rightarrow> coex_drain order v
           | d # ds \<Rightarrow> bind (coex_recv_loop (v\<lparr>u_recv_data := ds\<rparr>) d) (coex_drain order)
      else case u_send_data v of
             [] \<Rightarrow> coex_drain order v
           | d # ds \<Rightarrow> coex_drain order (userial_coex_send_data_handler (v\<lparr>u_send_data := ds\<rparr>) d))"

definition userial_coex_handler :: "vnd_lib \<Rightarrow> vnd_fault + vnd_lib" where
  "userial_coex_handler v =
     (let value = event_count v; v = v\<lparr>event_count := 0\<rparr> in
      if value = 0 \<and> \<not> thread_running v then Inr v else coex_drain (data_order v) v)"

section \<open>The assembler byte by byte\<close>

text \<open>The same \<open>switch\<close> with the bytes that are left in place of their number.\<close>

definition content_rest :: "u8 list \<Rightarrow> vnd_lib \<Rightarrow> vnd_fault + (u8 list \<times> vnd_lib)" where
  "content_rest p v =
     (let need = coex_packet_bytes_need v; len = coex_resvered_length v in
      bind (array_write (coex_resvered_buffer v) len (take need p))
        (\<lambda>buf. Inr (drop need p,
           if need \<le> length p
           then coex_reset (coex_packet_end (v\<lparr>coex_resvered_buffer := buf, coex_resvered_length := len + need,
                  coex_packet_bytes_need := 0, coex_packet_recv_state := RTKBT_PACKET_END\<rparr>))
           else v\<lparr>coex_resvered_buffer := buf, coex_resvered_length := len + length p,
                  coex_packet_bytes_need := need - length p\<rparr>)))"

definition header_done :: "u8 list \<Rightarrow> vnd_lib \<Rightarrow> vnd_lib" where
  "header_done buf v =
     v\<lparr>coex_resvered_buffer := buf, coex_resvered_length := coex_resvered_length v + coex_packet_bytes_need v,
       coex_packet_recv_state := RTKBT_PACKET_CONTENT,
       coex_packet_bytes_need := coex_content_length (coex_current_type v) buf\<rparr>"

definition header_rest :: "u8 list \<Rightarrow> vnd_lib \<Rightarrow> vnd_fault + (u8 list \<times> vnd_lib)" where
  "header_rest p v =
     (let need = coex_packet_bytes_need v; len = coex_resvered_length v in
      bind (array_write (coex_resvered_buffer v) len (take need p))
        (\<lambda>buf. if need \<le> length p then content_rest (drop need p) (header_done buf v)
               else Inr ([], v\<lparr>coex_resvered_buffer := buf, coex_resvered_length := len + length p,
                                coex_packet_bytes_need := need - length p\<rparr>)))"

definition left_of :: "u8 list \<Rightarrow> nat \<times> vnd_lib \<Rightarrow> vnd_fault + (u8 list \<times> vnd_lib)" where
  "left_of data = (\<lambda>(n, v). Inr (drop n data, v))"

lemma content_left: "bind (coex_content v p (length (pre @ p))) (left_of (pre @ p)) = content_rest p v"
  by (simp add: coex_content_def content_rest_def Let_def left_of_def bind_assoc)

lemma header_left: "bind (coex_header v p (length (pre @ p))) (left_of (pre @ p)) = header_rest p v"
proof (cases "coex_packet_bytes_need v \<le> length p")
  case True
  have "bind (coex_content w (drop (coex_packet_bytes_need v) p) (length (pre @ p))) (left_of (pre @ p)) =
      content_rest (drop (coex_packet_bytes_need v) p) w" for w
    using content_left [of w "drop (coex_packet_bytes_need v) p" "pre @ take (coex_packet_bytes_need v) p"] True
    by simp
  then show ?thesis
    using True by (simp add: coex_header_def header_rest_def header_done_def Let_def bind_assoc)
next
  case False
  then show ?thesis by (simp add: coex_header_def header_rest_def Let_def left_of_def bind_assoc)
qed

text \<open>Between calls the assembler is idle or waits for at least one byte of a packet that fits so far.\<close>

definition coex_wf :: "vnd_lib \<Rightarrow> bool" where
  "coex_wf v \<longleftrightarrow>
     coex_packet_recv_state v = RTKBT_PACKET_IDLE \<or>
     coex_packet_recv_state v \<in> {RTKBT_PACKET_HEADER, RTKBT_PACKET_CONTENT} \<and> 0 < coex_packet_bytes_need v \<and>
     coex_resvered_length v \<le> length (coex_resvered_buffer v)"

text \<open>A packet is begun with its type.\<close>

definition coex_begin :: "u8 \<Rightarrow> vnd_lib \<Rightarrow> vnd_lib" where
  "coex_begin t v =
     v\<lparr>coex_current_type := t,
       coex_packet_bytes_need := (if t = DATA_TYPE_ACL then 4 else if t = DATA_TYPE_EVENT then 2 else 3),
       coex_resvered_length := 0, coex_packet_recv_state := RTKBT_PACKET_HEADER\<rparr>"

definition coex_next :: "u8 list \<Rightarrow> vnd_lib \<Rightarrow> vnd_fault + (u8 list \<times> vnd_lib)" where
  "coex_next p v =
     (case coex_packet_recv_state v of
        RTKBT_PACKET_IDLE \<Rightarrow>
          (if hd p > DATA_TYPE_COMMAND \<and> hd p \<le> DATA_TYPE_EVENT then header_rest (tl p) (coex_begin (hd p) v)
           else Inl Assertion_failed)
      | RTKBT_PACKET_HEADER \<Rightarrow> header_rest p v
      | _ \<Rightarrow> content_rest p v)"

lemma handler_left:
  assumes "coex_wf v" and "p \<noteq> []"
  shows "bind (userial_coex_recv_data_handler v p) (left_of p) = coex_next p v"
proof (cases "coex_packet_recv_state v")
  case RTKBT_PACKET_IDLE
  obtain t q where p: "p = t # q" using assms(2) by (cases p) auto
  have "coex_type (v\<lparr>coex_packet_bytes_need := 1, coex_current_type := t, coex_packet_recv_state := RTKBT_PACKET_TYPE\<rparr>)
      q (length p) = coex_header (coex_begin t v) q (length p)"
    by (simp add: coex_type_def Let_def coex_begin_def)
  with header_left [of "coex_begin t v" q "[t]"]
  show ?thesis
    using RTKBT_PACKET_IDLE p by (simp add: userial_coex_recv_data_handler_def Let_def coex_next_def coex_idle_def)
qed (use assms header_left [of v p "[]"] content_left [of v p "[]"] in
    \<open>simp_all add: userial_coex_recv_data_handler_def Let_def coex_next_def coex_wf_def\<close>)

lemma coex_recv_loop_next:
  assumes "coex_wf v" and "p \<noteq> []"
  shows "coex_recv_loop v p = bind (coex_next p v) (\<lambda>(q, v). if q = [] then Inr v else coex_recv_loop v q)"
  unfolding handler_left [OF assms, symmetric]
  by (subst coex_recv_loop.simps) (auto simp: left_of_def not_less split: sum.split)

text \<open>One byte is stored and more are needed.\<close>

definition coex_store :: "u8 list \<Rightarrow> vnd_lib \<Rightarrow> vnd_lib" where
  "coex_store buf v = v\<lparr>coex_resvered_buffer := buf, coex_resvered_length := coex_resvered_length v + 1,
     coex_packet_bytes_need := coex_packet_bytes_need v - 1\<rparr>"

lemma write_Cons:
  "bind (array_write buf off (b # bs)) f = bind (array_write buf off [b]) (\<lambda>buf. bind (array_write buf (off + 1) bs) f)"
  using array_write_append [of buf off "[b]" bs] by (simp add: bind_assoc [symmetric])

lemma rest_Cons:
  assumes "1 < coex_packet_bytes_need v"
  shows "content_rest (b # bs) v =
      bind (array_write (coex_resvered_buffer v) (coex_resvered_length v) [b]) (\<lambda>buf. content_rest bs (coex_store buf v))"
    and "header_rest (b # bs) v =
      bind (array_write (coex_resvered_buffer v) (coex_resvered_length v) [b]) (\<lambda>buf. header_rest bs (coex_store buf v))"
proof -
  obtain n where n: "coex_packet_bytes_need v = Suc (Suc n)"
    using assms by (metis One_nat_def Suc_lessD Suc_less_eq2 less_imp_Suc_add)
  have hd: "header_done buf (coex_store buf' v) = header_done buf v" for buf buf'
    by (simp add: header_done_def coex_store_def n)
  show "content_rest (b # bs) v =
      bind (array_write (coex_resvered_buffer v) (coex_resvered_length v) [b]) (\<lambda>buf. content_rest bs (coex_store buf v))"
    unfolding content_rest_def Let_def n take_Suc_Cons write_Cons [where bs = "take (Suc n) bs"]
    by (simp add: coex_store_def n cong: if_cong)
  show "header_rest (b # bs) v =
      bind (array_write (coex_resvered_buffer v) (coex_resvered_length v) [b]) (\<lambda>buf. header_rest bs (coex_store buf v))"
    unfolding header_rest_def Let_def n hd take_Suc_Cons write_Cons [where bs = "take (Suc n) bs"]
    by (simp add: coex_store_def n cong: if_cong)
qed

text \<open>What remains of a call after its first byte.\<close>

definition next_more :: "u8 list \<Rightarrow> u8 list \<times> vnd_lib \<Rightarrow> vnd_fault + (u8 list \<times> vnd_lib)" where
  "next_more bs = (\<lambda>(q, v). if coex_packet_recv_state v = RTKBT_PACKET_IDLE then Inr (bs, v) else coex_next bs v)"

lemma coex_reset_idle [simp]: "coex_packet_recv_state (coex_reset v) = RTKBT_PACKET_IDLE"
  by (simp add: coex_reset_def)

lemma content_first:
  assumes "coex_packet_recv_state v = RTKBT_PACKET_CONTENT" and "coex_resvered_length v \<le> length (coex_resvered_buffer v)"
  shows "content_rest bs v = bind (content_rest [] v) (next_more bs)"
proof (cases "coex_packet_bytes_need v")
  case 0
  then show ?thesis using assms by (simp add: content_rest_def Let_def array_write_def next_more_def)
next
  case (Suc n)
  then have "content_rest [] v = Inr ([], v)" using assms by (simp add: content_rest_def Let_def array_write_def)
  then show ?thesis using assms by (simp add: next_more_def coex_next_def)
qed

lemma coex_next_Cons:
  assumes "coex_wf v"
  shows "coex_next (b # bs) v = bind (coex_next [b] v) (next_more bs)"
proof (cases "coex_packet_recv_state v = RTKBT_PACKET_IDLE")
  case True
  have "header_rest [] (coex_begin b v) = Inr ([], coex_begin b v)"
    by (simp add: header_rest_def Let_def coex_begin_def array_write_def)
  then show ?thesis using True by (simp add: coex_next_def next_more_def) (simp add: coex_begin_def)
next
  case False
  then have v: "coex_packet_recv_state v \<in> {RTKBT_PACKET_HEADER, RTKBT_PACKET_CONTENT}" "0 < coex_packet_bytes_need v"
    "coex_resvered_length v \<le> length (coex_resvered_buffer v)"
    using assms by (auto simp: coex_wf_def)
  let ?w = "array_write (coex_resvered_buffer v) (coex_resvered_length v) [b]"
  have len: "coex_resvered_length v + 1 \<le> length buf" if "?w = Inr buf" for buf
    using that array_write_length [OF that] by (simp add: array_write_def split: if_splits)
  show ?thesis
  proof (cases "coex_packet_bytes_need v = 1")
    case True
    have "content_rest bs (header_done buf v) = bind (content_rest [] (header_done buf v)) (next_more bs)"
      if "?w = Inr buf" for buf
      using len [OF that] True by (intro content_first) (simp_all add: header_done_def)
    then show ?thesis
      using True v(1) by (cases ?w) (auto simp: coex_next_def content_rest_def header_rest_def Let_def next_more_def)
  next
    case False
    then have need: "1 < coex_packet_bytes_need v" using v(2) by simp
    have st: "content_rest [] (coex_store buf v) = Inr ([], coex_store buf v)"
      "header_rest [] (coex_store buf v) = Inr ([], coex_store buf v)" if "?w = Inr buf" for buf
      using len [OF that] need by (simp_all add: coex_store_def content_rest_def header_rest_def Let_def array_write_def)
    show ?thesis
      using v(1) by (cases ?w) (auto simp: coex_next_def rest_Cons [OF need] next_more_def st; simp add: coex_store_def)+
  qed
qed

lemma content_rest_wf:
  assumes "content_rest p v = Inr (q, v')" and "length p \<le> 1"
    and "coex_packet_recv_state v = RTKBT_PACKET_CONTENT" and "p \<noteq> [] \<longrightarrow> 0 < coex_packet_bytes_need v"
  shows "q = [] \<and> coex_wf v'"
  using assms
  by (auto simp: content_rest_def Let_def bind_eq_Inr coex_wf_def array_write_def min_def split: if_splits)

lemma coex_next_wf:
  assumes wf: "coex_wf v" and n: "coex_next [b] v = Inr (q, v')"
  shows "q = [] \<and> coex_wf v'"
proof (cases "coex_packet_recv_state v")
  case RTKBT_PACKET_IDLE
  then show ?thesis
    using n by (auto simp: coex_next_def header_rest_def coex_begin_def Let_def bind_eq_Inr coex_wf_def array_write_def
        split: if_splits)
next
  case RTKBT_PACKET_HEADER
  show ?thesis
  proof (cases "coex_packet_bytes_need v = 1")
    case True
    then obtain buf where "content_rest [] (header_done buf v) = Inr (q, v')"
      using n RTKBT_PACKET_HEADER by (auto simp: coex_next_def header_rest_def Let_def bind_eq_Inr)
    then show ?thesis by (rule content_rest_wf) (simp_all add: header_done_def)
  next
    case False
    then show ?thesis
      using n wf RTKBT_PACKET_HEADER
      by (auto simp: coex_next_def header_rest_def Let_def bind_eq_Inr coex_wf_def array_write_def split: if_splits)
  qed
next
  case RTKBT_PACKET_CONTENT
  then show ?thesis
    using n wf by (intro content_rest_wf [of "[b]" v]) (auto simp: coex_next_def coex_wf_def)
qed (use wf in \<open>auto simp: coex_wf_def\<close>)

definition coex_feed :: "u8 list \<Rightarrow> vnd_lib \<Rightarrow> vnd_fault + vnd_lib" where
  "coex_feed p v = coex_recv_loop v p"

lemma coex_feed_one:
  assumes wf: "coex_wf v"
  shows "coex_feed [b] v = bind (coex_next [b] v) (\<lambda>(q, v). Inr v)"
proof (cases "coex_next [b] v")
  case (Inr x)
  then have "fst x = []" using coex_next_wf [OF wf, of b "fst x" "snd x"] by simp
  then show ?thesis using Inr by (simp add: coex_feed_def coex_recv_loop_next [OF wf] case_prod_beta)
qed (simp add: coex_feed_def coex_recv_loop_next [OF wf])

text \<open>The assembler of the coexistence thread keeps the contract.\<close>

interpretation coexa: byte_machine coex_wf "\<lambda>v bs. True" coex_feed "\<lambda>b. coex_feed [b]"
proof unfold_locales
  fix v v' :: vnd_lib and b :: u8 and bs :: "u8 list"
  assume wf: "coex_wf v"
  note one = coex_feed_one [OF wf]
  show "coex_wf v' \<and> True" if "coex_feed [b] v = Inr v'"
    using that coex_next_wf [OF wf, of b] by (auto simp: one bind_eq_Inr)
  have more: "coex_feed (b # bs) v = bind (coex_feed [b] v) (coex_feed bs)" if "bs \<noteq> []"
  proof (cases "coex_next [b] v")
    case (Inr x)
    then obtain w where n: "coex_next [b] v = Inr ([], w)" and w: "coex_wf w"
      using coex_next_wf [OF wf, of b "fst x" "snd x"] by (cases x) auto
    have l: "coex_recv_loop v [b] = Inr w" using one n by (simp add: coex_feed_def)
    show ?thesis
      using coex_recv_loop_next [OF w that] that
      by (simp add: n l coex_feed_def coex_recv_loop_next [OF wf, of "b # bs"] coex_next_Cons [OF wf, of b bs] next_more_def)
  qed (simp add: one, simp add: coex_feed_def coex_recv_loop_next [OF wf, of "b # bs"] coex_next_Cons [OF wf, of b bs])
  then show "coex_feed (b # bs) v = bind (coex_feed [b] v) (if bs = [] then Inr else coex_feed bs)" by simp
qed

section \<open>Packets\<close>

text \<open>A packet of the receiving direction: its length is the one its header announces.\<close>

definition hci_packet :: "u8 \<times> u8 list \<Rightarrow> bool" where
  "hci_packet = (\<lambda>(t, p). t \<in> {DATA_TYPE_ACL, DATA_TYPE_SCO, DATA_TYPE_EVENT} \<and>
     hci_preamble_sizes t \<le> length p \<and> length p = hci_preamble_sizes t + coex_content_length t p)"

definition h4_bytes :: "u8 \<times> u8 list \<Rightarrow> u8 list" where
  "h4_bytes = (\<lambda>(t, p). t # p)"

text \<open>What the arrival of a whole packet does.\<close>

definition coex_deliver :: "u8 \<times> u8 list \<Rightarrow> vnd_lib \<Rightarrow> vnd_lib" where
  "coex_deliver = (\<lambda>(t, p) v. coex_reset (coex_packet_end
     (v\<lparr>coex_current_type := t, coex_resvered_buffer := p @ drop (length p) (coex_resvered_buffer v),
        coex_resvered_length := length p, coex_packet_bytes_need := 0,
        coex_packet_recv_state := RTKBT_PACKET_END\<rparr>)))"

lemma content_length_prefix:
  assumes "hci_preamble_sizes t \<le> length p" and "t \<in> {DATA_TYPE_ACL, DATA_TYPE_SCO, DATA_TYPE_EVENT}"
  shows "coex_content_length t (take (hci_preamble_sizes t) p @ r) = coex_content_length t p"
proof -
  have "byte_at (take (hci_preamble_sizes t) p @ r) i = byte_at p i" if "i < hci_preamble_sizes t" for i
    using assms(1) that by (simp add: byte_at_def nth_append)
  then show ?thesis
    using assms(2) by (auto simp: coex_content_length_def hci_preamble_sizes_def uint16_at_def data_type_defs)
qed

lemma coex_feed_packet:
  assumes idle: "coex_packet_recv_state v = RTKBT_PACKET_IDLE" and p: "hci_packet (t, p)"
  shows "coex_feed (t # p) v =
    (if length p \<le> length (coex_resvered_buffer v) then Inr (coex_deliver (t, p) v) else Inl Buffer_overrun)"
proof -
  define n where "n = hci_preamble_sizes t"
  have t: "t \<in> {DATA_TYPE_ACL, DATA_TYPE_SCO, DATA_TYPE_EVENT}" and n: "n \<le> length p"
    and len: "length p = n + coex_content_length t p"
    using p by (simp_all add: hci_packet_def n_def)
  let ?buf = "coex_resvered_buffer v"
  have wf: "coex_wf v" using idle by (simp add: coex_wf_def)
  have valid: "t > DATA_TYPE_COMMAND \<and> t \<le> DATA_TYPE_EVENT" using t by (auto simp: data_type_defs)
  have b: "coex_packet_bytes_need (coex_begin t v) = n" "coex_resvered_length (coex_begin t v) = 0"
    "coex_resvered_buffer (coex_begin t v) = ?buf" "coex_current_type (coex_begin t v) = t"
    using t by (auto simp: coex_begin_def n_def hci_preamble_sizes_def data_type_defs)
  have nx: "coex_next (t # p) v = bind (array_write ?buf 0 p) (\<lambda>buf. Inr ([], coex_deliver (t, p) v))"
  proof (cases "array_write ?buf 0 (take n p)")
    case (Inl e)
    then show ?thesis
      using n len by (simp add: coex_next_def idle valid header_rest_def Let_def b array_write_fails)
        (simp add: array_write_def)
  next
    case (Inr buf)
    have buf: "buf = take n p @ drop n ?buf"
      using Inr n by (simp add: array_write_def split: if_splits)
    have c: "coex_content_length t buf = length p - n"
      unfolding buf using content_length_prefix [OF n [unfolded n_def] t] len by (simp add: n_def)
    have a: "array_write buf n (drop n p) = array_write ?buf 0 p"
      using array_write_append [of ?buf 0 "take n p" "drop n p"] Inr n by simp
    have "coex_next (t # p) v = content_rest (drop n p) (header_done buf (coex_begin t v))"
      by (simp add: coex_next_def idle valid header_rest_def Let_def b Inr n)
    also have "\<dots> = bind (array_write ?buf 0 p) (\<lambda>b. Inr ([], coex_reset (coex_packet_end
        ((header_done buf (coex_begin t v))\<lparr>coex_resvered_buffer := b, coex_resvered_length := length p,
           coex_packet_bytes_need := 0, coex_packet_recv_state := RTKBT_PACKET_END\<rparr>))))"
      using n by (simp add: content_rest_def Let_def header_done_def b c a)
    also have "\<dots> = bind (array_write ?buf 0 p) (\<lambda>b. Inr ([], coex_deliver (t, p) v))"
      by (simp add: array_write_def coex_deliver_def header_done_def coex_begin_def)
    finally show ?thesis .
  qed
  show ?thesis
    unfolding coex_feed_def
    by (subst coex_recv_loop_next [OF wf]) (simp_all add: nx array_write_def)
qed

lemma coex_packet_end_keeps [simp]:
  "length (coex_resvered_buffer (coex_packet_end v)) = length (coex_resvered_buffer v)"
  "coex_resvered_buffer (coex_packet_end v) = coex_resvered_buffer v"
  by (simp_all add: coex_packet_end_def Let_def)

lemma coex_deliver_keeps:
  "coex_packet_recv_state (coex_deliver x v) = RTKBT_PACKET_IDLE"
  "length (snd x) \<le> length (coex_resvered_buffer v) \<Longrightarrow>
     length (coex_resvered_buffer (coex_deliver x v)) = length (coex_resvered_buffer v)"
  by (cases x; simp add: coex_deliver_def coex_reset_def)+

lemma coex_feed_packets:
  assumes "coex_packet_recv_state v = RTKBT_PACKET_IDLE"
    and "\<And>x. x \<in> set ps \<Longrightarrow> hci_packet x \<and> length (snd x) \<le> length (coex_resvered_buffer v)"
  shows "run_calls (\<lambda>b. coex_feed [b]) (concat (map h4_bytes ps)) v = Inr (fold coex_deliver ps v)"
proof (rule coexa.feed_packets)
  let ?I = "\<lambda>w. coex_packet_recv_state w = RTKBT_PACKET_IDLE \<and>
    length (coex_resvered_buffer w) = length (coex_resvered_buffer v)"
  let ?P = "\<lambda>x. hci_packet x \<and> length (snd x) \<le> length (coex_resvered_buffer v)"
  show "h4_bytes x \<noteq> [] \<and> coex_feed (h4_bytes x) w = Inr (coex_deliver x w) \<and> ?I (coex_deliver x w)"
    if "?I w" "?P x" for w x
    using that coex_feed_packet [of w "fst x" "snd x"] coex_deliver_keeps
    by (cases x) (simp add: h4_bytes_def)
  show "coex_wf w" if "?I w" for w using that by (simp add: coex_wf_def)
qed (use assms in auto)

section \<open>The queues and the assembler\<close>

text \<open>The assembler does not touch the queues the thread takes the buffers from.\<close>

definition with_queues :: "u8 list list \<Rightarrow> bool list \<Rightarrow> vnd_lib \<Rightarrow> vnd_lib" where
  "with_queues ds order v = v\<lparr>u_recv_data := ds, data_order := order\<rparr>"

lemma coex_wf_queues [simp]: "coex_wf (with_queues ds order v) = coex_wf v"
  by (simp add: coex_wf_def with_queues_def)

lemma queues_fields [simp]:
  "coex_resvered_buffer (with_queues ds order v) = coex_resvered_buffer v"
  "coex_resvered_length (with_queues ds order v) = coex_resvered_length v"
  "coex_packet_bytes_need (with_queues ds order v) = coex_packet_bytes_need v"
  "coex_packet_recv_state (with_queues ds order v) = coex_packet_recv_state v"
  "coex_current_type (with_queues ds order v) = coex_current_type v"
  "prof_cb (with_queues ds order v) = prof_cb v" "btsnoop (with_queues ds order v) = btsnoop v"
  "rtk_parse_manager (with_queues ds order v) = rtk_parse_manager v"
  by (simp_all add: with_queues_def)

lemma queues_updates:
  "(with_queues ds order v)\<lparr>coex_resvered_buffer := a\<rparr> = with_queues ds order (v\<lparr>coex_resvered_buffer := a\<rparr>)"
  "(with_queues ds order v)\<lparr>coex_resvered_length := n\<rparr> = with_queues ds order (v\<lparr>coex_resvered_length := n\<rparr>)"
  "(with_queues ds order v)\<lparr>coex_packet_bytes_need := n\<rparr> = with_queues ds order (v\<lparr>coex_packet_bytes_need := n\<rparr>)"
  "(with_queues ds order v)\<lparr>coex_packet_recv_state := r\<rparr> = with_queues ds order (v\<lparr>coex_packet_recv_state := r\<rparr>)"
  "(with_queues ds order v)\<lparr>coex_current_type := t\<rparr> = with_queues ds order (v\<lparr>coex_current_type := t\<rparr>)"
  "(with_queues ds order v)\<lparr>prof_cb := c\<rparr> = with_queues ds order (v\<lparr>prof_cb := c\<rparr>)"
  "(with_queues ds order v)\<lparr>btsnoop := l\<rparr> = with_queues ds order (v\<lparr>btsnoop := l\<rparr>)"
  by (simp_all add: with_queues_def)

lemma end_queues: "coex_reset (coex_packet_end (with_queues ds order v)) = with_queues ds order (coex_reset (coex_packet_end v))"
proof -
  have "coex_packet_end (with_queues ds order v) = with_queues ds order (coex_packet_end v)"
    by (simp add: coex_packet_end_def Let_def queues_updates)
  then show ?thesis by (simp add: coex_reset_def queues_updates)
qed

lemma content_queues:
  "content_rest p (with_queues ds order v) = bind (content_rest p v) (\<lambda>(q, w). Inr (q, with_queues ds order w))"
  by (simp add: content_rest_def Let_def bind_assoc queues_updates end_queues cong: if_cong)
    (simp add: if_distrib [of "with_queues ds order"])

lemma header_queues:
  "header_rest p (with_queues ds order v) = bind (header_rest p v) (\<lambda>(q, w). Inr (q, with_queues ds order w))"
proof -
  have "header_done buf (with_queues ds order v) = with_queues ds order (header_done buf v)" for buf
    by (simp add: header_done_def queues_updates)
  then show ?thesis
    by (cases "array_write (coex_resvered_buffer v) (coex_resvered_length v) (take (coex_packet_bytes_need v) p)")
      (simp_all add: header_rest_def Let_def content_queues queues_updates)
qed

lemma next_queues:
  "coex_next p (with_queues ds order v) = bind (coex_next p v) (\<lambda>(q, w). Inr (q, with_queues ds order w))"
proof -
  have "coex_begin b (with_queues ds order v) = with_queues ds order (coex_begin b v)" for b
    by (simp add: coex_begin_def queues_updates)
  then show ?thesis
    by (auto simp: coex_next_def content_queues header_queues split: rtkbt_packet.split)
qed

lemma feed_queues:
  assumes "coex_wf v" and "bs \<noteq> []"
  shows "coex_feed bs (with_queues ds order v) = bind (coex_feed bs v) (\<lambda>w. Inr (with_queues ds order w))"
proof -
  have one: "coex_feed [b] (with_queues ds order v) = bind (coex_feed [b] v) (\<lambda>w. Inr (with_queues ds order w))"
    if "coex_wf v" for b v
    using that by (cases "coex_next [b] v") (auto simp: coex_feed_one next_queues)
  have "run_calls (\<lambda>b. coex_feed [b]) bs (with_queues ds order v) =
      bind (run_calls (\<lambda>b. coex_feed [b]) bs v) (\<lambda>w. Inr (with_queues ds order w))"
    using assms(1)
  proof (induction bs arbitrary: v)
    case (Cons b bs)
    then show ?case using coexa.step_wf [of v b] by (cases "coex_feed [b] v") (auto simp: one)
  qed simp
  then show ?thesis using assms coexa.feed_steps by simp
qed

text \<open>Buffers of received data are fed to the assembler one after the other.\<close>

lemma coex_drain_received:
  assumes "coex_wf v" and "[] \<notin> set ds"
  shows "coex_drain (replicate (length ds) True) (with_queues ds (replicate (length ds) True) v) =
    bind (run_calls coex_feed ds v) (\<lambda>w. Inr (with_queues [] [] w))"
  using assms
proof (induction ds arbitrary: v)
  case (Cons d ds)
  let ?o = "replicate (length ds) True"
  have q: "(with_queues (d # ds) (True # ?o) v)\<lparr>data_order := ?o\<rparr> = with_queues (d # ds) ?o v"
    "(with_queues (d # ds) ?o v)\<lparr>u_recv_data := ds\<rparr> = with_queues ds ?o v"
    "u_recv_data (with_queues (d # ds) ?o v) = d # ds"
    by (simp_all add: with_queues_def)
  have d: "coex_recv_loop (with_queues ds ?o v) d = bind (coex_feed d v) (\<lambda>w. Inr (with_queues ds ?o w))"
    using feed_queues [of v d] Cons.prems by (auto simp: coex_feed_def)
  show ?case
  proof (cases "coex_feed d v")
    case (Inr w)
    have "coex_wf w" using coexa.steps_wf [of v d w] coexa.feed_steps [of v d] Cons.prems Inr by auto
    then show ?thesis using Cons.IH [of w] Cons.prems Inr by (simp add: q d Let_def)
  qed (simp add: q d Let_def)
qed simp

end
