(* ===== verification/RtkService.thy ===== *)
theory RtkService
  imports UserialIo
begin

text \<open>
  The one-shot timer of hardware/bt/src/rtk_poll.c and the vendor command service of
  hardware/bt/src/rtk_btservice.c: a queue of commands, sent one at a time by a thread that waits
  for the answer to each, and the socket clients hand commands in through.
\<close>

section \<open>The poll timer\<close>

text \<open>\<open>timer_settime\<close> and \<open>timer_delete\<close> on the identifier the control block holds.\<close>

definition poll_settime :: "vnd_lib \<Rightarrow> itimerspec option \<Rightarrow> vnd_lib" where
  "poll_settime v it =
     (let i = poll_timer_id (bt_poll_cb v) in
      if i < length (poll_timers v) \<and> poll_timers v ! i \<noteq> None then v\<lparr>poll_timers := (poll_timers v)[i := it]\<rparr>
      else v\<lparr>bad_timer := True\<rparr>)"

definition poll_timer_stop :: "vnd_lib \<Rightarrow> vnd_lib" where
  "poll_timer_stop v =
     (if poll_timer_created (bt_poll_cb v)
      then poll_settime v (Some \<lparr>it_value = (0, 0), it_interval = (0, 0)\<rparr>) else v)"

definition poll_init :: "vnd_lib \<Rightarrow> u32 \<Rightarrow> vnd_lib" where
  "poll_init v timeout =
     v\<lparr>bt_poll_cb := \<lparr>poll_state = POLL_DISABLED, poll_timer_created = False, poll_timer_id = 0,
                     poll_timeout_ms = timeout\<rparr>\<rparr>"

definition poll_cleanup :: "vnd_lib \<Rightarrow> vnd_lib" where
  "poll_cleanup v = (if poll_timer_created (bt_poll_cb v) then poll_settime v None else v)"

definition poll_enable :: "vnd_lib \<Rightarrow> bool \<Rightarrow> vnd_lib" where
  "poll_enable v turn_on =
     (if turn_on \<and> poll_state (bt_poll_cb v) = POLL_ENABLED then v
      else if \<not> turn_on \<and> poll_state (bt_poll_cb v) = POLL_DISABLED then v
      else if \<not> turn_on
      then let v = poll_timer_stop v in v\<lparr>bt_poll_cb := (bt_poll_cb v)\<lparr>poll_state := POLL_DISABLED\<rparr>\<rparr>
      else v\<lparr>bt_poll_cb := (bt_poll_cb v)\<lparr>poll_state := POLL_ENABLED\<rparr>\<rparr>)"

text \<open>The timer is created by the first flush and armed for one expiry.\<close>

definition poll_timer_flush :: "vnd_lib \<Rightarrow> vnd_lib" where
  "poll_timer_flush v =
     (if poll_state (bt_poll_cb v) \<noteq> POLL_ENABLED then v
      else let v = (if \<not> poll_timer_created (bt_poll_cb v) \<and> timer_create_ok v
                    then v\<lparr>bt_poll_cb := (bt_poll_cb v)\<lparr>poll_timer_created := True,
                                                        poll_timer_id := length (poll_timers v)\<rparr>,
                           poll_timers := poll_timers v @ [Some \<lparr>it_value = (0, 0), it_interval = (0, 0)\<rparr>]\<rparr>
                    else v);
               ms = uint (poll_timeout_ms (bt_poll_cb v))
           in if poll_timer_created (bt_poll_cb v)
              then poll_settime v (Some \<lparr>it_value = (ms div 1000, 1000 * 1000 * (ms mod 1000)),
                                         it_interval = (0, 0)\<rparr>)
              else v)"

section \<open>The command queue\<close>

text \<open>The name of the callback \<open>Rtk_Service_Cmd_Event_Cback\<close> in the coexistence module.\<close>

definition Rtk_Service_Cmd_Event :: nat where "Rtk_Service_Cmd_Event = 1"

text \<open>\<open>Rtk_Service_Vendorcmd_Hook\<close>: without memory it returns with the mutex of the queue held.\<close>

definition Rtk_Service_Vendorcmd_Hook ::
  "vnd_lib \<Rightarrow> u16 \<Rightarrow> u8 list \<Rightarrow> service_cback \<Rightarrow> int \<Rightarrow> vnd_fault + vnd_lib" where
  "Rtk_Service_Vendorcmd_Hook v opcode parameter cback client_sock =
     (case rtk_btservice v of
        None \<Rightarrow> Inr v
      | Some b \<Rightarrow>
          if cmdqueue_locked b then Inl Never_returns
          else case malloc (vheap v) 40 of
                 (None, e) \<Rightarrow> Inr (v\<lparr>vheap := e, rtk_btservice := Some (b\<lparr>cmdqueue_locked := True\<rparr>)\<rparr>)
               | (Some _, e) \<Rightarrow>
                   Inr (v\<lparr>vheap := e, rtk_btservice := Some (b\<lparr>
                     cmdqueue_list := cmdqueue_list b @ [\<lparr>rq_client_sock = client_sock, rq_opcode = opcode,
                       rq_parameter = parameter, rq_complete_cback = cback\<rparr>],
                     cmdqueue_sem := cmdqueue_sem b + 1\<rparr>)\<rparr>))"

definition hcicmd_start_reply_timer :: "vnd_lib \<Rightarrow> vnd_lib" where
  "hcicmd_start_reply_timer v =
     (case rtk_btservice v of
        None \<Rightarrow> v
      | Some b \<Rightarrow> v\<lparr>rtk_btservice := Some (b\<lparr>timer_hcicmd_reply := snd (OsStartTimer (timer_hcicmd_reply b) 8000 1)\<rparr>)\<rparr>)"

text \<open>One round of \<open>cmdready_thread\<close>, in two steps, since the answer may come in between: the command
  is taken and sent, then the timer is started. \<open>None\<close> while the thread waits for one of its
  semaphores.\<close>

definition cmdready_send :: "vnd_lib \<Rightarrow> (vnd_fault + vnd_lib) option" where
  "cmdready_send v =
     (case rtk_btservice v of
        None \<Rightarrow> None
      | Some b \<Rightarrow>
          if \<not> cmdqueue_thread_running b \<or> cmdqueue_sem b = 0 \<or> cmdsend_sem b = 0 then None
          else Some
            (if cmdqueue_locked b then Inl Never_returns
             else let b = b\<lparr>cmdqueue_sem := cmdqueue_sem b - 1, cmdsend_sem := cmdsend_sem b - 1\<rparr> in
             case cmdqueue_list b of
               [] \<Rightarrow> Inr (v\<lparr>rtk_btservice := Some b\<rparr>)
             | desc # q \<Rightarrow>
                 let b = b\<lparr>cmdqueue_list := q\<rparr>;
                     b = (if rq_opcode desc = 0xfc77 then b\<lparr>autopair_fd := rq_client_sock desc\<rparr> else b);
                     b = b\<lparr>current_client_sock := rq_client_sock desc,
                           current_complete_cback := Some (rq_complete_cback desc)\<rparr>
                 in Inr (v\<lparr>rtk_btservice := Some b,
                           prof_cb := rtk_vendor_cmd_to_fw (prof_cb v) (rq_opcode desc) (rq_parameter desc)
                                        (Some Rtk_Service_Cmd_Event)\<rparr>)))"

definition Rtk_Service_Send_Hwerror_Event :: "vnd_lib \<Rightarrow> vnd_fault + vnd_lib" where
  "Rtk_Service_Send_Hwerror_Event v = userial_recv_rawdata_hook v [0x04, 0x10, 0x01, 0xfd]"

definition Rtk_Client_Cmd_Cback :: "vnd_lib \<Rightarrow> Rtk_Btservice_Info \<Rightarrow> u8 list \<Rightarrow> vnd_lib" where
  "Rtk_Client_Cmd_Cback v b event =
     (if current_client_sock b \<noteq> -1 then v\<lparr>client_out := client_out v @ [(current_client_sock b, event)]\<rparr> else v)"

section \<open>Clients\<close>

text \<open>\<open>Getpacket_RTK_HCICMD\<close>. The descriptor it reads from is a local variable that is 0; the
  parameter with the client's descriptor is not used. \<open>fds fd\<close> are the bytes that can be read from
  \<open>fd\<close>. The result is 1 when the caller shall return at once and -1 otherwise.\<close>

definition Getpacket_RTK_HCICMD ::
  "vnd_lib \<Rightarrow> (int \<Rightarrow> u8 list) \<Rightarrow> int \<Rightarrow> vnd_fault + (int \<times> vnd_lib \<times> (int \<Rightarrow> u8 list))" where
  "Getpacket_RTK_HCICMD v fds client_sock_temp =
     (let client_sock = 0 in
      case fds client_sock of
        opcodeh # opcodel # parameter_length # rest \<Rightarrow>
          let n = unat parameter_length; parameter = take n rest;
              fds = fds(client_sock := drop n rest);
              queue = (\<lambda>v. case malloc (vheap v) 24 of
                (None, e) \<Rightarrow> Inr (1, v\<lparr>vheap := e\<rparr>, fds)
              | (Some _, e) \<Rightarrow>
                  bind (Rtk_Service_Vendorcmd_Hook (v\<lparr>vheap := e\<rparr>) (stream_to_uint16 opcodel opcodeh) parameter
                          Client_Cmd client_sock)
                    (\<lambda>v. Inr (-1, v, fds)))
          in if n = 0 then queue v
             else (case malloc (vheap v) n of
                     (None, e) \<Rightarrow> Inr (1, v\<lparr>vheap := e\<rparr>, fds(client_sock := rest))
                   | (Some _, e) \<Rightarrow>
                       if length parameter \<noteq> n then Inr (-1, v\<lparr>vheap := e\<rparr>, fds) else queue (v\<lparr>vheap := e\<rparr>))
      | _ \<Rightarrow> Inr (-1, v, fds(client_sock := [])))"

text \<open>\<open>Getpacket\<close>; the last component says that the client's socket was closed.\<close>

definition Getpacket ::
  "vnd_lib \<Rightarrow> (int \<Rightarrow> u8 list) \<Rightarrow> int \<Rightarrow> vnd_fault + (vnd_lib \<times> (int \<Rightarrow> u8 list) \<times> bool)" where
  "Getpacket v fds client_sock =
     (case fds client_sock of
        [] \<Rightarrow> Inr (v\<lparr>rtk_btservice := map_option (\<lambda>b. if client_sock = autopair_fd b then b\<lparr>autopair_fd := -1\<rparr> else b)
                                     (rtk_btservice v)\<rparr>, fds, True)
      | type # rest \<Rightarrow>
          let fds = fds(client_sock := rest) in
          if type = 1 then bind (Getpacket_RTK_HCICMD v fds client_sock) (\<lambda>(ret, v, fds). Inr (v, fds, False))
          else Inr (v, fds, type = 2))"

text \<open>\<open>rtk_btservice_internal_event_intercept\<close>, called with a running service: an automatic pairing event
  goes to the client that asked for it, and to the stack as an LE advertising report. The 8-bit length of
  the copy wraps for an event of 255 bytes, and an event shorter than 3 bytes is patched past its end.\<close>

definition rtk_btservice_internal_event_intercept :: "vnd_lib \<Rightarrow> u8 list \<Rightarrow> vnd_fault + vnd_lib" where
  "rtk_btservice_internal_event_intercept v p_msg =
     (case rtk_btservice v of
        None \<Rightarrow> Inl Null_dereference
      | Some b \<Rightarrow>
          if byte_at p_msg 0 = 0xff \<and> byte_at p_msg 1 = 0x30 \<and> autopair_fd b \<noteq> -1
          then let v = v\<lparr>client_out := client_out v @ [(autopair_fd b, p_msg)]\<rparr>;
                   n = unat (of_nat (length p_msg) + 1 :: u8)
               in if n \<le> length p_msg \<or> n < 4 then Inl Buffer_overrun
                  else userial_recv_rawdata_hook v ((DATA_TYPE_EVENT # p_msg)[1 := 0x3e, 3 := 0x02])
          else Inr v)"

section \<open>Start and stop\<close>

text \<open>The results of the system calls of \<open>RTK_btservice_init\<close>, in order: the timer, \<open>bt_vendor_cbacks\<close>,
  \<open>socketpair\<close>, \<open>epoll_create\<close>, the server socket, the two threads.\<close>

definition RTK_btservice_init :: "(nat \<Rightarrow> bool) \<Rightarrow> vnd_lib \<Rightarrow> int \<times> vnd_lib" where
  "RTK_btservice_init ok v =
     (case malloc (vheap v) 200 of
        (None, e) \<Rightarrow> (-1, v\<lparr>vheap := e, rtk_btservice := None\<rparr>)
      | (Some _, e) \<Rightarrow>
          let b = \<lparr>current_client_sock = -1, autopair_fd = -1, cmdqueue_sem = 0, cmdsend_sem = 1,
                   timer_hcicmd_reply = OsAllocateTimer (ok 0), cmdqueue_list = [], cmdqueue_locked = False,
                   cmdqueue_thread_running = False, epoll_thread_running = False, current_complete_cback = None\<rparr>;
              b1 = b\<lparr>epoll_thread_running := True\<rparr>;
              b2 = b1\<lparr>cmdqueue_thread_running := True\<rparr>;
              done = (\<lambda>r b. (r, v\<lparr>vheap := e, rtk_btservice := Some b\<rparr>))
          in if \<not> (ok 1 \<and> ok 2 \<and> ok 3 \<and> ok 4) then done (-1) b
             else if \<not> ok 5 then done (-1) b1
             else if \<not> ok 6 then done (-1) b2
             else done 0 b2)"

text \<open>The queue is flushed under its mutex, after the threads have ended.\<close>

definition RTK_btservice_destroyed :: "vnd_lib \<Rightarrow> vnd_fault + vnd_lib" where
  "RTK_btservice_destroyed v =
     (case rtk_btservice v of
        None \<Rightarrow> Inr v
      | Some b \<Rightarrow> if cmdqueue_locked b then Inl Never_returns else Inr (v\<lparr>rtk_btservice := None\<rparr>))"

end
