(* ===== verification/RtkHeartbeat.thy ===== *)
theory RtkHeartbeat
  imports RtkService
begin

text \<open>
  The heartbeat of hardware/bt/src/rtk_heartbeat.c: once a second a vendor command is queued; the
  controller answers with a running number, and when the answers stay away the stack is told that the
  hardware has failed. Its completion callback is called through the command service
  (rtk_btservice.c).
\<close>

section \<open>The configuration file\<close>

text \<open>The line buffer is an array of characters that holds a terminated string; a pointer into it is
  an offset. \<open>isspace\<close> in the C locale.\<close>

definition isspace :: "u8 \<Rightarrow> bool" where
  "isspace c \<longleftrightarrow> c \<in> {32, 9, 10, 11, 12, 13}"

definition char_at :: "u8 list \<Rightarrow> nat \<Rightarrow> u8" where
  "char_at line i = byte_at line i"

definition strlen :: "u8 list \<Rightarrow> nat \<Rightarrow> nat" where
  "strlen line p = length (takeWhile (\<lambda>c. c \<noteq> 0) (drop p line))"

definition c_string :: "u8 list \<Rightarrow> nat \<Rightarrow> u8 list" where
  "c_string line p = takeWhile (\<lambda>c. c \<noteq> 0) (drop p line)"

fun trim_back :: "u8 list \<Rightarrow> nat \<Rightarrow> nat \<Rightarrow> nat" where
  "trim_back line p e = (if p < e \<and> isspace (char_at line e) then trim_back line p (e - 1) else e)"

declare trim_back.simps [simp del]

text \<open>\<open>rtk_trim\<close>: the end is sought from the length of the untrimmed string, that is, as many
  characters too far as were trimmed at the front. The terminator is then written there, in the array
  or behind it.\<close>

definition rtk_trim :: "u8 list \<Rightarrow> nat \<Rightarrow> vnd_fault + (nat \<times> u8 list)" where
  "rtk_trim line str =
     (let str_tmp = str + length (takeWhile isspace (drop str line)) in
      if char_at line str_tmp = 0 then Inr (str_tmp, line)
      else let e = trim_back line str_tmp (str_tmp + strlen line str - 1)
           in if e + 1 < length line then Inr (str_tmp, line[e + 1 := 0]) else Inl Buffer_overrun)"

text \<open>\<open>strtol(s, &endptr, 0)\<close> stored in an \<open>int\<close>: white space, a sign, a prefix that selects the base,
  and as many digits as follow; the value saturates at the range of a 64-bit \<open>long\<close>.\<close>

definition digit_of :: "nat \<Rightarrow> u8 \<Rightarrow> nat option" where
  "digit_of base c =
     (let d = (if 48 \<le> c \<and> c \<le> 57 then unat c - 48 else if 97 \<le> c \<and> c \<le> 122 then unat c - 87
               else if 65 \<le> c \<and> c \<le> 90 then unat c - 55 else 36)
      in if d < base then Some d else None)"

fun digits_value :: "nat \<Rightarrow> u8 list \<Rightarrow> int \<Rightarrow> int" where
  "digits_value base [] acc = acc"
| "digits_value base (c # cs) acc =
     (case digit_of base c of None \<Rightarrow> acc | Some d \<Rightarrow> digits_value base cs (acc * int base + int d))"

definition strtol :: "u8 list \<Rightarrow> int" where
  "strtol s =
     (let s = dropWhile isspace s;
          (neg, s) = (case s of c # r \<Rightarrow> if c = 45 then (True, r) else if c = 43 then (False, r) else (False, s) | [] \<Rightarrow> (False, s));
          n = (case s of
                 a # b # c # r \<Rightarrow>
                   if a = 48 \<and> (b = 120 \<or> b = 88) \<and> digit_of 16 c \<noteq> None then digits_value 16 (c # r) 0
                   else if a = 48 then digits_value 8 s 0 else digits_value 10 s 0
               | a # r \<Rightarrow> if a = 48 then digits_value 8 s 0 else digits_value 10 s 0
               | [] \<Rightarrow> 0);
          n = max (- (2 ^ 63)) (min (2 ^ 63 - 1) (if neg then - n else n))
      in sint (word_of_int n :: u32))"

definition key_timeout :: "u8 list" where
  "key_timeout = map (of_nat \<circ> of_char) ''HeartBeatTimeOut''"
definition key_log :: "u8 list" where
  "key_log = map (of_nat \<circ> of_char) ''HeartBeatLog''"

text \<open>The body of the loop of \<open>load_rtkbt_heartbeat_conf\<close>, on the line buffer and the two settings.\<close>

definition conf_line :: "u8 list \<times> vnd_lib \<Rightarrow> vnd_fault + (u8 list \<times> vnd_lib)" where
  "conf_line = (\<lambda>(line, v).
     bind (rtk_trim line 0) (\<lambda>(p, line).
       if char_at line p \<in> {0, 35, 91} then Inr (line, v)
       else let split = p + length (takeWhile (\<lambda>c. c \<noteq> 61) (c_string line p)) in
         if char_at line split \<noteq> 61 then Inr (line, v)
         else bind (rtk_trim (line[split := 0]) p) (\<lambda>(k, line).
           if c_string line k = key_timeout
           then bind (rtk_trim line (split + 1)) (\<lambda>(q, line). Inr (line, v\<lparr>heartBeatTimeout := strtol (c_string line q)\<rparr>))
           else bind (rtk_trim line p) (\<lambda>(k, line).
             if c_string line k = key_log
             then bind (rtk_trim line (split + 1)) (\<lambda>(q, line). Inr (line, v\<lparr>heartBeatLog := strtol (c_string line q)\<rparr>))
             else Inr (line, v)))))"

text \<open>The loop: the pointer its condition tests is set before it and never again. \<open>None\<close>: it does not
  end.\<close>

partial_function (option) conf_loop :: "bool \<Rightarrow> u8 list \<times> vnd_lib \<Rightarrow> (vnd_fault + vnd_lib) option" where
  "conf_loop ret_fgets s =
     (if ret_fgets
      then (case conf_line s of Inl e \<Rightarrow> Some (Inl e) | Inr s \<Rightarrow> conf_loop ret_fgets s)
      else Some (Inr (snd s)))"

text \<open>\<open>fgets(line, 1024, fp)\<close>: up to 1023 characters, to the end of the line; the rest of the array is
  what was on the stack, 0 here. \<open>heartbeat_conf\<close> is the content of the file, if it can be opened.\<close>

definition conf_first_line :: "u8 list \<Rightarrow> u8 list" where
  "conf_first_line file =
     (let n = length (takeWhile (\<lambda>c. c \<noteq> 10) file) + 1;
          l = take (min 1023 n) file
      in l @ replicate (1024 - length l) 0)"

definition load_rtkbt_heartbeat_conf :: "vnd_lib \<Rightarrow> vnd_fault + vnd_lib" where
  "load_rtkbt_heartbeat_conf v =
     (case heartbeat_conf v of
        None \<Rightarrow> Inr v
      | Some file \<Rightarrow>
          (case conf_loop (file \<noteq> []) (conf_first_line file, v) of None \<Rightarrow> Inl Never_returns | Some r \<Rightarrow> r))"

section \<open>Reporting a failure\<close>

text \<open>\<open>sprintf_s\<close> with \<open>%d\<close>.\<close>

fun decimal :: "nat \<Rightarrow> u8 list" where
  "decimal n = (if n < 10 then [of_nat (48 + n)] else decimal (n div 10) @ [of_nat (48 + n mod 10)])"

declare decimal.simps [simp del]

definition heartbeat_error_text :: "u8 \<Rightarrow> u16 \<Rightarrow> u16 \<Rightarrow> nat \<Rightarrow> u8 list" where
  "heartbeat_error_text status seqnum next_seqnum heartbeatCnt =
     map (of_nat \<circ> of_char) ''host stack: heartbeat hw error: '' @ decimal (unat status) @ [58] @
     decimal (unat seqnum) @ [58] @ decimal (unat next_seqnum) @ [58] @ decimal heartbeatCnt"

definition rtkbt_heartbeat_send_hw_error :: "vnd_lib \<Rightarrow> u8 \<Rightarrow> u16 \<Rightarrow> u16 \<Rightarrow> nat \<Rightarrow> vnd_fault + vnd_lib" where
  "rtkbt_heartbeat_send_hw_error v status seqnum next_seqnum heartbeatCnt =
     (if \<not> heartbeatFlag v then Inr v
      else let text = heartbeat_error_text status seqnum next_seqnum heartbeatCnt
           in bind (userial_recv_rawdata_hook v ([4, 0x57, of_nat (length text) + 2, 0x01] @ text @ [0]))
                (\<lambda>v. userial_recv_rawdata_hook v [4, 0x10, 0x01, 0xfc]))"

section \<open>Heartbeats\<close>

definition HCI_CMD_VNDR_HEARTBEAT :: u16 where "HCI_CMD_VNDR_HEARTBEAT = 0xFC94"

definition rtkbt_heartbeat_cmpl_cback :: "vnd_lib \<Rightarrow> u8 list \<Rightarrow> vnd_fault + vnd_lib" where
  "rtkbt_heartbeat_cmpl_cback v data =
     (if \<not> heartbeatFlag v then Inr v
      else let status = byte_at data 5; seqnum = stream_to_uint16 (byte_at data 6) (byte_at data 7) in
        if status = 0 \<and> seqnum = nextSeqNum v
        then Inr (v\<lparr>nextSeqNum := seqnum + 1, heartbeatCount := 0\<rparr>)
        else rtkbt_heartbeat_send_hw_error v status seqnum (nextSeqNum v) (heartbeatCount v))"

text \<open>Queueing a heartbeat and restarting the timer, as the two functions below end.\<close>

definition heartbeat_send :: "vnd_lib \<Rightarrow> vnd_fault + vnd_lib" where
  "heartbeat_send v =
     (case malloc (vheap v) 24 of
        (None, e) \<Rightarrow> Inr (v\<lparr>vheap := e\<rparr>)
      | (Some _, e) \<Rightarrow>
          bind (Rtk_Service_Vendorcmd_Hook (v\<lparr>vheap := e\<rparr>) HCI_CMD_VNDR_HEARTBEAT [] Heartbeat_Cmpl (-1))
            (\<lambda>v. Inr (poll_timer_flush v)))"

definition heartbeat_timed_out :: "vnd_lib \<Rightarrow> vnd_fault + vnd_lib" where
  "heartbeat_timed_out v =
     (if \<not> heartbeatFlag v then Inr v
      else let v = v\<lparr>heartbeatCount := heartbeatCount v + 1\<rparr> in
        if heartbeatCount v \<ge> 3
        then if cleanupFlag v = 1 then Inr v
             else rtkbt_heartbeat_send_hw_error v 0 0 (nextSeqNum v) (heartbeatCount v)
        else heartbeat_send v)"

definition rtkbt_heartbeat_beginTimer_func :: "vnd_lib \<Rightarrow> vnd_fault + vnd_lib" where
  "rtkbt_heartbeat_beginTimer_func v =
     (let v = (if heartBeatTimeout v \<noteq> -1 \<and> heartBeatLog v \<noteq> -1
               then poll_init v (word_of_int (heartBeatTimeout v))
               else poll_init (v\<lparr>heartBeatLog := 0\<rparr>) 1000)
      in heartbeat_send (poll_enable v True))"

definition Heartbeat_cleanup :: "vnd_lib \<Rightarrow> vnd_lib" where
  "Heartbeat_cleanup v =
     (if \<not> heartbeatFlag v then v
      else poll_cleanup (poll_enable (v\<lparr>heartbeatFlag := False, nextSeqNum := 1, heartbeatCount := 0, cleanupFlag := 1\<rparr>) False))"

definition Heartbeat_init :: "vnd_lib \<Rightarrow> vnd_fault + vnd_lib" where
  "Heartbeat_init v =
     bind (load_rtkbt_heartbeat_conf (Heartbeat_cleanup v))
       (\<lambda>v. let v = v\<lparr>heartbeatFlag := True, heartbeatCount := 0, cleanupFlag := 0\<rparr> in
            if get_heartbeat_from_hardware (hw_cb v) = 1 then rtkbt_heartbeat_beginTimer_func v
            else Inr (Heartbeat_cleanup v))"

section \<open>Answers to service commands\<close>

text \<open>\<open>Rtk_Service_Cmd_Event_Cback\<close>, called with the event that completes the current command.\<close>

definition Rtk_Service_Cmd_Event_Cback :: "vnd_lib \<Rightarrow> u8 list \<Rightarrow> vnd_fault + vnd_lib" where
  "Rtk_Service_Cmd_Event_Cback v event =
     (case rtk_btservice v of
        None \<Rightarrow> Inl Null_dereference
      | Some b \<Rightarrow>
          bind (case current_complete_cback b of
                  None \<Rightarrow> Inr v
                | Some Heartbeat_Cmpl \<Rightarrow> rtkbt_heartbeat_cmpl_cback v event
                | Some Client_Cmd \<Rightarrow> Inr (Rtk_Client_Cmd_Cback v b event))
            (\<lambda>v. Inr (v\<lparr>rtk_btservice := map_option (\<lambda>b. b\<lparr>current_complete_cback := None,
                timer_hcicmd_reply := snd (OsStopTimer (timer_hcicmd_reply b)), cmdsend_sem := cmdsend_sem b + 1\<rparr>)
                (rtk_btservice v)\<rparr>)))"

text \<open>\<open>hw_process_event\<close> of rtk_parse.c with the callback it may run; the callback acts on other parts of
  the state than the rest of that function. Events of the hardware configuration are left to
  \<open>hw_config_cback\<close>.\<close>

definition vnd_process_event :: "vnd_lib \<Rightarrow> u8 list \<Rightarrow> vnd_fault + vnd_lib" where
  "vnd_process_event v event =
     (let p = snd (hw_process_event (prof_cb v) event);
          called = drop (length (cbacks_called (prof_cb v))) (cbacks_called p);
          v = v\<lparr>prof_cb := p\<rparr>
      in if called = [Rtk_Service_Cmd_Event] then Rtk_Service_Cmd_Event_Cback v event else Inr v)"

text \<open>\<open>hcicmd_reply_timeout_handler\<close>.\<close>

definition hcicmd_reply_timeout_handler :: "vnd_lib \<Rightarrow> vnd_fault + vnd_lib" where
  "hcicmd_reply_timeout_handler v = Rtk_Service_Send_Hwerror_Event v"

end
