(* ===== verification/UserialHost.thy ===== *)
theory UserialHost
  imports RtkHeartbeat
begin

text \<open>
  The direction from the Bluetooth stack to the controller in hardware/bt/src/userial_vendor.c:
  packets are read from the stack's socket, some commands are changed on the way, and everything is
  sent over the UART, framed by the three-wire transport or as it is.
\<close>

section \<open>Commands changed on the way\<close>

text \<open>A 16-bit value stored in a command.\<close>

definition put16 :: "u8 list \<Rightarrow> nat \<Rightarrow> u16 \<Rightarrow> u8 list" where
  "put16 buf i w = buf[i := ucast w, i + 1 := ucast (drop_bit 8 w)]"

text \<open>The new interval and window of a scan, for the legacy and for the extended command. The last case
  of the latter stores the new interval in the window.\<close>

definition scan_params :: "u16 \<Rightarrow> u16 \<Rightarrow> vnd_fault + (u16 \<times> u16)" where
  "scan_params scan_int scan_win =
     (if scan_win > 20
      then Inr (if scan_int div scan_win > 2 then (of_nat (unat scan_int * 20 div unat scan_win), 20) else (40, 20))
      else if scan_win = scan_int then Inr (scan_int * 5 AND 0xFE, scan_win)
      else if scan_win = 0 then Inl Division_by_zero
      else Inr (if scan_int div scan_win \<le> 2 then (scan_int * 3 AND 0xFE, scan_win) else (scan_int, scan_win)))"

definition ext_scan_params :: "u16 \<Rightarrow> u16 \<Rightarrow> vnd_fault + (u16 \<times> u16)" where
  "ext_scan_params scan_int scan_win =
     (if scan_win > 20
      then Inr (if scan_int div scan_win > 2 then (of_nat (unat scan_int * 20 div unat scan_win), 20) else (40, 20))
      else if scan_win = scan_int then Inr (scan_int * 5 AND 0xFE, scan_win)
      else if scan_win = 0 then Inl Division_by_zero
      else Inr (if scan_int div scan_win \<le> 2 then (scan_int, scan_int * 3 AND 0xFE) else (scan_int, scan_win)))"

definition HCI_PROTO_VERSION_4_2 :: u8 where "HCI_PROTO_VERSION_4_2 = 0x08"

text \<open>\<open>userial_handle_cmd(&h4_read_buffer[1], ...)\<close>: position \<open>i\<close> of \<open>recv_buffer\<close> is position \<open>i + 1\<close>
  of the array.\<close>

definition userial_handle_cmd :: "vnd_lib \<Rightarrow> vnd_fault + vnd_lib" where
  "userial_handle_cmd v =
     (let buf = h4_read_buffer v;
          opcode = uint16_at buf 1;
          adv = rtkbt_adv_con (recv_vars v);
          set_adv = (\<lambda>adv. v\<lparr>recv_vars := (recv_vars v)\<lparr>rtkbt_adv_con := adv\<rparr>\<rparr>);
          old = \<not> rv_hci_version (rtkbt_version (recv_vars v)) > HCI_PROTO_VERSION_4_2
      in if opcode = 0x200B then
           bind (scan_params (uint16_at buf 5) (uint16_at buf 7))
             (\<lambda>(i, w). Inr (v\<lparr>h4_read_buffer := put16 (put16 buf 5 i) 7 w\<rparr>))
         else if opcode = 0x2041 then
           bind (ext_scan_params (uint16_at buf 8) (uint16_at buf 10))
             (\<lambda>(i, w). Inr (v\<lparr>h4_read_buffer := put16 (put16 buf 8 i) 10 w\<rparr>))
         else if opcode = 0x0C26 then
           (let v = v\<lparr>voice_settings := uint16_at buf 4\<rparr>
            in Inr (if rtkbt_transtype v AND RTKBT_TRANS_USB \<noteq> 0
                    then v\<lparr>iso_cfg := iso_cfg v @ [voice_settings v]\<rparr> else v))
         else if opcode = 0x0C01 then
           Heartbeat_init (if rtk_parse_manager v then v\<lparr>prof_cb := rtk_set_bt_on (prof_cb v) 1\<rparr> else v)
         else if opcode = 0x0409 then
           Inr (if byte_at buf 10 = 0x01 then v\<lparr>h4_read_buffer := buf[10 := 0x00]\<rparr> else v)
         else if opcode = 0x2006 then
           Inr (if old then set_adv (adv\<lparr>adverting_type := byte_at buf 8\<rparr>) else v)
         else if opcode = 0x200A then
           Inr (if old then
                  if byte_at buf 3 = 0x01 then set_adv (adv\<lparr>adverting_start := True\<rparr>)
                  else if byte_at buf 3 = 0x00
                    then set_adv (adv\<lparr>adverting_type := 0, adverting_enable := False, adverting_start := False\<rparr>)
                  else v
                else v)
         else if opcode = 0x200D then
           if old \<and> adverting_enable adv \<and> adverting_type adv \<in> {0x00, 0x01, 0x04}
           then userial_send_cmd_to_controller (set_adv (adv\<lparr>adverting_enable := False\<rparr>))
                  [0x01, 0x0A, 0x20, 0x01, 0x00]
           else Inr v
         else Inr v)"

section \<open>Reading from the stack\<close>

text \<open>\<open>read(vnd_userial.uart_fd[1], p, n)\<close>: an error, or the bytes read, none of them at the end of the
  stream.\<close>

definition host_read_op :: "nat \<Rightarrow> vnd_lib \<Rightarrow> host_read \<times> vnd_lib" where
  "host_read_op n v =
     (case host_in v of
        [] \<Rightarrow> (Read_data [], v)
      | Read_error # r \<Rightarrow> (Read_error, v\<lparr>host_in := r\<rparr>)
      | Read_data d # r \<Rightarrow>
          (Read_data (take n d), v\<lparr>host_in := (if length d \<le> n then r else Read_data (drop n d) # r)\<rparr>))"

text \<open>The loops that read a header and a content: until \<open>packet_bytes_need\<close> bytes have been read, or
  nothing more comes. The bytes go behind the type byte, wherever the array ends.\<close>

function h4_fill :: "vnd_lib \<Rightarrow> vnd_fault + (bool \<times> vnd_lib)" where
  "h4_fill v =
     (if packet_bytes_need v = 0 then Inr (True, v)
      else case host_read_op (packet_bytes_need v) v of
             (Read_error, v) \<Rightarrow> Inr (False, v)
           | (Read_data d, v) \<Rightarrow>
               if d = [] then Inr (False, v)
               else (case array_write (h4_read_buffer v) (h4_read_length v + 1) d of
                       Inl e \<Rightarrow> Inl e
                     | Inr buf \<Rightarrow> h4_fill (v\<lparr>h4_read_buffer := buf, h4_read_length := h4_read_length v + length d,
                                             packet_bytes_need := packet_bytes_need v - length d\<rparr>)))"
  by pat_completeness auto
termination
  by (relation "measure packet_bytes_need") (auto simp: host_read_op_def split: list.splits host_read.splits)

declare h4_fill.simps [simp del]

text \<open>\<open>case RTKBT_PACKET_END\<close>. \<open>type\<close> is the local variable of the function, which is set only by a
  call that reads the type of the packet itself.\<close>

definition h4_end :: "u8 \<Rightarrow> vnd_lib \<Rightarrow> vnd_fault + vnd_lib" where
  "h4_end type v =
     (if current_type v = DATA_TYPE_COMMAND then
        bind (userial_handle_cmd v) (\<lambda>v.
          let packet = take (h4_read_length v + 1) (h4_read_buffer v); opcode = uint16_at packet 1 in
          bind (if rtkbt_transtype v AND RTKBT_TRANS_H4 \<noteq> 0
                then bind (h4_int_transmit_data v packet) (\<lambda>(n, v). Inr v)
                else if opcode = HCI_VSC_H5_INIT then h5_call v (snd (hci_h5_send_sync_cmd (h5_cb v) opcode))
                else h5_call v (snd (hci_h5_send_cmd (h5_cb v) type (drop 1 packet))))
            (\<lambda>v. userial_enqueue_coex_rawdata v packet False))
      else let packet = take (h4_read_length v + 1) (h4_read_buffer v) in
        if current_type v = DATA_TYPE_ACL then userial_send_acl_to_controller v packet
        else if current_type v = DATA_TYPE_SCO then userial_send_sco_to_controller v packet
        else userial_enqueue_coex_rawdata v packet False)"

definition h4_reset :: "vnd_lib \<Rightarrow> vnd_lib" where
  "h4_reset v = v\<lparr>packet_recv_state := RTKBT_PACKET_IDLE, packet_bytes_need := 0, current_type := 0, h4_read_length := 0\<rparr>"

definition h4_finish :: "u8 \<Rightarrow> vnd_lib \<Rightarrow> vnd_fault + vnd_lib" where
  "h4_finish type v = bind (h4_end type v) (\<lambda>v. Inr (h4_reset v))"

definition h4_content :: "u8 \<Rightarrow> vnd_lib \<Rightarrow> vnd_fault + vnd_lib" where
  "h4_content type v =
     bind (h4_fill v) (\<lambda>(filled, v).
       if filled then h4_finish type (v\<lparr>packet_recv_state := RTKBT_PACKET_END\<rparr>) else Inr v)"

definition h4_content_length :: "u8 \<Rightarrow> u8 list \<Rightarrow> nat" where
  "h4_content_length type buf =
     (if type = DATA_TYPE_ACL then unat (uint16_at buf 3)
      else if type = DATA_TYPE_EVENT then unat (byte_at buf 2) else unat (byte_at buf 3))"

definition h4_header :: "u8 \<Rightarrow> vnd_lib \<Rightarrow> vnd_fault + vnd_lib" where
  "h4_header type v =
     bind (h4_fill v) (\<lambda>(filled, v).
       if filled
       then h4_content type (v\<lparr>packet_recv_state := RTKBT_PACKET_CONTENT,
              packet_bytes_need := h4_content_length (current_type v) (h4_read_buffer v)\<rparr>)
       else Inr v)"

definition h4_type :: "u8 \<Rightarrow> vnd_lib \<Rightarrow> vnd_fault + vnd_lib" where
  "h4_type type v =
     h4_header type (v\<lparr>packet_bytes_need := hci_preamble_sizes (current_type v), h4_read_length := 0,
                       packet_recv_state := RTKBT_PACKET_HEADER\<rparr>)"

text \<open>\<open>case RTKBT_PACKET_IDLE\<close>: a byte that is no type of this direction fails the assertion.\<close>

definition h4_idle :: "vnd_lib \<Rightarrow> vnd_fault + vnd_lib" where
  "h4_idle v =
     (case host_read_op 1 (v\<lparr>packet_bytes_need := 1\<rparr>) of
        (Read_error, v) \<Rightarrow> Inr v
      | (Read_data [], v) \<Rightarrow> Inr v
      | (Read_data (type # _), v) \<Rightarrow>
          if type < DATA_TYPE_COMMAND \<or> type > DATA_TYPE_SCO then Inl Assertion_failed
          else bind (array_write (h4_read_buffer v) 0 [type])
            (\<lambda>buf. h4_type type (v\<lparr>packet_bytes_need := 0, packet_recv_state := RTKBT_PACKET_TYPE,
                                   current_type := type, h4_read_buffer := buf\<rparr>)))"

definition userial_recv_H4_rawdata :: "vnd_lib \<Rightarrow> vnd_fault + vnd_lib" where
  "userial_recv_H4_rawdata v =
     (case packet_recv_state v of
        RTKBT_PACKET_IDLE \<Rightarrow> h4_idle v
      | RTKBT_PACKET_TYPE \<Rightarrow> h4_type 0 v
      | RTKBT_PACKET_HEADER \<Rightarrow> h4_header 0 v
      | RTKBT_PACKET_CONTENT \<Rightarrow> h4_content 0 v
      | RTKBT_PACKET_END \<Rightarrow> h4_finish 0 v)"

end
