(* ===== verification/UserialCtrl.thy ===== *)
theory UserialCtrl
  imports UserialCoex UserialHost
begin

text \<open>
  The direction from the controller to the Bluetooth stack in hardware/bt/src/userial_vendor.c: the
  bytes of the UART, or the packets of the three-wire transport, are put together to packets to watch
  for some events, the number of commands the controller accepts is set to one in the events that
  carry it, and everything is passed to the stack and copied for the coexistence thread.
\<close>

section \<open>Events\<close>

definition userial_handle_event :: "recv_vars_t \<Rightarrow> recv_vars_t" where
  "userial_handle_event r =
     (let p_data = received_resvered_header r; adv = rtkbt_adv_con r in
      if byte_at p_data 0 = HCI_COMMAND_COMPLETE_EVT then
        let opcode = uint16_at p_data 3 in
        if opcode = 0x1001
        then r\<lparr>rtkbt_version := \<lparr>rv_hci_version = byte_at p_data 6, rv_hci_revision = uint16_at p_data 7,
                 rv_lmp_version = byte_at p_data 9, rv_manufacturer = uint16_at p_data 10,
                 rv_lmp_subversion = uint16_at p_data 12\<rparr>\<rparr>
        else if opcode = 0x200A then
          if rv_hci_version (rtkbt_version r) > HCI_PROTO_VERSION_4_2 then r
          else if adverting_start adv \<and> byte_at p_data 5 = 0
          then r\<lparr>rtkbt_adv_con := adv\<lparr>adverting_enable := True, adverting_start := False\<rparr>\<rparr> else r
        else r
      else r)"

section \<open>Assembly\<close>

definition recv_reset :: "recv_vars_t \<Rightarrow> recv_vars_t" where
  "recv_reset r = r\<lparr>received_packet_state := RTKBT_PACKET_IDLE, received_packet_bytes_need := 0,
     recv_packet_current_type := 0, received_resvered_length := 0\<rparr>"

definition recv_end :: "recv_vars_t \<Rightarrow> recv_vars_t" where
  "recv_end r = recv_reset (if recv_packet_current_type r = DATA_TYPE_EVENT then userial_handle_event r else r)"

definition HCI_COMMAND_STATUS_EVT :: u8 where "HCI_COMMAND_STATUS_EVT = 0x0F"

text \<open>The number of allowed commands is overwritten in the buffer of the caller, which is passed on
  afterwards; whether the byte belongs to this packet is not looked at.\<close>

definition recv_patch :: "recv_vars_t \<Rightarrow> u8 list \<Rightarrow> u8 list" where
  "recv_patch r p_data =
     (let len = received_resvered_length r; event = byte_at (received_resvered_header r) 0 in
      if recv_packet_current_type r = DATA_TYPE_EVENT then
        if event = HCI_COMMAND_COMPLETE_EVT then if len = 2 \<and> 1 \<le> length p_data then p_data[0 := 1] else p_data
        else if event = HCI_COMMAND_STATUS_EVT then
          if len < 4 \<and> 4 - len \<le> length p_data then p_data[4 - len - 1 := 1] else p_data
        else p_data
      else p_data)"

text \<open>The cases of the \<open>switch\<close> of \<open>userial_handle_recv_data\<close>. The result is the number of bytes taken,
  counted from \<open>total_length\<close>, the bytes of the caller's buffer with the change, and the variables.\<close>

definition recv_content :: "recv_vars_t \<Rightarrow> u8 list \<Rightarrow> nat \<Rightarrow> vnd_fault + (nat \<times> u8 list \<times> recv_vars_t)" where
  "recv_content r p_data total_length =
     (let p_data = recv_patch r p_data; need = received_packet_bytes_need r; len = received_resvered_length r in
      if need \<le> length p_data
      then bind (array_write (received_resvered_header r) len (take need p_data))
        (\<lambda>buf. Inr (total_length - (length p_data - need), p_data,
           recv_end (r\<lparr>received_resvered_header := buf, received_resvered_length := len + need,
                       received_packet_bytes_need := 0, received_packet_state := RTKBT_PACKET_END\<rparr>)))
      else bind (array_write (received_resvered_header r) len p_data)
        (\<lambda>buf. Inr (total_length, p_data,
           r\<lparr>received_resvered_header := buf, received_resvered_length := len + length p_data,
             received_packet_bytes_need := need - length p_data\<rparr>)))"

definition recv_header :: "recv_vars_t \<Rightarrow> u8 list \<Rightarrow> nat \<Rightarrow> vnd_fault + (nat \<times> u8 list \<times> recv_vars_t)" where
  "recv_header r p_data total_length =
     (let need = received_packet_bytes_need r; len = received_resvered_length r in
      if need \<le> length p_data
      then bind (array_write (received_resvered_header r) len (take need p_data))
        (\<lambda>buf. bind (recv_content
             (r\<lparr>received_resvered_header := buf, received_resvered_length := len + need,
                received_packet_state := RTKBT_PACKET_CONTENT,
                received_packet_bytes_need := coex_content_length (recv_packet_current_type r) buf\<rparr>)
             (drop need p_data) total_length)
           (\<lambda>(n, q, r). Inr (n, take need p_data @ q, r)))
      else bind (array_write (received_resvered_header r) len p_data)
        (\<lambda>buf. Inr (total_length, p_data,
           r\<lparr>received_resvered_header := buf, received_resvered_length := len + length p_data,
             received_packet_bytes_need := need - length p_data\<rparr>)))"

definition recv_type :: "recv_vars_t \<Rightarrow> u8 list \<Rightarrow> nat \<Rightarrow> vnd_fault + (nat \<times> u8 list \<times> recv_vars_t)" where
  "recv_type r p_data total_length =
     recv_header (r\<lparr>received_packet_bytes_need := hci_preamble_sizes (recv_packet_current_type r),
                    received_resvered_length := 0, received_packet_state := RTKBT_PACKET_HEADER\<rparr>) p_data total_length"

text \<open>A byte that is no type fails the assertion. The empty buffer returns at once.\<close>

definition userial_handle_recv_data :: "recv_vars_t \<Rightarrow> u8 list \<Rightarrow> vnd_fault + (nat \<times> u8 list \<times> recv_vars_t)" where
  "userial_handle_recv_data r recv_buffer =
     (let total_length = length recv_buffer in
      case recv_buffer of
        [] \<Rightarrow> Inr (total_length, [], r)
      | type # p_data \<Rightarrow>
          (case received_packet_state r of
             RTKBT_PACKET_IDLE \<Rightarrow>
               if type < DATA_TYPE_ACL \<or> type > DATA_TYPE_EVENT then Inl Assertion_failed
               else bind (recv_type (r\<lparr>received_packet_bytes_need := 1, recv_packet_current_type := type,
                                       received_packet_state := RTKBT_PACKET_TYPE\<rparr>) p_data total_length)
                      (\<lambda>(n, q, r). Inr (n, type # q, r))
           | RTKBT_PACKET_TYPE \<Rightarrow> recv_type r recv_buffer total_length
           | RTKBT_PACKET_HEADER \<Rightarrow> recv_header r recv_buffer total_length
           | RTKBT_PACKET_CONTENT \<Rightarrow> recv_content r recv_buffer total_length
           | RTKBT_PACKET_END \<Rightarrow> Inr (0, recv_buffer, recv_end r)))"

section \<open>The loops over a buffer\<close>

text \<open>A call takes everything or completes a packet, and takes at least the type of a packet.\<close>

definition recv_takes :: "nat \<Rightarrow> nat \<Rightarrow> vnd_fault + (nat \<times> u8 list \<times> recv_vars_t) \<Rightarrow> bool" where
  "recv_takes all left x \<longleftrightarrow>
     (\<forall>n q r. x = Inr (n, q, r) \<longrightarrow> all - left \<le> n \<and> (n = all \<or> received_packet_state r = RTKBT_PACKET_IDLE))"

lemma recv_end_idle [simp]: "received_packet_state (recv_end r) = RTKBT_PACKET_IDLE"
  by (simp add: recv_end_def recv_reset_def)

lemma length_recv_patch [simp]: "length (recv_patch r p) = length p"
  by (simp add: recv_patch_def Let_def)

lemma recv_takes_mono: "recv_takes all l x \<Longrightarrow> l \<le> l' \<Longrightarrow> recv_takes all l' x"
  by (force simp: recv_takes_def)

lemma recv_takes_bind:
  "(\<And>y. recv_takes all l (f y)) \<Longrightarrow> recv_takes all l (bind z f)"
  "recv_takes all l x \<Longrightarrow> recv_takes all l (bind x (\<lambda>(n, q, r). Inr (n, g q, r)))"
  by (cases z; auto simp: recv_takes_def) (cases x; auto simp: recv_takes_def)

lemma takes_recv_content: "recv_takes all (length p) (recv_content r p all)"
  by (auto simp: recv_content_def Let_def recv_takes_def bind_eq_Inr)

lemma takes_recv_header: "recv_takes all (length p) (recv_header r p all)"
proof (cases "received_packet_bytes_need r \<le> length p")
  case True
  have "recv_takes all (length p) (recv_content w (drop n p) all)" for w n
    by (rule recv_takes_mono [OF takes_recv_content]) simp
  then have "recv_takes all (length p) (bind (recv_content w (drop n p) all) (\<lambda>(n, q, r). Inr (n, g q, r)))" for w n g
    by (rule recv_takes_bind(2))
  then show ?thesis
    using True by (simp add: recv_header_def Let_def) (rule recv_takes_bind(1))
next
  case False
  then show ?thesis by (auto simp: recv_header_def Let_def recv_takes_def bind_eq_Inr)
qed

lemma takes_recv_type: "recv_takes all (length p) (recv_type r p all)"
  by (simp add: recv_type_def takes_recv_header)

lemma takes_recv:
  "recv_takes (length p) (if received_packet_state r = RTKBT_PACKET_IDLE then length p - 1 else length p)
     (userial_handle_recv_data r p)"
proof (cases p)
  case (Cons t q)
  show ?thesis
  proof (cases "received_packet_state r")
    case RTKBT_PACKET_IDLE
    then show ?thesis
      using Cons recv_takes_bind(2) [OF takes_recv_type, of "length p" q]
      by (simp add: userial_handle_recv_data_def Let_def recv_takes_def [of _ _ "Inl _"])
  qed (use Cons takes_recv_type [of "length p" p r] takes_recv_header [of "length p" p r]
        takes_recv_content [of "length p" p r] in
      \<open>simp_all add: userial_handle_recv_data_def Let_def recv_takes_def [of _ _ "Inr _"]\<close>)
qed (simp add: userial_handle_recv_data_def recv_takes_def)

lemma recv_handler_takes:
  assumes "userial_handle_recv_data r p = Inr (n, q, r')" and "n < length p"
  shows "received_packet_state r' = RTKBT_PACKET_IDLE"
    and "received_packet_state r = RTKBT_PACKET_IDLE \<Longrightarrow> 0 < n"
  using assms takes_recv [of p r] by (force simp: recv_takes_def)+

lemma recv_content_length: "recv_content r p all = Inr (n, q, r') \<Longrightarrow> length q = length p"
  by (auto simp: recv_content_def Let_def bind_eq_Inr split: if_splits)

lemma recv_header_length: "recv_header r p all = Inr (n, q, r') \<Longrightarrow> length q = length p"
  by (auto simp: recv_header_def Let_def bind_eq_Inr dest!: recv_content_length split: if_splits)

lemma recv_handler_length: "userial_handle_recv_data r p = Inr (n, q, r') \<Longrightarrow> length q = length p"
  by (auto simp: userial_handle_recv_data_def recv_type_def Let_def bind_eq_Inr
      dest!: recv_header_length recv_content_length split: if_splits list.splits rtkbt_packet.splits)

text \<open>The \<open>do\<close> loops of \<open>userial_recv_uart_rawdata\<close> and \<open>h5_data_ready_cb\<close>. The first goes on to the end of the
  buffer; the second only while \<open>thread_running\<close>, and it stops one byte before the end, since it counts the
  bytes of the packet and not its type.\<close>

function recv_loop :: "bool \<Rightarrow> nat \<Rightarrow> recv_vars_t \<Rightarrow> u8 list \<Rightarrow> vnd_fault + (u8 list \<times> recv_vars_t)" where
  "recv_loop go spare r data =
     (case userial_handle_recv_data r data of
        Inl e \<Rightarrow> Inl e
      | Inr (n, data', r) \<Rightarrow>
          if go \<and> n < length data - spare
          then bind (recv_loop go spare r (drop n data')) (\<lambda>(q, r). Inr (take n data' @ q, r))
          else Inr (data', r))"
  by pat_completeness auto

termination
proof (relation "measures [\<lambda>(go, spare, r, data). length data,
    \<lambda>(go, spare, r, data). if received_packet_state r = RTKBT_PACKET_IDLE then 0 else 1]")
  fix go spare r data x n y data' r'
  assume a: "userial_handle_recv_data r data = Inr x" "(n, y) = x" "(data', r') = y" "go \<and> n < length data - spare"
  then have h: "userial_handle_recv_data r data = Inr (n, data', r')" by auto
  have "n < length data" using a by linarith
  with a recv_handler_takes [OF h] recv_handler_length [OF h]
  show "((go, spare, r', drop n data'), go, spare, r, data) \<in> measures [\<lambda>(go, spare, r, data). length data,
    \<lambda>(go, spare, r, data). if received_packet_state r = RTKBT_PACKET_IDLE then 0 else 1]" by (cases n) auto
qed simp

declare recv_loop.simps [simp del]

lemma recv_loop_length: "recv_loop go spare r p = Inr (q, r') \<Longrightarrow> length q = length p"
proof (induction go spare r p arbitrary: q r' rule: recv_loop.induct)
  case (1 go spare r p)
  obtain n p' w where h: "userial_handle_recv_data r p = Inr (n, p', w)"
    using 1(2) by (cases "userial_handle_recv_data r p") (auto simp: recv_loop.simps [of go spare r p])
  note len = recv_handler_length [OF h]
  show ?case
  proof (cases "go \<and> n < length p - spare")
    case True
    then obtain q' where "recv_loop go spare w (drop n p') = Inr (q', r')" "q = take n p' @ q'"
      using 1(2) h unfolding recv_loop.simps [of go spare r p] by (auto simp: bind_eq_Inr)
    then show ?thesis using 1(1) [OF h refl refl True] True len by simp
  next
    case False
    then show ?thesis using 1(2) h len by (simp add: recv_loop.simps [of go spare r p] split: if_splits)
  qed
qed

section \<open>To the stack\<close>

definition userial_recv_uart_rawdata :: "u8 list \<Rightarrow> vnd_lib \<Rightarrow> vnd_fault + vnd_lib" where
  "userial_recv_uart_rawdata buffer v =
     bind (recv_loop True 0 (recv_vars v) buffer) (\<lambda>(buffer, r).
       let (sent, ws) = (if thread_running v then write_loop (host_wr v) buffer else ([], host_wr v));
           v = v\<lparr>recv_vars := r, host_out := host_out v @ sent, host_wr := ws\<rparr>
       in if buffer \<noteq> [] then userial_enqueue_coex_rawdata v buffer True else Inr v)"

text \<open>\<open>h5_data_ready_cb\<close>: the packet is read into an array of 1028 bytes behind its type.\<close>

definition h5_data_ready_cb :: "u8 \<Rightarrow> u32 \<Rightarrow> vnd_lib \<Rightarrow> vnd_fault + vnd_lib" where
  "h5_data_ready_cb type total_length v =
     (case hci_h5_int_read_data (h5_cb v) total_length of
        (None, h) \<Rightarrow> Inl Assertion_failed
      | (Some (bytes, n), h) \<Rightarrow>
          if length bytes > 1028 - 1 then Inl Buffer_overrun
          else bind (recv_loop (thread_running v) 1 (recv_vars v) (type # bytes)) (\<lambda>(buffer, r).
            let (sent, ws) = write_loop (host_wr v) buffer;
                v = v\<lparr>h5_cb := h, recv_vars := r, host_out := host_out v @ sent, host_wr := ws\<rparr>
            in userial_enqueue_coex_rawdata v buffer True))"

text \<open>One round of the transport's thread that delivers packets, with the callback it makes; \<open>None\<close> while it
  waits.\<close>

definition vnd_data_ready_round :: "vnd_lib \<Rightarrow> (vnd_fault + vnd_lib) option" where
  "vnd_data_ready_round v =
     (case data_ready_round (h5_cb v) of
        None \<Rightarrow> None
      | Some (False, h) \<Rightarrow> Some (Inr (v\<lparr>h5_cb := h\<rparr>))
      | Some (True, h) \<Rightarrow>
          (case last (data_ready_calls h) of
             (type, total_length) \<Rightarrow> Some (h5_data_ready_cb type total_length (v\<lparr>h5_cb := h\<rparr>))))"

text \<open>What \<open>userial_recv_uart_thread\<close> does with the bytes of a \<open>read\<close> on the UART.\<close>

definition userial_recv_uart :: "u8 list \<Rightarrow> vnd_lib \<Rightarrow> vnd_fault + vnd_lib" where
  "userial_recv_uart read_buffer v =
     (if read_buffer = [] then Inr v
      else if rtkbt_transtype v AND RTKBT_TRANS_H5 \<noteq> 0
      then h5_call v (snd (hci_h5_receive_msg (h5_cb v) read_buffer))
      else userial_recv_uart_rawdata read_buffer v)"

end
