(* ===== verification/UserialStream.thy ===== *)
theory UserialStream
  imports UserialCtrl
begin

text \<open>
  The assembler of the direction from the controller to the stack (\<open>userial_handle_recv_data\<close> of
  hardware/bt/src/userial_vendor.c) byte by byte: for a stream of well-formed packets, how the stream
  is cut in buffers makes no difference, neither for the events seen nor for the bytes passed on.
\<close>

section \<open>Streams of packets\<close>

text \<open>An independent reader of a stream: between packets, in a header with the bytes read so far, or
  in a content with the number of bytes still to come. The events whose number of allowed commands is
  overwritten have to contain that number.\<close>

datatype scan = Idle | Hdr u8 "u8 list" | Body nat

definition header_room :: "u8 \<Rightarrow> u8 list \<Rightarrow> bool" where
  "header_room t h \<longleftrightarrow> (t = DATA_TYPE_EVENT \<longrightarrow>
     (byte_at h 0 = HCI_COMMAND_COMPLETE_EVT \<longrightarrow> 1 \<le> coex_content_length t h) \<and>
     (byte_at h 0 = HCI_COMMAND_STATUS_EVT \<longrightarrow> 2 \<le> coex_content_length t h))"

fun scan_next :: "scan \<Rightarrow> u8 \<Rightarrow> scan option" where
  "scan_next Idle b = (if b \<in> {DATA_TYPE_ACL, DATA_TYPE_SCO, DATA_TYPE_EVENT} then Some (Hdr b []) else None)"
| "scan_next (Hdr t h) b =
     (let h = h @ [b] in
      if length h < hci_preamble_sizes t then Some (Hdr t h)
      else if header_room t h then Some (if coex_content_length t h = 0 then Idle else Body (coex_content_length t h))
      else None)"
| "scan_next (Body n) b = Some (if n \<le> 1 then Idle else Body (n - 1))"

fun scan_ok :: "scan \<Rightarrow> u8 list \<Rightarrow> bool" where
  "scan_ok s [] = True"
| "scan_ok s (b # bs) = (case scan_next s b of None \<Rightarrow> False | Some s \<Rightarrow> scan_ok s bs)"

lemma scan_ok_prefix: "scan_ok s (bs @ cs) \<Longrightarrow> scan_ok s bs"
  by (induction bs arbitrary: s) (auto split: option.splits)

section \<open>One call\<close>

definition recv_begin :: "u8 \<Rightarrow> recv_vars_t \<Rightarrow> recv_vars_t" where
  "recv_begin t r = r\<lparr>recv_packet_current_type := t, received_packet_bytes_need := hci_preamble_sizes t,
     received_resvered_length := 0, received_packet_state := RTKBT_PACKET_HEADER\<rparr>"

definition recv_header_done :: "u8 list \<Rightarrow> recv_vars_t \<Rightarrow> recv_vars_t" where
  "recv_header_done buf r =
     r\<lparr>received_resvered_header := buf,
       received_resvered_length := received_resvered_length r + received_packet_bytes_need r,
       received_packet_state := RTKBT_PACKET_CONTENT,
       received_packet_bytes_need := coex_content_length (recv_packet_current_type r) buf\<rparr>"

text \<open>The cases of the \<open>switch\<close> with the bytes passed on and the bytes that are left.\<close>

definition content_next :: "u8 list \<Rightarrow> recv_vars_t \<Rightarrow> vnd_fault + (u8 list \<times> u8 list \<times> recv_vars_t)" where
  "content_next p r =
     (let q = recv_patch r p; need = received_packet_bytes_need r; len = received_resvered_length r in
      bind (array_write (received_resvered_header r) len (take need q))
        (\<lambda>buf. Inr (take need q, drop need q,
           if need \<le> length p
           then recv_end (r\<lparr>received_resvered_header := buf, received_resvered_length := len + need,
                  received_packet_bytes_need := 0, received_packet_state := RTKBT_PACKET_END\<rparr>)
           else r\<lparr>received_resvered_header := buf, received_resvered_length := len + length p,
                  received_packet_bytes_need := need - length p\<rparr>)))"

definition header_next :: "u8 list \<Rightarrow> recv_vars_t \<Rightarrow> vnd_fault + (u8 list \<times> u8 list \<times> recv_vars_t)" where
  "header_next p r =
     (let need = received_packet_bytes_need r; len = received_resvered_length r in
      bind (array_write (received_resvered_header r) len (take need p))
        (\<lambda>buf. if need \<le> length p
               then bind (content_next (drop need p) (recv_header_done buf r)) (\<lambda>(e, q, r). Inr (take need p @ e, q, r))
               else Inr (p, [], r\<lparr>received_resvered_header := buf, received_resvered_length := len + length p,
                                  received_packet_bytes_need := need - length p\<rparr>)))"

definition recv_next :: "u8 list \<Rightarrow> recv_vars_t \<Rightarrow> vnd_fault + (u8 list \<times> u8 list \<times> recv_vars_t)" where
  "recv_next p r =
     (case received_packet_state r of
        RTKBT_PACKET_IDLE \<Rightarrow>
          (if hd p < DATA_TYPE_ACL \<or> hd p > DATA_TYPE_EVENT then Inl Assertion_failed
           else bind (header_next (tl p) (recv_begin (hd p) r)) (\<lambda>(e, q, r). Inr (hd p # e, q, r)))
      | RTKBT_PACKET_HEADER \<Rightarrow> header_next p r
      | _ \<Rightarrow> content_next p r)"

definition taken :: "nat \<times> u8 list \<times> recv_vars_t \<Rightarrow> vnd_fault + (u8 list \<times> u8 list \<times> recv_vars_t)" where
  "taken = (\<lambda>(n, q, r). Inr (take n q, drop n q, r))"

definition taken_from :: "nat \<Rightarrow> nat \<times> u8 list \<times> recv_vars_t \<Rightarrow> vnd_fault + (u8 list \<times> u8 list \<times> recv_vars_t)" where
  "taken_from k = (\<lambda>(n, q, r). Inr (take (n - k) q, drop (n - k) q, r))"

lemma content_taken: "bind (recv_content r p (k + length p)) (taken_from k) = content_next p r"
proof -
  have "k + length p - (length p - n) - k = n" if "n \<le> length p" for n using that by simp
  then show ?thesis
    by (simp add: recv_content_def content_next_def Let_def taken_from_def bind_assoc)
qed

lemma header_taken: "bind (recv_header r p (k + length p)) (taken_from k) = header_next p r"
proof (cases "received_packet_bytes_need r \<le> length p")
  case True
  let ?n = "received_packet_bytes_need r"
  have "bind (bind (recv_content w (drop ?n p) (k + length p)) (\<lambda>(n, q, r). Inr (n, take ?n p @ q, r))) (taken_from k) =
      bind (content_next (drop ?n p) w) (\<lambda>(e, q, r). Inr (take ?n p @ e, q, r))" for w
  proof -
    have c: "content_next (drop ?n p) w = bind (recv_content w (drop ?n p) (k + length p)) (taken_from (k + ?n))"
      using content_taken [of w "drop ?n p" "k + ?n"] True by simp
    have t: "k + ?n \<le> n" if "recv_content w (drop ?n p) (k + length p) = Inr (n, q, r')" for n q r'
      using takes_recv_content [of "k + length p" "drop ?n p" w] that True by (force simp: recv_takes_def)
    show ?thesis
    proof (cases "recv_content w (drop ?n p) (k + length p)")
      case (Inr x)
      obtain n q r' where x: "x = (n, q, r')" by (cases x)
      then obtain m where "n = k + ?n + m" using t Inr le_Suc_ex by metis
      then show ?thesis unfolding c using Inr x True by (simp add: taken_from_def)
    qed (simp add: c)
  qed
  then show ?thesis
    using True by (simp add: recv_header_def header_next_def recv_header_done_def Let_def bind_assoc)
next
  case False
  then show ?thesis by (simp add: recv_header_def header_next_def Let_def taken_from_def bind_assoc)
qed

text \<open>Between calls: idle, or in a header or content of which at least one byte is missing. In the content of an
  event the header has been read, and the number to be overwritten is still to come or has been.\<close>

definition recv_wf :: "recv_vars_t \<Rightarrow> bool" where
  "recv_wf r \<longleftrightarrow>
     received_packet_state r = RTKBT_PACKET_IDLE \<or>
     0 < received_packet_bytes_need r \<and> received_resvered_length r \<le> length (received_resvered_header r) \<and>
     (received_packet_state r = RTKBT_PACKET_HEADER \<and>
        recv_packet_current_type r \<in> {DATA_TYPE_ACL, DATA_TYPE_SCO, DATA_TYPE_EVENT} \<and>
        received_resvered_length r + received_packet_bytes_need r = hci_preamble_sizes (recv_packet_current_type r) \<or>
      received_packet_state r = RTKBT_PACKET_CONTENT \<and> 2 \<le> received_resvered_length r \<and>
        (recv_packet_current_type r = DATA_TYPE_EVENT \<and> byte_at (received_resvered_header r) 0 = HCI_COMMAND_STATUS_EVT \<longrightarrow>
           4 \<le> received_resvered_length r + received_packet_bytes_need r))"

definition scan_of :: "recv_vars_t \<Rightarrow> scan" where
  "scan_of r =
     (case received_packet_state r of
        RTKBT_PACKET_IDLE \<Rightarrow> Idle
      | RTKBT_PACKET_HEADER \<Rightarrow>
          Hdr (recv_packet_current_type r) (take (received_resvered_length r) (received_resvered_header r))
      | _ \<Rightarrow> Body (received_packet_bytes_need r))"

lemma recv_taken:
  assumes "recv_wf r" and "p \<noteq> []"
  shows "bind (userial_handle_recv_data r p) taken = recv_next p r"
proof (cases "received_packet_state r")
  case RTKBT_PACKET_IDLE
  obtain t q where p: "p = t # q" using assms(2) by (cases p) auto
  have y: "recv_type (r\<lparr>received_packet_bytes_need := 1, recv_packet_current_type := t,
      received_packet_state := RTKBT_PACKET_TYPE\<rparr>) q (length p) = recv_header (recv_begin t r) q (1 + length q)"
    by (simp add: recv_type_def recv_begin_def p)
  have "bind (bind (recv_header w q (1 + length q)) (\<lambda>(n, q, r). Inr (n, t # q, r))) taken =
      bind (header_next q w) (\<lambda>(e, q, r). Inr (t # e, q, r))" for w
  proof -
    have "0 < n" if "recv_header w q (1 + length q) = Inr (n, q', r')" for n q' r'
      using takes_recv_header [of "1 + length q" q w] that by (force simp: recv_takes_def)
    then show ?thesis
      unfolding header_taken [of w q 1, symmetric]
      by (cases "recv_header w q (1 + length q)") (auto simp: taken_def taken_from_def gr0_conv_Suc)
  qed
  then show ?thesis
    using RTKBT_PACKET_IDLE y by (simp add: userial_handle_recv_data_def Let_def recv_next_def p)
next
  case RTKBT_PACKET_HEADER
  then show ?thesis
    using assms(2) header_taken [of r p 0]
    by (auto simp: userial_handle_recv_data_def Let_def recv_next_def taken_def taken_from_def neq_Nil_conv)
next
  case RTKBT_PACKET_CONTENT
  then show ?thesis
    using assms(2) content_taken [of r p 0]
    by (auto simp: userial_handle_recv_data_def Let_def recv_next_def taken_def taken_from_def neq_Nil_conv)
qed (use assms in \<open>simp_all add: recv_wf_def\<close>)

lemma recv_loop_next:
  assumes "recv_wf r" and "p \<noteq> []"
  shows "recv_loop True 0 r p = bind (recv_next p r) (\<lambda>(e, q, r).
    if q = [] then Inr (e, r) else bind (recv_loop True 0 r q) (\<lambda>(e', r). Inr (e @ e', r)))"
proof (cases "userial_handle_recv_data r p")
  case (Inr x)
  obtain n q r' where x: "x = (n, q, r')" by (cases x)
  have "length q = length p" using recv_handler_length Inr x by blast
  then show ?thesis
    unfolding recv_taken [OF assms, symmetric]
    by (subst recv_loop.simps) (simp add: Inr x taken_def)
next
  case (Inl e)
  then show ?thesis
    unfolding recv_taken [OF assms, symmetric] by (subst recv_loop.simps) simp
qed

section \<open>Byte by byte\<close>

definition recv_store :: "u8 list \<Rightarrow> recv_vars_t \<Rightarrow> recv_vars_t" where
  "recv_store buf r = r\<lparr>received_resvered_header := buf, received_resvered_length := received_resvered_length r + 1,
     received_packet_bytes_need := received_packet_bytes_need r - 1\<rparr>"

lemma array_write_keeps:
  "array_write buf off src = Inr buf' \<Longrightarrow> i < off \<Longrightarrow> byte_at buf' i = byte_at buf i"
  by (auto simp: array_write_def byte_at_def nth_append split: if_splits)

lemma patch_Cons:
  assumes "2 \<le> received_resvered_length r" and "byte_at buf 0 = byte_at (received_resvered_header r) 0"
  shows "recv_patch r (b # bs) = recv_patch r [b] @ recv_patch (recv_store buf r) bs"
proof (cases "received_resvered_length r = 2 \<or> received_resvered_length r = 3")
  case True
  then show ?thesis
    using assms(2) by (cases bs) (auto simp: recv_patch_def recv_store_def Let_def HCI_COMMAND_STATUS_EVT_def HCI_COMMAND_COMPLETE_EVT_def)
next
  case False
  then show ?thesis using assms by (simp add: recv_patch_def recv_store_def Let_def)
qed

text \<open>The bytes passed on by a first part and by the rest.\<close>

definition emit :: "u8 list \<Rightarrow> u8 list \<times> u8 list \<times> recv_vars_t \<Rightarrow> vnd_fault + (u8 list \<times> u8 list \<times> recv_vars_t)" where
  "emit e = (\<lambda>(e', q, r). Inr (e @ e', q, r))"

lemma two_more: "1 < n \<Longrightarrow> \<exists>m. n = Suc (Suc m)"
  by presburger

lemma patch_one: "\<exists>c. recv_patch r [b] = [c]"
  by (metis length_recv_patch length_0_conv length_Suc_conv)

lemma content_one:
  assumes "1 < received_packet_bytes_need r"
  shows "content_next [b] r = bind (array_write (received_resvered_header r) (received_resvered_length r) (recv_patch r [b]))
    (\<lambda>buf. Inr (recv_patch r [b], [], recv_store buf r))"
proof -
  obtain c where "recv_patch r [b] = [c]" using patch_one by blast
  moreover obtain n where "received_packet_bytes_need r = Suc (Suc n)" using two_more [OF assms] by blast
  ultimately show ?thesis by (simp add: content_next_def Let_def recv_store_def)
qed

lemma content_Cons:
  assumes need: "1 < received_packet_bytes_need r" and len: "2 \<le> received_resvered_length r"
  shows "content_next (b # bs) r = bind (content_next [b] r) (\<lambda>(e, q, r). bind (content_next bs r) (emit e))"
proof -
  obtain n where n: "received_packet_bytes_need r = Suc (Suc n)" using two_more [OF need] by blast
  obtain c where c: "recv_patch r [b] = [c]" using patch_one by blast
  let ?w = "array_write (received_resvered_header r) (received_resvered_length r)"
  show ?thesis
  proof (cases "?w [c]")
    case (Inr buf)
    have "byte_at buf 0 = byte_at (received_resvered_header r) 0"
      using array_write_keeps [OF Inr] len by simp
    note p = patch_Cons [OF len this, of b bs, unfolded c]
    have w: "bind (?w (c # take (Suc n) (recv_patch (recv_store buf r) bs))) f =
        bind (array_write buf (received_resvered_length r + 1) (take (Suc n) (recv_patch (recv_store buf r) bs))) f"
      for f :: "u8 list \<Rightarrow> vnd_fault + (u8 list \<times> u8 list \<times> recv_vars_t)"
      using Inr by (subst write_Cons) simp
    show ?thesis
      unfolding content_one [OF need] c
      by (simp add: Inr content_next_def [of "b # bs"] content_next_def [of bs] Let_def p n w emit_def bind_assoc)
        (simp add: recv_store_def n cong: if_cong)
  next
    case (Inl e)
    then have "?w (recv_patch r [b] @ x) = Inl e" for x by (auto simp: c array_write_fails)
    moreover have "\<exists>x. take (Suc (Suc n)) (recv_patch r (b # bs)) = recv_patch r [b] @ x"
      using patch_Cons [OF len refl, of b bs] by (simp add: c)
    ultimately have "?w (take (Suc (Suc n)) (recv_patch r (b # bs))) = Inl e" by metis
    then show ?thesis
      unfolding content_one [OF need] c by (simp add: Inl content_next_def Let_def n)
  qed
qed

lemma header_Cons:
  assumes "1 < received_packet_bytes_need r"
  shows "header_next (b # bs) r = bind (array_write (received_resvered_header r) (received_resvered_length r) [b])
    (\<lambda>buf. bind (header_next bs (recv_store buf r)) (emit [b]))"
proof -
  obtain n where n: "received_packet_bytes_need r = Suc (Suc n)" using two_more [OF assms] by blast
  have hd: "recv_header_done buf (recv_store buf' r) = recv_header_done buf r" for buf buf'
    by (simp add: recv_header_done_def recv_store_def n)
  show ?thesis
    unfolding header_next_def Let_def n hd take_Suc_Cons write_Cons [where bs = "take (Suc n) bs"]
    by (cases "Suc n \<le> length bs") (simp_all add: recv_store_def n emit_def bind_assoc split_def)
qed

lemma patch_none [simp]: "recv_patch r [] = []"
  using length_recv_patch [of r "[]"] by (simp del: length_recv_patch)

lemma content_none:
  assumes "0 < received_packet_bytes_need r" and "received_resvered_length r \<le> length (received_resvered_header r)"
  shows "content_next [] r = Inr ([], [], r)" and "header_next [] r = Inr ([], [], r)"
  using assms by (simp_all add: content_next_def header_next_def Let_def array_write_def)

definition recv_more :: "u8 list \<Rightarrow> u8 list \<times> u8 list \<times> recv_vars_t \<Rightarrow> vnd_fault + (u8 list \<times> u8 list \<times> recv_vars_t)" where
  "recv_more bs = (\<lambda>(e, q, r).
     if received_packet_state r = RTKBT_PACKET_IDLE then Inr (e, bs, r) else bind (recv_next bs r) (emit e))"

lemma emit_emit: "bind (emit e x) (emit e') = emit (e' @ e) x"
  by (cases x) (simp add: emit_def)

lemma emit_more: "bind (recv_more bs x) (emit e) = bind (emit e x) (recv_more bs)"
  by (cases x) (auto simp: recv_more_def bind_assoc emit_emit; simp add: emit_def)

text \<open>The header of a packet as the assembler stores it and as the reader of the stream sees it.\<close>

lemma header_stored:
  assumes w: "array_write buf len [b] = Inr buf'" and t: "t \<in> {DATA_TYPE_ACL, DATA_TYPE_SCO, DATA_TYPE_EVENT}"
    and n: "len + 1 = hci_preamble_sizes t"
  shows "take (len + 1) buf' = take len buf @ [b]" and "coex_content_length t (take len buf @ [b]) = coex_content_length t buf'"
    and "header_room t (take len buf @ [b]) = header_room t buf'"
proof -
  have len: "len < length buf" and buf': "buf' = take len buf @ [b] @ drop (len + 1) buf"
    using w by (simp_all add: array_write_def split: if_splits)
  show "take (len + 1) buf' = take len buf @ [b]" using len by (simp add: buf')
  have p: "take (hci_preamble_sizes t) (take len buf @ [b]) = take len buf @ [b]" using len n by simp
  show c: "coex_content_length t (take len buf @ [b]) = coex_content_length t buf'"
    using content_length_prefix [of t "take len buf @ [b]" "drop (len + 1) buf"] len n t by (simp add: p buf')
  have "byte_at buf' 0 = byte_at (take len buf @ [b]) 0" using len by (simp add: buf' byte_at_def nth_append)
  then show "header_room t (take len buf @ [b]) = header_room t buf'" using c by (auto simp: header_room_def)
qed

lemma recv_next_Cons:
  assumes wf: "recv_wf r" and ok: "scan_next (scan_of r) b \<noteq> None"
  shows "recv_next (b # bs) r = bind (recv_next [b] r) (recv_more bs)"
proof (cases "received_packet_state r")
  case RTKBT_PACKET_IDLE
  have "header_next [] (recv_begin b r) = Inr ([], [], recv_begin b r)"
    by (rule content_none(2)) (simp_all add: recv_begin_def hci_preamble_sizes_def)
  then show ?thesis
    using RTKBT_PACKET_IDLE by (simp add: recv_next_def recv_more_def emit_def) (simp add: recv_begin_def)
next
  case RTKBT_PACKET_HEADER
  let ?w = "array_write (received_resvered_header r) (received_resvered_length r) [b]"
  let ?t = "recv_packet_current_type r"
  have v: "0 < received_packet_bytes_need r" "received_resvered_length r \<le> length (received_resvered_header r)"
    "?t \<in> {DATA_TYPE_ACL, DATA_TYPE_SCO, DATA_TYPE_EVENT}"
    "received_resvered_length r + received_packet_bytes_need r = hci_preamble_sizes ?t"
    using wf RTKBT_PACKET_HEADER by (auto simp: recv_wf_def)
  have len: "received_resvered_length r + 1 \<le> length buf" if "?w = Inr buf" for buf
    using that array_write_length [OF that] by (simp add: array_write_def split: if_splits)
  show ?thesis
  proof (cases "received_packet_bytes_need r = 1")
    case True
    have "content_next bs (recv_header_done buf r) = bind (content_next [] (recv_header_done buf r)) (recv_more bs)"
      if w: "?w = Inr buf" for buf
    proof (cases "coex_content_length ?t buf = 0")
      case z: True
      have "header_room ?t buf"
        using ok header_stored [OF w v(3)] v True RTKBT_PACKET_HEADER
        by (auto simp: scan_of_def Let_def split: if_splits)
      then have "recv_patch (recv_header_done buf r) bs = bs"
        using z by (auto simp: header_room_def recv_patch_def recv_header_done_def Let_def)
      then show ?thesis
        using len [OF w] z True by (simp add: content_next_def Let_def recv_more_def array_write_def)
          (simp add: recv_header_done_def)
    next
      case False
      have "content_next [] (recv_header_done buf r) = Inr ([], [], recv_header_done buf r)"
        using False len [OF w] True by (intro content_none) (simp_all add: recv_header_done_def)
      then show ?thesis by (simp add: recv_more_def recv_next_def emit_def) (simp add: recv_header_done_def)
    qed
    moreover have "header_next (b # cs) r = bind ?w (\<lambda>buf. bind (content_next cs (recv_header_done buf r)) (emit [b]))" for cs
      using True by (simp add: header_next_def Let_def emit_def)
    ultimately show ?thesis
      using RTKBT_PACKET_HEADER by (cases ?w) (simp_all add: recv_next_def bind_assoc emit_more)
  next
    case False
    then have need: "1 < received_packet_bytes_need r" using v(1) by simp
    have "header_next [] (recv_store buf r) = Inr ([], [], recv_store buf r)" if "?w = Inr buf" for buf
      using len [OF that] need by (intro content_none) (simp_all add: recv_store_def)
    then show ?thesis
      using RTKBT_PACKET_HEADER
      by (cases ?w) (simp_all add: recv_next_def header_Cons [OF need] recv_more_def emit_def, simp add: recv_store_def)
  qed
next
  case RTKBT_PACKET_CONTENT
  have v: "0 < received_packet_bytes_need r" "2 \<le> received_resvered_length r"
    "recv_packet_current_type r = DATA_TYPE_EVENT \<and> byte_at (received_resvered_header r) 0 = HCI_COMMAND_STATUS_EVT \<longrightarrow>
       4 \<le> received_resvered_length r + received_packet_bytes_need r"
    using wf RTKBT_PACKET_CONTENT by (auto simp: recv_wf_def)
  show ?thesis
  proof (cases "received_packet_bytes_need r = 1")
    case True
    have "recv_patch (recv_store (received_resvered_header r) r) bs = bs"
      using v(2,3) True by (auto simp: recv_patch_def recv_store_def Let_def)
    then have p: "recv_patch r (b # bs) = recv_patch r [b] @ bs" using patch_Cons [OF v(2) refl, of b bs] by simp
    obtain c where c: "recv_patch r [b] = [c]" using patch_one by blast
    show ?thesis
      using True RTKBT_PACKET_CONTENT
      by (simp add: recv_next_def content_next_def Let_def p c bind_assoc recv_more_def)
  next
    case False
    then have need: "1 < received_packet_bytes_need r" using v(1) by simp
    show ?thesis
      using RTKBT_PACKET_CONTENT
      by (simp add: recv_next_def content_Cons [OF need v(2), of b bs] content_one [OF need] bind_assoc recv_more_def)
        (simp add: recv_next_def recv_store_def)
  qed
qed (use wf in \<open>simp_all add: recv_wf_def\<close>)

text \<open>One byte: nothing is left, the state stays well-formed and follows the reader of the stream.\<close>

lemma content_step:
  assumes r: "recv_wf r" "received_packet_state r = RTKBT_PACKET_CONTENT" and n: "content_next [b] r = Inr (e, q, r')"
  shows "q = [] \<and> recv_wf r' \<and> scan_next (scan_of r) b = Some (scan_of r')"
proof -
  have v: "0 < received_packet_bytes_need r" "2 \<le> received_resvered_length r"
    "recv_packet_current_type r = DATA_TYPE_EVENT \<and> byte_at (received_resvered_header r) 0 = HCI_COMMAND_STATUS_EVT \<longrightarrow>
       4 \<le> received_resvered_length r + received_packet_bytes_need r"
    using r by (auto simp: recv_wf_def)
  obtain c where c: "recv_patch r [b] = [c]" using patch_one by blast
  obtain buf where w: "array_write (received_resvered_header r) (received_resvered_length r) [c] = Inr buf"
    using n v(1) by (cases "received_packet_bytes_need r") (auto simp: content_next_def Let_def c bind_eq_Inr)
  have len: "received_resvered_length r + 1 \<le> length buf"
    using w array_write_length [OF w] by (simp add: array_write_def split: if_splits)
  show ?thesis
  proof (cases "received_packet_bytes_need r = 1")
    case True
    then show ?thesis using n r(2) w by (auto simp: content_next_def Let_def c recv_wf_def scan_of_def)
  next
    case False
    then have "1 < received_packet_bytes_need r" using v(1) by simp
    from n [unfolded content_one [OF this] c w] have "q = []" "r' = recv_store buf r" by simp_all
    then show ?thesis
      using v r(2) False len array_write_keeps [OF w, of 0] by (auto simp: recv_wf_def scan_of_def recv_store_def)
  qed
qed

lemma header_step:
  assumes r: "recv_wf r" "received_packet_state r = RTKBT_PACKET_HEADER" and n: "header_next [b] r = Inr (e, q, r')"
    and ok: "scan_next (scan_of r) b \<noteq> None"
  shows "q = [] \<and> recv_wf r' \<and> scan_next (scan_of r) b = Some (scan_of r')"
proof -
  let ?t = "recv_packet_current_type r"
  have v: "0 < received_packet_bytes_need r" "?t \<in> {DATA_TYPE_ACL, DATA_TYPE_SCO, DATA_TYPE_EVENT}"
    "received_resvered_length r + received_packet_bytes_need r = hci_preamble_sizes ?t"
    "received_resvered_length r \<le> length (received_resvered_header r)"
    using r by (auto simp: recv_wf_def)
  obtain buf where w: "array_write (received_resvered_header r) (received_resvered_length r) [b] = Inr buf"
    using n v(1) by (cases "received_packet_bytes_need r") (auto simp: header_next_def Let_def bind_eq_Inr)
  have len: "received_resvered_length r + 1 \<le> length buf"
    using w array_write_length [OF w] by (simp add: array_write_def split: if_splits)
  have p: "2 \<le> hci_preamble_sizes ?t" by (simp add: hci_preamble_sizes_def)
  show ?thesis
  proof (cases "received_packet_bytes_need r = 1")
    case True
    note h = header_stored [OF w v(2), unfolded v(3) [unfolded True]]
    have room: "header_room ?t buf" and sc: "scan_next (scan_of r) b =
        Some (if coex_content_length ?t buf = 0 then Idle else Body (coex_content_length ?t buf))"
      using ok h v True r(2) by (auto simp: scan_of_def Let_def split: if_splits)
    have c: "content_next [] (recv_header_done buf r) = Inr ([], q, r')"
      using n True w by (auto simp: header_next_def Let_def bind_eq_Inr content_next_def)
    show ?thesis
    proof (cases "coex_content_length ?t buf = 0")
      case z: True
      then show ?thesis using c sc by (auto simp: content_next_def Let_def recv_header_done_def bind_eq_Inr recv_wf_def scan_of_def)
    next
      case False
      then have "content_next [] (recv_header_done buf r) = Inr ([], [], recv_header_done buf r)"
        using len True by (intro content_none) (simp_all add: recv_header_done_def)
      with c have "q = []" "r' = recv_header_done buf r" by simp_all
      then show ?thesis
        using False sc room v True len p by (auto simp: recv_wf_def scan_of_def recv_header_done_def header_room_def)
    qed
  next
    case False
    then have need: "1 < received_packet_bytes_need r" using v(1) by simp
    have "header_next [] (recv_store buf r) = Inr ([], [], recv_store buf r)"
      using len need by (intro content_none) (simp_all add: recv_store_def)
    with n have "q = []" "r' = recv_store buf r" by (simp_all add: header_Cons [OF need] w emit_def)
    moreover have "take (received_resvered_length r + 1) buf = take (received_resvered_length r) (received_resvered_header r) @ [b]"
      using w by (auto simp: array_write_def split: if_splits)
    ultimately show ?thesis
      using v r(2) need len by (auto simp: recv_wf_def scan_of_def recv_store_def Let_def)
  qed
qed

lemma recv_step:
  assumes r: "recv_wf r" and n: "recv_next [b] r = Inr (e, q, r')" and ok: "scan_next (scan_of r) b \<noteq> None"
  shows "q = [] \<and> recv_wf r' \<and> scan_next (scan_of r) b = Some (scan_of r')"
proof (cases "received_packet_state r")
  case RTKBT_PACKET_IDLE
  have "header_next [] (recv_begin b r) = Inr ([], [], recv_begin b r)"
    by (rule content_none(2)) (simp_all add: recv_begin_def hci_preamble_sizes_def)
  then have "q = []" "r' = recv_begin b r" using n RTKBT_PACKET_IDLE by (auto simp: recv_next_def split: if_splits)
  then show ?thesis
    using ok RTKBT_PACKET_IDLE by (auto simp: recv_wf_def scan_of_def recv_begin_def hci_preamble_sizes_def split: if_splits)
qed (use content_step [OF r] header_step [OF r _ _ ok] n r in \<open>simp_all add: recv_next_def recv_wf_def\<close>)

section \<open>The assembler keeps the contract\<close>

text \<open>The variables of the assembler with the bytes passed on so far.\<close>

definition recv_feed :: "u8 list \<Rightarrow> recv_vars_t \<times> u8 list \<Rightarrow> vnd_fault + (recv_vars_t \<times> u8 list)" where
  "recv_feed p = (\<lambda>(r, out). bind (recv_loop True 0 r p) (\<lambda>(e, r). Inr (r, out @ e)))"

lemma recv_feed_one:
  assumes "recv_wf r" and "scan_next (scan_of r) b \<noteq> None"
  shows "recv_feed [b] (r, out) = bind (recv_next [b] r) (\<lambda>(e, q, r). Inr (r, out @ e))"
  using recv_step [OF assms(1) _ assms(2)] assms(1)
  by (cases "recv_next [b] r") (auto simp: recv_feed_def recv_loop_next)

interpretation recva: byte_machine "\<lambda>(r, out). recv_wf r" "\<lambda>(r, out). scan_ok (scan_of r)" recv_feed "\<lambda>b. recv_feed [b]"
proof unfold_locales
  fix s s' :: "recv_vars_t \<times> u8 list" and b :: u8 and bs cs :: "u8 list"
  obtain r out where s: "s = (r, out)" by (cases s)
  show "(case s of (r, out) \<Rightarrow> scan_ok (scan_of r)) bs" if "(case s of (r, out) \<Rightarrow> scan_ok (scan_of r)) (bs @ cs)"
    using that scan_ok_prefix by (auto simp: s)
  assume "case s of (r, out) \<Rightarrow> recv_wf r" and a: "(case s of (r, out) \<Rightarrow> scan_ok (scan_of r)) (b # bs)"
  then have wf: "recv_wf r" and ok: "scan_next (scan_of r) b \<noteq> None"
    by (auto simp: s split: option.splits)
  note one = recv_feed_one [OF wf ok]
  show "(case s' of (r, out) \<Rightarrow> recv_wf r) \<and> (case s' of (r, out) \<Rightarrow> scan_ok (scan_of r)) bs" if "recv_feed [b] s = Inr s'"
    using that recv_step [OF wf _ ok] a by (auto simp: s one bind_eq_Inr)
  have "recv_feed (b # bs) s = bind (recv_feed [b] s) (recv_feed bs)" if "bs \<noteq> []"
  proof (cases "recv_next [b] r")
    case (Inr x)
    obtain e r1 where n: "recv_next [b] r = Inr (e, [], r1)" and r1: "recv_wf r1"
      using Inr recv_step [OF wf _ ok] by (cases x) auto
    have "recv_loop True 0 r (b # bs) = bind (recv_loop True 0 r1 bs) (\<lambda>(e', r). Inr (e @ e', r))"
    proof (cases "received_packet_state r1 = RTKBT_PACKET_IDLE")
      case True
      then show "recv_loop True 0 r (b # bs) = bind (recv_loop True 0 r1 bs) (\<lambda>(e', r). Inr (e @ e', r))"
        using that by (subst recv_loop_next [OF wf]) (simp_all add: recv_next_Cons [OF wf ok, of bs] n recv_more_def)
    next
      case False
      then show "recv_loop True 0 r (b # bs) = bind (recv_loop True 0 r1 bs) (\<lambda>(e', r). Inr (e @ e', r))"
        using that
        by (subst recv_loop_next [OF wf], simp, subst recv_loop_next [OF r1 that])
          (cases "recv_next bs r1"; auto simp: recv_next_Cons [OF wf ok, of bs] n recv_more_def emit_def bind_assoc split_def)
    qed
    then show ?thesis
      by (simp add: s one n) (simp add: recv_feed_def bind_assoc split_def)
  next
    case (Inl e)
    then show ?thesis
      by (simp add: s one) (simp add: recv_feed_def recv_loop_next [OF wf, of "b # bs"] recv_next_Cons [OF wf ok, of bs])
  qed
  then show "recv_feed (b # bs) s = bind (recv_feed [b] s) (if bs = [] then Inr else recv_feed bs)" by simp
qed

section \<open>Packets\<close>

definition recv_packet :: "u8 \<times> u8 list \<Rightarrow> bool" where
  "recv_packet x \<longleftrightarrow> hci_packet x \<and> header_room (fst x) (snd x)"

text \<open>A packet as it is passed on: in the two events that answer commands, one more command is allowed.\<close>

definition one_credit :: "u8 \<times> u8 list \<Rightarrow> u8 \<times> u8 list" where
  "one_credit = (\<lambda>(t, p).
     (t, if t = DATA_TYPE_EVENT \<and> byte_at p 0 = HCI_COMMAND_COMPLETE_EVT then p[2 := 1]
         else if t = DATA_TYPE_EVENT \<and> byte_at p 0 = HCI_COMMAND_STATUS_EVT then p[3 := 1] else p))"

definition recv_deliver :: "u8 \<times> u8 list \<Rightarrow> recv_vars_t \<times> u8 list \<Rightarrow> recv_vars_t \<times> u8 list" where
  "recv_deliver x = (\<lambda>(r, out). let p = snd (one_credit x) in
     (recv_end (r\<lparr>recv_packet_current_type := fst x, received_resvered_header := p @ drop (length p) (received_resvered_header r),
        received_resvered_length := length p, received_packet_bytes_need := 0, received_packet_state := RTKBT_PACKET_END\<rparr>),
      out @ h4_bytes (one_credit x)))"

lemma scan_body: "length bs = n \<Longrightarrow> 0 < n \<Longrightarrow> scan_ok (Body n) (bs @ cs) = scan_ok Idle cs"
proof (induction bs arbitrary: n)
  case (Cons b bs)
  then show ?case by (cases bs) auto
qed simp

lemma scan_header:
  assumes "length h + length bs = hci_preamble_sizes t" and "bs \<noteq> []" and "header_room t (h @ bs)"
  shows "scan_ok (Hdr t h) (bs @ cs) =
    scan_ok (if coex_content_length t (h @ bs) = 0 then Idle else Body (coex_content_length t (h @ bs))) cs"
  using assms
proof (induction bs arbitrary: h)
  case (Cons b bs)
  show ?case
  proof (cases "bs = []")
    case True
    then show ?thesis using Cons.prems by (simp add: Let_def)
  next
    case False
    then have "0 < length bs" by simp
    then have "length (h @ [b]) < hci_preamble_sizes t"
      using Cons.prems(1) unfolding length_append list.size by linarith
    then have "scan_next (Hdr t h) b = Some (Hdr t (h @ [b]))" by (simp add: Let_def)
    then show ?thesis using Cons.IH [of "h @ [b]"] Cons.prems False by simp
  qed
qed simp

lemma scan_packet:
  assumes "recv_packet x"
  shows "scan_ok Idle (h4_bytes x @ cs) = scan_ok Idle cs"
proof -
  obtain t p where x: "x = (t, p)" by (cases x)
  define n where "n = hci_preamble_sizes t"
  have t: "t \<in> {DATA_TYPE_ACL, DATA_TYPE_SCO, DATA_TYPE_EVENT}" and n: "n \<le> length p" "0 < n"
    and len: "length p = n + coex_content_length t p" and room: "header_room t p"
    using assms by (auto simp: recv_packet_def hci_packet_def x n_def hci_preamble_sizes_def)
  have c: "coex_content_length t (take n p) = coex_content_length t p"
    using content_length_prefix [of t p "[]"] n t by (simp add: n_def)
  have b0: "byte_at (take n p) 0 = byte_at p 0" using n by (auto simp: byte_at_def)
  have "header_room t ([] @ take n p)" using room c b0 by (auto simp: header_room_def)
  moreover have "length ([] :: u8 list) + length (take n p) = hci_preamble_sizes t" "take n p \<noteq> []"
    using n by (auto simp: n_def)
  ultimately have "scan_ok (Hdr t []) (take n p @ (drop n p @ cs)) =
      scan_ok (if coex_content_length t p = 0 then Idle else Body (coex_content_length t p)) (drop n p @ cs)"
    using scan_header [of "[]" "take n p" t "drop n p @ cs"] unfolding append_Nil c by blast
  also have "take n p @ (drop n p @ cs) = p @ cs" by simp
  also have "scan_ok (if coex_content_length t p = 0 then Idle else Body (coex_content_length t p)) (drop n p @ cs) = scan_ok Idle cs"
    using len scan_body [of "drop n p" "coex_content_length t p" cs] by auto
  finally show ?thesis using t by (auto simp: h4_bytes_def x)
qed

lemma scan_packets: "\<forall>x \<in> set ps. recv_packet x \<Longrightarrow> scan_ok Idle (concat (map h4_bytes ps))"
  by (induction ps) (simp_all add: scan_packet)

lemma patch_credit:
  assumes p: "recv_packet (t, p)" and r: "recv_packet_current_type r = t" "received_resvered_length r = hci_preamble_sizes t"
    "byte_at (received_resvered_header r) 0 = byte_at p 0"
  shows "take (hci_preamble_sizes t) p @ recv_patch r (drop (hci_preamble_sizes t) p) = snd (one_credit (t, p))"
proof (cases "t = DATA_TYPE_EVENT \<and> byte_at p 0 \<in> {HCI_COMMAND_COMPLETE_EVT, HCI_COMMAND_STATUS_EVT}")
  case True
  have h: "hci_preamble_sizes t = 2" using True by (auto simp: hci_preamble_sizes_def data_type_defs)
  have len: "length p = 2 + coex_content_length t p" and room: "header_room t p"
    using p h by (simp_all add: recv_packet_def hci_packet_def)
  obtain a b q where q: "p = a # b # q" using len by (cases p; cases "tl p") auto
  show ?thesis
    using True r room len h
    by (auto simp: one_credit_def recv_patch_def Let_def header_room_def q HCI_COMMAND_COMPLETE_EVT_def
        HCI_COMMAND_STATUS_EVT_def eval_nat_numeral)
next
  case False
  then show ?thesis using r by (auto simp: one_credit_def recv_patch_def Let_def)
qed

lemma recv_feed_packet:
  assumes idle: "received_packet_state r = RTKBT_PACKET_IDLE" and p: "recv_packet (t, p)"
    and fits: "length p \<le> length (received_resvered_header r)"
  shows "recv_feed (t # p) (r, out) = Inr (recv_deliver (t, p) (r, out))"
proof -
  define n where "n = hci_preamble_sizes t"
  have t: "t \<in> {DATA_TYPE_ACL, DATA_TYPE_SCO, DATA_TYPE_EVENT}" and n: "n \<le> length p" "0 < n"
    and len: "length p = n + coex_content_length t p"
    using p by (auto simp: recv_packet_def hci_packet_def n_def hci_preamble_sizes_def)
  let ?hdr = "received_resvered_header r"
  define buf where "buf = take n p @ drop n ?hdr"
  define q where "q = recv_patch (recv_header_done buf (recv_begin t r)) (drop n p)"
  have wf: "recv_wf r" using idle by (simp add: recv_wf_def)
  have b: "received_packet_bytes_need (recv_begin t r) = n" "received_resvered_length (recv_begin t r) = 0"
    "received_resvered_header (recv_begin t r) = ?hdr" "recv_packet_current_type (recv_begin t r) = t"
    by (simp_all add: recv_begin_def n_def)
  have w: "array_write ?hdr 0 (take n p) = Inr buf" using n fits by (simp add: array_write_def buf_def)
  have c: "coex_content_length t buf = length p - n"
    unfolding buf_def using content_length_prefix [of t p] n t len by (simp add: n_def)
  have lq: "length q = length p - n" by (simp add: q_def)
  have "byte_at buf 0 = byte_at p 0" using n fits by (auto simp: buf_def byte_at_def nth_append)
  then have e: "take n p @ q = snd (one_credit (t, p))"
    unfolding q_def using patch_credit [OF p, folded n_def] by (simp add: recv_header_done_def b)
  let ?w = "recv_header_done buf (recv_begin t r)"
  have d: "received_packet_bytes_need ?w = length q" "received_resvered_length ?w = n" "received_resvered_header ?w = buf"
    by (simp_all add: recv_header_done_def b c lq)
  have aw: "array_write buf n q = Inr (take n p @ q @ drop (length p) ?hdr)"
    using n fits lq by (simp add: array_write_def buf_def)
  have "content_next (drop n p) ?w = Inr (q, [], recv_end (?w\<lparr>received_resvered_header := take n p @ q @ drop (length p) ?hdr,
      received_resvered_length := length p, received_packet_bytes_need := 0, received_packet_state := RTKBT_PACKET_END\<rparr>))"
    using n lq by (simp add: content_next_def Let_def d aw flip: q_def)
  also have "\<dots> = Inr (q, [], fst (recv_deliver (t, p) (r, out)))"
    using n lq by (simp add: recv_deliver_def Let_def recv_header_done_def recv_begin_def flip: e)
  finally have "content_next (drop n p) ?w = Inr (q, [], fst (recv_deliver (t, p) (r, out)))" .
  then have "recv_next (t # p) r = Inr (t # take n p @ q, [], fst (recv_deliver (t, p) (r, out)))"
    using idle t n by (auto simp: recv_next_def header_next_def Let_def b w data_type_defs)
  then show ?thesis
    by (simp add: recv_feed_def recv_loop_next [OF wf] e) (simp add: recv_deliver_def Let_def h4_bytes_def one_credit_def)
qed

end
