(* ===== verification/UserialProperties.thy ===== *)
theory UserialProperties
  imports UserialStream H5Properties RtkProperties HwProperties
begin

text \<open>
  The properties of the UART side of the vendor library (hardware/bt/src/userial_vendor.c), stated
  over the model's operations and proved from the lemmas of the \<open>Userial\<close> theories.
\<close>

section \<open>A concrete library state\<close>

definition recv_zero :: recv_vars_t where
  "recv_zero = \<lparr>received_packet_state = RTKBT_PACKET_IDLE, received_packet_bytes_need = 0, recv_packet_current_type = 0,
     received_resvered_header = replicate 2048 0, received_resvered_length = 0,
     rtkbt_version = \<lparr>rv_hci_version = 0, rv_hci_revision = 0, rv_lmp_version = 0, rv_manufacturer = 0, rv_lmp_subversion = 0\<rparr>,
     rtkbt_adv_con = \<lparr>adverting_type = 0, adverting_enable = False, adverting_start = False, connetion_enable = False\<rparr>\<rparr>"

definition vnd_zero :: vnd_lib where
  "vnd_zero = \<lparr>h5_cb = h5_boot, prof_cb = prof_zero, hw_cb = hw_zero, rtkbt_transtype = 0x11, u_fd = 3, thread_running = True,
     btdriver_state = True, u_recv_data = [], u_send_data = [], data_order = [], event_count = 0, rtk_parse_manager = True,
     packet_recv_state = RTKBT_PACKET_IDLE, packet_bytes_need = 0, current_type = 0, h4_read_buffer = replicate 2048 0,
     h4_read_length = 0, coex_packet_recv_state = RTKBT_PACKET_IDLE, coex_packet_bytes_need = 0, coex_current_type = 0,
     coex_resvered_buffer = replicate 2048 0, coex_resvered_length = 0, recv_vars = recv_zero, voice_settings = 0,
     bt_poll_cb = \<lparr>poll_state = POLL_DISABLED, poll_timer_created = False, poll_timer_id = 0, poll_timeout_ms = 0\<rparr>,
     heartBeatLog = -1, heartBeatTimeout = -1, heartbeatFlag = False, heartbeatCount = 0, nextSeqNum = 1, cleanupFlag = 0,
     rtk_btservice = None, vheap = all_ok, poll_timers = [], bad_timer = False, timer_create_ok = True, heartbeat_conf = None,
     uart_wr = [], uart_out = [], host_wr = [], host_out = [], host_in = [], client_out = [], iso_cfg = [], btsnoop = []\<rparr>"

lemma vnd_zero_simps [simp]:
  "thread_running vnd_zero" "vmem_ok vnd_zero" "host_wr vnd_zero = []" "recv_vars vnd_zero = recv_zero"
  "received_packet_state recv_zero = RTKBT_PACKET_IDLE" "length (received_resvered_header recv_zero) = 2048"
  "coex_packet_recv_state vnd_zero = RTKBT_PACKET_IDLE" "length (coex_resvered_buffer vnd_zero) = 2048"
  "host_out vnd_zero = []" "u_recv_data vnd_zero = []" "data_order vnd_zero = []" "btsnoop vnd_zero = []"
  by (simp_all add: vnd_zero_def recv_zero_def vmem_ok_def)

section \<open>From the controller to the stack\<close>

text \<open>One buffer from the UART, when memory lasts and the stack takes what is written.\<close>

definition stack_ready :: "vnd_lib \<Rightarrow> bool" where
  "stack_ready v \<longleftrightarrow> vmem_ok v \<and> thread_running v \<and> (\<forall>ret \<in> set (host_wr v). 0 < ret)"

lemma rawdata_passed_on:
  assumes v: "stack_ready v" and l: "recv_loop True 0 (recv_vars v) p = Inr (q, r)" and p: "p \<noteq> []"
  obtains v' where "userial_recv_uart_rawdata p v = Inr v'" and "stack_ready v'" and "recv_vars v' = r"
    and "host_out v' = host_out v @ q" and "u_recv_data v' = u_recv_data v @ [q]" and "data_order v' = data_order v @ [True]"
    and "coex_packet_recv_state v' = coex_packet_recv_state v" and "coex_resvered_buffer v' = coex_resvered_buffer v"
    and "btsnoop v' = btsnoop v"
proof -
  have q: "q \<noteq> []" using recv_loop_length [OF l] p by auto
  have all: "fst (write_loop (host_wr v) q) = q" using v by (intro write_loop_all) (simp add: stack_ready_def)
  define w where "w = v\<lparr>recv_vars := r, host_out := host_out v @ q, host_wr := snd (write_loop (host_wr v) q)\<rparr>"
  have "vmem_ok w" using v by (simp add: w_def stack_ready_def vmem_ok_def)
  then obtain e where e: "malloc_ok e = malloc_ok (vheap w)"
    "userial_enqueue_coex_rawdata w q True = Inr (w\<lparr>vheap := e, u_recv_data := u_recv_data w @ [q],
       u_send_data := u_send_data w, data_order := data_order w @ [True], event_count := event_count w + 1\<rparr>)"
    by (rule enqueue_coex_ok [of w q True]) simp
  have "userial_recv_uart_rawdata p v = userial_enqueue_coex_rawdata w q True"
    using v q all by (simp add: userial_recv_uart_rawdata_def l stack_ready_def w_def split_def Let_def)
  then show thesis
    using that e v write_loop_left [of "host_wr v" q]
    by (auto simp: stack_ready_def w_def vmem_ok_def)
qed

lemma rawdata_chunks:
  assumes "stack_ready v" and "[] \<notin> set chunks"
    and "run_calls recv_feed chunks (recv_vars v, host_out v) = Inr (r, out)"
  shows "\<exists>v' qs. run_calls userial_recv_uart_rawdata chunks v = Inr v' \<and> recv_vars v' = r \<and> host_out v' = out \<and>
    out = host_out v @ concat qs \<and> [] \<notin> set qs \<and> u_recv_data v' = u_recv_data v @ qs \<and>
    data_order v' = data_order v @ replicate (length qs) True \<and> thread_running v' \<and>
    coex_packet_recv_state v' = coex_packet_recv_state v \<and> coex_resvered_buffer v' = coex_resvered_buffer v \<and> btsnoop v' = btsnoop v"
  using assms
proof (induction chunks arbitrary: v)
  case Nil
  then show ?case by (intro exI [of _ v] exI [of _ "[]"]) (auto simp: stack_ready_def)
next
  case (Cons p ps)
  obtain q r1 where l: "recv_loop True 0 (recv_vars v) p = Inr (q, r1)"
    using Cons.prems(3) by (cases "recv_loop True 0 (recv_vars v) p") (auto simp: recv_feed_def)
  have p: "p \<noteq> []" using Cons.prems(2) by auto
  obtain v1 where v1: "userial_recv_uart_rawdata p v = Inr v1" "stack_ready v1" "recv_vars v1 = r1"
    "host_out v1 = host_out v @ q" "u_recv_data v1 = u_recv_data v @ [q]" "data_order v1 = data_order v @ [True]"
    "coex_packet_recv_state v1 = coex_packet_recv_state v" "coex_resvered_buffer v1 = coex_resvered_buffer v" "btsnoop v1 = btsnoop v"
    by (rule rawdata_passed_on [OF Cons.prems(1) l p])
  have "run_calls recv_feed ps (recv_vars v1, host_out v1) = Inr (r, out)"
    using Cons.prems(3) l v1 by (simp add: recv_feed_def [of p])
  then obtain v' qs where "run_calls userial_recv_uart_rawdata ps v1 = Inr v'" "recv_vars v' = r" "host_out v' = out"
    "out = host_out v1 @ concat qs" "[] \<notin> set qs" "u_recv_data v' = u_recv_data v1 @ qs"
    "data_order v' = data_order v1 @ replicate (length qs) True" "thread_running v'"
    "coex_packet_recv_state v' = coex_packet_recv_state v1" "coex_resvered_buffer v' = coex_resvered_buffer v1" "btsnoop v' = btsnoop v1"
    using Cons.IH [OF v1(2)] Cons.prems(2) by auto
  moreover have "q \<noteq> []" using recv_loop_length [OF l] p by auto
  ultimately show ?case using v1 by (intro exI [of _ v'] exI [of _ "q # qs"]) simp
qed

lemma recv_deliver_fold:
  "fold recv_deliver ps (r, out) =
     (fst (fold recv_deliver ps (r, [])), out @ concat (map (h4_bytes \<circ> one_credit) ps))"
proof (induction ps arbitrary: r out)
  case (Cons x ps)
  define r1 where "r1 = fst (recv_deliver x (r, []))"
  have d: "recv_deliver x (r, out) = (r1, out @ h4_bytes (one_credit x))" for out
    by (simp add: r1_def recv_deliver_def Let_def)
  show ?case
    using Cons.IH [of r1 "out @ h4_bytes (one_credit x)"] Cons.IH [of r1 "h4_bytes (one_credit x)"] by (simp add: d)
qed simp

lemma recv_deliver_keeps:
  "received_packet_state (fst (recv_deliver x (r, out))) = RTKBT_PACKET_IDLE"
  "length (snd x) \<le> length (received_resvered_header r) \<Longrightarrow>
     length (received_resvered_header (fst (recv_deliver x (r, out)))) = length (received_resvered_header r)"
  by (cases x; simp add: recv_deliver_def Let_def one_credit_def recv_end_def recv_reset_def userial_handle_event_def)+

lemma recv_feed_stream:
  assumes "received_packet_state r = RTKBT_PACKET_IDLE" and "[] \<notin> set chunks"
    and "concat chunks = concat (map h4_bytes ps)"
    and ps: "\<forall>x \<in> set ps. recv_packet x \<and> length (snd x) \<le> length (received_resvered_header r)"
  shows "run_calls recv_feed chunks (r, out) = Inr (fold recv_deliver ps (r, out))"
proof -
  let ?I = "\<lambda>(w, out). received_packet_state w = RTKBT_PACKET_IDLE \<and>
    length (received_resvered_header w) = length (received_resvered_header r)"
  let ?P = "\<lambda>x. recv_packet x \<and> length (snd x) \<le> length (received_resvered_header r)"
  have ok: "scan_ok (scan_of r) (concat (map h4_bytes ps))"
    using scan_packets [of ps] ps assms(1) by (simp add: scan_of_def)
  have wf: "recv_wf r" using assms(1) by (simp add: recv_wf_def)
  have "run_calls recv_feed chunks (r, out) = run_calls (\<lambda>b. recv_feed [b]) (concat (map h4_bytes ps)) (r, out)"
    using recva.feed_chunks [of "(r, out)" chunks] assms ok wf by simp
  also have "\<dots> = Inr (fold recv_deliver ps (r, out))"
  proof (rule recva.feed_packets [where I = ?I and P = ?P])
    show "h4_bytes x \<noteq> [] \<and> recv_feed (h4_bytes x) s = Inr (recv_deliver x s) \<and> ?I (recv_deliver x s)"
      if "?I s" "?P x" for s x
      using that recv_feed_packet [of "fst s" "fst x" "snd x" "snd s"] recv_deliver_keeps [of x "fst s" "snd s"]
      by (cases x; cases s) (auto simp: h4_bytes_def split_def)
    show "case s of (r, out) \<Rightarrow> recv_wf r" if "?I s" for s using that by (cases s) (simp add: recv_wf_def)
  qed (use assms ok in simp_all)
  finally show ?thesis .
qed

text \<open>What the coexistence thread makes of a stream, however it was cut.\<close>

lemma coex_stream:
  assumes "coex_packet_recv_state v = RTKBT_PACKET_IDLE" and "[] \<notin> set qs" and "concat qs = concat (map h4_bytes ps)"
    and "\<And>x. x \<in> set ps \<Longrightarrow> hci_packet x \<and> length (snd x) \<le> length (coex_resvered_buffer v)"
    and "u_recv_data v = qs" and "data_order v = replicate (length qs) True" and "thread_running v"
  shows "userial_coex_handler v = Inr (with_queues [] [] (fold coex_deliver ps (v\<lparr>event_count := 0\<rparr>)))"
proof -
  let ?v = "v\<lparr>event_count := 0\<rparr>"
  have wf: "coex_wf ?v" using assms(1) by (simp add: coex_wf_def)
  have v: "with_queues qs (replicate (length qs) True) ?v = ?v" using assms(5,6) by (simp add: with_queues_def)
  have "run_calls coex_feed qs ?v = Inr (fold coex_deliver ps ?v)"
    using coexa.feed_chunks [OF wf TrueI assms(2)] coex_feed_packets [of ?v ps] assms by simp
  then show ?thesis
    using coex_drain_received [OF wf assms(2)] assms by (simp add: userial_coex_handler_def Let_def v)
qed

text \<open>The entry of a received packet in the packet log.\<close>

definition snoop_entry :: "u8 \<times> u8 list \<Rightarrow> u16 \<times> u8 list \<times> bool" where
  "snoop_entry = (\<lambda>(t, p). (if t = DATA_TYPE_EVENT then 0x1000 else if t = DATA_TYPE_ACL then 0x1100 else 0x1200, p, True))"

lemma coex_deliver_snoop:
  "hci_packet x \<Longrightarrow> btsnoop (coex_deliver x v) = btsnoop v @ [snoop_entry x]"
  by (cases x) (auto simp: coex_deliver_def coex_reset_def coex_packet_end_def Let_def snoop_entry_def hci_packet_def data_type_defs)

lemma coex_fold_snoop:
  "\<forall>x \<in> set ps. hci_packet x \<Longrightarrow> btsnoop (fold coex_deliver ps v) = btsnoop v @ map snoop_entry ps"
  by (induction ps arbitrary: v) (simp_all add: coex_deliver_snoop)

lemma one_credit_packet:
  assumes "recv_packet x"
  shows "hci_packet (one_credit x)" and "length (snd (one_credit x)) = length (snd x)"
proof -
  obtain t p where x: "x = (t, p)" by (cases x)
  have "byte_at (p[i := 1]) 1 = byte_at p 1" if "2 \<le> i" for i using that by (simp add: byte_at_def)
  then have "coex_content_length DATA_TYPE_EVENT (p[i := 1]) = coex_content_length DATA_TYPE_EVENT p" if "2 \<le> i" for i
    using that by (simp add: coex_content_length_def data_type_defs)
  then show "hci_packet (one_credit x)"
    using assms by (auto simp: x recv_packet_def hci_packet_def one_credit_def)
  show "length (snd (one_credit x)) = length (snd x)" by (simp add: x one_credit_def)
qed

text \<open>C24: with the plain UART protocol, a stream of well-formed packets from the controller, cut into
  \<open>read\<close> buffers in any way, reaches the stack complete and in order, with the number of allowed commands set to
  one in the events that carry it and nothing else changed; the library has seen every event; and the coexistence
  thread then logs exactly these packets, one entry each.\<close>

theorem uart_stream:
  assumes ready: "stack_ready v" and queues: "u_recv_data v = []" "data_order v = []"
    and idle: "received_packet_state (recv_vars v) = RTKBT_PACKET_IDLE" "coex_packet_recv_state v = RTKBT_PACKET_IDLE"
    and size: "length (received_resvered_header (recv_vars v)) = 2048" "length (coex_resvered_buffer v) = 2048"
    and chunks: "[] \<notin> set chunks" "concat chunks = concat (map h4_bytes ps)"
    and ps: "\<forall>x \<in> set ps. recv_packet x \<and> length (snd x) \<le> 2048"
  shows "\<exists>v' w. run_calls userial_recv_uart_rawdata chunks v = Inr v' \<and>
    host_out v' = host_out v @ concat (map (h4_bytes \<circ> one_credit) ps) \<and>
    recv_vars v' = fst (fold recv_deliver ps (recv_vars v, [])) \<and>
    userial_coex_handler v' = Inr w \<and> btsnoop w = btsnoop v @ map (snoop_entry \<circ> one_credit) ps"
proof -
  have f: "run_calls recv_feed chunks (recv_vars v, host_out v) = Inr (fst (fold recv_deliver ps (recv_vars v, [])),
      host_out v @ concat (map (h4_bytes \<circ> one_credit) ps))"
    using recv_feed_stream [OF idle(1) chunks, of "host_out v"] ps size recv_deliver_fold [of ps "recv_vars v" "host_out v"]
    by simp
  obtain v' qs where v': "run_calls userial_recv_uart_rawdata chunks v = Inr v'"
    "recv_vars v' = fst (fold recv_deliver ps (recv_vars v, []))"
    "host_out v' = host_out v @ concat (map (h4_bytes \<circ> one_credit) ps)"
    and qs: "concat (map (h4_bytes \<circ> one_credit) ps) = concat qs" "[] \<notin> set qs" "u_recv_data v' = qs"
    "data_order v' = replicate (length qs) True" "thread_running v'" "coex_packet_recv_state v' = RTKBT_PACKET_IDLE"
    "length (coex_resvered_buffer v') = 2048" "btsnoop v' = btsnoop v"
    using rawdata_chunks [OF ready chunks(1) f] queues idle size by auto
  have hp: "\<forall>x \<in> set (map one_credit ps). hci_packet x \<and> length (snd x) \<le> length (coex_resvered_buffer v')"
    using ps one_credit_packet qs(7) by auto
  have "userial_coex_handler v' = Inr (with_queues [] [] (fold coex_deliver (map one_credit ps) (v'\<lparr>event_count := 0\<rparr>)))"
    by (rule coex_stream [OF qs(6,2)]) (use qs hp in auto)
  moreover have "btsnoop (fold coex_deliver (map one_credit ps) (v'\<lparr>event_count := 0\<rparr>)) = btsnoop v @ map (snoop_entry \<circ> one_credit) ps"
    using coex_fold_snoop [of "map one_credit ps"] hp qs(8) by simp
  ultimately show ?thesis using v' by (auto simp: with_queues_def)
qed

text \<open>Witness of C24: an event that completes a command and an ACL packet, in three buffers.\<close>

theorem uart_stream_witness:
  "\<exists>v' w. run_calls userial_recv_uart_rawdata [[4, 0x0E, 4], [3, 3, 0x0C, 0, 2], [1, 0x20, 1, 0, 9]] vnd_zero = Inr v' \<and>
     host_out v' = [4, 0x0E, 4, 1, 3, 0x0C, 0, 2, 1, 0x20, 1, 0, 9] \<and>
     userial_coex_handler v' = Inr w \<and> btsnoop w = [(0x1000, [0x0E, 4, 1, 3, 0x0C, 0], True), (0x1100, [1, 0x20, 1, 0, 9], True)]"
proof -
  let ?ps = "[(4, [0x0E, 4, 3, 3, 0x0C, 0]), (2, [1, 0x20, 1, 0, 9])] :: (u8 \<times> u8 list) list"
  have ps: "\<forall>x \<in> set ?ps. recv_packet x \<and> length (snd x) \<le> 2048"
    by (simp add: recv_packet_def hci_packet_def header_room_def hci_preamble_sizes_def coex_content_length_def
        data_type_defs byte_at_def uint16_at_def stream_to_uint16_def HCI_COMMAND_COMPLETE_EVT_def HCI_COMMAND_STATUS_EVT_def)
  have out: "concat (map (h4_bytes \<circ> one_credit) ?ps) = [4, 0x0E, 4, 1, 3, 0x0C, 0, 2, 1, 0x20, 1, 0, 9]"
    "map (snoop_entry \<circ> one_credit) ?ps = [(0x1000, [0x0E, 4, 1, 3, 0x0C, 0], True), (0x1100, [1, 0x20, 1, 0, 9], True)]"
    by (simp_all add: h4_bytes_def one_credit_def data_type_defs byte_at_def snoop_entry_def HCI_COMMAND_COMPLETE_EVT_def)
  show ?thesis
    using uart_stream [of vnd_zero "[[4, 0x0E, 4], [3, 3, 0x0C, 0, 2], [1, 0x20, 1, 0, 9]]" ?ps] ps
    unfolding out by (auto simp: stack_ready_def h4_bytes_def)
qed

section \<open>From the stack to the controller\<close>

text \<open>Bytes that are there, in pieces of any size, are read as one.\<close>

definition pieces :: "u8 list list \<Rightarrow> host_read list" where
  "pieces ds = map Read_data ds"

lemma host_read_pieces:
  assumes "[] \<notin> set ds" and "0 < n" and "ds \<noteq> []"
  obtains d ds' where "host_read_op n (v\<lparr>host_in := pieces ds @ r\<rparr>) = (Read_data d, v\<lparr>host_in := pieces ds' @ r\<rparr>)"
    and "[] \<notin> set ds'" and "d \<noteq> []" and "length d \<le> n" and "concat ds = d @ concat ds'"
proof (cases ds)
  case (Cons d ds')
  show thesis
  proof (cases "length d \<le> n")
    case True
    then show thesis using that [of d ds'] assms Cons by (auto simp: host_read_op_def pieces_def)
  next
    case False
    then show thesis
      using that [of "take n d" "drop n d # ds'"] assms Cons by (auto simp: host_read_op_def pieces_def)
  qed
qed (use assms in simp)

lemma h4_fill_pieces:
  assumes "[] \<notin> set ds" and "packet_bytes_need v \<le> length (concat ds)"
    and "h4_read_length v + 1 \<le> length (h4_read_buffer v)"
  shows "\<exists>ds'. [] \<notin> set ds' \<and> concat ds' = drop (packet_bytes_need v) (concat ds) \<and>
    h4_fill (v\<lparr>host_in := pieces ds @ r\<rparr>) =
      bind (array_write (h4_read_buffer v) (h4_read_length v + 1) (take (packet_bytes_need v) (concat ds)))
        (\<lambda>buf. Inr (True, v\<lparr>host_in := pieces ds' @ r, h4_read_buffer := buf,
           h4_read_length := h4_read_length v + packet_bytes_need v, packet_bytes_need := 0\<rparr>))"
  using assms
proof (induction "packet_bytes_need v" arbitrary: v ds rule: less_induct)
  case less
  show ?case
  proof (cases "packet_bytes_need v = 0")
    case True
    then show ?thesis
      using less.prems by (intro exI [of _ ds]) (subst h4_fill.simps, simp add: array_write_def)
  next
    case False
    then have ne: "ds \<noteq> []" using less.prems(2) by auto
    obtain d ds1 where rd: "host_read_op (packet_bytes_need v) (v\<lparr>host_in := pieces ds @ r\<rparr>) = (Read_data d, v\<lparr>host_in := pieces ds1 @ r\<rparr>)"
      and ds1: "[] \<notin> set ds1" "d \<noteq> []" "length d \<le> packet_bytes_need v" "concat ds = d @ concat ds1"
      by (rule host_read_pieces [OF less.prems(1) _ ne]) (use False in auto)
    let ?n = "packet_bytes_need v"
    have tk: "take ?n (concat ds) = d @ take (?n - length d) (concat ds1)" using ds1 by simp
    show ?thesis
    proof (cases "array_write (h4_read_buffer v) (h4_read_length v + 1) d")
      case (Inl e)
      then have "array_write (h4_read_buffer v) (h4_read_length v + 1) (take ?n (concat ds)) = Inl e"
        unfolding tk by (auto simp: array_write_fails)
      moreover have "\<exists>ds'. [] \<notin> set ds' \<and> concat ds' = drop ?n (concat ds)"
        by (rule exI [of _ "if drop ?n (concat ds) = [] then [] else [drop ?n (concat ds)]"]) simp
      ultimately show ?thesis
        using False ds1 Inl by (subst h4_fill.simps) (simp add: rd)
    next
      case (Inr buf)
      define w where "w = v\<lparr>h4_read_buffer := buf, h4_read_length := h4_read_length v + length d,
        packet_bytes_need := ?n - length d\<rparr>"
      have len: "h4_read_length v + 1 + length d \<le> length buf"
        using Inr array_write_length [OF Inr] by (simp add: array_write_def split: if_splits)
      have lt: "packet_bytes_need w < ?n" using ds1 False by (cases d) (auto simp: w_def)
      have "packet_bytes_need w \<le> length (concat ds1)" "h4_read_length w + 1 \<le> length (h4_read_buffer w)"
        using ds1(4) less.prems(2) len by (auto simp: w_def)
      then obtain ds' where ds': "[] \<notin> set ds'" "concat ds' = drop (packet_bytes_need w) (concat ds1)"
        "h4_fill (w\<lparr>host_in := pieces ds1 @ r\<rparr>) =
          bind (array_write (h4_read_buffer w) (h4_read_length w + 1) (take (packet_bytes_need w) (concat ds1)))
          (\<lambda>buf. Inr (True, w\<lparr>host_in := pieces ds' @ r, h4_read_buffer := buf,
             h4_read_length := h4_read_length w + packet_bytes_need w, packet_bytes_need := 0\<rparr>))"
        using less.hyps [OF lt ds1(1)] by blast
      have "h4_fill (v\<lparr>host_in := pieces ds @ r\<rparr>) = h4_fill (w\<lparr>host_in := pieces ds1 @ r\<rparr>)"
      proof -
        have "v\<lparr>host_in := pieces ds1 @ r, h4_read_buffer := buf, h4_read_length := h4_read_length v + length d,
          packet_bytes_need := ?n - length d\<rparr> = w\<lparr>host_in := pieces ds1 @ r\<rparr>" by (simp add: w_def)
        then show ?thesis using False ds1 Inr by (subst h4_fill.simps) (simp add: rd)
      qed
      then show ?thesis
        using ds' ds1 Inr array_write_append [of "h4_read_buffer v" "h4_read_length v + 1" d "take (?n - length d) (concat ds1)"]
        by (intro exI [of _ ds']) (simp add: tk w_def)
    qed
  qed
qed

text \<open>A packet of this direction, and the state in which the function holds all of it.\<close>

definition host_packet :: "u8 \<times> u8 list \<Rightarrow> bool" where
  "host_packet = (\<lambda>(t, p). t \<in> {DATA_TYPE_COMMAND, DATA_TYPE_ACL, DATA_TYPE_SCO} \<and>
     hci_preamble_sizes t \<le> length p \<and> length p = hci_preamble_sizes t + h4_content_length t (t # p))"

definition h4_loaded :: "u8 \<times> u8 list \<Rightarrow> host_read list \<Rightarrow> vnd_lib \<Rightarrow> vnd_lib" where
  "h4_loaded = (\<lambda>(t, p) inp v. v\<lparr>host_in := inp, current_type := t,
     h4_read_buffer := t # p @ drop (length p + 1) (h4_read_buffer v), h4_read_length := length p,
     packet_bytes_need := 0, packet_recv_state := RTKBT_PACKET_END\<rparr>)"

lemma h4_length_prefix:
  assumes "host_packet (t, p)"
  shows "h4_content_length t (t # take (hci_preamble_sizes t) p @ r) = h4_content_length t (t # p)"
proof -
  have "byte_at (t # take (hci_preamble_sizes t) p @ r) i = byte_at (t # p) i" if "i \<le> hci_preamble_sizes t" for i
    using assms that by (cases i) (auto simp: host_packet_def byte_at_def nth_append)
  then show ?thesis
    using assms by (auto simp: host_packet_def h4_content_length_def hci_preamble_sizes_def uint16_at_def data_type_defs)
qed

lemma h4_content_read:
  assumes t: "host_packet (t, p)" and n: "n = hci_preamble_sizes t" and ds: "[] \<notin> set ds" "concat ds = drop n p @ rest"
    and len: "5 \<le> length (h4_read_buffer v)"
  shows "\<exists>ds'. [] \<notin> set ds' \<and> concat ds' = rest \<and>
    h4_content t (v\<lparr>host_in := pieces ds @ r, current_type := t, h4_read_buffer := t # take n p @ drop (n + 1) (h4_read_buffer v),
       h4_read_length := n, packet_bytes_need := h4_content_length t (t # p), packet_recv_state := RTKBT_PACKET_CONTENT\<rparr>) =
    (if length p + 1 \<le> length (h4_read_buffer v) then h4_finish t (h4_loaded (t, p) (pieces ds' @ r) v) else Inl Buffer_overrun)"
proof -
  let ?buf = "t # take n p @ drop (n + 1) (h4_read_buffer v)"
  define w where "w = v\<lparr>current_type := t, h4_read_buffer := ?buf, h4_read_length := n,
    packet_bytes_need := h4_content_length t (t # p), packet_recv_state := RTKBT_PACKET_CONTENT\<rparr>"
  have n4: "n \<le> 4" "n \<le> length p" "length p = n + h4_content_length t (t # p)"
    using t by (auto simp: n host_packet_def hci_preamble_sizes_def)
  have c: "packet_bytes_need w \<le> length (concat ds)" "h4_read_length w + 1 \<le> length (h4_read_buffer w)"
    using n4 len by (simp_all add: w_def ds)
  obtain ds' where ds': "[] \<notin> set ds'" "concat ds' = drop (packet_bytes_need w) (concat ds)"
    and f: "h4_fill (w\<lparr>host_in := pieces ds @ r\<rparr>) =
      bind (array_write (h4_read_buffer w) (h4_read_length w + 1) (take (packet_bytes_need w) (concat ds)))
        (\<lambda>buf. Inr (True, w\<lparr>host_in := pieces ds' @ r, h4_read_buffer := buf,
           h4_read_length := h4_read_length w + packet_bytes_need w, packet_bytes_need := 0\<rparr>))"
    using h4_fill_pieces [OF ds(1) c, of r] by blast
  have need: "packet_bytes_need w = length (drop n p)" using n4 by (simp add: w_def)
  have aw: "array_write ?buf (n + 1) (drop n p) = (if length p + 1 \<le> length (h4_read_buffer v)
      then Inr (t # p @ drop (length p + 1) (h4_read_buffer v)) else Inl Buffer_overrun)"
    using n4(1,2) len by (auto simp: array_write_def simp flip: append_assoc)
  have fin: "w\<lparr>host_in := pieces ds' @ r, h4_read_buffer := t # p @ drop (Suc (length p)) (h4_read_buffer v),
      h4_read_length := length p, packet_bytes_need := 0, packet_recv_state := RTKBT_PACKET_END\<rparr> = h4_loaded (t, p) (pieces ds' @ r) v"
    by (simp add: w_def h4_loaded_def)
  have "h4_content t (w\<lparr>host_in := pieces ds @ r\<rparr>) =
    (if length p + 1 \<le> length (h4_read_buffer v) then h4_finish t (h4_loaded (t, p) (pieces ds' @ r) v) else Inl Buffer_overrun)"
  proof -
    have "array_write (h4_read_buffer w) (h4_read_length w + 1) (take (packet_bytes_need w) (concat ds)) =
        array_write ?buf (n + 1) (drop n p)" using need by (simp add: w_def ds)
    moreover have "h4_read_length w + packet_bytes_need w = length p" using n4 by (simp add: w_def)
    ultimately show ?thesis unfolding h4_content_def f aw by (simp add: fin del: drop_append)
  qed
  moreover have "w\<lparr>host_in := pieces ds @ r\<rparr> = v\<lparr>host_in := pieces ds @ r, current_type := t, h4_read_buffer := ?buf,
       h4_read_length := n, packet_bytes_need := h4_content_length t (t # p), packet_recv_state := RTKBT_PACKET_CONTENT\<rparr>"
    by (simp add: w_def)
  ultimately show ?thesis using ds' need ds(2) by (intro exI [of _ ds']) simp
qed

lemma h4_packet_read:
  assumes idle: "packet_recv_state v = RTKBT_PACKET_IDLE" and t: "host_packet (t, p)" and len: "5 \<le> length (h4_read_buffer v)"
    and inp: "host_in v = pieces ds @ r" "[] \<notin> set ds" "concat ds = t # p @ rest"
  shows "\<exists>ds'. [] \<notin> set ds' \<and> concat ds' = rest \<and> userial_recv_H4_rawdata v =
    (if length p + 1 \<le> length (h4_read_buffer v) then h4_finish t (h4_loaded (t, p) (pieces ds' @ r) v) else Inl Buffer_overrun)"
proof -
  define n where "n = hci_preamble_sizes t"
  have n4: "n \<le> 4" "n \<le> length p" using t by (auto simp: n_def host_packet_def hci_preamble_sizes_def)
  have ty: "\<not> (t < DATA_TYPE_COMMAND \<or> t > DATA_TYPE_SCO)" using t by (auto simp: host_packet_def data_type_defs)
  let ?v = "v\<lparr>packet_bytes_need := 1\<rparr>"
  have v1: "?v = ?v\<lparr>host_in := pieces ds @ r\<rparr>" using inp(1) by simp
  have "ds \<noteq> []" using inp(3) by auto
  from host_read_pieces [OF inp(2) zero_less_one this, where v = ?v and r = r]
  obtain d ds1 where d: "host_read_op 1 (?v\<lparr>host_in := pieces ds @ r\<rparr>) = (Read_data d, ?v\<lparr>host_in := pieces ds1 @ r\<rparr>)"
    and ds1: "[] \<notin> set ds1" "d \<noteq> []" "length d \<le> 1" "concat ds = d @ concat ds1"
    by blast
  have dt: "d = [t]" and c1: "concat ds1 = p @ rest" using ds1 inp(3) by (cases d; simp)+
  let ?buf0 = "t # drop 1 (h4_read_buffer v)"
  define w where "w = v\<lparr>current_type := t, h4_read_buffer := ?buf0, packet_bytes_need := n, h4_read_length := 0,
    packet_recv_state := RTKBT_PACKET_HEADER\<rparr>"
  have c: "packet_bytes_need w \<le> length (concat ds1)" "h4_read_length w + 1 \<le> length (h4_read_buffer w)"
    using n4 by (simp_all add: w_def c1)
  obtain ds2 where ds2: "[] \<notin> set ds2" "concat ds2 = drop (packet_bytes_need w) (concat ds1)"
    and f: "h4_fill (w\<lparr>host_in := pieces ds1 @ r\<rparr>) =
      bind (array_write (h4_read_buffer w) (h4_read_length w + 1) (take (packet_bytes_need w) (concat ds1)))
        (\<lambda>buf. Inr (True, w\<lparr>host_in := pieces ds2 @ r, h4_read_buffer := buf,
           h4_read_length := h4_read_length w + packet_bytes_need w, packet_bytes_need := 0\<rparr>))"
    using h4_fill_pieces [OF ds1(1) c, of r] by blast
  let ?buf1 = "t # take n p @ drop (n + 1) (h4_read_buffer v)"
  have aw: "array_write (h4_read_buffer w) (h4_read_length w + 1) (take (packet_bytes_need w) (concat ds1)) = Inr ?buf1"
    using n4 len by (simp add: w_def c1 array_write_def)
  have c2: "concat ds2 = drop n p @ rest" using ds2(2) n4 by (simp add: w_def c1)
  obtain ds' where ds': "[] \<notin> set ds'" "concat ds' = rest"
    and h: "h4_content t (v\<lparr>host_in := pieces ds2 @ r, current_type := t, h4_read_buffer := ?buf1,
       h4_read_length := n, packet_bytes_need := h4_content_length t (t # p), packet_recv_state := RTKBT_PACKET_CONTENT\<rparr>) =
    (if length p + 1 \<le> length (h4_read_buffer v) then h4_finish t (h4_loaded (t, p) (pieces ds' @ r) v) else Inl Buffer_overrun)"
    using h4_content_read [OF t n_def ds2(1) c2 len, of r] by blast
  have hl: "h4_content_length t ?buf1 = h4_content_length t (t # p)"
    using h4_length_prefix [OF t] by (simp add: n_def)
  have "userial_recv_H4_rawdata v = h4_header t (w\<lparr>host_in := pieces ds1 @ r\<rparr>)"
  proof -
    have "v\<lparr>host_in := pieces ds1 @ r, current_type := t, h4_read_buffer := ?buf0, packet_bytes_need := n,
        h4_read_length := 0, packet_recv_state := RTKBT_PACKET_HEADER\<rparr> = w\<lparr>host_in := pieces ds1 @ r\<rparr>"
      by (simp add: w_def)
    moreover have "array_write (h4_read_buffer v) 0 [t] = Inr ?buf0" using len by (simp add: array_write_def)
    moreover have "host_read_op 1 ?v = (Read_data [t], ?v\<lparr>host_in := pieces ds1 @ r\<rparr>)" using d v1 dt by metis
    ultimately show ?thesis
      using idle ty by (simp add: userial_recv_H4_rawdata_def h4_idle_def h4_type_def n_def [symmetric])
  qed
  also have "\<dots> = h4_content t (w\<lparr>host_in := pieces ds2 @ r, h4_read_buffer := ?buf1, h4_read_length := n,
      packet_recv_state := RTKBT_PACKET_CONTENT, packet_bytes_need := h4_content_length t (t # p)\<rparr>)"
    unfolding h4_header_def f aw using hl by (simp add: w_def)
  also have "w\<lparr>host_in := pieces ds2 @ r, h4_read_buffer := ?buf1, h4_read_length := n,
      packet_recv_state := RTKBT_PACKET_CONTENT, packet_bytes_need := h4_content_length t (t # p)\<rparr> =
    v\<lparr>host_in := pieces ds2 @ r, current_type := t, h4_read_buffer := ?buf1,
       h4_read_length := n, packet_bytes_need := h4_content_length t (t # p), packet_recv_state := RTKBT_PACKET_CONTENT\<rparr>"
    by (simp add: w_def)
  finally show ?thesis using ds' h by (intro exI [of _ ds']) simp
qed

text \<open>The commands the library looks at.\<close>

definition handled_opcodes :: "u16 set" where
  "handled_opcodes = {0x200B, 0x2041, 0x0C26, 0x0C01, 0x0409, 0x2006, 0x200A, 0x200D}"

definition plain_packet :: "u8 \<times> u8 list \<Rightarrow> bool" where
  "plain_packet x \<longleftrightarrow> host_packet x \<and> length (snd x) < 2048 \<and>
     (fst x = DATA_TYPE_COMMAND \<longrightarrow> uint16_at (snd x) 0 \<notin> handled_opcodes)"

text \<open>The library between two packets, with the plain UART protocol and a UART that takes what is written.\<close>

definition uart_ready :: "vnd_lib \<Rightarrow> bool" where
  "uart_ready v \<longleftrightarrow> vmem_ok v \<and> btdriver_state v \<and> (\<forall>ret \<in> set (uart_wr v). 0 < ret) \<and>
     rtkbt_transtype v AND RTKBT_TRANS_H4 \<noteq> 0 \<and> packet_recv_state v = RTKBT_PACKET_IDLE \<and> length (h4_read_buffer v) = 2048"

lemma handle_cmd_other: "uint16_at (h4_read_buffer v) 1 \<notin> handled_opcodes \<Longrightarrow> userial_handle_cmd v = Inr v"
  by (simp add: userial_handle_cmd_def handled_opcodes_def Let_def)

lemma packet_written:
  assumes "vmem_ok v" "btdriver_state v" "\<forall>ret \<in> set (uart_wr v). 0 < ret" and "data \<noteq> []"
  obtains ws e where "bind (h4_int_transmit_data v data) (\<lambda>(n, v). userial_enqueue_coex_rawdata v data False) =
      Inr (v\<lparr>uart_out := uart_out v @ data, uart_wr := ws, vheap := e, u_send_data := u_send_data v @ [data],
             data_order := data_order v @ [False], event_count := event_count v + 1\<rparr>)"
    and "set ws \<subseteq> set (uart_wr v)" and "malloc_ok e = malloc_ok (vheap v)"
proof -
  let ?w = "v\<lparr>uart_out := uart_out v @ data, uart_wr := snd (write_loop (uart_wr v) data)\<rparr>"
  have "h4_int_transmit_data v data = Inr (length data, ?w)"
    using assms write_loop_all [of "uart_wr v" data] by (simp add: h4_int_transmit_data_def split_def Let_def)
  moreover have "vmem_ok ?w" using assms(1) by (simp add: vmem_ok_def)
  then obtain e where "malloc_ok e = malloc_ok (vheap ?w)"
    "userial_enqueue_coex_rawdata ?w data False = Inr (?w\<lparr>vheap := e, u_recv_data := u_recv_data ?w,
       u_send_data := u_send_data ?w @ [data], data_order := data_order ?w @ [False], event_count := event_count ?w + 1\<rparr>)"
    by (rule enqueue_coex_ok [of ?w data False]) simp
  ultimately show thesis
    using that [of e "snd (write_loop (uart_wr v) data)"] write_loop_left by simp
qed

lemma plain_packet_sent:
  assumes v: "uart_ready v" and x: "plain_packet x"
    and inp: "host_in v = pieces ds" "[] \<notin> set ds" "concat ds = h4_bytes x @ rest"
  shows "\<exists>v' ds'. userial_recv_H4_rawdata v = Inr v' \<and> uart_ready v' \<and> uart_out v' = uart_out v @ h4_bytes x \<and>
    u_send_data v' = u_send_data v @ [h4_bytes x] \<and> host_in v' = pieces ds' \<and> [] \<notin> set ds' \<and> concat ds' = rest"
proof -
  obtain t p where tp: "x = (t, p)" by (cases x)
  have t: "host_packet (t, p)" "length p < 2048" and op: "t = DATA_TYPE_COMMAND \<longrightarrow> uint16_at p 0 \<notin> handled_opcodes"
    using x by (simp_all add: plain_packet_def tp)
  obtain ds' where ds': "[] \<notin> set ds'" "concat ds' = rest"
    and r: "userial_recv_H4_rawdata v = h4_finish t (h4_loaded (t, p) (pieces ds') v)"
    using h4_packet_read [of v t p ds "[]" rest] v t inp by (auto simp: uart_ready_def tp h4_bytes_def)
  let ?l = "h4_loaded (t, p) (pieces ds') v"
  have l: "vmem_ok ?l" "btdriver_state ?l" "\<forall>ret \<in> set (uart_wr ?l). 0 < ret" "rtkbt_transtype ?l AND RTKBT_TRANS_H4 \<noteq> 0"
    "current_type ?l = t" "take (h4_read_length ?l + 1) (h4_read_buffer ?l) = t # p"
    "length (h4_read_buffer ?l) = 2048" "host_in ?l = pieces ds'" "uart_out ?l = uart_out v" "u_send_data ?l = u_send_data v"
    "uart_wr ?l = uart_wr v"
    using v t(2) by (simp_all add: uart_ready_def h4_loaded_def vmem_ok_def)
  have b: "uint16_at (h4_read_buffer ?l) 1 = uint16_at p 0" if "2 \<le> length p"
  proof -
    obtain a c q where "p = a # c # q" using \<open>2 \<le> length p\<close> by (auto simp: numeral_2_eq_2 Suc_le_length_iff)
    then show ?thesis by (simp add: h4_loaded_def uint16_at_def byte_at_def nth_append)
  qed
  have "2 \<le> length p" using t(1) by (auto simp: host_packet_def hci_preamble_sizes_def)
  then have c: "userial_handle_cmd ?l = Inr ?l" if "t = DATA_TYPE_COMMAND" using handle_cmd_other b op that by simp
  have "t \<in> {DATA_TYPE_COMMAND, DATA_TYPE_ACL, DATA_TYPE_SCO}" using t(1) by (simp add: host_packet_def)
  then have e: "h4_end t ?l = bind (h4_int_transmit_data ?l (t # p)) (\<lambda>(n, v). userial_enqueue_coex_rawdata v (t # p) False)"
    using l c by (auto simp: h4_end_def userial_send_acl_to_controller_def userial_send_sco_to_controller_def
        bind_assoc split_def Let_def data_type_defs)
  obtain ws e where w: "h4_end t ?l = Inr (?l\<lparr>uart_out := uart_out ?l @ t # p, uart_wr := ws, vheap := e,
      u_send_data := u_send_data ?l @ [t # p], data_order := data_order ?l @ [False], event_count := event_count ?l + 1\<rparr>)"
    "set ws \<subseteq> set (uart_wr ?l)" "malloc_ok e = malloc_ok (vheap ?l)"
    unfolding e by (rule packet_written [OF l(1-3), of "t # p"]) auto
  show ?thesis
    unfolding r h4_finish_def w(1)
    using ds' l w(2,3) v by (intro exI [of _ ds'] exI)
      (auto simp: h4_reset_def uart_ready_def vmem_ok_def tp h4_bytes_def)
qed



end
