(* ===== verification/LiveProperties.thy ===== *)
theory LiveProperties
  imports UserialProperties
begin

text \<open>
  Properties of the commands the library changes on their way to the controller
  (hardware/bt/src/userial_vendor.c), of the heartbeat (rtk_heartbeat.c) and of the command service it
  runs on (rtk_btservice.c).
\<close>

section \<open>Scan parameters\<close>

lemma even_mask: "x < 256 \<Longrightarrow> unat (x AND 0xFE :: u16) = unat x - unat x mod 2"
proof -
  have "\<forall>n \<in> set [0..<256]. unat (of_nat n AND 0xFE :: u16) = n - n mod 2" by code_simp
  then show "x < 256 \<Longrightarrow> unat (x AND 0xFE) = unat x - unat x mod 2"
    by (auto simp: word_less_nat_alt dest: bspec [of _ _ "unat x"])
qed

lemma small_product:
  fixes x :: u16
  assumes "x < n" and "unat n * unat k < 256"
  shows "unat (x * k AND 0xFE) = unat x * unat k - unat x * unat k mod 2"
proof -
  have "unat x * unat k \<le> unat n * unat k" using assms(1) by (simp add: word_less_nat_alt mult_le_mono1)
  then have "unat x * unat k < 256" using assms(2) by linarith
  moreover from this have "unat (x * k) = unat x * unat k" by (simp add: unat_word_ariths)
  ultimately show ?thesis by (simp add: even_mask word_less_nat_alt)
qed

lemma scan_scaled:
  fixes i w :: u16
  assumes "20 < w" and "2 < i div w"
  shows "40 \<le> unat (of_nat (unat i * 20 div unat w) :: u16)"
proof -
  have w: "20 < unat w" and d: "2 < unat i div unat w"
    using assms by (simp_all add: word_less_nat_alt unat_div_distrib)
  have "3 * unat w \<le> unat i" using d by (metis Suc_leI div_le_dividend eval_nat_numeral(3) less_eq_div_iff_mult_less_eq w zero_less_numeral order.strict_trans)
  then have "60 \<le> unat i * 20 div unat w" using w by (simp add: less_eq_div_iff_mult_less_eq)
  moreover have "unat i * 20 div unat w \<le> unat i * 20 div 20" using w by (intro div_le_mono2) auto
  then have "unat i * 20 div unat w < 65536" using unsigned_less [of i, where 'a = nat] by simp
  ultimately show ?thesis by (simp add: unat_of_nat)
qed

text \<open>A short window that fills more than a third of its interval.\<close>

lemma scan_tight:
  fixes i w :: u16
  assumes "0 < w" and "w \<le> 20" and "i div w \<le> 2"
  shows "unat (i * 3 AND 0xFE) = unat i * 3 - unat i * 3 mod 2"
proof -
  have "unat i div unat w \<le> 2" using assms(3) by (simp add: word_le_nat_alt unat_div_distrib)
  then have "unat i < 3 * unat w"
    using assms(1) by (simp add: word_less_nat_alt div_less_iff_less_mult flip: less_Suc_eq_le)
  then have "i < 60" using assms(2) by (simp add: word_less_nat_alt word_le_nat_alt)
  then show ?thesis using small_product [of i 60 3] by simp
qed

lemma scan_params_bounded:
  assumes w: "0 < w" and i: "w \<le> i" and s: "scan_params i w = Inr (i', w')"
  shows "0 < w' \<and> w' \<le> 20 \<and> 2 * unat w' \<le> unat i'"
proof -
  have pos: "0 < unat w" "unat w \<le> unat i" using w i by (simp_all add: word_less_nat_alt word_le_nat_alt)
  consider (long) "20 < w" | (same) "w \<le> 20" "w = i" | (tight) "w \<le> 20" "w \<noteq> i" "i div w \<le> 2"
    | (sparse) "w \<le> 20" "w \<noteq> i" "2 < i div w"
    by fastforce
  then show ?thesis
  proof cases
    case long
    then show ?thesis using s scan_scaled [of w i] by (auto simp: scan_params_def split: if_splits)
  next
    case same
    then have "i' = i * 5 AND 0xFE" "w' = i" using s by (auto simp: scan_params_def split: if_splits)
    moreover have "unat (i * 5 AND 0xFE) = unat i * 5 - unat i * 5 mod 2"
      using small_product [of i 21 5] same by (simp add: word_less_nat_alt word_le_nat_alt)
    ultimately show ?thesis using same pos w by simp
  next
    case tight
    then have "i' = i * 3 AND 0xFE" "w' = w" using s w by (auto simp: scan_params_def split: if_splits)
    then show ?thesis using scan_tight [OF w tight(1,3)] tight(1) pos w by simp
  next
    case sparse
    then have "i' = i" "w' = w" using s w by (auto simp: scan_params_def split: if_splits)
    moreover have "3 \<le> unat i div unat w" using sparse(3) by (simp add: word_less_nat_alt unat_div_distrib)
    then have "3 * unat w \<le> unat i" using pos(1) by (simp add: less_eq_div_iff_mult_less_eq)
    ultimately show ?thesis using sparse(1) w by simp
  qed
qed

text \<open>C32: for every valid pair the stack asks for, the window of a legacy scan command is at most 20
  slots and at most half the interval when the command goes on; the extended command is treated alike, except that a
  short window that fills more than a third of its interval is replaced by the tripled interval and ends up longer than
  the interval.\<close>

theorem scan_window_bounded:
  assumes "0 < w" and "w \<le> i"
  shows "(\<exists>i' w'. scan_params i w = Inr (i', w') \<and> 0 < w' \<and> w' \<le> 20 \<and> 2 * unat w' \<le> unat i') \<and>
    (if w \<le> 20 \<and> w \<noteq> i \<and> i div w \<le> 2
     then \<exists>w'. ext_scan_params i w = Inr (i, w') \<and> i < w'
     else ext_scan_params i w = scan_params i w)"
proof -
  obtain i' w' where s: "scan_params i w = Inr (i', w')" using assms(1) that by (force simp: scan_params_def split: if_splits)
  have "i < i * 3 AND 0xFE" if "w \<le> 20" "i div w \<le> 2"
    using scan_tight [OF assms(1) that] assms by (simp add: word_less_nat_alt word_le_nat_alt)
  then show ?thesis
    using scan_params_bounded [OF assms s] s assms(1) by (auto simp: ext_scan_params_def scan_params_def)
qed

text \<open>Witness of C32: interval 18, window 12.\<close>

theorem scan_window_bounded_witness:
  "scan_params 18 12 = Inr (54, 12) \<and> ext_scan_params 18 12 = Inr (18, 54) \<and>
   (\<exists>i' w'. scan_params 18 12 = Inr (i', w') \<and> 0 < w' \<and> w' \<le> 20 \<and> 2 * unat w' \<le> unat i')"
  using scan_window_bounded [of 12 18] by (simp add: scan_params_def ext_scan_params_def)

section \<open>Packets of the stack that are not sent\<close>

text \<open>C30: whatever the pieces it arrives in, a packet of the stack whose header announces 2048 bytes or more
  in all (with its header) is written past the end of the array that holds packets; of the three types only ACL packets can
  be that long.\<close>

theorem host_overrun:
  assumes "packet_recv_state v = RTKBT_PACKET_IDLE" and "length (h4_read_buffer v) = 2048" and "host_packet (t, p)"
    and "2048 \<le> length p" and "host_in v = pieces ds" and "[] \<notin> set ds" and "concat ds = t # p @ rest"
  shows "userial_recv_H4_rawdata v = Inl Buffer_overrun \<and> t = DATA_TYPE_ACL"
proof -
  have "unat (byte_at (t # p) 3) < 256" using unsigned_less [of "byte_at (t # p) 3", where 'a = nat] by simp
  then have "t = DATA_TYPE_ACL"
    using assms(3,4) by (auto simp: host_packet_def h4_content_length_def hci_preamble_sizes_def data_type_defs split: if_splits)
  then show ?thesis using h4_packet_read [of v t p ds "[]" rest] assms by auto
qed

text \<open>Witness of C30: an ACL packet with 2044 bytes of data, in one piece.\<close>

theorem host_overrun_witness:
  "userial_recv_H4_rawdata (vnd_zero\<lparr>host_in := pieces [[2, 1, 0x20, 0xFC, 0x07] @ replicate 2044 0]\<rparr>) = Inl Buffer_overrun"
proof -
  let ?p = "[1, 0x20, 0xFC, 0x07] @ replicate 2044 0 :: u8 list"
  have "host_packet (2, ?p)"
    by (simp add: host_packet_def hci_preamble_sizes_def h4_content_length_def data_type_defs byte_at_def uint16_at_def
        stream_to_uint16_def)
  moreover have "packet_recv_state vnd_zero = RTKBT_PACKET_IDLE" "length (h4_read_buffer vnd_zero) = 2048"
    by (simp_all add: vnd_zero_def)
  ultimately show ?thesis
    using host_overrun [of "vnd_zero\<lparr>host_in := pieces [2 # ?p]\<rparr>" 2 ?p "[2 # ?p]" "[]"]
    by (simp add: DATA_TYPE_ACL_def)
qed

text \<open>C31: with the three-wire transport, a command whose content the library was still reading
  when a read failed is complete after a later call, but is not sent: the call hands the transport a packet of type 0, which
  refuses it, while the coexistence thread is told that the command was sent.\<close>

theorem interrupted_command_dropped:
  assumes m: "vmem_ok v" and t: "rtkbt_transtype v AND RTKBT_TRANS_H4 = 0" and st: "packet_recv_state v = RTKBT_PACKET_CONTENT"
    and c: "current_type v = DATA_TYPE_COMMAND" and op: "uint16_at (h4_read_buffer v) 1 \<notin> insert HCI_VSC_H5_INIT handled_opcodes"
    and len: "2 \<le> h4_read_length v" "h4_read_length v + packet_bytes_need v < length (h4_read_buffer v)"
    and inp: "host_in v = pieces ds" "[] \<notin> set ds" "length (concat ds) = packet_bytes_need v"
  shows "\<exists>v'. userial_recv_H4_rawdata v = Inr v' \<and> h5_cb v' = h5_cb v \<and> uart_out v' = uart_out v \<and>
    u_send_data v' = u_send_data v @ [take (h4_read_length v + 1) (h4_read_buffer v) @ concat ds]"
proof -
  let ?n = "h4_read_length v" and ?b = "packet_bytes_need v"
  let ?buf = "take (?n + 1) (h4_read_buffer v) @ concat ds @ drop (?n + 1 + ?b) (h4_read_buffer v)"
  define w where "w = v\<lparr>host_in := [], h4_read_buffer := ?buf, h4_read_length := ?n + ?b, packet_bytes_need := 0,
    packet_recv_state := RTKBT_PACKET_END\<rparr>"
  have v: "v = v\<lparr>host_in := pieces ds @ []\<rparr>" using inp(1) by simp
  obtain ds' where ds': "[] \<notin> set ds'" "concat ds' = drop ?b (concat ds)"
    and f: "h4_fill (v\<lparr>host_in := pieces ds @ []\<rparr>) = bind (array_write (h4_read_buffer v) (?n + 1) (take ?b (concat ds)))
      (\<lambda>buf. Inr (True, v\<lparr>host_in := pieces ds' @ [], h4_read_buffer := buf, h4_read_length := ?n + ?b, packet_bytes_need := 0\<rparr>))"
    using h4_fill_pieces [OF inp(2), of v "[]"] inp(3) len(2) by auto
  have e: "ds' = []" using ds' inp(3) by (cases ds') auto
  have "userial_recv_H4_rawdata v = h4_finish 0 w"
    using f v inp(3) len e st
    by (simp add: userial_recv_H4_rawdata_def h4_content_def array_write_def w_def pieces_def)
  moreover have w: "vmem_ok w" "rtkbt_transtype w AND RTKBT_TRANS_H4 = 0" "current_type w = DATA_TYPE_COMMAND"
    "take (h4_read_length w + 1) (h4_read_buffer w) = take (?n + 1) (h4_read_buffer v) @ concat ds"
    using m t c len inp(3) by (simp_all add: w_def vmem_ok_def)
  moreover have o: "uint16_at (h4_read_buffer w) 1 = uint16_at (h4_read_buffer v) 1"
    "uint16_at (take (?n + 1) (h4_read_buffer v) @ concat ds) 1 = uint16_at (h4_read_buffer v) 1"
    using len inp(3) by (auto simp add: w_def uint16_at_def byte_at_def nth_append)
  moreover have "userial_handle_cmd w = Inr w" using o(1) op by (intro handle_cmd_other) simp
  moreover have "h5_call w (snd (hci_h5_send_cmd (h5_cb w) 0 d)) = Inr w" for d
    by (simp add: h5_call_def hci_h5_send_cmd_def HCI_COMMAND_PKT_def)
  moreover obtain e where "userial_enqueue_coex_rawdata w (take (?n + 1) (h4_read_buffer v) @ concat ds) False =
      Inr (w\<lparr>vheap := e, u_recv_data := u_recv_data w, u_send_data := u_send_data w @ [take (?n + 1) (h4_read_buffer v) @ concat ds],
        data_order := data_order w @ [False], event_count := event_count w + 1\<rparr>)"
    using enqueue_coex_ok [OF w(1), of "take (?n + 1) (h4_read_buffer v) @ concat ds" False] by fastforce
  ultimately show ?thesis
    using op by (simp add: h4_finish_def h4_end_def Let_def h4_reset_def w_def)
qed

text \<open>Witness of C31: a command with one parameter, whose first four bytes were read before.\<close>

theorem interrupted_command_dropped_witness:
  "\<exists>v'. userial_recv_H4_rawdata (vnd_zero\<lparr>packet_recv_state := RTKBT_PACKET_CONTENT, current_type := 1, h4_read_length := 3,
       packet_bytes_need := 1, h4_read_buffer := [1, 0x1A, 0x0C, 1] @ replicate 2044 0, host_in := pieces [[3]]\<rparr>) = Inr v' \<and>
     uart_out v' = [] \<and> u_send_data v' = [[1, 0x1A, 0x0C, 1, 3]]"
proof -
  let ?v = "vnd_zero\<lparr>packet_recv_state := RTKBT_PACKET_CONTENT, current_type := 1, h4_read_length := 3,
       packet_bytes_need := 1, h4_read_buffer := [1, 0x1A, 0x0C, 1] @ replicate 2044 0, host_in := pieces [[3]]\<rparr>"
  have "uint16_at (h4_read_buffer ?v) 1 \<notin> insert HCI_VSC_H5_INIT handled_opcodes"
    by (simp add: uint16_at_def byte_at_def stream_to_uint16_def handled_opcodes_def HCI_VSC_H5_INIT_def)
  moreover have "vmem_ok ?v" "rtkbt_transtype ?v AND RTKBT_TRANS_H4 = 0" "uart_out ?v = []" "u_send_data ?v = []"
    by (simp_all add: vnd_zero_def vmem_ok_def RTKBT_TRANS_H4_def)
  ultimately show ?thesis
    using interrupted_command_dropped [of ?v "[[3]]"] by (auto simp: DATA_TYPE_COMMAND_def)
qed

section \<open>The heartbeat's configuration file\<close>

text \<open>A line buffer whose string ends in its first half: no end that is sought lies behind the array.\<close>

definition short_line :: "u8 list \<Rightarrow> bool" where
  "short_line line \<longleftrightarrow> length line = 1024 \<and> (\<forall>i < 1024. 511 \<le> i \<longrightarrow> line ! i = 0)"

lemma short_line_update:
  assumes "short_line line"
  shows "short_line (line[i := 0])"
proof -
  have "line[i := 0] ! j = 0" if "line ! j = 0" "j < length line" for j
    using that by (cases "i = j") auto
  then show ?thesis using assms by (simp add: short_line_def)
qed

lemma short_line_span:
  assumes "short_line line" and "k \<le> 511" and "\<not> P 0"
  shows "length (takeWhile P (drop k line)) \<le> 511 - k"
proof (rule ccontr)
  assume "\<not> ?thesis"
  then have j: "511 - k < length (takeWhile P (drop k line))" by simp
  then have "P (takeWhile P (drop k line) ! (511 - k))" by (meson nth_mem set_takeWhileD)
  then show False using takeWhile_nth [OF j] assms by (simp add: short_line_def)
qed

lemma trim_back_le: "trim_back line p e \<le> e"
  by (induction line p e rule: trim_back.induct) (subst trim_back.simps, auto)

lemma short_line_trim:
  assumes "short_line line" and "k \<le> 511"
  obtains p line' where "rtk_trim line k = Inr (p, line')" and "short_line line'" and "p \<le> 511"
proof -
  let ?p = "k + length (takeWhile isspace (drop k line))"
  have p: "?p \<le> 511" using short_line_span [OF assms, of isspace] assms(2) by (simp add: isspace_def)
  have "strlen line k \<le> 511" using short_line_span [OF assms, of "\<lambda>c. c \<noteq> 0"] by (simp add: strlen_def)
  then have e: "trim_back line ?p (?p + strlen line k - 1) + 1 < length line" (is "?e + 1 < _")
    using trim_back_le [of line ?p "?p + strlen line k - 1"] p assms(1) by (simp add: short_line_def)
  have "rtk_trim line k = Inr (?p, if char_at line ?p = 0 then line else line[?e + 1 := 0])"
    using e by (simp add: rtk_trim_def Let_def)
  then show thesis by (rule that) (use p assms(1) short_line_update in auto)
qed

lemma short_line_conf:
  assumes s: "short_line line"
  obtains line' v' where "conf_line (line, v) = Inr (line', v')" and "short_line line'"
proof -
  obtain p l1 where 1: "rtk_trim line 0 = Inr (p, l1)" "short_line l1" "p \<le> 511" by (rule short_line_trim [OF s]) auto
  define k where "k = p + length (takeWhile (\<lambda>c. c \<noteq> 61) (c_string l1 p))"
  show thesis
  proof (cases "char_at l1 p \<in> {0, 35, 91} \<or> char_at l1 k \<noteq> 61")
    case True
    then have "conf_line (line, v) = Inr (l1, v)" using 1(1) by (auto simp: conf_line_def Let_def k_def [symmetric])
    then show thesis using 1(2) by (rule that)
  next
    case False
    have "length (c_string l1 p) \<le> 511 - p"
      using short_line_span [OF 1(2,3), of "\<lambda>c. c \<noteq> 0"] by (simp add: c_string_def)
    then have "k \<le> 511" using 1(3) length_takeWhile_le [of "\<lambda>c. c \<noteq> 61" "c_string l1 p"] by (simp add: k_def)
    moreover have "k \<noteq> 511" using False 1(2) by (auto simp: short_line_def char_at_def byte_at_def)
    ultimately have k: "k + 1 \<le> 511" by simp
    obtain p2 l2 where 2: "rtk_trim (l1[k := 0]) p = Inr (p2, l2)" "short_line l2"
      by (rule short_line_trim [OF short_line_update [OF 1(2)] 1(3)])
    obtain p3 l3 where 3: "rtk_trim l2 p = Inr (p3, l3)" "short_line l3" by (rule short_line_trim [OF 2(2) 1(3)])
    obtain p4 l4 where 4: "rtk_trim l2 (k + 1) = Inr (p4, l4)" "short_line l4" by (rule short_line_trim [OF 2(2) k])
    obtain p5 l5 where 5: "rtk_trim l3 (k + 1) = Inr (p5, l5)" "short_line l5" by (rule short_line_trim [OF 3(2) k])
    have "conf_line (line, v) =
        Inr (if c_string l2 p2 = key_timeout then (l4, v\<lparr>heartBeatTimeout := strtol (c_string l4 p4)\<rparr>)
             else if c_string l3 p3 = key_log then (l5, v\<lparr>heartBeatLog := strtol (c_string l5 p5)\<rparr>) else (l3, v))"
      using False 1(1) 2(1) 3(1) 4(1) 5(1) by (simp add: conf_line_def Let_def k_def [symmetric])
    then show thesis using that 3(2) 4(2) 5(2) by (simp split: if_splits)
  qed
qed

lemma conf_loop_forever:
  assumes "conf_loop b s = Some r"
  shows "b \<longrightarrow> \<not> short_line (fst s)"
proof (rule conf_loop.raw_induct [where P = "\<lambda>b s r. b \<longrightarrow> \<not> short_line (fst s)", OF _ assms])
  fix f b s r
  assume IH: "\<And>b s r. f b s = Some r \<Longrightarrow> b \<longrightarrow> \<not> short_line (fst s)"
    and r: "(if b then case conf_line s of Inl e \<Rightarrow> Some (Inl e) | Inr s \<Rightarrow> f b s else Some (Inr (snd s))) = Some r"
  show "b \<longrightarrow> \<not> short_line (fst s)"
  proof (intro impI notI)
    assume b: b and "short_line (fst s)"
    then obtain line' v' where "conf_line s = Inr (line', v')" "short_line line'"
      using short_line_conf [of "fst s" "snd s"] by auto
    then show False using IH [of b "(line', v')" r] r b by simp
  qed
qed

text \<open>C28: when the heartbeat's configuration file exists and has a first line of less than 511
  characters, whatever its contents, starting the heartbeat never returns.\<close>

theorem heartbeat_conf_hangs:
  assumes "heartbeat_conf v = Some file" and "file \<noteq> []" and "length (takeWhile (\<lambda>c. c \<noteq> 10) file) < 511"
  shows "Heartbeat_init v = Inl Never_returns"
proof -
  have "heartbeat_conf (Heartbeat_cleanup v) = Some file"
    using assms(1) by (simp add: Heartbeat_cleanup_def poll_enable_def poll_cleanup_def poll_settime_def poll_timer_stop_def Let_def)
  moreover have "short_line (conf_first_line file)"
    using assms(3) by (simp add: short_line_def conf_first_line_def Let_def nth_append)
  then have "conf_loop True (conf_first_line file, Heartbeat_cleanup v) = None"
    using conf_loop_forever [of True "(conf_first_line file, Heartbeat_cleanup v)"] by fastforce
  ultimately show ?thesis using assms(2) by (simp add: Heartbeat_init_def load_rtkbt_heartbeat_conf_def)
qed

text \<open>Witness of C28: the file \<open>HeartBeatLog=1\<close>.\<close>

theorem heartbeat_conf_hangs_witness:
  "Heartbeat_init (vnd_zero\<lparr>heartbeat_conf := Some (key_log @ [61, 49, 10])\<rparr>) = Inl Never_returns"
  by (rule heartbeat_conf_hangs [of _ "key_log @ [61, 49, 10]"]) (simp_all add: key_log_def)

section \<open>Heartbeats\<close>

lemma malloc_succeeds:
  assumes "\<And>n. malloc_ok e n"
  obtains b e' where "malloc e k = (Some b, e')" and "malloc_ok e' = malloc_ok e"
  using assms by (simp add: malloc_def)

text \<open>The service between two commands, with the channel to the firmware free.\<close>

definition service_idle :: "vnd_lib \<Rightarrow> bool" where
  "service_idle v \<longleftrightarrow> vmem_ok v \<and> (\<forall>n. malloc_ok (pheap (prof_cb v)) n) \<and> \<not> coex_cmd_send (prof_cb v) \<and>
     coex_list (prof_cb v) = [] \<and> (\<exists>b. rtk_btservice v = Some b \<and> cmdqueue_list b = [] \<and> cmdqueue_sem b = 0 \<and>
       cmdsend_sem b = 1 \<and> \<not> cmdqueue_locked b \<and> cmdqueue_thread_running b)"

definition heart_beating :: "vnd_lib \<Rightarrow> bool" where
  "heart_beating v \<longleftrightarrow> service_idle v \<and> heartbeatFlag v \<and> heartbeatCount v = 0"

text \<open>What flushing the timer changes.\<close>

lemma poll_timer_flush_keeps:
  obtains c t b where "poll_timer_flush v = v\<lparr>bt_poll_cb := c, poll_timers := t, bad_timer := b\<rparr>"
proof -
  have "poll_timer_flush v = v\<lparr>bt_poll_cb := bt_poll_cb (poll_timer_flush v), poll_timers := poll_timers (poll_timer_flush v),
      bad_timer := bad_timer (poll_timer_flush v)\<rparr>"
    by (simp add: poll_timer_flush_def poll_settime_def Let_def)
  then show thesis by (rule that)
qed

text \<open>A heartbeat that was queued.\<close>

definition heartbeat_entry :: Rtkqueuedata where
  "heartbeat_entry = \<lparr>rq_client_sock = -1, rq_opcode = HCI_CMD_VNDR_HEARTBEAT, rq_parameter = [], rq_complete_cback = Heartbeat_Cmpl\<rparr>"

lemma heartbeat_queued:
  assumes "vmem_ok v" and "rtk_btservice v = Some b" and "\<not> cmdqueue_locked b"
  obtains e c t x where "malloc_ok e = malloc_ok (vheap v)" and "heartbeat_send v = Inr (v\<lparr>vheap := e,
    rtk_btservice := Some (b\<lparr>cmdqueue_list := cmdqueue_list b @ [heartbeat_entry], cmdqueue_sem := cmdqueue_sem b + 1\<rparr>),
    bt_poll_cb := c, poll_timers := t, bad_timer := x\<rparr>)"
proof -
  have m: "\<And>n. malloc_ok (vheap v) n" using assms(1) by (simp add: vmem_ok_def)
  obtain x1 e1 where 1: "malloc (vheap v) 24 = (Some x1, e1)" "malloc_ok e1 = malloc_ok (vheap v)" by (rule malloc_succeeds [OF m])
  have m1: "\<And>n. malloc_ok e1 n" using m 1(2) by simp
  obtain x2 e2 where 2: "malloc e1 40 = (Some x2, e2)" "malloc_ok e2 = malloc_ok e1" by (rule malloc_succeeds [OF m1])
  define w where "w = v\<lparr>vheap := e2, rtk_btservice := Some (b\<lparr>cmdqueue_list := cmdqueue_list b @ [heartbeat_entry],
    cmdqueue_sem := cmdqueue_sem b + 1\<rparr>)\<rparr>"
  obtain c t x where f: "poll_timer_flush w = w\<lparr>bt_poll_cb := c, poll_timers := t, bad_timer := x\<rparr>" by (rule poll_timer_flush_keeps)
  have "heartbeat_send v = Inr (poll_timer_flush w)"
    using 1 2 assms(2,3) by (simp add: heartbeat_send_def Rtk_Service_Vendorcmd_Hook_def heartbeat_entry_def w_def)
  then show thesis using f 1(2) 2(2) by (intro that [of e2 x t c]) (simp_all add: w_def)
qed

text \<open>One period in which all goes well: the timer expires, the thread sends the command and starts the timer for the
  answer, and the answer carries the number that is due.\<close>

definition heartbeat_answer :: "u16 \<Rightarrow> u8 list" where
  "heartbeat_answer n = [0x0E, 6, 1, 0x94, 0xFC, 0] @ uint16_to_stream n"

definition heartbeat_period :: "vnd_lib \<Rightarrow> vnd_fault + vnd_lib" where
  "heartbeat_period v =
     bind (heartbeat_timed_out v) (\<lambda>v. case cmdready_send v of
         None \<Rightarrow> Inr v
       | Some r \<Rightarrow> bind r (\<lambda>v. vnd_process_event (hcicmd_start_reply_timer v) (heartbeat_answer (nextSeqNum v))))"

lemma heartbeat_sent:
  assumes "rtk_btservice v = Some b" and "cmdqueue_list b = [heartbeat_entry]" and "cmdqueue_sem b = 1" and "cmdsend_sem b = 1"
    and "\<not> cmdqueue_locked b" and "cmdqueue_thread_running b"
    and "\<And>n. malloc_ok (pheap (prof_cb v)) n" and "\<not> coex_cmd_send (prof_cb v)"
  obtains e where "malloc_ok e = malloc_ok (pheap (prof_cb v))" and "cmdready_send v = Some (Inr (v\<lparr>
    rtk_btservice := Some (b\<lparr>cmdqueue_list := [], cmdqueue_sem := 0, cmdsend_sem := 0, current_client_sock := -1,
      current_complete_cback := Some Heartbeat_Cmpl\<rparr>),
    prof_cb := (prof_cb v)\<lparr>pheap := e, coex_cmd_send := True, current_cback := Some Rtk_Service_Cmd_Event,
      xmit := xmit (prof_cb v) @ [(0xFC94, [0x94, 0xFC, 0])]\<rparr>\<rparr>))"
proof -
  obtain x e where e: "malloc (pheap (prof_cb v)) 11 = (Some x, e)" "malloc_ok e = malloc_ok (pheap (prof_cb v))"
    by (rule malloc_succeeds [OF assms(7)])
  have c: "vendor_cmd 0xFC94 [] = [0x94, 0xFC, 0]" by (simp add: vendor_cmd_def uint16_to_stream_def)
  show thesis
    by (rule that [OF e(2)])
      (use e(1) assms c in \<open>simp add: cmdready_send_def heartbeat_entry_def HCI_CMD_VNDR_HEARTBEAT_def rtk_vendor_cmd_to_fw_def Let_def\<close>)
qed

lemma heartbeat_answered:
  assumes "rtk_btservice v = Some b" and "current_complete_cback b = Some Heartbeat_Cmpl" and "heartbeatFlag v"
    and "coex_list (prof_cb v) = []" and "current_cback (prof_cb v) = Some Rtk_Service_Cmd_Event"
  shows "vnd_process_event v (heartbeat_answer (nextSeqNum v)) = Inr (v\<lparr>nextSeqNum := nextSeqNum v + 1, heartbeatCount := 0,
    prof_cb := (prof_cb v)\<lparr>coex_cmd_send := False, cbacks_called := cbacks_called (prof_cb v) @ [Rtk_Service_Cmd_Event],
      current_cback := None\<rparr>,
    rtk_btservice := Some (b\<lparr>current_complete_cback := None, timer_hcicmd_reply := snd (OsStopTimer (timer_hcicmd_reply b)),
      cmdsend_sem := cmdsend_sem b + 1\<rparr>)\<rparr>)"
proof -
  let ?a = "heartbeat_answer (nextSeqNum v)"
  have "byte_at ?a 6 = uint16_to_stream (nextSeqNum v) ! 0" "byte_at ?a 7 = uint16_to_stream (nextSeqNum v) ! 1"
    by (simp_all add: heartbeat_answer_def byte_at_def nth_append)
  then have a: "uint16_at ?a 3 = 0xFC94" "byte_at ?a 5 = 0" "stream_to_uint16 (byte_at ?a 6) (byte_at ?a 7) = nextSeqNum v"
    using uint16_stream_roundtrip by (simp_all add: heartbeat_answer_def uint16_at_def byte_at_def stream_to_uint16_def)
  show ?thesis
    using assms a
    by (simp add: vnd_process_event_def hw_process_event_def rtk_cmd_complete_cback_def Rtk_Service_Cmd_Event_Cback_def
        rtkbt_heartbeat_cmpl_cback_def Let_def)
qed

lemma heartbeat_period_kept:
  assumes "heart_beating v"
  shows "\<exists>v'. heartbeat_period v = Inr v' \<and> heart_beating v' \<and> nextSeqNum v' = nextSeqNum v + 1 \<and> host_out v' = host_out v \<and>
    xmit (prof_cb v') = xmit (prof_cb v) @ [(0xFC94, [0x94, 0xFC, 0])]"
proof -
  obtain b where b: "rtk_btservice v = Some b" "cmdqueue_list b = []" "cmdqueue_sem b = 0" "cmdsend_sem b = 1"
    "\<not> cmdqueue_locked b" "cmdqueue_thread_running b"
    and v: "vmem_ok v" "\<And>n. malloc_ok (pheap (prof_cb v)) n" "\<not> coex_cmd_send (prof_cb v)" "coex_list (prof_cb v) = []"
    "heartbeatFlag v" "heartbeatCount v = 0"
    using assms by (auto simp: heart_beating_def service_idle_def)
  let ?v1 = "v\<lparr>heartbeatCount := 1\<rparr>"
  have "vmem_ok ?v1" using v(1) by (simp add: vmem_ok_def)
  then obtain e c t x where e: "malloc_ok e = malloc_ok (vheap ?v1)" and q: "heartbeat_send ?v1 = Inr (?v1\<lparr>vheap := e,
      rtk_btservice := Some (b\<lparr>cmdqueue_list := cmdqueue_list b @ [heartbeat_entry], cmdqueue_sem := cmdqueue_sem b + 1\<rparr>),
      bt_poll_cb := c, poll_timers := t, bad_timer := x\<rparr>)"
    by (rule heartbeat_queued [of ?v1 b]) (use b in auto)
  define b2 where "b2 = b\<lparr>cmdqueue_list := [heartbeat_entry], cmdqueue_sem := 1\<rparr>"
  define v2 where "v2 = ?v1\<lparr>vheap := e, rtk_btservice := Some b2, bt_poll_cb := c, poll_timers := t, bad_timer := x\<rparr>"
  have 2: "heartbeat_timed_out v = Inr v2"
    using q v b by (simp add: heartbeat_timed_out_def Let_def v2_def b2_def)
  obtain e3 where e3: "malloc_ok e3 = malloc_ok (pheap (prof_cb v2))" and s: "cmdready_send v2 = Some (Inr (v2\<lparr>
      rtk_btservice := Some (b2\<lparr>cmdqueue_list := [], cmdqueue_sem := 0, cmdsend_sem := 0, current_client_sock := -1,
        current_complete_cback := Some Heartbeat_Cmpl\<rparr>),
      prof_cb := (prof_cb v2)\<lparr>pheap := e3, coex_cmd_send := True, current_cback := Some Rtk_Service_Cmd_Event,
        xmit := xmit (prof_cb v2) @ [(0xFC94, [0x94, 0xFC, 0])]\<rparr>\<rparr>))" (is "_ = Some (Inr ?v3)")
    by (rule heartbeat_sent [of v2 b2]) (use b v in \<open>auto simp: v2_def b2_def\<close>)
  define v4 where "v4 = hcicmd_start_reply_timer ?v3"
  obtain b4 where b4: "rtk_btservice v4 = Some b4" "current_complete_cback b4 = Some Heartbeat_Cmpl" "cmdqueue_list b4 = []"
    "cmdqueue_sem b4 = 0" "cmdsend_sem b4 = 0" "\<not> cmdqueue_locked b4" "cmdqueue_thread_running b4"
    using b by (simp add: v4_def hcicmd_start_reply_timer_def b2_def)
  have v4: "heartbeatFlag v4" "coex_list (prof_cb v4) = []" "current_cback (prof_cb v4) = Some Rtk_Service_Cmd_Event"
    "nextSeqNum v4 = nextSeqNum v" "host_out v4 = host_out v" "malloc_ok (vheap v4) = malloc_ok (vheap v)"
    "malloc_ok (pheap (prof_cb v4)) = malloc_ok (pheap (prof_cb v))"
    "xmit (prof_cb v4) = xmit (prof_cb v) @ [(0xFC94, [0x94, 0xFC, 0])]"
    using v e e3 by (simp_all add: v4_def hcicmd_start_reply_timer_def v2_def)
  have "heartbeat_period v = vnd_process_event v4 (heartbeat_answer (nextSeqNum v4))"
    using 2 s v4(4) by (simp add: heartbeat_period_def v4_def v2_def)
  then show ?thesis
    using heartbeat_answered [OF b4(1,2) v4(1-3)] b4 v4 v(1,2)
    by (auto simp: heart_beating_def service_idle_def vmem_ok_def)
qed

text \<open>C26: as long as the controller answers each heartbeat with the number that is due, any number of periods
  passes without a report to the stack; each period sends exactly one heartbeat command to the firmware, and the number
  counts them, past its wrap-around.\<close>

theorem heartbeat_alive:
  assumes "heart_beating v"
  shows "\<exists>v'. run_calls (\<lambda>_. heartbeat_period) (replicate n ()) v = Inr v' \<and> heart_beating v' \<and>
    nextSeqNum v' = nextSeqNum v + of_nat n \<and> host_out v' = host_out v \<and>
    xmit (prof_cb v') = xmit (prof_cb v) @ replicate n (0xFC94, [0x94, 0xFC, 0])"
  using assms
proof (induction n arbitrary: v)
  case (Suc n)
  obtain v1 where v1: "heartbeat_period v = Inr v1" "heart_beating v1" "nextSeqNum v1 = nextSeqNum v + 1"
    "host_out v1 = host_out v" "xmit (prof_cb v1) = xmit (prof_cb v) @ [(0xFC94, [0x94, 0xFC, 0])]"
    using heartbeat_period_kept [OF Suc.prems] by blast
  then show ?case using Suc.IH [OF v1(2)] by (auto simp: add.assoc)
qed simp

text \<open>Witness of C26: 70000 periods.\<close>

definition vnd_serving :: vnd_lib where
  "vnd_serving = (snd (RTK_btservice_init (\<lambda>_. True) vnd_zero))\<lparr>heartbeatFlag := True\<rparr>"

theorem heartbeat_alive_witness:
  "\<exists>v'. run_calls (\<lambda>_. heartbeat_period) (replicate 70000 ()) vnd_serving = Inr v' \<and> nextSeqNum v' = 4465 \<and> host_out v' = []"
proof -
  have "heart_beating vnd_serving" "nextSeqNum vnd_serving = 1" "host_out vnd_serving = []"
    by (simp_all add: vnd_serving_def RTK_btservice_init_def malloc_def vnd_zero_def heart_beating_def service_idle_def vmem_ok_def)
  then show ?thesis using heartbeat_alive [of vnd_serving 70000] by auto
qed

lemma rawdata_hook_out:
  assumes v: "stack_ready v" and ne: "buffer \<noteq> []"
  obtains v' where "userial_recv_rawdata_hook v buffer = Inr v'" and "host_out v' = host_out v @ buffer" and "stack_ready v'"
    and "rtk_btservice v' = rtk_btservice v" and "poll_timers v' = poll_timers v"
proof -
  define w where "w = v\<lparr>host_out := host_out v @ buffer, host_wr := snd (write_loop (host_wr v) buffer)\<rparr>"
  have "fst (write_loop (host_wr v) buffer) = buffer" using v by (intro write_loop_all) (simp add: stack_ready_def)
  then have h: "userial_recv_rawdata_hook v buffer = userial_enqueue_coex_rawdata w buffer True"
    using v ne by (simp add: userial_recv_rawdata_hook_def stack_ready_def w_def split_def)
  have "vmem_ok w" using v by (simp add: w_def stack_ready_def vmem_ok_def)
  then obtain e where "malloc_ok e = malloc_ok (vheap w)"
    "userial_enqueue_coex_rawdata w buffer True = Inr (w\<lparr>vheap := e, u_recv_data := u_recv_data w @ [buffer],
       u_send_data := u_send_data w, data_order := data_order w @ [True], event_count := event_count w + 1\<rparr>)"
    by (rule enqueue_coex_ok [of w buffer True]) simp
  then show thesis
    using that h v write_loop_left [of "host_wr v" buffer] by (auto simp: w_def stack_ready_def vmem_ok_def)
qed

text \<open>An expiry that is not the third.\<close>

lemma heartbeat_missed:
  assumes v: "heartbeatFlag v" "heartbeatCount v < 2" "stack_ready v" and b: "rtk_btservice v = Some b" "\<not> cmdqueue_locked b"
  obtains v' where "heartbeat_timed_out v = Inr v'" and "heartbeatFlag v'" and "heartbeatCount v' = heartbeatCount v + 1"
    and "stack_ready v'" and "cleanupFlag v' = cleanupFlag v" and "nextSeqNum v' = nextSeqNum v" and "host_out v' = host_out v"
    and "rtk_btservice v' = Some (b\<lparr>cmdqueue_list := cmdqueue_list b @ [heartbeat_entry], cmdqueue_sem := cmdqueue_sem b + 1\<rparr>)"
proof -
  let ?v1 = "v\<lparr>heartbeatCount := heartbeatCount v + 1\<rparr>"
  have "vmem_ok ?v1" using v(3) by (simp add: vmem_ok_def stack_ready_def)
  then obtain e c t x where e: "malloc_ok e = malloc_ok (vheap ?v1)" and q: "heartbeat_send ?v1 = Inr (?v1\<lparr>vheap := e,
      rtk_btservice := Some (b\<lparr>cmdqueue_list := cmdqueue_list b @ [heartbeat_entry], cmdqueue_sem := cmdqueue_sem b + 1\<rparr>),
      bt_poll_cb := c, poll_timers := t, bad_timer := x\<rparr>)"
    by (rule heartbeat_queued [of ?v1 b]) (use b in auto)
  have "heartbeat_timed_out v = heartbeat_send ?v1" using v(1,2) by (simp add: heartbeat_timed_out_def Let_def)
  then show thesis by (rule that [OF trans, OF _ q]) (use v e in \<open>auto simp: stack_ready_def vmem_ok_def\<close>)
qed

text \<open>C27: without an answer the first two expiries of the timer each queue one more heartbeat and report
  nothing; the third queues none, and reports the expected number in a log event followed by a hardware error.\<close>

theorem heartbeat_watchdog:
  assumes "heartbeatFlag v" and "heartbeatCount v = 0" and "cleanupFlag v \<noteq> 1" and "stack_ready v"
    and "rtk_btservice v = Some b" and "\<not> cmdqueue_locked b"
  shows "\<exists>v2 b2 v3. run_calls (\<lambda>_. heartbeat_timed_out) [(), ()] v = Inr v2 \<and> host_out v2 = host_out v \<and>
    rtk_btservice v2 = Some b2 \<and> cmdqueue_list b2 = cmdqueue_list b @ [heartbeat_entry, heartbeat_entry] \<and>
    heartbeat_timed_out v2 = Inr v3 \<and> rtk_btservice v3 = Some b2 \<and> poll_timers v3 = poll_timers v2 \<and>
    host_out v3 = host_out v @ (let text = heartbeat_error_text 0 0 (nextSeqNum v) 3
      in [4, 0x57, of_nat (length text) + 2, 1] @ text @ [0]) @ [4, 0x10, 1, 0xFC]"
proof -
  obtain v1 where v1: "heartbeat_timed_out v = Inr v1" "heartbeatFlag v1" "heartbeatCount v1 = 1" "stack_ready v1"
    "cleanupFlag v1 = cleanupFlag v" "nextSeqNum v1 = nextSeqNum v" "host_out v1 = host_out v"
    "rtk_btservice v1 = Some (b\<lparr>cmdqueue_list := cmdqueue_list b @ [heartbeat_entry], cmdqueue_sem := cmdqueue_sem b + 1\<rparr>)"
    using heartbeat_missed [OF assms(1) _ assms(4-6)] assms(2) by auto
  define b2 where "b2 = b\<lparr>cmdqueue_list := cmdqueue_list b @ [heartbeat_entry, heartbeat_entry], cmdqueue_sem := cmdqueue_sem b + 2\<rparr>"
  obtain v2 where v2: "heartbeat_timed_out v1 = Inr v2" "heartbeatFlag v2" "heartbeatCount v2 = 2" "stack_ready v2"
    "cleanupFlag v2 = cleanupFlag v" "nextSeqNum v2 = nextSeqNum v" "host_out v2 = host_out v" "rtk_btservice v2 = Some b2"
    by (rule heartbeat_missed [OF v1(2) _ v1(4,8)]) (use v1(3,5-7) assms(6) in \<open>auto simp: b2_def\<close>)
  have q: "cmdqueue_list b2 = cmdqueue_list b @ [heartbeat_entry, heartbeat_entry]" by (simp add: b2_def)
  let ?text = "heartbeat_error_text 0 0 (nextSeqNum v) 3"
  let ?e = "[4, 0x57, of_nat (length ?text) + 2, 1] @ ?text @ [0]"
  have r: "stack_ready (v2\<lparr>heartbeatCount := 3\<rparr>)" using v2(4) by (simp add: stack_ready_def vmem_ok_def)
  obtain w where w: "userial_recv_rawdata_hook (v2\<lparr>heartbeatCount := 3\<rparr>) ?e = Inr w" "host_out w = host_out v @ ?e"
    "stack_ready w" "rtk_btservice w = Some b2" "poll_timers w = poll_timers v2"
    by (rule rawdata_hook_out [OF r, of ?e]) (use v2(7,8) in auto)
  obtain v3 where v3: "userial_recv_rawdata_hook w [4, 0x10, 1, 0xFC] = Inr v3" "host_out v3 = host_out w @ [4, 0x10, 1, 0xFC]"
    "rtk_btservice v3 = rtk_btservice w" "poll_timers v3 = poll_timers w"
    by (rule rawdata_hook_out [OF w(3), of "[4, 0x10, 1, 0xFC]"]) auto
  have "heartbeat_timed_out v2 = Inr v3"
    using v2 assms(3) w(1) v3(1) by (simp add: heartbeat_timed_out_def rtkbt_heartbeat_send_hw_error_def Let_def)
  then show ?thesis using v1(1) v2 v3 w q by (intro exI [of _ v2] exI [of _ b2] exI [of _ v3]) (simp add: Let_def)
qed

text \<open>Witness of C27: a service that was just started.\<close>

theorem heartbeat_watchdog_witness:
  "\<exists>v2 v3. run_calls (\<lambda>_. heartbeat_timed_out) [(), ()] vnd_serving = Inr v2 \<and> host_out v2 = [] \<and>
    heartbeat_timed_out v2 = Inr v3 \<and> drop (length (host_out v3) - 4) (host_out v3) = [4, 0x10, 1, 0xFC]"
proof -
  obtain b where "rtk_btservice vnd_serving = Some b" "\<not> cmdqueue_locked b"
    by (simp add: vnd_serving_def RTK_btservice_init_def malloc_def vnd_zero_def)
  moreover have "heartbeatFlag vnd_serving" "heartbeatCount vnd_serving = 0" "cleanupFlag vnd_serving \<noteq> 1" "stack_ready vnd_serving"
    "host_out vnd_serving = []"
    by (simp_all add: vnd_serving_def RTK_btservice_init_def malloc_def vnd_zero_def stack_ready_def vmem_ok_def)
  ultimately show ?thesis using heartbeat_watchdog [of vnd_serving b] by (auto simp: Let_def)
qed

section \<open>Commands of clients\<close>



end
