(* ===== verification/HwUsb.thy ===== *)
theory HwUsb
  imports HwConfig OsTimer
begin

text \<open>
  The USB variant of the controller start-up (hardware/bt/src/hardware_usb.c). It works on the control
  block of hardware.c and repeats the configuration code of hardware_uart.c; where a function of the
  file differs from its counterpart in nothing but names, its model is that of the counterpart. The
  file-level variables of hardware_usb.c are represented by the fields that stand for those of
  hardware_uart.c: a process uses one set of them. \<open>None\<close> is an access outside a block.
\<close>

section \<open>Supported chips\<close>

record usb_patch_info =
  up_vid :: u16
  up_pid :: u16
  up_lmp_sub_default :: u16
  up_patch_name :: string
  up_config_name :: string
  up_mac_offset :: u16
  up_max_patch_size :: u32

text \<open>The table with its terminator, whose names are null pointers.\<close>

definition usb_fw_patch_table :: "usb_patch_info list" where
  "usb_fw_patch_table =
     [\<lparr>up_vid = 0x0BDA, up_pid = 0xD723, up_lmp_sub_default = 0x8723, up_patch_name = ''rtl8723d_fw'',
       up_config_name = ''rtl8723d_config'', up_mac_offset = CONFIG_MAC_OFFSET_GEN_3PLUS,
       up_max_patch_size = MAX_PATCH_SIZE_40K\<rparr>,
      \<lparr>up_vid = 0, up_pid = 0, up_lmp_sub_default = 0, up_patch_name = [], up_config_name = [], up_mac_offset = 0,
       up_max_patch_size = 0\<rparr>]"

definition rtk_usb_get_fw_table_entry :: "u16 \<Rightarrow> u16 \<Rightarrow> usb_patch_info option" where
  "rtk_usb_get_fw_table_entry vid pid = find (\<lambda>e. vid = up_vid e \<and> pid = up_pid e) usb_fw_patch_table"

definition usb_project_id :: "u16 list" where
  "usb_project_id = [0x1200, 0x8723, 0x8821, 0x8761, 0x8723, 0x8763, 0x8703, 0x8703, 0x8822, 0x8723, 0x8821, 0, 0,
     0x8822, 0x8761, 0]"

section \<open>Configuration\<close>

text \<open>The fields of a table entry that the code shared with hardware_uart.c looks at.\<close>

definition usb_entry :: "usb_patch_info \<Rightarrow> patch_info" where
  "usb_entry e = patch 0 MASK_ALL MASK_ALL MASK_ALL MASK_ALL (up_patch_name e) (up_config_name e) (up_mac_offset e)
     (up_max_patch_size e)"

definition usb_line_process :: "u8 list \<Rightarrow> u16 list \<times> bt_hw_cfg_cb_t \<Rightarrow> (u16 list \<times> bt_hw_cfg_cb_t) option" where
  "usb_line_process = line_process"

definition usb_parse_extra_config ::
  "string \<Rightarrow> usb_patch_info \<Rightarrow> u16 list \<times> bt_hw_cfg_cb_t \<Rightarrow> (u16 list \<times> bt_hw_cfg_cb_t) option" where
  "usb_parse_extra_config path patch_entry = (\<lambda>(offs, s).
     case hw_files s path of
       None \<Rightarrow> Some (offs, s)
     | Some c \<Rightarrow>
         let ret = min 1024 (length c) in
         if ret = 0 \<or> ret > 1022 then Some (offs, s)
         else let lines = split_on {10, 13} (takeWhile (\<lambda>b. b \<noteq> 0) (take ret c @ [10]));
                  ptr = hd lines
              in if take (length ptr) (bytes_of (up_config_name patch_entry)) \<noteq> ptr then Some (offs, s)
                 else fold_opt usb_line_process (filter (\<lambda>l. l \<noteq> []) (tl lines)) (offs, s))"

definition getUsbAltSettings :: "usb_patch_info \<Rightarrow> bt_hw_cfg_cb_t \<Rightarrow> (u16 list \<times> bt_hw_cfg_cb_t) option" where
  "getUsbAltSettings patch_entry s =
     (let offs = [up_mac_offset patch_entry] in
      if extra_extry s \<noteq> None then usb_parse_extra_config EXTRA_CONFIG_FILE patch_entry (offs, s)
      else Some (offs, s))"

definition getUsbAltSettingVal ::
  "u8 list option \<Rightarrow> usb_patch_info \<Rightarrow> u16 \<Rightarrow> u8 list \<Rightarrow> (nat \<times> u8 list) option" where
  "getUsbAltSettingVal extra patch_entry offset val = getAltSettingVal extra (usb_entry patch_entry) offset val"

definition rtk_usb_update_altsettings :: "usb_patch_info \<Rightarrow> bt_hw_cfg_cb_t \<Rightarrow> bt_hw_cfg_cb_t option" where
  "rtk_usb_update_altsettings patch_entry s = rtk_update_altsettings (usb_entry patch_entry) s"

text \<open>One entry of the configuration: the USB variant takes no baud rate from it.\<close>

definition usb_config_entry :: "u8 list \<Rightarrow> u16 \<Rightarrow> u16 \<Rightarrow> nat \<Rightarrow> bt_hw_cfg_cb_t \<Rightarrow> bt_hw_cfg_cb_t" where
  "usb_config_entry buf mac_offset off d s =
     (if off = 0x017a then
        if mac_offset = CONFIG_MAC_OFFSET_GEN_1_2 then s\<lparr>hw_heartbeat := heartbeat_of (byte_at buf d)\<rparr> else s
      else if off = 0x01be then
        if mac_offset = CONFIG_MAC_OFFSET_GEN_3PLUS \<or> mac_offset = CONFIG_MAC_OFFSET_GEN_4PLUS
        then s\<lparr>hw_heartbeat := heartbeat_of (byte_at buf d)\<rparr> else s
      else s)"

function usb_parse_config_loop :: "u8 list \<Rightarrow> u16 \<Rightarrow> nat \<Rightarrow> nat \<Rightarrow> bt_hw_cfg_cb_t \<Rightarrow> bt_hw_cfg_cb_t" where
  "usb_parse_config_loop buf mac_offset config_len i s =
     (if i < config_len
      then usb_parse_config_loop buf mac_offset config_len (i + unat (byte_at buf (6 + i + 2)) + 3)
             (usb_config_entry buf mac_offset (uint16_at buf (6 + i)) (6 + i + 3) s)
      else s)"
  by pat_completeness auto
termination by (relation "measure (\<lambda>(_, _, n, i, _). n - i)") auto

declare usb_parse_config_loop.simps [simp del]

definition rtk_usb_parse_config_file :: "u8 list \<Rightarrow> nat \<Rightarrow> u16 \<Rightarrow> bt_hw_cfg_cb_t \<Rightarrow> bt_hw_cfg_cb_t" where
  "rtk_usb_parse_config_file buf filelen mac_offset s =
     (let config_len = uint16_at buf 4 in
      if uint32_at buf 0 \<noteq> RTK_VENDOR_CONFIG_MAGIC then s
      else if int (unat config_len) \<noteq> (int filelen - 6) mod 2 ^ 64 then s
      else usb_parse_config_loop buf mac_offset (unat config_len) 0 (s\<lparr>hw_heartbeat := 0\<rparr>))"

definition rtk_usb_get_bt_config :: "bt_hw_cfg_cb_t \<Rightarrow> string \<Rightarrow> u16 \<Rightarrow> nat \<times> bt_hw_cfg_cb_t" where
  "rtk_usb_get_bt_config s name mac_offset =
     (case hw_files s (firmware_path name) of
        None \<Rightarrow> (0, s)
      | Some c \<Rightarrow>
          if length c > 0x100 * 14 then (0, s)
          else (case malloc (hw_heap s) (0x100 * 14 + 0x100 * 2) of
                  (None, e) \<Rightarrow> (0, s\<lparr>hw_heap := e, hw_config_buf := None\<rparr>)
                | (Some blk, e) \<Rightarrow>
                    let buf = mem_write blk 0 c
                    in (length c, rtk_usb_parse_config_file buf (length c) mac_offset
                                    (s\<lparr>hw_heap := e, hw_config_buf := Some buf\<rparr>))))"

section \<open>State\<close>

text \<open>The fields of the control block that only this file uses, the requests to the driver, and the timer
  that reports success (\<open>usb_timer_set\<close>: \<open>localtimer\<close> is not 0). \<open>after_signature\<close>: the bytes the linker put behind
  \<open>EXTENSION_SECTION_SIGNATURE\<close>.\<close>

datatype usb_request = RESET_CONTROLLER | DWFW_CMPLT u16

record hw_usb =
  ucfg :: bt_hw_cfg_cb_t
  lmp_subversion_default :: u16
  lmp_sub_current :: u16
  usb_vid :: u16
  usb_pid :: u16
  usb_ioctls :: "usb_request list"
  usb_timer_set :: bool
  localtimer :: "itimerspec option"
  usb_timer_ok :: bool
  after_signature :: "u8 list"

definition start_fwcfg_cbtimer :: "hw_usb \<Rightarrow> hw_usb" where
  "start_fwcfg_cbtimer s =
     (let s = (if \<not> usb_timer_set s then s\<lparr>usb_timer_set := True, localtimer := OsAllocateTimer (usb_timer_ok s)\<rparr> else s)
      in s\<lparr>localtimer := snd (OsStartTimer (localtimer s) 40 0)\<rparr>)"

definition local_timer_handler :: "hw_usb \<Rightarrow> hw_usb" where
  "local_timer_handler s =
     s\<lparr>ucfg := (ucfg s)\<lparr>hw_init_cb := hw_init_cb (ucfg s) @ [True]\<rparr>, localtimer := snd (OsFreeTimer (localtimer s))\<rparr>"

section \<open>The image\<close>

text \<open>\<open>memcmp(fw_buf + fw_len - 8, EXTENSION_SECTION_SIGNATURE, 8)\<close>: the signature has four bytes.\<close>

definition usb_extension_ok :: "hw_usb \<Rightarrow> u8 list \<Rightarrow> bool" where
  "usb_extension_ok s fw \<longleftrightarrow> drop (length fw - 8) fw = EXTENSION_SECTION_SIGNATURE @ take 4 (after_signature s)"

definition rtk_usb_get_bt_final_patch :: "hw_usb \<Rightarrow> hw_usb option" where
  "rtk_usb_get_bt_final_patch u =
     (let s = ucfg u; done = (\<lambda>s. Some (u\<lparr>ucfg := s\<rparr>)) in
      case hw_fw_buf s of
        None \<Rightarrow> None
      | Some fw \<Rightarrow>
          do { sig \<leftarrow> rd_bytes fw 0 8;
               if hw_lmp_subversion s = LMPSUBVERSION_8723a \<and> sig \<noteq> RTK_EPATCH_SIGNATURE
               then do { cfg \<leftarrow> config_bytes s;
                         let s = s\<lparr>hw_total_len := of_nat (length fw + length cfg)\<rparr> in
                         (case malloc (hw_heap s) (unat (hw_total_len s)) of
                            (None, e) \<Rightarrow> done (drop_files (s\<lparr>hw_heap := e, hw_total_buf := None\<rparr>) 0)
                          | (Some _, e) \<Rightarrow> done (drop_files (s\<lparr>hw_heap := e, hw_total_buf := Some (fw @ cfg)\<rparr>) 1)) }
               else let s = (if hw_lmp_subversion s = LMPSUBVERSION_8723a then s\<lparr>hw_dl_fw_flag := 0\<rparr> else s) in
                 if sig \<noteq> RTK_EPATCH_SIGNATURE then done (drop_files s 0)
                 else if \<not> usb_extension_ok u fw then done (drop_files s 0)
                 else do { proj_id \<leftarrow> rtk_get_fw_project_id fw (length fw - 5);
                           if unat proj_id \<ge> length usb_project_id then None
                           else if usb_project_id ! unat proj_id \<noteq> lmp_subversion_default u then done (drop_files s 0)
                           else do { (entry, e) \<leftarrow> rtk_get_patch_entry (hw_heap s) fw (hw_eversion s);
                                     let s = s\<lparr>hw_heap := e\<rparr> in
                                     (case entry of
                                        None \<Rightarrow> done (drop_files s 0)
                                      | Some en \<Rightarrow>
                                          do { cfg \<leftarrow> config_bytes s;
                                               let s = s\<lparr>hw_total_len := ucast (pe_patch_length en) + of_nat (length cfg)\<rparr> in
                                               (case malloc (hw_heap s) (unat (hw_total_len s)) of
                                                  (None, e) \<Rightarrow> done (drop_files (s\<lparr>hw_heap := e, hw_total_buf := None\<rparr>) 0)
                                                | (Some _, e) \<Rightarrow>
                                                    do { img \<leftarrow> build_image fw en cfg;
                                                         done (s\<lparr>hw_heap := e, hw_total_buf := Some img,
                                                                 hw_dl_fw_flag := 1\<rparr>) }) }) } } })"

definition rtk_usb_get_fw_version :: "hw_usb \<Rightarrow> hw_usb option" where
  "rtk_usb_get_fw_version u =
     (if hw_lmp_subversion (ucfg u) = LMPSUBVERSION_8723a then Some (u\<lparr>lmp_sub_current := 0\<rparr>)
      else case hw_fw_buf (ucfg u) of
             None \<Rightarrow> None
           | Some fw \<Rightarrow> map_option (\<lambda>w. u\<lparr>lmp_sub_current := ucast w\<rparr>) (rd32 fw 8))"

section \<open>The states of the start-up\<close>

definition usb_xmit :: "hw_usb \<Rightarrow> u16 \<Rightarrow> u8 list \<Rightarrow> bool \<times> hw_usb" where
  "usb_xmit u opcode params = (case xmit_cb (ucfg u) opcode params of (go, s) \<Rightarrow> (go, u\<lparr>ucfg := s\<rparr>))"

definition usb_ioctl :: "hw_usb \<Rightarrow> usb_request \<Rightarrow> hw_usb" where
  "usb_ioctl u r = u\<lparr>usb_ioctls := usb_ioctls u @ [r]\<rparr>"

definition usb_set_state :: "hw_usb \<Rightarrow> hw_cfg_state \<Rightarrow> hw_usb" where
  "usb_set_state u st = u\<lparr>ucfg := (ucfg u)\<lparr>hw_state := st\<rparr>\<rparr>"

definition usb_hci_download_patch_h4 :: "hw_usb \<Rightarrow> u8 \<Rightarrow> u8 list \<Rightarrow> bool \<times> hw_usb" where
  "usb_hci_download_patch_h4 u index data =
     usb_xmit (usb_set_state u HW_CFG_DL_FW_PATCH) HCI_VSC_DOWNLOAD_FW_PATCH (index # data)"

text \<open>The end of the start-up, common to a download and to a controller that has the firmware already: success
  is reported by the timer.\<close>

definition usb_complete :: "hw_usb \<Rightarrow> bool \<times> hw_usb" where
  "usb_complete u =
     (let u = usb_ioctl u (DWFW_CMPLT (lmp_sub_current u));
          u = start_fwcfg_cbtimer (u\<lparr>ucfg := (ucfg u)\<lparr>hw_total_buf := None, hw_total_len := 0\<rparr>\<rparr>)
      in (True, usb_set_state u HW_CFG_IDLE))"

definition usb_download :: "hw_usb \<Rightarrow> u8 list option \<Rightarrow> (bool \<times> hw_usb) option" where
  "usb_download u ev =
     (let acked = (ev_opcode ev = HCI_VSC_DOWNLOAD_FW_PATCH);
          iIndexRx = (if acked then byte_at (the ev) 6 else 0);
          u = (if acked then u\<lparr>ucfg := (ucfg u)\<lparr>hw_patch_frag_idx := hw_patch_frag_idx (ucfg u) + 1\<rparr>\<rparr> else u)
      in if acked \<and> iIndexRx AND 0x80 \<noteq> 0 then Some (usb_complete u)
         else let s = ucfg u; idx = hw_patch_frag_idx s; cnt = hw_patch_frag_cnt s;
                  (iIndexRx, s) =
                    (if idx < cnt
                     then (if uint idx = uint cnt - 1
                           then (frag_index idx OR 0x80, s\<lparr>hw_patch_frag_len := hw_patch_frag_tail s\<rparr>)
                           else (frag_index idx AND 0x7F, s\<lparr>hw_patch_frag_len := 252\<rparr>))
                     else (iIndexRx, s))
              in case hw_total_buf s of
                   None \<Rightarrow> None
                 | Some buf \<Rightarrow>
                     do { data \<leftarrow> rd_bytes buf (unat idx * 252) (unat (hw_patch_frag_len s));
                          Some (usb_hci_download_patch_h4 (u\<lparr>ucfg := s\<rparr>) iIndexRx data) })"

text \<open>\<open>CFG_USB_START\<close>.\<close>

definition usb_cfg_start :: "hw_usb \<Rightarrow> u8 list option \<Rightarrow> (bool \<times> hw_usb) option" where
  "usb_cfg_start u ev =
     (case rtk_usb_get_fw_table_entry (usb_vid u) (usb_pid u) of
        None \<Rightarrow> Some (False, u)
      | Some e \<Rightarrow>
          if up_lmp_sub_default e = 0 then Some (False, u)
          else let s = (ucfg u)\<lparr>hw_max_patch_size := up_max_patch_size e\<rparr>;
                   (n, s) = rtk_usb_get_bt_config s (up_config_name e) (up_mac_offset e);
                   s = s\<lparr>hw_config_len := n\<rparr>
               in do { s \<leftarrow> (if n \<noteq> 0 then rtk_usb_update_altsettings e s else Some s);
                       let (fw_len, s) = rtk_get_bt_firmware s (up_patch_name e) in
                       if fw_len < 0 then Some (False, u\<lparr>ucfg := s\<lparr>hw_fw_len := 0\<rparr>\<rparr>)
                       else do { u \<leftarrow> rtk_usb_get_bt_final_patch (u\<lparr>ucfg := s\<lparr>hw_fw_len := fw_len\<rparr>\<rparr>);
                                 if hw_total_len (ucfg u) > hw_max_patch_size (ucfg u) then Some (False, u)
                                 else if hw_total_len (ucfg u) > 0 \<and> hw_dl_fw_flag (ucfg u) \<noteq> 0
                                 then usb_download (u\<lparr>ucfg := set_fragments (ucfg u)\<rparr>) ev
                                 else Some (False, u) } })"

definition usb_read_eco_ver :: "hw_usb \<Rightarrow> u8 list option \<Rightarrow> (bool \<times> hw_usb) option" where
  "usb_read_eco_ver u ev =
     (let go = (\<lambda>v. usb_cfg_start (usb_set_state (u\<lparr>ucfg := (ucfg u)\<lparr>hw_eversion := v\<rparr>\<rparr>) HW_CFG_START) ev)
      in case ev of
           Some p \<Rightarrow> if ev_status ev = 0 then go (byte_at p 6) else if ev_status ev = 1 then go 0 else Some (False, u)
         | None \<Rightarrow> Some (False, u))"

text \<open>\<open>RESET_HW_CONTROLLER\<close>.\<close>

definition usb_reset_controller :: "hw_usb \<Rightarrow> u8 list option \<Rightarrow> bool \<times> hw_usb" where
  "usb_reset_controller u ev =
     (if ev_status ev = 0
      then usb_xmit (usb_set_state (usb_ioctl u RESET_CONTROLLER) HW_CFG_READ_ECO_VER) HCI_VSC_READ_ROM_VERSION []
      else (False, u))"

definition usb_read_local_ver :: "hw_usb \<Rightarrow> u8 list option \<Rightarrow> (bool \<times> hw_usb) option" where
  "usb_read_local_ver u ev =
     (case ev of
        Some p \<Rightarrow>
          if ev_status ev \<noteq> 0 then Some (False, u)
          else let s = (ucfg u)\<lparr>hw_hci_version := ucast (uint16_at p 6), hw_hci_revision := ucast (uint16_at p 7),
                                hw_lmp_subversion := uint16_at p 12\<rparr>
               in (case rtk_usb_get_fw_table_entry (usb_vid u) (usb_pid u) of
                     None \<Rightarrow> Some (False, u\<lparr>ucfg := s\<rparr>)
                   | Some e \<Rightarrow>
                       if up_lmp_sub_default e = 0 then Some (False, u\<lparr>ucfg := s\<rparr>)
                       else let (n, s) = rtk_usb_get_bt_config s (up_config_name e) (up_mac_offset e);
                                (fw_len, s) = rtk_get_bt_firmware (s\<lparr>hw_config_len := n\<rparr>) (up_patch_name e)
                            in do { u \<leftarrow> rtk_usb_get_fw_version (u\<lparr>ucfg := s\<lparr>hw_fw_len := fw_len\<rparr>\<rparr>);
                                    let u = u\<lparr>lmp_subversion_default := up_lmp_sub_default e\<rparr> in
                                    if up_lmp_sub_default e = hw_lmp_subversion (ucfg u)
                                    then Some (usb_xmit (usb_set_state u HW_CFG_READ_ECO_VER) HCI_VSC_READ_ROM_VERSION [])
                                    else if hw_lmp_subversion (ucfg u) \<noteq> lmp_sub_current u
                                    then Some (usb_reset_controller u ev)
                                    else Some (usb_complete u) })
      | None \<Rightarrow> Some (False, u))"

definition usb_reset_channel :: "hw_usb \<Rightarrow> bool \<times> hw_usb" where
  "usb_reset_channel u = usb_xmit (usb_set_state u HW_CFG_READ_LOCAL_VER) HCI_READ_LMP_VERSION []"

definition hw_usb_switch :: "hw_usb \<Rightarrow> u8 list option \<Rightarrow> (bool \<times> hw_usb) option" where
  "hw_usb_switch u ev =
     (case hw_state (ucfg u) of
        HW_CFG_RESET_CHANNEL_CONTROLLER \<Rightarrow> Some (usb_reset_channel u)
      | HW_CFG_READ_LOCAL_VER \<Rightarrow> usb_read_local_ver u ev
      | HW_RESET_CONTROLLER \<Rightarrow> Some (usb_reset_controller u ev)
      | HW_CFG_READ_ECO_VER \<Rightarrow> usb_read_eco_ver u ev
      | HW_CFG_START \<Rightarrow> usb_cfg_start u ev
      | HW_CFG_DL_FW_PATCH \<Rightarrow> usb_download u ev
      | _ \<Rightarrow> Some (False, u))"

definition hw_usb_config_cback :: "hw_usb \<Rightarrow> u8 list option \<Rightarrow> hw_usb" where
  "hw_usb_config_cback u ev =
     (let (p_buf, u) =
            (if ev_status ev = 0 \<or> ev_opcode ev = HCI_VSC_READ_ROM_VERSION
             then (case malloc (hw_heap (ucfg u)) 266 of (b, e) \<Rightarrow> (b \<noteq> None, u\<lparr>ucfg := (ucfg u)\<lparr>hw_heap := e\<rparr>\<rparr>))
             else (False, u))
      in case (if p_buf then hw_usb_switch u ev else Some (False, u)) of
           None \<Rightarrow> u\<lparr>ucfg := (ucfg u)\<lparr>hw_fault := True\<rparr>\<rparr>
         | Some (True, u) \<Rightarrow> u
         | Some (False, u) \<Rightarrow> (let u = usb_ioctl u (DWFW_CMPLT (lmp_sub_current u)) in u\<lparr>ucfg := hw_abort (ucfg u)\<rparr>))"

definition HCI_VENDOR_RESET :: u16 where "HCI_VENDOR_RESET = 0x0C03"

text \<open>\<open>usb_id\<close>: the identifier of the vendor in the upper half, that of the product in the lower.\<close>

definition hw_usb_config_start :: "hw_usb \<Rightarrow> u32 \<Rightarrow> hw_usb" where
  "hw_usb_config_start u usb_id =
     (let s = (hw_cfg_memset (ucfg u))\<lparr>hw_dl_fw_flag := 1, hw_chip_type := 0x1F\<rparr>;
          u = u\<lparr>lmp_subversion_default := 0, lmp_sub_current := 0, usb_pid := ucast usb_id,
                usb_vid := ucast (drop_bit 16 usb_id)\<rparr>
      in case malloc (hw_heap s) 11 of
           (None, e) \<Rightarrow> u\<lparr>ucfg := s\<lparr>hw_heap := e, hw_init_cb := hw_init_cb s @ [False]\<rparr>\<rparr>
         | (Some _, e) \<Rightarrow>
             snd (usb_xmit (usb_set_state (u\<lparr>ucfg := s\<lparr>hw_heap := e\<rparr>\<rparr>) HW_CFG_RESET_CHANNEL_CONTROLLER) HCI_VENDOR_RESET []))"

section \<open>Which handler gets the events\<close>

text \<open>\<open>hw_process_event\<close> of rtk_parse.c gives all events of the start-up to \<open>hw_config_cback\<close>, the handler of the
  UART variant; \<open>hw_usb_config_cback\<close> is called from nowhere.\<close>

definition usb_event :: "hw_usb \<Rightarrow> u8 list \<Rightarrow> hw_usb" where
  "usb_event u ev = u\<lparr>ucfg := hw_config_cback (ucfg u) (Some ev)\<rparr>"

end
