(* ===== verification/HwUsbProperties.thy ===== *)
theory HwUsbProperties
  imports HwUsb HwProperties RtkParse
begin

text \<open>The properties of the USB variant of the start-up (hardware/bt/src/hardware_usb.c).\<close>

section \<open>The image is refused\<close>

lemma epatch_end:
  assumes "length version = 4"
  shows "drop (length (epatch_file version ps code project) - 8) (epatch_file version ps code project) ! 3 = 0"
    and "8 \<le> length (epatch_file version ps code project)"
    and "take 8 (epatch_file version ps code project) = RTK_EPATCH_SIGNATURE"
proof -
  let ?f = "epatch_file version ps code project"
  have l: "8 \<le> length ?f" "length ?f - 8 + 3 = length ?f - 5" by (simp_all add: epatch_file_def RTK_EPATCH_SIGNATURE_def)
  obtain m where m: "?f = m @ [project, 1, 0] @ EXTENSION_SECTION_SIGNATURE" by (simp add: epatch_file_def)
  have "?f ! (length ?f - 5) = 0" unfolding m by (simp add: nth_append EXTENSION_SECTION_SIGNATURE_def)
  then show "drop (length ?f - 8) ?f ! 3 = 0" using l by simp
  show "8 \<le> length ?f" by (rule l(1))
  show "take 8 ?f = RTK_EPATCH_SIGNATURE" by (simp add: epatch_file_def RTK_EPATCH_SIGNATURE_def)
qed

lemma usb_patch_refused:
  assumes fw: "hw_fw_buf (ucfg u) = Some (epatch_file version ps code project)" and v: "length version = 4"
    and chip: "hw_lmp_subversion (ucfg u) \<noteq> 0x1200"
  shows "rtk_usb_get_bt_final_patch u = Some (u\<lparr>ucfg := drop_files (ucfg u) 0\<rparr>)"
proof -
  note e = epatch_end [OF v, of ps code project]
  have "(EXTENSION_SECTION_SIGNATURE @ x) ! 3 \<noteq> 0" for x by (simp add: EXTENSION_SECTION_SIGNATURE_def)
  then have "EXTENSION_SECTION_SIGNATURE @ x \<noteq> drop (length (epatch_file version ps code project) - 8) (epatch_file version ps code project)" for x
    using e(1) by metis
  then have "\<not> usb_extension_ok u (epatch_file version ps code project)" by (metis usb_extension_ok_def)
  then show ?thesis
    using fw chip e(2,3) by (simp add: rtk_usb_get_bt_final_patch_def Let_def rd_bytes_def LMPSUBVERSION_8723a_def)
qed

lemma usb_cfg_start_refused:
  assumes id: "usb_vid u = 0x0BDA" "usb_pid u = 0xD723" and chip: "hw_lmp_subversion (ucfg u) \<noteq> 0x1200"
    and len: "hw_total_len (ucfg u) = 0" and v: "length version = 4" and mem: "\<And>n. malloc_ok (hw_heap (ucfg u)) n"
    and img: "hw_files (ucfg u) (firmware_path ''rtl8723d_fw'') = Some (epatch_file version ps code project)"
    and cfg: "hw_files (ucfg u) (firmware_path ''rtl8723d_config'') = None"
  shows "\<exists>s'. usb_cfg_start u ev = Some (False, u\<lparr>ucfg := s'\<rparr>) \<and> hw_init_cb s' = hw_init_cb (ucfg u) \<and>
    hw_xmit s' = hw_xmit (ucfg u) \<and> hw_fault s' = hw_fault (ucfg u)"
proof -
  let ?file = "epatch_file version ps code project"
  define s where "s = (ucfg u)\<lparr>hw_max_patch_size := MAX_PATCH_SIZE_40K\<rparr>"
  have e: "rtk_usb_get_fw_table_entry 0x0BDA 0xD723 = Some (hd usb_fw_patch_table)"
    by (simp add: rtk_usb_get_fw_table_entry_def usb_fw_patch_table_def)
  have h: "up_lmp_sub_default (hd usb_fw_patch_table) = 0x8723" "up_patch_name (hd usb_fw_patch_table) = ''rtl8723d_fw''"
    "up_config_name (hd usb_fw_patch_table) = ''rtl8723d_config''" "up_max_patch_size (hd usb_fw_patch_table) = MAX_PATCH_SIZE_40K"
    by (simp_all add: usb_fw_patch_table_def)
  have c: "rtk_usb_get_bt_config s ''rtl8723d_config'' m = (0, s)" for m
    using cfg by (simp add: rtk_usb_get_bt_config_def s_def)
  obtain t where t: "rtk_get_bt_firmware (s\<lparr>hw_config_len := 0\<rparr>) ''rtl8723d_fw'' = (int (length ?file), t)"
    "hw_fw_buf t = Some ?file" "hw_lmp_subversion t = hw_lmp_subversion (ucfg u)" "hw_total_len t = 0"
    "hw_init_cb t = hw_init_cb (ucfg u)" "hw_xmit t = hw_xmit (ucfg u)" "hw_fault t = hw_fault (ucfg u)"
    using img mem len by (auto simp: rtk_get_bt_firmware_def s_def malloc_def)
  define t' where "t' = t\<lparr>hw_fw_len := int (length ?file)\<rparr>"
  have p: "rtk_usb_get_bt_final_patch (u\<lparr>ucfg := t'\<rparr>) = Some (u\<lparr>ucfg := drop_files t' 0\<rparr>)"
    using usb_patch_refused [of "u\<lparr>ucfg := t'\<rparr>" version ps code project] v chip t by (simp add: t'_def)
  have "usb_cfg_start u ev = Some (False, u\<lparr>ucfg := drop_files t' 0\<rparr>)"
    using p t by (simp add: usb_cfg_start_def id e h c t s_def [symmetric] t'_def [symmetric] drop_files_def Let_def)
  moreover have "hw_init_cb (drop_files t' 0) = hw_init_cb t" "hw_xmit (drop_files t' 0) = hw_xmit t"
    "hw_fault (drop_files t' 0) = hw_fault t" by (simp_all add: drop_files_def t'_def Let_def)
  ultimately show ?thesis using t by metis
qed


text \<open>A control block after \<open>memset_s\<close>, with the firmware in its directory, and a controller of the table behind USB.\<close>

definition usb_ready :: "u8 list \<Rightarrow> hw_cfg_state \<Rightarrow> hw_usb" where
  "usb_ready img st =
     \<lparr>ucfg = hw_zero\<lparr>hw_state := st, hw_lmp_subversion := 0x8723,
        hw_files := (\<lambda>f. if f = firmware_path ''rtl8723d_fw'' then Some img else None)\<rparr>,
      lmp_subversion_default = 0x8723, lmp_sub_current = 0, usb_vid = 0x0BDA, usb_pid = 0xD723, usb_ioctls = [],
      usb_timer_set = False, localtimer = None, usb_timer_ok = True, after_signature = [1, 2, 3, 4]\<rparr>"


section \<open>The events go to the handler of the UART variant\<close>

text \<open>As the sources are linked, the events of a USB start-up reach the handler of the UART
  variant, which does not know the state the start leaves behind: after the reset command, the first event
  that is passed on, whatever it says, ends the start-up with a failure, no further command and no request to the driver.\<close>

theorem usb_events_misrouted:
  assumes mem: "malloc_ok (hw_heap (ucfg u)) (malloc_n (hw_heap (ucfg u)))" and ev: "\<not> (ev_opcode (Some ev) = HCI_VSC_H5_INIT \<and> ev_status (Some ev) \<noteq> 0)"
  shows "let u' = usb_event (hw_usb_config_start u usb_id) ev in
    hw_xmit (ucfg u') = hw_xmit (ucfg u) @ [(0x0C03, [0x03, 0x0C, 0])] \<and>
    hw_init_cb (ucfg u') = hw_init_cb (ucfg u) @ [False] \<and> hw_state (ucfg u') = HW_CFG_IDLE \<and> usb_ioctls u' = usb_ioctls u"
proof -
  define v where "v = hw_usb_config_start u usb_id"
  have v: "hw_state (ucfg v) = HW_CFG_RESET_CHANNEL_CONTROLLER" "hw_xmit (ucfg v) = hw_xmit (ucfg u) @ [(0x0C03, [0x03, 0x0C, 0])]"
    "hw_init_cb (ucfg v) = hw_init_cb (ucfg u)" "usb_ioctls v = usb_ioctls u"
    using mem by (simp_all add: v_def hw_usb_config_start_def Let_def malloc_def hw_cfg_memset_def usb_xmit_def xmit_cb_def
        usb_set_state_def HCI_VENDOR_RESET_def uint16_to_stream_def)
  have "hw_config_switch ((ucfg v)\<lparr>hw_heap := e\<rparr>) (Some ev) = Some (False, (ucfg v)\<lparr>hw_heap := e\<rparr>)" for e
    using v(1) by (simp add: hw_config_switch_def)
  then have "\<exists>e. hw_config_cback (ucfg v) (Some ev) = hw_abort ((ucfg v)\<lparr>hw_heap := e\<rparr>)"
    using ev by (auto simp: hw_config_cback_def Let_def split: prod.splits intro: exI [of _ "hw_heap (ucfg v)"])
  then obtain e where "hw_config_cback (ucfg v) (Some ev) = hw_abort ((ucfg v)\<lparr>hw_heap := e\<rparr>)" by blast
  then show ?thesis
    using v by (simp add: usb_event_def v_def [symmetric] hw_abort_def Let_def)
qed

theorem usb_events_misrouted_witness:
  "hw_init_cb (ucfg (usb_event (hw_usb_config_start (usb_ready [] HW_CFG_IDLE) 0x0BDAD723) [0x0E, 4, 1, 0x03, 0x0C, 0])) =
     [False]"
proof -
  have "ev_status (Some ([0x0E, 4, 1, 0x03, 0x0C, 0] :: u8 list)) = 0" by (simp add: ev_status_def byte_at_def)
  then show ?thesis
    using usb_events_misrouted [where u = "usb_ready [] HW_CFG_IDLE" and ev = "[0x0E, 4, 1, 0x03, 0x0C, 0]" and usb_id = "0x0BDAD723"]
    by (simp add: usb_ready_def hw_zero_def Let_def)
qed

end
