(* ===== verification/BtSnoop.thy ===== *)
theory BtSnoop
  imports VndState
begin

text \<open>
  The packet logs of hardware/bt/src/rtk_btsnoop_net.c: a file in the btsnoop format, and UDP datagrams
  to an analyser on the network.
\<close>

type_synonym u64 = "64 word"

section \<open>State\<close>

text \<open>The static variables; \<open>hci_btsnoop_fd\<close> is the name under which the log was opened. The environment: the
  files by name, the times that coming calls of \<open>gettimeofday\<close> return (seconds and microseconds), how many bytes
  of a buffer the n-th \<open>write\<close> takes, whether a file, the thread, the socket and its address can be had,
  \<open>localtime\<close> (hour, minute, second, year since 1900, month from 0), and the datagrams sent.\<close>

record snoop =
  rtkbt_h5logfilter :: u32
  rtk_btsnoop_dump :: bool
  rtk_btsnoop_net_dump :: bool
  rtk_btsnoop_save_log :: bool
  rtk_btsnoop_path :: "u8 list"
  rtk_listen_thread_valid :: bool
  rtk_listen_socket :: bool
  hci_btsnoop_fd :: "u8 list option"
  log_files :: "u8 list \<Rightarrow> u8 list option"
  clock :: "nat \<Rightarrow> u64 \<times> u64"
  clock_n :: nat
  write_takes :: "nat \<Rightarrow> nat \<Rightarrow> nat"
  write_n :: nat
  log_open_ok :: bool
  log_rename_ok :: bool
  listen_thread_ok :: bool
  listen_socket_ok :: bool
  listen_bind_ok :: bool
  local_time :: "u64 \<Rightarrow> nat \<times> nat \<times> nat \<times> nat \<times> nat"
  datagrams :: "u8 list list"

definition set_rtk_btsnoop_save_log :: "bool \<Rightarrow> snoop \<Rightarrow> snoop" where
  "set_rtk_btsnoop_save_log b s = s\<lparr>rtk_btsnoop_save_log := b\<rparr>"

definition set_rtk_btsnoop_net_dump :: "bool \<Rightarrow> snoop \<Rightarrow> snoop" where
  "set_rtk_btsnoop_net_dump b s = s\<lparr>rtk_btsnoop_dump := b\<rparr>"

definition get_rtk_btsnoop_net_dump :: "snoop \<Rightarrow> bool" where
  "get_rtk_btsnoop_net_dump s = rtk_btsnoop_net_dump s"

definition set_rtk_btsnoop_dump :: "bool \<Rightarrow> snoop \<Rightarrow> snoop" where
  "set_rtk_btsnoop_dump b s = s\<lparr>rtk_btsnoop_dump := b\<rparr>"

definition get_rtk_btsnoop_dump :: "snoop \<Rightarrow> bool" where
  "get_rtk_btsnoop_dump s = rtk_btsnoop_dump s"

definition set_rtkbt_h5logfilter :: "u32 \<Rightarrow> snoop \<Rightarrow> snoop" where
  "set_rtkbt_h5logfilter w s = s\<lparr>rtkbt_h5logfilter := w\<rparr>"

section \<open>The log file\<close>

definition BTSNOOP_EPOCH_DELTA :: u64 where "BTSNOOP_EPOCH_DELTA = 0x00dcddb30f2f8000"

definition timestamp_of :: "u64 \<times> u64 \<Rightarrow> u64" where
  "timestamp_of = (\<lambda>(sec, usec). sec * 1000 * 1000 + usec + BTSNOOP_EPOCH_DELTA)"

definition rtk_btsnoop_timestamp :: "snoop \<Rightarrow> u64 \<times> snoop" where
  "rtk_btsnoop_timestamp s = (timestamp_of (clock s (clock_n s)), s\<lparr>clock_n := Suc (clock_n s)\<rparr>)"

text \<open>A decimal number, as \<open>%u\<close> and \<open>%d\<close> print it, and characters of a literal.\<close>

fun dec_digits :: "nat \<Rightarrow> u8 list" where
  "dec_digits n = (if n < 10 then [of_nat (48 + n)] else dec_digits (n div 10) @ [of_nat (48 + n mod 10)])"

declare dec_digits.simps [simp del]

definition chars :: "string \<Rightarrow> u8 list" where
  "chars = map (of_nat \<circ> of_char)"

text \<open>The name an old log is kept under.\<close>

definition last_log_path :: "snoop \<Rightarrow> u8 list \<times> snoop" where
  "last_log_path s =
     (if rtk_btsnoop_save_log s
      then let (t, s) = rtk_btsnoop_timestamp s;
               t = t - BTSNOOP_EPOCH_DELTA; usec = t mod 1000000; t = t div 1000000;
               sec = t mod 60; t = t div 60; minute = t mod 60; t = t div 60; hour = t mod 24; t = t div 24;
               day = t mod 30; t = t div 30;
               d = dec_digits
           in (rtk_btsnoop_path s @ chars ''.'' @ d (unat (ucast t :: u32)) @ chars ''Y-'' @ d (unat day) @ chars ''D-'' @ d (unat hour) @
               chars ''H-'' @ d (unat minute) @ chars ''M-'' @ d (unat sec) @ chars ''S-'' @ d (unat usec) @ chars ''US'', s)
      else (rtk_btsnoop_path s @ chars ''.last'', s))"

definition rename_log :: "u8 list \<Rightarrow> u8 list \<Rightarrow> snoop \<Rightarrow> snoop" where
  "rename_log old new s =
     (if log_rename_ok s \<and> log_files s old \<noteq> None
      then s\<lparr>log_files := (log_files s)(new := log_files s old, old := None)\<rparr> else s)"

definition rtk_btsnoop_write :: "u8 list \<Rightarrow> snoop \<Rightarrow> snoop" where
  "rtk_btsnoop_write data s =
     (case hci_btsnoop_fd s of
        None \<Rightarrow> s
      | Some f \<Rightarrow>
          s\<lparr>log_files := (log_files s)(f := Some (the (log_files s f) @ take (write_takes s (write_n s) (length data)) data)),
            write_n := Suc (write_n s)\<rparr>)"

definition btsnoop_header :: "u8 list" where
  "btsnoop_header = chars ''btsnoop'' @ [0, 0, 0, 0, 1, 0, 0, 0x3, 0xea]"

definition rtk_btsnoop_open :: "snoop \<Rightarrow> snoop" where
  "rtk_btsnoop_open s =
     (if hci_btsnoop_fd s \<noteq> None then s
      else let (new, s) = last_log_path s;
               path = rtk_btsnoop_path s;
               s = rename_log path new s
           in if \<not> log_open_ok s then s
              else rtk_btsnoop_write btsnoop_header
                     (s\<lparr>hci_btsnoop_fd := Some path, log_files := (log_files s)(path := Some [])\<rparr>))"

definition rtk_btsnoop_close :: "snoop \<Rightarrow> snoop" where
  "rtk_btsnoop_close s = s\<lparr>hci_btsnoop_fd := None\<rparr>"

text \<open>Four bytes in network order.\<close>

definition htonl :: "u32 \<Rightarrow> u8 list" where
  "htonl w = rev (uint32_to_stream w)"

text \<open>The length (with the type byte) and the flags of a packet, for the types the callers pass; for any
  other type the flags are not set.\<close>

definition snoop_length :: "u8 \<Rightarrow> u8 list \<Rightarrow> nat option" where
  "snoop_length type packet =
     (if type = DATA_TYPE_COMMAND then Some (unat (byte_at packet 2) + 4)
      else if type = DATA_TYPE_ACL then Some (unat (byte_at packet 3) * 256 + unat (byte_at packet 2) + 5)
      else if type = DATA_TYPE_SCO then Some (unat (byte_at packet 2) + 4)
      else if type = DATA_TYPE_EVENT then Some (unat (byte_at packet 1) + 3)
      else None)"

definition snoop_flags :: "u8 \<Rightarrow> bool \<Rightarrow> u32" where
  "snoop_flags type is_received =
     (if type = DATA_TYPE_COMMAND then 2 else if type = DATA_TYPE_EVENT then 3 else if is_received then 1 else 0)"

definition rtk_btsnoop_write_packet :: "u8 \<Rightarrow> u8 list \<Rightarrow> bool \<Rightarrow> snoop \<Rightarrow> snoop option" where
  "rtk_btsnoop_write_packet type packet is_received s =
     map_option (\<lambda>length_he.
       let (timestamp, s) = rtk_btsnoop_timestamp s in
       fold rtk_btsnoop_write
         [htonl (of_nat length_he), htonl (of_nat length_he), htonl (snoop_flags type is_received), htonl 0,
          htonl (ucast (drop_bit 32 timestamp)), htonl (ucast timestamp), [type],
          map (byte_at packet) [0..<length_he - 1]] s)
     (snoop_length type packet)"

text \<open>The completions and commands the log leaves out: those of the heartbeat.\<close>

definition filtered_event :: "snoop \<Rightarrow> u8 list \<Rightarrow> bool" where
  "filtered_event s p \<longleftrightarrow>
     byte_at p 3 = 0x94 \<and> byte_at p 4 = 0xfc \<and> byte_at p 5 = 0 \<and> rtkbt_h5logfilter s AND 1 \<noteq> 0"

definition filtered_command :: "snoop \<Rightarrow> u8 list \<Rightarrow> bool" where
  "filtered_command s p \<longleftrightarrow> \<not> (rtkbt_h5logfilter s AND 1 = 0 \<or> byte_at p 0 \<noteq> 0x94 \<or> byte_at p 1 \<noteq> 0xfc)"

definition rtk_btsnoop_capture :: "u16 \<times> u8 list \<times> bool \<Rightarrow> snoop \<Rightarrow> snoop option" where
  "rtk_btsnoop_capture = (\<lambda>(event, p, is_rcvd) s.
     let m = event AND 0xFF00 in
     if hci_btsnoop_fd s = None then Some s
     else if m = 0x1000
     then (if filtered_event s p then Some s else rtk_btsnoop_write_packet DATA_TYPE_EVENT p False s)
     else if m = 0x1100 \<or> m = 0x2100 then rtk_btsnoop_write_packet DATA_TYPE_ACL p is_rcvd s
     else if m = 0x1200 \<or> m = 0x2200 then rtk_btsnoop_write_packet DATA_TYPE_SCO p is_rcvd s
     else if m = 0x2000
     then (if filtered_command s p then Some s else rtk_btsnoop_write_packet DATA_TYPE_COMMAND p True s)
     else Some s)"

section \<open>The network\<close>

text \<open>The thread opens the socket and ends. Closing shuts the socket down and keeps its number.\<close>

definition rtk_btsnoop_net_open :: "snoop \<Rightarrow> snoop" where
  "rtk_btsnoop_net_open s = s\<lparr>rtk_listen_thread_valid := listen_thread_ok s\<rparr>"

definition rtk_listen_fn :: "snoop \<Rightarrow> snoop" where
  "rtk_listen_fn s = s\<lparr>rtk_listen_socket := listen_socket_ok s \<and> listen_bind_ok s\<rparr>"

definition rtk_btsnoop_net_close :: "snoop \<Rightarrow> snoop" where
  "rtk_btsnoop_net_close s = (if rtk_listen_thread_valid s then s\<lparr>rtk_listen_thread_valid := False\<rparr> else s)"

text \<open>The length of a packet (0 for an unknown type), or \<open>None\<close> when it is left out.\<close>

definition net_length :: "snoop \<Rightarrow> u8 \<Rightarrow> u8 list \<Rightarrow> nat option" where
  "net_length s type data =
     (if type = DATA_TYPE_COMMAND then (if filtered_command s data then None else Some (unat (byte_at data 2) + 3))
      else if type = DATA_TYPE_ACL then Some (unat (byte_at data 3) * 256 + unat (byte_at data 2) + 4)
      else if type = DATA_TYPE_SCO then Some (unat (byte_at data 2) + 3)
      else if type = DATA_TYPE_EVENT then (if filtered_event s data then None else Some (unat (byte_at data 1) + 2))
      else Some 0)"

definition net_type :: "u8 \<Rightarrow> bool \<Rightarrow> u8" where
  "net_type type is_received =
     (if type = DATA_TYPE_COMMAND then 0x01
      else if type = DATA_TYPE_ACL then (if is_received then 0x82 else 0x02)
      else if type = DATA_TYPE_SCO then (if is_received then 0x83 else 0x03)
      else if type = DATA_TYPE_EVENT then 0x84 else 0)"

text \<open>The first 22 bytes of the datagram, from the local time and the microseconds of the clock.\<close>

definition net_preamble :: "nat \<times> nat \<times> nat \<times> nat \<times> nat \<Rightarrow> u64 \<Rightarrow> u8 \<Rightarrow> u8 list" where
  "net_preamble = (\<lambda>(hour, minute, sec, year, mon) usec type.
     let nano_time = (of_nat (hour * 3600 + minute * 60 + sec) :: u64) * 1000 * 1000 * 1000 + usec * 1000;
         year = (of_nat (year + 1900) :: u16)
     in [0x02, 0x00, 0x01, 0x02] @ uint16_to_stream year @ [of_nat (mon + 1), 0x02] @
        map (\<lambda>i. ucast (drop_bit (8 * i) nano_time)) [0..<6] @ [0x80, 0x00, 0x1b, 0x37, 0x4b, 0x81, type, 0x82])"

text \<open>The packet is copied behind the preamble with the size of the whole array as its bound: what does not
  fit is written behind the array.\<close>

definition rtk_btsnoop_net_write :: "u8 \<Rightarrow> u8 list \<Rightarrow> bool \<Rightarrow> snoop \<Rightarrow> vnd_fault + snoop" where
  "rtk_btsnoop_net_write type data is_received s =
     (if \<not> rtk_listen_socket s then Inr s
      else case net_length s type data of
             None \<Rightarrow> Inr s
           | Some n \<Rightarrow>
               let tt = fst (clock s (clock_n s)); usec = snd (clock s (Suc (clock_n s)));
                   s = s\<lparr>clock_n := clock_n s + 2\<rparr>
               in if 22 + n > 4126 then Inl Buffer_overrun
                  else Inr (s\<lparr>datagrams := datagrams s @
                      [net_preamble (local_time s tt) usec (net_type type is_received) @ map (byte_at data) [0..<n]]\<rparr>))"

section \<open>Reading the log\<close>

text \<open>The format of the file, as a reader sees it: a record is its original and its captured length, flags,
  dropped packets, a time of eight bytes, and the captured bytes.\<close>

definition ntohl :: "u8 list \<Rightarrow> u32" where
  "ntohl bs = uint32_at (rev bs) 0"

function snoop_records :: "u8 list \<Rightarrow> (u32 \<times> u32 \<times> u32 \<times> u8 list) list option" where
  "snoop_records bs =
     (if bs = [] then Some []
      else if length bs < 24 then None
      else let n = unat (ntohl (take 4 (drop 4 bs))) in
        if ntohl (take 4 bs) \<noteq> ntohl (take 4 (drop 4 bs)) \<or> length bs < 24 + n then None
        else map_option ((#) (ntohl (take 4 (drop 8 bs)), ntohl (take 4 (drop 16 bs)), ntohl (take 4 (drop 20 bs)),
                              take n (drop 24 bs)))
               (snoop_records (drop (24 + n) bs)))"
  by pat_completeness auto
termination by (relation "measure length") auto

declare snoop_records.simps [simp del]

definition read_btsnoop :: "u8 list \<Rightarrow> (u32 \<times> u32 \<times> u32 \<times> u8 list) list option" where
  "read_btsnoop f = (if take 16 f = btsnoop_header then snoop_records (drop 16 f) else None)"

end
