(* ===== verification/Upio.thy ===== *)
theory Upio
  imports RtkHeartbeat BtSnoop
begin

text \<open>
  Power and wake-up lines (hardware/bt/src/upio.c). The options \<open>BT_WAKE_VIA_PROC\<close> and
  \<open>BT_WAKE_VIA_USERIAL_IOCTL\<close> are off, so setting a line only records its state.
\<close>

section \<open>State\<close>

text \<open>\<open>rfkill_types\<close>: the contents of \<open>/sys/class/rfkill/rfkill<i>/type\<close> for the devices there are;
  \<open>rfkill_state_writes\<close> and \<open>lpm_writes\<close>: the characters written to the state file of a device and to
  \<open>/proc/bluetooth/sleep/lpm\<close>; the flags say whether these files can be opened and written.\<close>

record upio =
  upio_state :: "u8 list"
  rfkill_id :: int
  bt_emul_enable :: int
  rfkill_types :: "u8 list list"
  rfkill_open_ok :: bool
  rfkill_write_ok :: bool
  rfkill_state_writes :: "(int \<times> u8) list"
  lpm_open_ok :: bool
  lpm_write_ok :: bool
  lpm_writes :: "u8 list"

definition UPIO_BT_POWER_OFF :: int where "UPIO_BT_POWER_OFF = 0"
definition UPIO_BT_POWER_ON :: int where "UPIO_BT_POWER_ON = 1"
definition UPIO_BT_WAKE :: u8 where "UPIO_BT_WAKE = 0"
definition UPIO_HOST_WAKE :: u8 where "UPIO_HOST_WAKE = 1"
definition UPIO_LPM_MODE :: u8 where "UPIO_LPM_MODE = 2"

section \<open>Power\<close>

text \<open>Both functions compare a constant they have just stored.\<close>

definition is_emulator_context :: bool where
  "is_emulator_context \<longleftrightarrow> ''1'' = ''1''"

definition is_rfkill_disabled :: int where
  "is_rfkill_disabled = (if ''0'' = ''1'' then UPIO_BT_POWER_ON else UPIO_BT_POWER_OFF)"

text \<open>The loop over the devices: it ends at the first whose type is \<open>bluetooth\<close>, or where there is none. Up to 16
  bytes of the type are read.\<close>

fun find_rfkill :: "int \<Rightarrow> u8 list list \<Rightarrow> int option" where
  "find_rfkill i [] = None"
| "find_rfkill i (t # ts) = (if take 9 (take 16 t) = chars ''bluetooth'' then Some i else find_rfkill (i + 1) ts)"

definition init_rfkill :: "upio \<Rightarrow> int \<times> upio" where
  "init_rfkill s =
     (if is_rfkill_disabled \<noteq> 0 then (-1, s)
      else case find_rfkill 0 (rfkill_types s) of None \<Rightarrow> (-1, s) | Some i \<Rightarrow> (0, s\<lparr>rfkill_id := i\<rparr>))"

definition upio_set_bluetooth_power :: "int \<Rightarrow> upio \<Rightarrow> int \<times> upio" where
  "upio_set_bluetooth_power on s =
     (if is_emulator_context
      then (if bt_emul_enable s = on then (-1, s) else (0, s\<lparr>bt_emul_enable := on\<rparr>))
      else if is_rfkill_disabled \<noteq> 0 then (0, s)
      else let (r, s) = (if rfkill_id s = -1 then init_rfkill s else (0, s))
           in if r \<noteq> 0 \<or> \<not> rfkill_open_ok s \<or> \<not> rfkill_write_ok s then (-1, s)
              else (0, s\<lparr>rfkill_state_writes := rfkill_state_writes s @
                           [(rfkill_id s, if on = UPIO_BT_POWER_ON then 49 else 48)]\<rparr>))"

definition bt_wake_up_host_mode_set :: "u8 \<Rightarrow> upio \<Rightarrow> int \<times> upio" where
  "bt_wake_up_host_mode_set mode s =
     (if \<not> lpm_open_ok s then (-1, s)
      else if \<not> lpm_write_ok s then (-1, s)
      else (0, s\<lparr>lpm_writes := lpm_writes s @ [if mode = 1 then 49 else 48]\<rparr>))"

section \<open>Lines\<close>

definition upio_init :: "upio \<Rightarrow> upio" where
  "upio_init s = s\<lparr>upio_state := replicate 3 0\<rparr>"

definition upio_cleanup :: "upio \<Rightarrow> upio" where
  "upio_cleanup s = s"

definition upio_set_lpm_mode :: "u8 \<Rightarrow> upio \<Rightarrow> upio" where
  "upio_set_lpm_mode action s = s"

definition upio_set_bt_wake :: "u8 \<Rightarrow> upio \<Rightarrow> upio" where
  "upio_set_bt_wake action s = s"

definition upio_set :: "u8 \<Rightarrow> u8 \<Rightarrow> upio \<Rightarrow> upio" where
  "upio_set pio action s =
     (if pio = UPIO_LPM_MODE
      then (if upio_state s ! 2 = action then s
            else upio_set_lpm_mode action (s\<lparr>upio_state := (upio_state s)[2 := action]\<rparr>))
      else if pio = UPIO_BT_WAKE
      then (if upio_state s ! 0 = action then s
            else upio_set_bt_wake action (s\<lparr>upio_state := (upio_state s)[0 := action]\<rparr>))
      else s)"

end
