(* ===== verification/BtVendor.thy ===== *)
theory BtVendor
  imports Upio HwUsb
begin

text \<open>
  The entry points of the library (hardware/bt/src/bt_vendor_rtk.c): the configuration file, start and
  stop, and the operations the stack calls, composed of the other components; with the functions of
  userial_vendor.c that open and close the UART.
\<close>

section \<open>Reading the configuration file\<close>

text \<open>A line is in an array of 1024 characters; a pointer is an offset. This \<open>rtk_trim\<close> takes the length of the
  trimmed string.\<close>

definition conf_trim :: "u8 list \<Rightarrow> nat \<Rightarrow> nat \<times> u8 list" where
  "conf_trim line str =
     (let str_tmp = str + length (takeWhile isspace (drop str line)) in
      if char_at line str_tmp = 0 then (str_tmp, line)
      else let e = trim_back line str_tmp (str_tmp + strlen line str_tmp - 1)
           in (str_tmp, line[e + 1 := 0]))"

text \<open>\<open>fgets(line, 1024, fp)\<close>: the lines it returns one after the other, a long line in pieces.\<close>

function fgets_lines :: "u8 list \<Rightarrow> u8 list list" where
  "fgets_lines content =
     (if content = [] then []
      else let n = min 1023 (length (takeWhile (\<lambda>c. c \<noteq> 10) content) + 1)
           in take n content # fgets_lines (drop n content))"
  by pat_completeness auto
termination by (relation "measure length") auto

declare fgets_lines.simps [simp del]

definition fgets_into :: "u8 list \<Rightarrow> u8 list \<Rightarrow> u8 list" where
  "fgets_into l line = l @ [0] @ drop (length l + 1) line"

text \<open>A line after the trimming: blank or a comment, without a separator, or a key with the rest behind the
  separator. The key is trimmed again before each comparison, with the same result.\<close>

datatype conf_item = Conf_skip | Conf_no_separator | Conf_key "u8 list" "u8 list"

definition conf_item_of :: "u8 list \<Rightarrow> conf_item \<times> u8 list" where
  "conf_item_of line =
     (let (p, line) = conf_trim line 0 in
      if char_at line p \<in> {0, 35, 91} then (Conf_skip, line)
      else let split = p + length (takeWhile (\<lambda>c. c \<noteq> 61) (c_string line p)) in
        if char_at line split \<noteq> 61 then (Conf_no_separator, line)
        else let (k, line) = conf_trim (line[split := 0]) p;
                 (q, line) = conf_trim line (split + 1)
             in (Conf_key (c_string line k) (c_string line q), line))"

text \<open>\<open>strcpy_s(rtkbt_device_node, 512, ...)\<close> stores nothing when the string does not fit.\<close>

definition default_node :: "u8 list" where "default_node = chars ''/dev/rtkbt_dev''"

definition copy_node :: "u8 list \<Rightarrow> u8 list" where
  "copy_node v = (if length v < 512 then v else [])"

fun conf_node_loop :: "u8 list list \<Rightarrow> u8 list \<Rightarrow> u8 list \<Rightarrow> bool \<times> u8 list" where
  "conf_node_loop [] line node = (True, node)"
| "conf_node_loop (l # ls) line node =
     (case conf_item_of (fgets_into l line) of
        (Conf_skip, line) \<Rightarrow> conf_node_loop ls line node
      | (Conf_no_separator, line) \<Rightarrow> (False, default_node)
      | (Conf_key k v, line) \<Rightarrow> conf_node_loop ls line (if k = chars ''BtDeviceNode'' then copy_node v else node))"

section \<open>State\<close>

text \<open>Serial port settings: speed (as the number the \<open>B\<close> constant stands for), hardware flow control, parity, two
  stop bits.\<close>

datatype port_parity = No_parity | Even_parity | Odd_parity

record port_cfg =
  port_speed :: u32
  port_rtscts :: bool
  port_parity :: port_parity
  port_two_stop :: bool

record tUSERIAL_CFG =
  uc_fmt :: u16
  uc_baud :: u8
  uc_hw_fctrl :: u8

text \<open>The globals of bt_vendor_rtk.c, the parts of the library, and the environment: the configuration file, what
  the calls to \<open>open\<close> on the port and the steps of starting sockets, threads and timers return.\<close>

record bt_vendor =
  lib :: vnd_lib
  snp :: snoop
  upi :: upio
  usb :: hw_usb
  bt_vendor_cbacks :: bool
  vnd_local_bd_addr :: "u8 list"
  rtkbt_device_node :: "u8 list"
  h5_log_enable :: u32
  coex_log_enable :: int
  port_name :: "u8 list"
  port_cfg :: "port_cfg option"
  hci_fds :: "int list"
  rtkbt_conf :: "u8 list option"
  port_opens :: "int list"
  socket_step_ok :: "nat \<Rightarrow> bool"
  socket_fd :: int
  h5_starts :: "nat \<Rightarrow> bool"
  parse_starts :: "nat \<Rightarrow> bool"
  parse_socket :: int
  parse_chrdev :: int
  service_starts :: "nat \<Rightarrow> bool"
  usb_info :: "u32 option"

definition load_rtkbt_conf :: "bt_vendor \<Rightarrow> bt_vendor" where
  "load_rtkbt_conf b =
     (case rtkbt_conf b of
        None \<Rightarrow> b\<lparr>rtkbt_device_node := default_node\<rparr>
      | Some c \<Rightarrow>
          (case conf_node_loop (fgets_lines c) (replicate 1024 0) [] of
             (False, node) \<Rightarrow> b\<lparr>rtkbt_device_node := node\<rparr>
           | (True, node) \<Rightarrow>
               b\<lparr>rtkbt_device_node := node,
                 lib := (lib b)\<lparr>rtkbt_transtype := rtkbt_transtype (lib b) OR RTKBT_TRANS_H5 OR RTKBT_TRANS_UART\<rparr>\<rparr>))"

definition rtkbt_stack_conf_cleanup :: "bt_vendor \<Rightarrow> bt_vendor" where
  "rtkbt_stack_conf_cleanup b =
     b\<lparr>h5_log_enable := 0,
       snp := set_rtk_btsnoop_net_dump False (set_rtk_btsnoop_dump False (set_rtkbt_h5logfilter 0 (snp b)))\<rparr>"

text \<open>One line of the settings. \<open>sprintf_s(btsnoop_path, 1024, "%s_rtk", v)\<close> stores nothing when it does not fit.\<close>

definition stack_conf_item :: "u8 list \<Rightarrow> u8 list \<Rightarrow> bt_vendor \<Rightarrow> bt_vendor" where
  "stack_conf_item k v b =
     (if k = chars ''RtkbtLogFilter'' then b\<lparr>snp := set_rtkbt_h5logfilter (word_of_int (strtol v)) (snp b)\<rparr>
      else if k = chars ''H5LogOutput'' then b\<lparr>h5_log_enable := word_of_int (strtol v)\<rparr>
      else if k = chars ''RtkBtsnoopDump''
      then (if v = chars ''true'' then b\<lparr>snp := set_rtk_btsnoop_dump True (snp b)\<rparr> else b)
      else if k = chars ''RtkBtsnoopNetDump''
      then (if v = chars ''true'' then b\<lparr>snp := set_rtk_btsnoop_net_dump True (snp b)\<rparr> else b)
      else if k = chars ''BtSnoopFileName''
      then b\<lparr>snp := (snp b)\<lparr>rtk_btsnoop_path := (let p = v @ chars ''_rtk'' in if length p < 1024 then p else [])\<rparr>\<rparr>
      else if k = chars ''BtSnoopSaveLog''
      then (if v = chars ''true'' then b\<lparr>snp := set_rtk_btsnoop_save_log True (snp b)\<rparr> else b)
      else if k = chars ''BtCoexLogOutput'' then b\<lparr>coex_log_enable := strtol v\<rparr>
      else if k = chars ''RtkBtAutoRestart''
      then (if v = chars ''true'' then b\<lparr>lib := (lib b)\<lparr>hw_cb := (hw_cb (lib b))\<lparr>hw_auto_restart := True\<rparr>\<rparr>\<rparr> else b)
      else b)"

fun stack_conf_loop :: "u8 list list \<Rightarrow> u8 list \<Rightarrow> bt_vendor \<Rightarrow> bt_vendor" where
  "stack_conf_loop [] line b = b"
| "stack_conf_loop (l # ls) line b =
     (case conf_item_of (fgets_into l line) of
        (Conf_key k v, line) \<Rightarrow> stack_conf_loop ls line (stack_conf_item k v b)
      | (_, line) \<Rightarrow> stack_conf_loop ls line b)"

definition load_rtkbt_stack_conf :: "bt_vendor \<Rightarrow> bt_vendor" where
  "load_rtkbt_stack_conf b =
     (case rtkbt_conf b of None \<Rightarrow> b | Some c \<Rightarrow> stack_conf_loop (fgets_lines c) (replicate 1024 0) b)"

section \<open>The address\<close>

text \<open>The three assignments exchange two different elements.\<close>

definition xor_swap :: "nat \<Rightarrow> nat \<Rightarrow> u8 list \<Rightarrow> u8 list" where
  "xor_swap i tmp data =
     (let data = data[i := data ! i XOR data ! tmp];
          data = data[tmp := data ! tmp XOR data ! i]
      in data[i := data ! i XOR data ! tmp])"

definition byte_reverse :: "u8 list \<Rightarrow> u8 list" where
  "byte_reverse data = fold (\<lambda>i. xor_swap i (length data - i - 1)) [0..<length data div 2] data"

section \<open>The port\<close>

definition userial_to_tcio_baud :: "u8 \<Rightarrow> bool \<times> u32" where
  "userial_to_tcio_baud cfg_baud =
     (case map_of [(7, 115200), (15, 4000000), (14, 3000000), (13, 2000000), (11, 1000000), (12, 1500000),
                   (10, 921600), (9, 460800), (8, 230400), (6, 57600), (5, 19200), (4, 9600), (2, 1200), (1, 600)] cfg_baud of
        Some baud \<Rightarrow> (True, baud) | None \<Rightarrow> (False, 115200))"

text \<open>\<open>memset_s\<close> of the control block, the transport, the coexistence module and the assemblers of the receiving
  direction and of the coexistence thread. The assembler of the direction from the stack is not touched.\<close>

definition userial_vendor_init :: "u8 list \<Rightarrow> bt_vendor \<Rightarrow> bt_vendor" where
  "userial_vendor_init node b =
     (let v = lib b;
          v = v\<lparr>u_fd := -1, thread_running := False, btdriver_state := False,
                h5_cb := (if rtkbt_transtype v AND RTKBT_TRANS_H5 \<noteq> 0
                          then hci_h5_int_init (h5_starts b) (h5_starts b 5) (h5_starts b 6) (h5_cb v) else h5_cb v),
                prof_cb := rtk_parse_init (prof_cb v) (parse_starts b) (parse_socket b) (parse_starts b 4) (parse_starts b 5)
                             (parse_chrdev b) (parse_starts b 6),
                rtk_parse_manager := True, data_order := [], u_recv_data := [], u_send_data := [],
                coex_packet_recv_state := RTKBT_PACKET_IDLE, coex_packet_bytes_need := 0, coex_current_type := 0,
                coex_resvered_length := 0,
                recv_vars := (recv_vars v)\<lparr>received_packet_state := RTKBT_PACKET_IDLE, received_packet_bytes_need := 0,
                    recv_packet_current_type := 0, received_resvered_length := 0,
                    rtkbt_adv_con := \<lparr>adverting_type = 0, adverting_enable = False, adverting_start = False,
                      connetion_enable = False\<rparr>\<rparr>\<rparr>
      in b\<lparr>lib := v, port_name := take 255 node\<rparr>)"

definition next_open :: "bt_vendor \<Rightarrow> int \<times> bt_vendor" where
  "next_open b = (case port_opens b of [] \<Rightarrow> (-1, b) | r # rs \<Rightarrow> (r, b\<lparr>port_opens := rs\<rparr>))"

definition set_fd :: "int \<Rightarrow> bt_vendor \<Rightarrow> bt_vendor" where
  "set_fd fd b = b\<lparr>lib := (lib b)\<lparr>u_fd := fd\<rparr>\<rparr>"

definition cfg_parity :: "u16 \<Rightarrow> port_parity option" where
  "cfg_parity fmt =
     (if fmt AND 8 \<noteq> 0 then Some No_parity else if fmt AND 16 \<noteq> 0 then Some Even_parity
      else if fmt AND 32 \<noteq> 0 then Some Odd_parity else None)"

definition cfg_two_stop :: "u16 \<Rightarrow> bool option" where
  "cfg_two_stop fmt = (if fmt AND 1 \<noteq> 0 then Some False else if fmt AND 4 \<noteq> 0 then Some True else None)"

definition userial_vendor_open :: "tUSERIAL_CFG \<Rightarrow> bt_vendor \<Rightarrow> int \<times> bt_vendor" where
  "userial_vendor_open cfg b =
     (let b = set_fd (-1) b in
      case (userial_to_tcio_baud (uc_baud cfg), uc_fmt cfg AND 0x3C0 \<noteq> 0, cfg_parity (uc_fmt cfg), cfg_two_stop (uc_fmt cfg)) of
        ((True, baud), True, Some parity, Some two) \<Rightarrow>
          (let (fd, b) = next_open b; b = set_fd fd b in
           if fd = -1 then (-1, b)
           else (fd, b\<lparr>port_cfg := Some \<lparr>port_speed = baud, port_rtscts = (uc_hw_fctrl cfg = 1), port_parity = parity,
                                         port_two_stop = two\<rparr>,
                       lib := (lib b)\<lparr>btdriver_state := True\<rparr>\<rparr>))
      | _ \<Rightarrow> (-1, b))"

definition userial_vendor_usb_open :: "bt_vendor \<Rightarrow> int \<times> bt_vendor" where
  "userial_vendor_usb_open b =
     (let (fd, b) = next_open b; b = set_fd fd b
      in if fd = -1 then (-1, b) else (fd, b\<lparr>lib := (lib b)\<lparr>btdriver_state := True\<rparr>\<rparr>))"

definition userial_vendor_set_baud :: "u8 \<Rightarrow> bt_vendor \<Rightarrow> bt_vendor" where
  "userial_vendor_set_baud userial_baud b =
     b\<lparr>port_cfg := map_option (port_speed_update (\<lambda>_. snd (userial_to_tcio_baud userial_baud))) (port_cfg b)\<rparr>"

definition userial_vendor_set_hw_fctrl :: "u8 \<Rightarrow> bt_vendor \<Rightarrow> bt_vendor" where
  "userial_vendor_set_hw_fctrl hw_fctrl b =
     (if u_fd (lib b) = -1 then b
      else b\<lparr>port_cfg := map_option (port_rtscts_update (\<lambda>_. hw_fctrl \<noteq> 0)) (port_cfg b)\<rparr>)"

definition userial_set_port :: "u8 list \<Rightarrow> bt_vendor \<Rightarrow> bt_vendor" where
  "userial_set_port value b = b\<lparr>port_name := (if length value < 256 then value else [])\<rparr>"

text \<open>The steps of \<open>userial_socket_open\<close>: two socket pairs, the epoll set and its two members, the threads of
  the socket and of the UART, and behind them the steps whose failure ends the process.\<close>

definition userial_socket_open :: "bt_vendor \<Rightarrow> vnd_fault + (int \<times> bt_vendor)" where
  "userial_socket_open b =
     (let ok = socket_step_ok b; run = (\<lambda>r. b\<lparr>lib := (lib b)\<lparr>thread_running := r\<rparr>\<rparr>) in
      if \<not> (ok 0 \<and> ok 1 \<and> ok 2 \<and> ok 3 \<and> ok 4) then Inr (-1, b)
      else if \<not> ok 5 then Inr (-1, run True)
      else if \<not> ok 6 then Inr (-1, run False)
      else if \<not> (ok 7 \<and> ok 8 \<and> ok 9 \<and> ok 10 \<and> ok 11) then Inl Assertion_failed
      else Inr (socket_fd b, b\<lparr>lib := (lib b)\<lparr>thread_running := True, event_count := 10\<rparr>\<rparr>))"

definition trans_uart_h5 :: "vnd_lib \<Rightarrow> bool" where
  "trans_uart_h5 v \<longleftrightarrow> rtkbt_transtype v AND RTKBT_TRANS_UART \<noteq> 0 \<and> rtkbt_transtype v AND RTKBT_TRANS_H5 \<noteq> 0"

definition userial_vendor_close :: "vnd_lib \<Rightarrow> vnd_fault + vnd_lib" where
  "userial_vendor_close v =
     (if u_fd v = -1 then Inr v
      else bind (RTK_btservice_destroyed (Heartbeat_cleanup (v\<lparr>thread_running := False\<rparr>)))
        (\<lambda>v. let v = (if trans_uart_h5 v then v\<lparr>h5_cb := hci_h5_cleanup (h5_cb v)\<rparr> else v);
                 v = v\<lparr>u_fd := -1, btdriver_state := False\<rparr>;
                 v = (if rtk_parse_manager v then v\<lparr>prof_cb := rtk_parse_cleanup (prof_cb v)\<rparr> else v)
             in Inr (v\<lparr>rtk_parse_manager := False\<rparr>)))"

section \<open>Start and stop\<close>

definition uses_uart :: "bt_vendor \<Rightarrow> bool" where
  "uses_uart b \<longleftrightarrow> rtkbt_transtype (lib b) AND RTKBT_TRANS_UART \<noteq> 0"

text \<open>\<open>init\<close>: the flags that open the logs are read before the configuration file. \<open>p_cb\<close>: callbacks were given.\<close>

definition init :: "bool \<Rightarrow> u8 list \<Rightarrow> bt_vendor \<Rightarrow> int \<times> bt_vendor" where
  "init p_cb local_bdaddr b =
     (let if_rtk_btsnoop_dump = get_rtk_btsnoop_dump (snp b);
          if_btsnoop_net_dump = get_rtk_btsnoop_net_dump (snp b)
      in if \<not> p_cb then (-1, b)
         else let b = load_rtkbt_stack_conf (load_rtkbt_conf b);
                  b = userial_vendor_init (rtkbt_device_node b) b;
                  b = (if uses_uart b then b\<lparr>upi := snd (bt_wake_up_host_mode_set 1 (upio_init (upi b)))\<rparr> else b);
                  b = b\<lparr>bt_vendor_cbacks := True, vnd_local_bd_addr := byte_reverse (take 6 local_bdaddr)\<rparr>;
                  b = (if if_rtk_btsnoop_dump then b\<lparr>snp := rtk_btsnoop_open (snp b)\<rparr> else b);
                  b = (if if_btsnoop_net_dump then b\<lparr>snp := rtk_btsnoop_net_open (snp b)\<rparr> else b)
              in (0, b))"

definition cleanup :: "bt_vendor \<Rightarrow> bt_vendor" where
  "cleanup b =
     (let if_rtk_btsnoop_dump = get_rtk_btsnoop_dump (snp b);
          if_btsnoop_net_dump = get_rtk_btsnoop_net_dump (snp b);
          b = (if uses_uart b then b\<lparr>upi := snd (bt_wake_up_host_mode_set 0 (upio_cleanup (upi b)))\<rparr> else b);
          b = b\<lparr>bt_vendor_cbacks := False\<rparr>;
          b = (if if_rtk_btsnoop_dump then b\<lparr>snp := rtk_btsnoop_close (snp b)\<rparr> else b);
          b = (if if_btsnoop_net_dump then b\<lparr>snp := rtk_btsnoop_net_close (snp b)\<rparr> else b)
      in rtkbt_stack_conf_cleanup b)"

section \<open>Operations\<close>

text \<open>\<open>BT_OP_EVENT_CALLBACK\<close> carries the event.\<close>

datatype bt_opcode_t =
  BT_OP_POWER_ON | BT_OP_POWER_OFF | BT_OP_HCI_CHANNEL_OPEN | BT_OP_HCI_CHANNEL_CLOSE | BT_OP_INIT
  | BT_OP_GET_LPM_TIMER | BT_OP_LPM_ENABLE | BT_OP_LPM_DISABLE | BT_OP_WAKEUP_LOCK | BT_OP_WAKEUP_UNLOCK
  | BT_OP_EVENT_CALLBACK "u8 list"

definition userial_H5_cfg :: tUSERIAL_CFG where
  "userial_H5_cfg = \<lparr>uc_fmt = 0x211, uc_baud = 7, uc_hw_fctrl = 0\<rparr>"

definition userial_H4_cfg :: tUSERIAL_CFG where
  "userial_H4_cfg = \<lparr>uc_fmt = 0x209, uc_baud = 7, uc_hw_fctrl = 0\<rparr>"

definition upio_power :: "int \<Rightarrow> bt_vendor \<Rightarrow> bt_vendor" where
  "upio_power on b = b\<lparr>upi := snd (upio_set_bluetooth_power on (upi b))\<rparr>"

text \<open>The socket for the stack, and the channels: a failed socket makes the result 0.\<close>

definition open_channels :: "int \<Rightarrow> bt_vendor \<Rightarrow> vnd_fault + (int \<times> bt_vendor)" where
  "open_channels retval b =
     bind (userial_socket_open b) (\<lambda>(fd, b).
       Inr (if fd \<noteq> -1 then (retval, b\<lparr>hci_fds := replicate 4 fd\<rparr>) else (0, b)))"

fun usb_open_tries :: "nat \<Rightarrow> bt_vendor \<Rightarrow> int \<times> bt_vendor" where
  "usb_open_tries 0 b = (0, b)"
| "usb_open_tries (Suc n) b =
     (case userial_vendor_usb_open b of (r, b) \<Rightarrow> if r \<noteq> -1 then (1, b) else usb_open_tries n b)"

definition channel_open :: "bt_vendor \<Rightarrow> vnd_fault + (int \<times> bt_vendor)" where
  "channel_open b =
     (if trans_uart_h5 (lib b)
      then (case userial_vendor_open userial_H5_cfg b of (r, b) \<Rightarrow> open_channels (if r \<noteq> -1 then 1 else 0) b)
      else if uses_uart b \<and> rtkbt_transtype (lib b) AND RTKBT_TRANS_H4 \<noteq> 0
      then (case userial_vendor_open userial_H4_cfg b of (r, b) \<Rightarrow> open_channels (if r \<noteq> -1 then 1 else 0) b)
      else (case usb_open_tries 10 b of (retval, b) \<Rightarrow> open_channels retval b))"

definition start_service :: "bt_vendor \<Rightarrow> bt_vendor" where
  "start_service b = b\<lparr>lib := snd (RTK_btservice_init (service_starts b) (lib b))\<rparr>"

definition op_init :: "bt_vendor \<Rightarrow> int \<times> bt_vendor" where
  "op_init b =
     (if uses_uart b
      then (0, start_service (b\<lparr>lib := (lib b)\<lparr>hw_cb :=
             hw_config_start (hw_cb (lib b)) (rtkbt_transtype (lib b) AND RTKBT_TRANS_H4 \<noteq> 0)\<rparr>\<rparr>))
      else case usb_info b of
             None \<Rightarrow> (-1, b)
           | Some info \<Rightarrow>
               let u = hw_usb_config_start ((usb b)\<lparr>ucfg := hw_cb (lib b)\<rparr>) info
               in (0, start_service (b\<lparr>usb := u, lib := (lib b)\<lparr>hw_cb := ucfg u\<rparr>\<rparr>)))"

text \<open>\<open>hw_process_event\<close>: the events of the start-up go to \<open>hw_config_cback\<close>.\<close>

definition op_event :: "u8 list \<Rightarrow> vnd_lib \<Rightarrow> vnd_fault + vnd_lib" where
  "op_event event v =
     (if fst (hw_process_event (prof_cb v) event) then Inr (v\<lparr>hw_cb := hw_config_cback (hw_cb v) (Some event)\<rparr>)
      else vnd_process_event v event)"

definition op :: "bt_opcode_t \<Rightarrow> bt_vendor \<Rightarrow> vnd_fault + (int \<times> bt_vendor)" where
  "op opcode b =
     (case opcode of
        BT_OP_POWER_ON \<Rightarrow>
          Inr (0, if uses_uart b then upio_power UPIO_BT_POWER_ON (upio_power UPIO_BT_POWER_OFF b) else b)
      | BT_OP_POWER_OFF \<Rightarrow> Inr (0, if uses_uart b then upio_power UPIO_BT_POWER_OFF b else b)
      | BT_OP_HCI_CHANNEL_OPEN \<Rightarrow> channel_open b
      | BT_OP_HCI_CHANNEL_CLOSE \<Rightarrow> bind (userial_vendor_close (lib b)) (\<lambda>v. Inr (0, b\<lparr>lib := v\<rparr>))
      | BT_OP_INIT \<Rightarrow> Inr (op_init b)
      | BT_OP_EVENT_CALLBACK event \<Rightarrow> bind (op_event event (lib b)) (\<lambda>v. Inr (0, b\<lparr>lib := v\<rparr>))
      | _ \<Rightarrow> Inr (0, b))"

end
