(* ===== verification/SnoopProperties.thy ===== *)
theory SnoopProperties
  imports BtSnoop
begin

text \<open>The log file of rtk_btsnoop_net.c says what was captured.\<close>

section \<open>Writing\<close>

text \<open>The log is open under the name \<open>f\<close> with the content \<open>c\<close>, and writes are complete.\<close>

definition snoop_at :: "u8 list \<Rightarrow> u8 list \<Rightarrow> snoop \<Rightarrow> bool" where
  "snoop_at f c s \<longleftrightarrow> hci_btsnoop_fd s = Some f \<and> log_files s f = Some c \<and> (\<forall>n l. l \<le> write_takes s n l)"

text \<open>What writing leaves alone, but for the clock.\<close>

definition snoop_env :: "snoop \<Rightarrow> u32 \<times> (nat \<Rightarrow> u64 \<times> u64)" where
  "snoop_env s = (rtkbt_h5logfilter s, clock s)"

lemma write_at:
  assumes "snoop_at f c s"
  shows "snoop_at f (c @ d) (rtk_btsnoop_write d s) \<and> snoop_env (rtk_btsnoop_write d s) = snoop_env s \<and>
    clock_n (rtk_btsnoop_write d s) = clock_n s"
  using assms by (simp add: snoop_at_def rtk_btsnoop_write_def snoop_env_def)

lemma writes_at:
  "snoop_at f c s \<Longrightarrow> snoop_at f (c @ concat ds) (fold rtk_btsnoop_write ds s) \<and>
     snoop_env (fold rtk_btsnoop_write ds s) = snoop_env s \<and> clock_n (fold rtk_btsnoop_write ds s) = clock_n s"
proof (induction ds arbitrary: c s)
  case (Cons d ds)
  then show ?case using write_at [of f c s d] Cons.IH [of "c @ d" "rtk_btsnoop_write d s"] by simp
qed simp

lemma open_at:
  assumes "hci_btsnoop_fd s = None" "log_open_ok s" "\<forall>n l. l \<le> write_takes s n l"
  shows "snoop_at (rtk_btsnoop_path s) btsnoop_header (rtk_btsnoop_open s)" "snoop_env (rtk_btsnoop_open s) = snoop_env s"
proof -
  define new t where "new = fst (last_log_path s)" and "t = snd (last_log_path s)"
  have l: "last_log_path s = (new, t)" by (simp add: new_def t_def)
  have "t = (if rtk_btsnoop_save_log s then s\<lparr>clock_n := Suc (clock_n s)\<rparr> else s)"
    by (simp add: t_def last_log_path_def rtk_btsnoop_timestamp_def Let_def)
  then have t: "rtk_btsnoop_path t = rtk_btsnoop_path s" "log_open_ok t = log_open_ok s" "write_takes t = write_takes s" "snoop_env t = snoop_env s"
    by (simp_all add: snoop_env_def)
  define u where "u = rename_log (rtk_btsnoop_path t) new t"
  have u: "rtk_btsnoop_path u = rtk_btsnoop_path s" "log_open_ok u = log_open_ok s" "write_takes u = write_takes s" "snoop_env u = snoop_env s"
    using t by (auto simp: u_def rename_log_def snoop_env_def)
  let ?v = "u\<lparr>hci_btsnoop_fd := Some (rtk_btsnoop_path s), log_files := (log_files u)(rtk_btsnoop_path s := Some [])\<rparr>"
  have "rtk_btsnoop_open s = rtk_btsnoop_write btsnoop_header ?v"
    using assms l t u by (simp add: rtk_btsnoop_open_def Let_def u_def [unfolded t(1), symmetric])
  moreover have "snoop_at (rtk_btsnoop_path s) [] ?v" "snoop_env ?v = snoop_env s"
    using assms u by (simp_all add: snoop_at_def snoop_env_def)
  ultimately show "snoop_at (rtk_btsnoop_path s) btsnoop_header (rtk_btsnoop_open s)" "snoop_env (rtk_btsnoop_open s) = snoop_env s"
    using write_at [of "rtk_btsnoop_path s" "[]" ?v btsnoop_header] by simp_all
qed

section \<open>Records\<close>

definition snoop_record :: "u32 \<times> u32 \<times> u32 \<times> u8 list \<Rightarrow> u8 list" where
  "snoop_record = (\<lambda>(flags, hi, lo, bytes).
     htonl (of_nat (length bytes)) @ htonl (of_nat (length bytes)) @ htonl flags @ htonl 0 @ htonl hi @ htonl lo @ bytes)"

lemma length_htonl [simp]: "length (htonl w) = 4"
  by (simp add: htonl_def uint32_to_stream_def)

lemma ntohl_htonl [simp]: "ntohl (htonl w) = w"
  using uint32_stream_roundtrip [of w]
  by (simp add: ntohl_def htonl_def uint32_at_def byte_at_def uint32_to_stream_def eval_nat_numeral)

lemma records_step:
  assumes "length bytes < 2 ^ 32"
  shows "snoop_records (snoop_record (flags, hi, lo, bytes) @ rest) =
    map_option ((#) (flags, hi, lo, bytes)) (snoop_records rest)"
proof -
  define h where "h = snoop_record (flags, hi, lo, bytes) @ rest"
  have n: "unat (of_nat (length bytes) :: u32) = length bytes" using assms by (simp add: unat_of_nat take_bit_nat_eq_self)
  have l: "length h = 24 + length bytes + length rest" by (simp add: h_def snoop_record_def)
  have f: "take 4 h = htonl (of_nat (length bytes))" "take 4 (drop 4 h) = htonl (of_nat (length bytes))"
    "take 4 (drop 8 h) = htonl flags" "take 4 (drop 16 h) = htonl hi" "take 4 (drop 20 h) = htonl lo"
    "drop 24 h = bytes @ rest" "drop (24 + length bytes) h = rest"
    by (simp_all add: h_def snoop_record_def)
  have "h \<noteq> []" using l by force
  then have "snoop_records h = map_option ((#) (flags, hi, lo, bytes)) (snoop_records rest)"
    by (subst snoop_records.simps) (simp add: Let_def f l n)
  then show ?thesis by (simp add: h_def)
qed

lemma records_parse:
  "\<forall>r \<in> set rs. length (snd (snd (snd r))) < 2 ^ 32 \<Longrightarrow> snoop_records (concat (map snoop_record rs)) = Some rs"
proof (induction rs)
  case Nil
  then show ?case by (subst snoop_records.simps) simp
next
  case (Cons r rs)
  then show ?case by (cases r) (simp add: records_step)
qed

section \<open>Captured packets\<close>

definition snoop_type :: "u16 \<Rightarrow> u8" where
  "snoop_type event =
     (if event = 0x1000 then DATA_TYPE_EVENT else if event = 0x2000 then DATA_TYPE_COMMAND
      else if event = 0x1100 \<or> event = 0x2100 then DATA_TYPE_ACL else DATA_TYPE_SCO)"

text \<open>A call of the coexistence thread with a whole packet.\<close>

definition snoop_call :: "u16 \<times> u8 list \<times> bool \<Rightarrow> bool" where
  "snoop_call = (\<lambda>(event, p, is_rcvd).
     event \<in> {0x1000, 0x1100, 0x1200, 0x2000, 0x2100, 0x2200} \<and> snoop_length (snoop_type event) p = Some (Suc (length p)))"

definition logged :: "snoop \<Rightarrow> u16 \<times> u8 list \<times> bool \<Rightarrow> bool" where
  "logged s = (\<lambda>(event, p, is_rcvd).
     \<not> (event = 0x1000 \<and> filtered_event s p \<or> event = 0x2000 \<and> filtered_command s p))"

text \<open>The record of a call that is made when the clock is read for the \<open>k\<close>-th time.\<close>

definition record_of :: "snoop \<Rightarrow> nat \<times> u16 \<times> u8 list \<times> bool \<Rightarrow> u32 \<times> u32 \<times> u32 \<times> u8 list" where
  "record_of s = (\<lambda>(k, event, p, is_rcvd).
     let t = timestamp_of (clock s k)
     in (snoop_flags (snoop_type event) is_rcvd, ucast (drop_bit 32 t), ucast t, snoop_type event # p))"

lemma env_cong: "snoop_env s = snoop_env t \<Longrightarrow> logged s = logged t \<and> record_of s = record_of t"
  by (auto simp: snoop_env_def logged_def record_of_def filtered_event_def filtered_command_def fun_eq_iff)

lemma write_packet_at:
  assumes at: "snoop_at f c s" and len: "snoop_length type p = Some (Suc (length p))"
  shows "\<exists>s'. rtk_btsnoop_write_packet type p rcvd s = Some s' \<and> snoop_env s' = snoop_env s \<and> clock_n s' = Suc (clock_n s) \<and>
    snoop_at f (c @ snoop_record (snoop_flags type rcvd, ucast (drop_bit 32 (timestamp_of (clock s (clock_n s)))),
      ucast (timestamp_of (clock s (clock_n s))), type # p)) s'"
proof -
  let ?t = "timestamp_of (clock s (clock_n s))" and ?s = "s\<lparr>clock_n := Suc (clock_n s)\<rparr>" and ?n = "of_nat (Suc (length p)) :: u32"
  let ?ds = "[htonl ?n, htonl ?n, htonl (snoop_flags type rcvd), htonl 0, htonl (ucast (drop_bit 32 ?t)), htonl (ucast ?t), [type],
    map (byte_at p) [0..<length p]]"
  have p: "map (byte_at p) [0..<length p] = p" by (rule nth_equalityI) (simp_all add: byte_at_def)
  have "rtk_btsnoop_write_packet type p rcvd s = Some (fold rtk_btsnoop_write ?ds ?s)"
    by (simp add: rtk_btsnoop_write_packet_def len rtk_btsnoop_timestamp_def Let_def)
  moreover have "snoop_at f c ?s" "snoop_env ?s = snoop_env s" using at by (simp_all add: snoop_at_def snoop_env_def)
  moreover have "concat ?ds = snoop_record (snoop_flags type rcvd, ucast (drop_bit 32 ?t), ucast ?t, type # p)"
    by (simp add: snoop_record_def p)
  ultimately show ?thesis using writes_at [of f c ?s ?ds] by simp
qed

lemma capture_at:
  assumes at: "snoop_at f c s" and x: "snoop_call x"
  shows "\<exists>s'. rtk_btsnoop_capture x s = Some s' \<and> snoop_env s' = snoop_env s \<and>
    (if logged s x then clock_n s' = Suc (clock_n s) \<and> snoop_at f (c @ snoop_record (record_of s (clock_n s, x))) s'
     else s' = s)"
proof -
  obtain event p rcvd where [simp]: "x = (event, p, rcvd)" by (cases x)
  have fd: "hci_btsnoop_fd s \<noteq> None" using at by (simp add: snoop_at_def)
  have len: "snoop_length (snoop_type event) p = Some (Suc (length p))" using x by (simp add: snoop_call_def)
  note w = write_packet_at [OF at len]
  have "event \<in> {0x1000, 0x1100, 0x1200, 0x2000, 0x2100, 0x2200}" using x by (simp add: snoop_call_def)
  then consider "event = 0x1000" | "event = 0x2000" | "event \<in> {0x1100, 0x2100}" | "event \<in> {0x1200, 0x2200}" by auto
  then show ?thesis
  proof cases
    case 1
    then show ?thesis using w [of False] fd
      by (simp add: rtk_btsnoop_capture_def logged_def record_of_def snoop_type_def snoop_flags_def data_type_defs Let_def)
  next
    case 2
    then show ?thesis using w [of True] fd
      by (simp add: rtk_btsnoop_capture_def logged_def record_of_def snoop_type_def snoop_flags_def data_type_defs Let_def)
  next
    case 3
    then show ?thesis using w [of rcvd] fd
      by (auto simp: rtk_btsnoop_capture_def logged_def record_of_def snoop_type_def Let_def)
  next
    case 4
    then show ?thesis using w [of rcvd] fd
      by (auto simp: rtk_btsnoop_capture_def logged_def record_of_def snoop_type_def Let_def)
  qed
qed

lemma captures_at:
  "snoop_at f c s \<Longrightarrow> \<forall>x \<in> set calls. snoop_call x \<Longrightarrow>
     \<exists>s'. fold_opt rtk_btsnoop_capture calls s = Some s' \<and>
       snoop_at f (c @ concat (map (snoop_record \<circ> record_of s) (enumerate (clock_n s) (filter (logged s) calls)))) s'"
proof (induction calls arbitrary: c s)
  case (Cons x calls)
  obtain s1 where s1: "rtk_btsnoop_capture x s = Some s1" "snoop_env s1 = snoop_env s"
    "if logged s x then clock_n s1 = Suc (clock_n s) \<and> snoop_at f (c @ snoop_record (record_of s (clock_n s, x))) s1 else s1 = s"
    using capture_at [OF Cons.prems(1), of x] Cons.prems(2) by auto
  note e = env_cong [OF s1(2)]
  show ?case
  proof (cases "logged s x")
    case True
    then have "snoop_at f (c @ snoop_record (record_of s (clock_n s, x))) s1" using s1(3) by simp
    from Cons.IH [OF this] Cons.prems(2) obtain s' where "fold_opt rtk_btsnoop_capture calls s1 = Some s'"
      "snoop_at f ((c @ snoop_record (record_of s (clock_n s, x))) @
         concat (map (snoop_record \<circ> record_of s) (enumerate (Suc (clock_n s)) (filter (logged s) calls)))) s'"
      using True s1(3) e by (auto simp: comp_def)
    then show ?thesis using True s1(1) by (simp add: comp_def)
  next
    case False
    then show ?thesis using Cons s1 by simp
  qed
qed simp

lemma unat_u8_less: "unat (x :: u8) < 256"
  using unsigned_less [of x] by simp


text \<open>Witness of C36: an event from the controller and a heartbeat command that the filter leaves out.\<close>

definition snoop_zero :: snoop where
  "snoop_zero = \<lparr>rtkbt_h5logfilter = 1, rtk_btsnoop_dump = False, rtk_btsnoop_net_dump = False, rtk_btsnoop_save_log = False,
     rtk_btsnoop_path = [], rtk_listen_thread_valid = False, rtk_listen_socket = False, hci_btsnoop_fd = None,
     log_files = (\<lambda>_. None), clock = (\<lambda>_. (0, 5)), clock_n = 0, write_takes = (\<lambda>_ l. l), write_n = 0, log_open_ok = True,
     log_rename_ok = True, listen_thread_ok = True, listen_socket_ok = True, listen_bind_ok = True,
     local_time = (\<lambda>_. (0, 0, 0, 100, 0)), datagrams = []\<rparr>"


end
