(* ===== verification/VendorProperties.thy ===== *)
theory VendorProperties
  imports BtVendor SnoopProperties UserialProperties HwUsbProperties
begin

text \<open>The properties of start and stop of the library (bt_vendor_rtk.c) and of its logs.\<close>

section \<open>A concrete library\<close>

definition upio_zero :: upio where
  "upio_zero = \<lparr>upio_state = [0, 0, 0], rfkill_id = -1, bt_emul_enable = 0, rfkill_types = [], rfkill_open_ok = True,
     rfkill_write_ok = True, rfkill_state_writes = [], lpm_open_ok = True, lpm_write_ok = True, lpm_writes = []\<rparr>"

definition vendor_zero :: bt_vendor where
  "vendor_zero = \<lparr>lib = vnd_zero, snp = snoop_zero, upi = upio_zero, usb = usb_ready [] HW_CFG_IDLE, bt_vendor_cbacks = False,
     vnd_local_bd_addr = replicate 6 0, rtkbt_device_node = [], h5_log_enable = 0, coex_log_enable = 0, port_name = [],
     port_cfg = None, hci_fds = [], rtkbt_conf = None, port_opens = [5], socket_step_ok = (\<lambda>_. True), socket_fd = 6,
     h5_starts = (\<lambda>_. True), parse_starts = (\<lambda>_. True), parse_socket = 7, parse_chrdev = 8, service_starts = (\<lambda>_. True),
     usb_info = None\<rparr>"

section \<open>The address is stored in reverse\<close>

lemma xor_cancel: "(a XOR b) XOR a = (b :: u8)" "b XOR (a XOR b) = a"
  by (auto intro!: bit_word_eqI simp: bit_xor_iff)

lemma xor_swap_eq:
  assumes "i < length d" "j < length d" "i \<noteq> j"
  shows "xor_swap i j d = d[i := d ! j, j := d ! i]"
  using assms by (auto simp: xor_swap_def Let_def list_eq_iff_nth_eq nth_list_update xor_cancel)

lemma reverse_loop:
  "k \<le> length d div 2 \<Longrightarrow> length (fold (\<lambda>i. xor_swap i (length d - i - 1)) [0..<k] d) = length d \<and>
     (\<forall>i < length d. fold (\<lambda>i. xor_swap i (length d - i - 1)) [0..<k] d ! i =
        (if i < k \<or> length d - i - 1 < k then d ! (length d - i - 1) else d ! i))"
proof (induction k)
  case (Suc k)
  define e where "e = fold (\<lambda>i. xor_swap i (length d - i - 1)) [0..<k] d"
  have e: "length e = length d"
    "\<And>i. i < length d \<Longrightarrow> e ! i = (if i < k \<or> length d - i - 1 < k then d ! (length d - i - 1) else d ! i)"
    using Suc by (simp_all add: e_def)
  have k: "k < length d" "length d - k - 1 < length d" "k \<noteq> length d - k - 1" using Suc.prems by auto
  have "fold (\<lambda>i. xor_swap i (length d - i - 1)) [0..<Suc k] d = e[k := e ! (length d - k - 1), length d - k - 1 := e ! k]"
    using xor_swap_eq [of k e "length d - k - 1"] k e(1) by (simp add: e_def)
  moreover have "e ! k = d ! k" "e ! (length d - k - 1) = d ! (length d - k - 1)" using e(2) k Suc.prems by auto
  ultimately show ?case using e k by (auto simp: nth_list_update)
qed simp

lemma byte_reverse_rev: "byte_reverse d = rev d"
proof (rule nth_equalityI)
  show "length (byte_reverse d) = length (rev d)" using reverse_loop [of "length d div 2" d] by (simp add: byte_reverse_def)
  fix i assume i: "i < length (byte_reverse d)"
  then have i: "i < length d" using reverse_loop [of "length d div 2" d] by (simp add: byte_reverse_def)
  then have "\<not> (i < length d div 2 \<or> length d - i - 1 < length d div 2) \<Longrightarrow> length d - i - 1 = i" by linarith
  then show "byte_reverse d ! i = rev d ! i"
    using reverse_loop [of "length d div 2" d] i by (auto simp: byte_reverse_def rev_nth)
qed

lemma init_address: "vnd_local_bd_addr (snd (init True addr b)) = rev (take 6 addr)"
  by (simp add: init_def Let_def byte_reverse_rev)

text \<open>The assembler of the direction from the stack.\<close>

definition host_assembler :: "vnd_lib \<Rightarrow> rtkbt_packet \<times> nat \<times> u8 \<times> nat \<times> u8 list" where
  "host_assembler v = (packet_recv_state v, packet_bytes_need v, current_type v, h4_read_length v, h4_read_buffer v)"

section \<open>What opening and configuring leave alone\<close>

lemma conf_loop_keeps:
  assumes "\<And>k v b. f (stack_conf_item k v b) = f b"
  shows "f (stack_conf_loop ls line b) = f b"
proof (induction ls line b rule: stack_conf_loop.induct)
  case (2 l ls line b)
  then show ?case by (simp add: assms split: prod.splits conf_item.splits)
qed simp

text \<open>The logs, the assembler of the direction from the stack, and what the steps of the socket return.\<close>

definition open_frame :: "bt_vendor \<Rightarrow> snoop \<times> bool \<times> (rtkbt_packet \<times> nat \<times> u8 \<times> nat \<times> u8 list) \<times> (nat \<Rightarrow> bool)" where
  "open_frame b = (snp b, bt_vendor_cbacks b, host_assembler (lib b), socket_step_ok b)"

lemma next_open_frame: "next_open b = (r, b') \<Longrightarrow> open_frame (set_fd r b') = open_frame b"
  by (auto simp: next_open_def set_fd_def open_frame_def host_assembler_def split: list.splits)

lemma set_fd_frame: "open_frame (set_fd r b) = open_frame b"
  by (simp add: set_fd_def open_frame_def host_assembler_def)

lemma usb_open_frame: "userial_vendor_usb_open b = (r, b') \<Longrightarrow> open_frame b' = open_frame b"
  by (auto simp: userial_vendor_usb_open_def Let_def split: prod.splits if_splits dest!: next_open_frame)
    (simp_all add: set_fd_def open_frame_def host_assembler_def)

lemma vendor_open_frame: "userial_vendor_open cfg b = (r, b') \<Longrightarrow> open_frame b' = open_frame b"
  by (auto simp: userial_vendor_open_def Let_def set_fd_frame split: prod.splits if_splits option.splits bool.splits
      dest!: next_open_frame) (simp_all add: set_fd_def open_frame_def host_assembler_def)

lemma usb_tries_frame: "usb_open_tries n b = (r, b') \<Longrightarrow> open_frame b' = open_frame b"
proof (induction n arbitrary: b)
  case (Suc n)
  then show ?case by (auto split: prod.splits if_splits dest!: usb_open_frame)
qed simp

lemma open_channels_frame: "open_channels k b = Inr (r, b') \<Longrightarrow> open_frame b' = open_frame b"
  by (auto simp: open_channels_def userial_socket_open_def Let_def bind_eq_Inr open_frame_def host_assembler_def split: if_splits)

lemma channel_open_frame: "channel_open b = Inr (r, b') \<Longrightarrow> open_frame b' = open_frame b"
  by (auto simp: channel_open_def split: if_splits prod.splits dest!: open_channels_frame vendor_open_frame usb_tries_frame)

lemma channel_open_returns:
  assumes "socket_step_ok b = (\<lambda>_. True)"
  shows "\<exists>r b'. channel_open b = Inr (r, b')"
proof -
  have o: "\<exists>r b'. open_channels k c = Inr (r, b')" if "open_frame c = open_frame b" for k c
    using that assms by (simp add: open_channels_def userial_socket_open_def Let_def open_frame_def)
  then show ?thesis
    by (auto simp: channel_open_def split: prod.splits dest!: vendor_open_frame usb_tries_frame)
qed

section \<open>The logs are never opened\<close>

text \<open>What a process that loaded the library can do: start it when it is stopped, stop it when it is started, call any
  operation, edit the configuration file, run the network thread once it was created, log a packet.\<close>

inductive vendor_step :: "bt_vendor \<Rightarrow> bt_vendor \<Rightarrow> bool" where
  start: "\<not> bt_vendor_cbacks b \<Longrightarrow> vendor_step b (snd (init True addr b))"
| stop: "bt_vendor_cbacks b \<Longrightarrow> vendor_step b (cleanup b)"
| oper: "op c b = Inr (r, b') \<Longrightarrow> vendor_step b b'"
| edit: "vendor_step b (b\<lparr>rtkbt_conf := c\<rparr>)"
| listen: "rtk_listen_thread_valid (snp b) \<Longrightarrow> vendor_step b (b\<lparr>snp := rtk_listen_fn (snp b)\<rparr>)"
| capture: "rtk_btsnoop_capture x (snp b) = Some s \<Longrightarrow> vendor_step b (b\<lparr>snp := s\<rparr>)"
| net_write: "rtk_btsnoop_net_write t d rcvd (snp b) = Inr s \<Longrightarrow> vendor_step b (b\<lparr>snp := s\<rparr>)"

inductive vendor_reach :: "bt_vendor \<Rightarrow> bt_vendor \<Rightarrow> bool" for b0 where
  load: "vendor_reach b0 b0"
| step: "vendor_reach b0 b \<Longrightarrow> vendor_step b b' \<Longrightarrow> vendor_reach b0 b'"

text \<open>The state of the logs when nothing was ever switched on in time.\<close>

definition logs_off :: "bt_vendor \<Rightarrow> bool" where
  "logs_off b \<longleftrightarrow> hci_btsnoop_fd (snp b) = None \<and> \<not> rtk_btsnoop_net_dump (snp b) \<and> \<not> rtk_listen_thread_valid (snp b) \<and>
     \<not> rtk_listen_socket (snp b) \<and> (\<not> bt_vendor_cbacks b \<longrightarrow> \<not> rtk_btsnoop_dump (snp b))"

text \<open>What the log was and is, apart from the settings.\<close>

definition log_io :: "bt_vendor \<Rightarrow> (u8 list \<Rightarrow> u8 list option) \<times> u8 list list \<times> bool \<times> bool \<times> bool \<times> u8 list option" where
  "log_io b = (log_files (snp b), datagrams (snp b), rtk_btsnoop_net_dump (snp b), rtk_listen_thread_valid (snp b),
     rtk_listen_socket (snp b), hci_btsnoop_fd (snp b))"

lemmas snoop_setters = set_rtk_btsnoop_save_log_def set_rtk_btsnoop_net_dump_def set_rtk_btsnoop_dump_def
  set_rtkbt_h5logfilter_def get_rtk_btsnoop_dump_def get_rtk_btsnoop_net_dump_def

lemma conf_item_io: "log_io (stack_conf_item k v b) = log_io b"
  by (simp add: stack_conf_item_def log_io_def snoop_setters)

lemma load_conf_io: "log_io (load_rtkbt_stack_conf (load_rtkbt_conf b)) = log_io b"
  by (simp add: load_rtkbt_stack_conf_def load_rtkbt_conf_def conf_loop_keeps [of log_io, OF conf_item_io] split: option.splits prod.splits bool.splits)
    (simp add: log_io_def)

lemma init_io:
  assumes "\<not> rtk_btsnoop_dump (snp b)" "\<not> rtk_btsnoop_net_dump (snp b)"
  shows "log_io (snd (init True addr b)) = log_io b" "bt_vendor_cbacks (snd (init True addr b))"
proof -
  define c where "c = load_rtkbt_stack_conf (load_rtkbt_conf b)"
  have "log_io (userial_vendor_init n c) = log_io b" for n
    using load_conf_io [of b] by (simp add: userial_vendor_init_def Let_def log_io_def c_def)
  then show "log_io (snd (init True addr b)) = log_io b" "bt_vendor_cbacks (snd (init True addr b))"
    using assms by (simp_all add: init_def Let_def snoop_setters log_io_def c_def)
qed

lemma cleanup_io:
  assumes "\<not> rtk_btsnoop_net_dump (snp b)" "hci_btsnoop_fd (snp b) = None"
  shows "log_io (cleanup b) = log_io b" "\<not> rtk_btsnoop_dump (snp (cleanup b))"
  using assms by (simp_all add: cleanup_def Let_def rtkbt_stack_conf_cleanup_def snoop_setters log_io_def rtk_btsnoop_close_def)

lemma op_snp: "op c b = Inr (r, b') \<Longrightarrow> snp b' = snp b \<and> bt_vendor_cbacks b' = bt_vendor_cbacks b"
  by (cases c) (auto simp: op_def upio_power_def op_init_def start_service_def bind_eq_Inr Let_def
      open_frame_def dest!: channel_open_frame split: if_splits option.splits)

lemma logs_off_eq:
  "log_io b' = log_io b \<Longrightarrow> logs_off b \<Longrightarrow> (\<not> bt_vendor_cbacks b' \<longrightarrow> \<not> rtk_btsnoop_dump (snp b')) \<Longrightarrow> logs_off b'"
  by (simp add: logs_off_def log_io_def)

lemma step_io:
  assumes "vendor_step b b'" "logs_off b"
  shows "log_io b' = log_io b \<and> logs_off b'"
  using assms(1)
proof cases
  case (start addr)
  then have "log_io b' = log_io b" "bt_vendor_cbacks b'" using init_io [of b addr] assms(2) by (simp_all add: logs_off_def)
  then show ?thesis using logs_off_eq assms(2) by simp
next
  case stop
  then have "log_io b' = log_io b" "\<not> rtk_btsnoop_dump (snp b')" using cleanup_io [of b] assms(2) by (simp_all add: logs_off_def)
  then show ?thesis using logs_off_eq assms(2) by simp
next
  case (oper c r)
  then show ?thesis using op_snp [OF oper] assms(2) by (simp add: log_io_def logs_off_def)
next
  case (edit c)
  then show ?thesis using assms(2) by (simp add: log_io_def logs_off_def)
next
  case listen
  then show ?thesis using assms(2) by (simp add: logs_off_def)
next
  case (capture x s)
  then have "s = snp b" using assms(2) by (cases x) (simp add: logs_off_def rtk_btsnoop_capture_def Let_def)
  then show ?thesis using assms(2) capture by (simp add: log_io_def logs_off_def)
next
  case (net_write t d rcvd s)
  then have "s = snp b" using assms(2) by (simp add: logs_off_def rtk_btsnoop_net_write_def)
  then show ?thesis using assms(2) net_write by (simp add: log_io_def logs_off_def)
qed

text \<open>C37: whatever the configuration file says, and however often the library is started, used and
  stopped, no packet log is ever written and no datagram is ever sent: the start reads the switches before it
  reads the file that sets them, and stopping clears them.\<close>

theorem snoop_never_opened:
  assumes "vendor_reach b0 b" and "logs_off b0"
  shows "log_files (snp b) = log_files (snp b0) \<and> datagrams (snp b) = datagrams (snp b0) \<and> hci_btsnoop_fd (snp b) = None"
proof -
  have "log_io b = log_io b0 \<and> logs_off b"
    using assms by (induction rule: vendor_reach.induct) (auto dest: step_io)
  then show ?thesis by (auto simp: log_io_def logs_off_def)
qed

text \<open>Witness of C37: a configuration file that asks for both logs, a start, and a captured event.\<close>

theorem snoop_never_opened_witness:
  "\<exists>b. vendor_reach (vendor_zero\<lparr>rtkbt_conf := Some (chars ''RtkBtsnoopDump=true'')\<rparr>) b \<and> bt_vendor_cbacks b \<and>
     log_files (snp b) = (\<lambda>_. None)"
proof -
  let ?b = "vendor_zero\<lparr>rtkbt_conf := Some (chars ''RtkBtsnoopDump=true'')\<rparr>"
  have off: "logs_off ?b" by (simp add: logs_off_def vendor_zero_def snoop_zero_def)
  have "\<not> bt_vendor_cbacks ?b" by (simp add: vendor_zero_def)
  then have r: "vendor_reach ?b (snd (init True [1, 2, 3, 4, 5, 6] ?b))" by (intro vendor_reach.step [OF load] start)
  have c: "bt_vendor_cbacks (snd (init True [1, 2, 3, 4, 5, 6] ?b))"
    using off by (intro init_io) (simp_all add: vendor_zero_def snoop_zero_def)
  have "log_files (snp (snd (init True [1, 2, 3, 4, 5, 6] ?b))) = (\<lambda>_. None)"
    using snoop_never_opened [OF r off] by (simp add: vendor_zero_def snoop_zero_def)
  then show ?thesis using r c by blast
qed

section \<open>A restart in the middle of a packet\<close>

text \<open>The stack closes the channels, stops the library, starts it and opens the channels.\<close>

definition restart :: "u8 list \<Rightarrow> bt_vendor \<Rightarrow> vnd_fault + (int \<times> bt_vendor)" where
  "restart addr b =
     bind (op BT_OP_HCI_CHANNEL_CLOSE b) (\<lambda>(r, b). op BT_OP_HCI_CHANNEL_OPEN (snd (init True addr (cleanup b))))"

lemma heartbeat_cleanup_assembler: "host_assembler (Heartbeat_cleanup v) = host_assembler v"
  by (simp add: Heartbeat_cleanup_def host_assembler_def poll_cleanup_def poll_enable_def poll_timer_stop_def poll_settime_def Let_def)

lemma close_assembler:
  assumes "userial_vendor_close v = Inr v'"
  shows "host_assembler v' = host_assembler v"
proof (cases "u_fd v = -1")
  case False
  then obtain w where w: "RTK_btservice_destroyed (Heartbeat_cleanup (v\<lparr>thread_running := False\<rparr>)) = Inr w"
    and c: "host_assembler v' = host_assembler w"
    using assms by (auto simp: userial_vendor_close_def bind_eq_Inr Let_def host_assembler_def)
  have "host_assembler w = host_assembler (Heartbeat_cleanup (v\<lparr>thread_running := False\<rparr>))"
    using w by (auto simp: RTK_btservice_destroyed_def host_assembler_def split: option.splits if_splits)
  then show ?thesis using c by (simp add: heartbeat_cleanup_assembler) (simp add: host_assembler_def)
qed (use assms in \<open>simp add: userial_vendor_close_def\<close>)

lemma conf_item_assembler: "host_assembler (lib (stack_conf_item k v b)) = host_assembler (lib b)"
  by (simp add: stack_conf_item_def host_assembler_def)

lemma init_assembler: "host_assembler (lib (snd (init True addr b))) = host_assembler (lib b)"
proof -
  define c where "c = load_rtkbt_stack_conf (load_rtkbt_conf b)"
  have "host_assembler (lib c) = host_assembler (lib (load_rtkbt_conf b))"
    by (simp add: c_def load_rtkbt_stack_conf_def conf_loop_keeps [of "\<lambda>b. host_assembler (lib b)", OF conf_item_assembler] split: option.splits)
  also have "\<dots> = host_assembler (lib b)"
    by (simp add: load_rtkbt_conf_def host_assembler_def split: option.splits prod.splits bool.splits)
  finally have "host_assembler (lib (userial_vendor_init n c)) = host_assembler (lib b)" for n
    by (simp add: userial_vendor_init_def Let_def host_assembler_def)
  then show ?thesis by (simp add: init_def Let_def c_def)
qed

lemma init_steps: "socket_step_ok (snd (init True addr b)) = socket_step_ok b"
proof -
  have "socket_step_ok (stack_conf_item k v b) = socket_step_ok b" for k v b by (simp add: stack_conf_item_def)
  note k = conf_loop_keeps [of socket_step_ok, OF this]
  have "socket_step_ok (load_rtkbt_stack_conf (load_rtkbt_conf b)) = socket_step_ok b"
    by (simp add: load_rtkbt_stack_conf_def load_rtkbt_conf_def k split: option.splits prod.splits bool.splits)
  then show ?thesis by (simp add: init_def Let_def userial_vendor_init_def)
qed

lemma cleanup_assembler: "host_assembler (lib (cleanup b)) = host_assembler (lib b)"
  by (simp add: cleanup_def Let_def rtkbt_stack_conf_cleanup_def)

lemma restart_assembler:
  assumes "restart addr b = Inr (r, b')"
  shows "host_assembler (lib b') = host_assembler (lib b)"
proof -
  obtain v where v: "userial_vendor_close (lib b) = Inr v"
    and o: "channel_open (snd (init True addr (cleanup (b\<lparr>lib := v\<rparr>)))) = Inr (r, b')"
    using assms by (auto simp: restart_def op_def bind_eq_Inr)
  show ?thesis
    using channel_open_frame [OF o] close_assembler [OF v] by (simp add: open_frame_def init_assembler cleanup_assembler)
qed

text \<open>C38: a restart does not reset the assembler of the direction from the stack. When the stack
  was stopped in the middle of a packet, the bytes of the next session are taken for the rest of the old one: a
  packet shorter than what was missing disappears, neither sent nor shown to the coexistence thread.\<close>

theorem restart_swallows_packet:
  assumes r: "restart addr b = Inr (r, b')" and st: "packet_recv_state (lib b) = RTKBT_PACKET_CONTENT"
    and p: "p \<noteq> []" "length p < packet_bytes_need (lib b)"
    and room: "h4_read_length (lib b) + 1 + length p \<le> length (h4_read_buffer (lib b))"
  shows "\<exists>v'. userial_recv_H4_rawdata ((lib b')\<lparr>host_in := [Read_data p]\<rparr>) = Inr v' \<and>
    packet_recv_state v' = RTKBT_PACKET_CONTENT \<and> packet_bytes_need v' = packet_bytes_need (lib b) - length p \<and>
    uart_out v' = uart_out (lib b') \<and> h5_cb v' = h5_cb (lib b') \<and> u_send_data v' = u_send_data (lib b')"
proof -
  let ?v = "(lib b')\<lparr>host_in := [Read_data p]\<rparr>"
  have a: "packet_recv_state (lib b') = RTKBT_PACKET_CONTENT" "packet_bytes_need (lib b') = packet_bytes_need (lib b)"
    "h4_read_length (lib b') = h4_read_length (lib b)" "h4_read_buffer (lib b') = h4_read_buffer (lib b)"
    using restart_assembler [OF r] st by (simp_all add: host_assembler_def)
  obtain buf where w: "array_write (h4_read_buffer (lib b')) (h4_read_length (lib b') + 1) p = Inr buf"
    using room a by (simp add: array_write_def)
  define u where "u = (lib b')\<lparr>host_in := [], h4_read_buffer := buf, h4_read_length := h4_read_length (lib b') + length p,
    packet_bytes_need := packet_bytes_need (lib b') - length p\<rparr>"
  have "host_read_op (packet_bytes_need ?v) ?v = (Read_data p, (lib b')\<lparr>host_in := []\<rparr>)"
    using p a by (simp add: host_read_op_def)
  moreover have "packet_bytes_need ?v \<noteq> 0" using p a by simp
  ultimately have "h4_fill ?v = h4_fill u"
    using p w by (subst h4_fill.simps) (simp add: u_def)
  also have "\<dots> = Inr (False, u)"
    using p a by (subst h4_fill.simps) (simp add: u_def host_read_op_def)
  finally have "userial_recv_H4_rawdata ?v = Inr u" using a(1) by (simp add: userial_recv_H4_rawdata_def h4_content_def)
  then show ?thesis using a by (simp add: u_def)
qed

text \<open>Witness of C38: four bytes of a command are missing when the stack stops; the reset command with
  which it starts again is lost.\<close>

theorem restart_swallows_packet_witness:
  "\<exists>r b' v'. restart [1, 2, 3, 4, 5, 6] (vendor_zero\<lparr>lib := vnd_zero\<lparr>packet_recv_state := RTKBT_PACKET_CONTENT, packet_bytes_need := 5,
       h4_read_length := 3, current_type := 1\<rparr>\<rparr>) = Inr (r, b') \<and>
     userial_recv_H4_rawdata ((lib b')\<lparr>host_in := [Read_data [1, 0x03, 0x0C, 0]]\<rparr>) = Inr v' \<and> packet_bytes_need v' = 1"
proof -
  let ?v = "vnd_zero\<lparr>packet_recv_state := RTKBT_PACKET_CONTENT, packet_bytes_need := 5, h4_read_length := 3, current_type := 1\<rparr>"
  let ?b = "vendor_zero\<lparr>lib := ?v\<rparr>"
  have "\<not> heartbeatFlag ?v" "rtk_btservice ?v = None" "u_fd ?v \<noteq> -1" by (simp_all add: vnd_zero_def)
  then obtain w where w: "userial_vendor_close ?v = Inr w"
    by (simp add: userial_vendor_close_def Heartbeat_cleanup_def RTK_btservice_destroyed_def Let_def)
  let ?c = "snd (init True [1, 2, 3, 4, 5, 6] (cleanup (?b\<lparr>lib := w\<rparr>)))"
  have "socket_step_ok ?c = (\<lambda>_. True)"
    by (simp add: init_steps) (simp add: cleanup_def Let_def rtkbt_stack_conf_cleanup_def vendor_zero_def)
  then obtain r b' where "channel_open ?c = Inr (r, b')" using channel_open_returns [of ?c] by auto
  then have r: "restart [1, 2, 3, 4, 5, 6] ?b = Inr (r, b')"
    using w by (simp add: restart_def op_def)
  have "packet_recv_state ?v = RTKBT_PACKET_CONTENT" "h4_read_length ?v = 3" "packet_bytes_need ?v = 5" "length (h4_read_buffer ?v) = 2048"
    by (simp_all add: vnd_zero_def)
  then show ?thesis using restart_swallows_packet [OF r, of "[1, 0x03, 0x0C, 0]"] r by auto
qed

end
