(* ===== verification/RtkSocket.thy ===== *)
theory RtkSocket
  imports VndState
begin

text \<open>
  Reading and writing a socket (hardware/bt/src/rtk_socket.c). What \<open>poll\<close> and the call behind it
  return is a parameter: a list of outcomes for the loop of \<open>Skt_Read\<close>, one for the other functions.
\<close>

datatype poll_outcome =
  Poll_timeout | Poll_failed | Poll_hangup | Poll_error | Poll_bytes "u8 list"

text \<open>\<open>Skt_Read\<close>: each round has the value of \<open>*condition\<close> and an outcome (\<open>Poll_error\<close>: \<open>recv\<close> fails; no bytes: the
  other end is gone). The result is the value returned with the bytes in the buffer, \<open>None\<close> when the outcomes are used
  up and the call still waits.\<close>

fun Skt_Read_loop :: "nat \<Rightarrow> u8 list \<Rightarrow> (bool \<times> poll_outcome) list \<Rightarrow> (nat \<times> u8 list) option" where
  "Skt_Read_loop len buf [] = (if length buf < len then None else Some (length buf, buf))"
| "Skt_Read_loop len buf ((condition, r) # rs) =
     (if \<not> length buf < len then Some (length buf, buf)
      else if \<not> condition then Some (length buf, buf)
      else case r of
             Poll_timeout \<Rightarrow> Skt_Read_loop len buf rs
           | Poll_failed \<Rightarrow> Some (length buf, buf)
           | Poll_hangup \<Rightarrow> Some (0, buf)
           | Poll_error \<Rightarrow> Some (0, buf)
           | Poll_bytes d \<Rightarrow>
               if d = [] then Some (0, buf) else Skt_Read_loop len (buf @ take (len - length buf) d) rs)"

definition Skt_Read :: "int \<Rightarrow> nat \<Rightarrow> (bool \<times> poll_outcome) list \<Rightarrow> (nat \<times> u8 list) option" where
  "Skt_Read fd len rs = (if fd = -1 then Some (0, []) else Skt_Read_loop len [] rs)"

text \<open>The calls that do not wait. \<open>revents\<close> is looked at whether or not \<open>poll\<close> succeeded: a failure leaves it
  unset, here as no hang-up. An error of \<open>recv\<close> and \<open>send\<close> is \<open>-1\<close>.\<close>

definition Skt_Read_noblock :: "int \<Rightarrow> nat \<Rightarrow> poll_outcome \<Rightarrow> int \<times> u8 list" where
  "Skt_Read_noblock fd len r =
     (if fd = -1 then (0, [])
      else case r of
             Poll_timeout \<Rightarrow> (0, []) | Poll_hangup \<Rightarrow> (0, []) | Poll_failed \<Rightarrow> (-1, []) | Poll_error \<Rightarrow> (-1, [])
           | Poll_bytes d \<Rightarrow> (int (length (take len d)), take len d))"

text \<open>\<open>Skt_Send\<close> answers false in any case. \<open>taken\<close>: how many bytes \<open>write\<close> or \<open>send\<close> takes, if it succeeds.\<close>

definition Skt_Send :: "u8 list \<Rightarrow> nat option \<Rightarrow> bool \<times> u8 list" where
  "Skt_Send data taken = (False, case taken of None \<Rightarrow> [] | Some n \<Rightarrow> take n data)"

definition Skt_Send_noblock :: "u8 list \<Rightarrow> poll_outcome \<Rightarrow> nat option \<Rightarrow> int \<times> u8 list" where
  "Skt_Send_noblock data r taken =
     (if r = Poll_timeout \<or> r = Poll_hangup then (0, [])
      else case taken of None \<Rightarrow> (-1, []) | Some n \<Rightarrow> (int (length (take n data)), take n data))"

text \<open>Reading collects the pieces that come, up to the length asked for, whatever timeouts lie between them.\<close>

fun read_bytes :: "poll_outcome \<Rightarrow> u8 list" where
  "read_bytes (Poll_bytes d) = d"
| "read_bytes _ = []"

lemma Skt_Read_collects:
  assumes "\<forall>r \<in> set rs. r = Poll_timeout \<or> (\<exists>d. r = Poll_bytes d \<and> d \<noteq> [])" and "len \<le> length (buf @ concat (map read_bytes rs))"
    and "length buf \<le> len"
  shows "Skt_Read_loop len buf (map (Pair True) rs) = Some (len, take len (buf @ concat (map read_bytes rs)))"
  using assms
proof (induction rs arbitrary: buf)
  case (Cons r rs)
  show ?case
  proof (cases "length buf < len")
    case True
    from Cons.prems(1) consider "r = Poll_timeout" | d where "r = Poll_bytes d" "d \<noteq> []" by auto
    then show ?thesis
    proof cases
      case 1
      then show ?thesis using Cons.IH [of buf] Cons.prems True by simp
    next
      case 2
      then show ?thesis
        using Cons.IH [of "buf @ take (len - length buf) d"] Cons.prems True
        by (cases "length d \<le> len - length buf") (auto simp: min_def not_le)
    qed
  qed (use Cons.prems in simp)
qed simp

end
