(* ===== verification/Spec2Isabelle.thy ===== *)
theory Spec2Isabelle
  imports BtProperties H5Properties H5EndToEnd RtkProperties HwProperties UserialProperties LiveProperties HwUsbProperties
    VendorProperties RtkSocket
begin

text \<open>A verification of the Bluetooth vendor library of the Unionpi Tiger board
  (src/unionpi_tiger/hardware/bt): packet buffers, the three-wire UART transport (H5), the start-up of
  the controller with its firmware download, the traffic between UART and Bluetooth stack, the
  Wi-Fi/Bluetooth coexistence module and the heartbeat, which are the parts of the repository with logic
  of their own.

  \<^bold>\<open>The program.\<close> The Bluetooth stack hands HCI packets to the vendor library through a socket.
  userial_vendor.c puts them together, changes a few commands, and gives them to the UART, as they are or
  through the transport of hci_h5.c, which frames them, numbers and acknowledges the reliable ones,
  retransmits after a timeout, and on the way back unescapes and checks the bytes of the UART. Its queues
  are those of bt_skbuff.c, built on the intrusive list of bt_list.c. What the controller sends goes to the
  stack, and a copy of all traffic to the coexistence thread, where rtk_parse.c keeps a table of
  connections and their profiles, tells the controller's firmware and the Wi-Fi driver what is going on,
  and executes the requests of the Wi-Fi driver. hardware_uart.c identifies the controller, builds its
  firmware image and downloads it. rtk_btservice.c sends vendor commands one at a time; rtk_heartbeat.c
  uses it, with the timer of rtk_poll.c, to find out that the controller has failed.

  \<^bold>\<open>Theories and sources.\<close>
  \<^item> \<open>Prelude\<close>: word types, bytes and little-endian numbers, the collections of rewrite rules.
  \<^item> \<open>BtList\<close> (bt_list.c): the circular list as a store of \<open>Next\<close> and \<open>Prev\<close> pointers; the predicate
    \<open>ring\<close> says that a header and its nodes form a list.
  \<^item> \<open>BtSkbuff\<close> (bt_skbuff.c, buffers): a buffer is its memory block with the offsets of the source;
    the allocator is a parameter of the state that may fail at any call and fills blocks arbitrarily.
  \<^item> \<open>BtQueue\<close> (bt_skbuff.c, queues): the queue functions on the pointer store. The locale
    \<open>deque_store\<close> states what a client may rely on (queues are lists; an operation on one leaves the
    others alone) and is interpreted on the pointer implementation. The theories above use lists.
  \<^item> \<open>OsTimer\<close>: the POSIX timer helpers; a timer is armed or not, with its period.
  \<^item> \<open>H5Codec\<close>, \<open>H5Tx\<close>, \<open>H5Link\<close>, \<open>H5Rx\<close>, \<open>H5Api\<close>, \<open>H5Establish\<close> (hci_h5.c): escape coding and CRC; the
    control block, construction, queueing and sending of packets; acknowledgement, retransmission and
    link establishment; the receive machine; the functions the library calls, and the transition system
    \<open>h5_step\<close> of all of them with its invariant; the link's state machine.
  \<^item> \<open>H5EndToEnd\<close>: one transport's output fed to another's input.
  \<^item> \<open>RtkCoex\<close>, \<open>RtkProfile\<close>, \<open>RtkParse\<close>, \<open>RtkProfileInv\<close> (rtk_parse.c): the command channel to the
    firmware (locale \<open>cmd_channel\<close>, interpreted on the channel) and the messages to the Wi-Fi driver;
    connections, channels and profiles; events, commands and requests; the bookkeeping invariant.
  \<^item> \<open>HwPatch\<close>, \<open>HwAlt\<close>, \<open>HwConfig\<close> (hardware_uart.c, hardware.c): chips, configuration files and the
    firmware image; extra settings; the states of \<open>hw_config_cback\<close> and the download.
  \<^item> \<open>VndState\<close>, \<open>UserialIo\<close>, \<open>UserialHost\<close>, \<open>UserialCtrl\<close>, \<open>UserialCoex\<close> (userial_vendor.c): the state
    \<open>vnd_lib\<close> of the whole library; writing; the direction from the stack, from the controller, and the
    coexistence thread. The locale \<open>byte_machine\<close> states what a packet assembler promises (a call with
    some bytes is the calls with each of them) and is interpreted on the two assemblers of the file.
  \<^item> \<open>UserialStream\<close>: the assembler of the receiving direction against a scanner of the byte stream.
  \<^item> \<open>RtkService\<close> (rtk_poll.c, rtk_btservice.c), \<open>RtkHeartbeat\<close> (rtk_heartbeat.c): the timer, the command
    service and the heartbeat.
  \<^item> \<open>HwUsb\<close> (hardware_usb.c): the start-up over USB, which no configuration of the library reaches.
  \<^item> \<open>BtSnoop\<close> (rtk_btsnoop_net.c), \<open>Upio\<close> (upio.c), \<open>RtkSocket\<close> (rtk_socket.c): packet logs with a reader of
    their format, power lines, socket helpers.
  \<^item> \<open>BtVendor\<close> (bt_vendor_rtk.c; opening and closing in userial_vendor.c): the configuration file and the
    entry points the stack calls, on the state \<open>bt_vendor\<close> of all components.
  \<^item> \<open>BtProperties\<close>, \<open>H5Properties\<close>, \<open>RtkProperties\<close>, \<open>HwProperties\<close>, \<open>UserialProperties\<close>, \<open>LiveProperties\<close>,
    \<open>HwUsbProperties\<close>, \<open>SnoopProperties\<close>, \<open>VendorProperties\<close> and this theory hold the properties.

  \<^bold>\<open>How state and control are modelled.\<close> A component's globals are one record; a handler is one function
  from state to state, with its allocations, timers and callbacks. The threads of the library run each
  handler under its mutex, so the transition systems interleave whole handlers. What leaves the library
  (bytes to the UART, packets to the stack, commands given to \<open>xmit_cb\<close>, messages to the Wi-Fi driver)
  is appended to a log field of the state. In \<open>vnd_lib\<close> a call that does not return normally (a failed
  assertion, an endless wait, a null pointer, an overrun array, a division by zero) has a \<open>vnd_fault\<close> as
  its result; the results of coming reads and writes are lists in the state. Machine integers are words of their width. Reads of a message
  past its end give 0 (\<open>byte_at\<close>); writes past the end of a buffer are recorded (\<open>null_deref\<close>,
  \<open>stack_overrun\<close>) or excluded by the invariants.

  \<^bold>\<open>What is shown.\<close> The queues are lists and moving them loses nothing. The transport never dereferences
  a missing buffer and never overruns one; it keeps the window, numbers packets consecutively, sends them
  in order, resends exactly the unacknowledged ones under their old numbers, and gives up after the
  configured number of rounds; the receive machine resynchronises at every delimiter, drops what is
  damaged or out of order, and delivers what the other end framed, once and in order. The link reaches
  the active state when the peer answers. The coexistence module sends firmware commands in order with
  one in flight, its counts and bitmaps stay consistent, its reports say what the tables hold. The start-up downloads exactly the image that belongs to
  the chip. Streams of packets cross the library unchanged but for the documented changes, in pieces of any
  size, and every packet reaches the coexistence module once. An answered heartbeat goes on for ever, an
  unanswered one is reported after three periods. Where the code falls short of this, the exact condition is
  proved instead (arrays that are overrun, commands that are lost, a loop that never ends, a restart that
  continues an old packet, logs that are never opened). The log file, were it opened, reads back as exactly
  the packets captured.

  \<^bold>\<open>Loops.\<close> Every loop is a structurally recursive function or has a termination proof: the receive loop of
  the transport repeats a state change without consuming a byte, and its measure (\<open>rx_rank\<close>) bounds the
  repetitions. The exception is the loop over the heartbeat's configuration file, which does not end: it is
  a partial function with values in \<open>option\<close>. No fuel is used.

  \<^bold>\<open>Not modelled.\<close> File descriptors, sockets, terminal settings and threads as such (their calls appear as
  parameters or fields of the state); logging; the two functions of bt_vendor_rtk.c
  that scan for USB devices, which nothing calls. The code under CONFIG_SCO_OVER_HCI is not
  compiled.
  The kernel drivers of the repository are vendored (Realtek Wi-Fi, Arm and Amlogic camera and media
  drivers) or program registers through frameworks that are not part of the repository.\<close>

section \<open>Transports back to back\<close>

text \<open>C3: a packet framed by one end and received by the other, whose receive machine is idle and
  expects its sequence number, is delivered to the stack there with its type and exactly its payload;
  the receiver takes over the acknowledgement and expects the number the sender will use next.\<close>

theorem h5_frame_end_to_end:
  assumes ms: "\<And>n. malloc_ok (heap s) n" and mr: "\<And>n. malloc_ok (heap r) n"
    and tx: "tx_inv s" and inv: "h5_inv r" and rx: "\<not> rx_collecting (rx_state r)"
    and t: "h5_pkt_reliable t = Some rl" "h5_pass_up t" and len: "length d \<le> 0xFFF"
    and ord: "rl \<longrightarrow> msgq_txseq s = rxseq_txack r"
    and ev: "t = HCI_EVENT_PKT \<longrightarrow> 5 \<le> length d" "\<not> baudrate_event t d"
  shows "\<exists>b s' c r'. h5_prepare_pkt s d t = (Some b, s') \<and>
    hci_h5_receive_msg r (rtb_bytes b) = (True, r') \<and> recv_data r' = recv_data r @ [c] \<and>
    rb_PacketType c = t \<and> rtb_bytes c = d \<and> rxack r' = rxseq_txack s \<and>
    (rl \<longrightarrow> rxseq_txack r' = msgq_txseq s') \<and> h5_inv r'"
proof -
  obtain b s' where p: "h5_prepare_pkt s d t = (Some b, s')"
    by (rule h5_prepare_pkt_total [OF ms t(1) len])
  have lt: "rxseq_txack s < 8" "msgq_txseq s < 8" "t < 16"
    using tx t(2) by (auto simp: tx_inv_def h5_pass_up_def pkt_type_defs)
  obtain q e where q: "h5_pkt_reliable t = Some q" "s' = s\<lparr>heap := e, is_txack_req := 0,
      msgq_txseq := (if q then (msgq_txseq s + 1) AND 7 else msgq_txseq s)\<rparr>"
    "rtb_bytes b = h5_frame (oof_flow_control s) (use_crc s \<noteq> 0)
      (h5_header (rxseq_txack s) (msgq_txseq s) q (use_crc s \<noteq> 0) t (of_nat (length d)) @ d)"
    by (rule h5_prepare_pkt_Some [OF p len]) blast
  have qr: "q = rl" using q(1) t(1) by simp
  obtain r' c where r': "h5_inv r'" "rtb_bytes c = d" "rb_PacketType c = t" "recv_data r' = recv_data r @ [c]"
    "rxseq_txack r' = (if rl then (msgq_txseq s + 1) AND 7 else rxseq_txack r)" "rxack r' = rxseq_txack s"
    "\<And>rest k. h5_recv r (rtb_bytes b @ rest) k = h5_recv r' rest True"
    unfolding q(3) qr
    by (rule frame_delivered [where oof = "oof_flow_control s" and crc = "use_crc s \<noteq> 0",
          OF mr inv rx lt len ord t(2) ev]) blast
  have "hci_h5_receive_msg r (rtb_bytes b) = (True, r')"
    using r'(7) [of "[]"] by (simp add: hci_h5_receive_msg_def)
  then show ?thesis using p r' q(2) qr by auto
qed

text \<open>Witness of C3: a command from a fresh transport to a fresh transport.\<close>

theorem h5_frame_end_to_end_witness:
  "\<exists>b s' c r'. h5_prepare_pkt h5_boot [3, 12, 0] HCI_COMMAND_PKT = (Some b, s') \<and>
     hci_h5_receive_msg h5_boot (rtb_bytes b) = (True, r') \<and> recv_data r' = [c] \<and> rtb_bytes c = [3, 12, 0]"
proof -
  have "tx_inv h5_boot" using h5_boot_simps(3) by (simp add: h5_inv_def core_inv_def)
  then show ?thesis
    using h5_frame_end_to_end [of h5_boot h5_boot HCI_COMMAND_PKT True "[3, 12, 0]"]
    by (auto simp: rx_collecting_def h5_pkt_reliable_def h5_pass_up_def baudrate_event_def pkt_type_defs)
qed

text \<open>C2: everything a wake-up of one end sends from its reliable queue arrives at the other end
  exactly once, in order, with type and payload, and afterwards the two ends agree on the next sequence
  number.\<close>

theorem h5_window_end_to_end:
  assumes ms: "\<And>n. malloc_ok (heap s) n" and mr: "\<And>n. malloc_ok (heap r) n"
    and tx: "tx_inv s" and inv: "h5_inv r" and rx: "\<not> rx_collecting (rx_state r)"
    and q: "unrel s = []" "is_txack_req s = 0" and ord: "rxseq_txack r = msgq_txseq s"
  shows "\<exists>frames cs. transmitted (h5_wake_up s) = transmitted s @ frames \<and>
    (let r' = snd (hci_h5_receive_msg r (concat frames)) in
     recv_data r' = recv_data r @ cs \<and>
     map (\<lambda>c. (rb_PacketType c, rtb_bytes c)) cs =
       map (\<lambda>b. (rb_PacketType b, rtb_bytes b))
         (take (unat (sliding_window_size s) - length (unack s)) (rel s)) \<and>
     rxseq_txack r' = msgq_txseq (h5_wake_up s) \<and> h5_inv r')"
proof -
  let ?bs = "take (window_room s) (rel s)"
  have bs: "?bs = take (unat (sliding_window_size s) - length (unack s)) (rel s)"
    by (simp add: window_room_def min_def)
  have lt: "msgq_txseq s < 8" "rxseq_txack s < 8" and ok: "list_all rel_pkt ?bs"
    using tx by (auto simp: tx_inv_def list_all_iff dest: in_set_takeD)
  have post: "wake_post s (h5_wake_up s)" by (rule h5_wake_up_post [OF ms tx])
  obtain r' cs where r': "\<And>k. h5_recv r (concat (rel_frames s (msgq_txseq s) ?bs)) k = (k \<or> ?bs \<noteq> [], r')"
    "recv_data r' = recv_data r @ cs"
    "map (\<lambda>c. (rb_PacketType c, rtb_bytes c)) cs = map (\<lambda>b. (rb_PacketType b, rtb_bytes b)) ?bs"
    "rxseq_txack r' = (msgq_txseq s + of_nat (length ?bs)) AND 7" "h5_inv r'"
    using rel_frames_delivered [OF mr inv rx ord lt ok] by blast
  have "length ?bs = window_room s" by (simp add: window_room_def)
  then show ?thesis
    using post q r' unfolding bs [symmetric]
    by (intro exI [of _ "rel_frames s (msgq_txseq s) ?bs"] exI [of _ cs])
      (auto simp: wake_post_def wake_frames_def Let_def hci_h5_receive_msg_def)
qed

text \<open>Witness of C2: one waiting command and a receiver that expects number 1.\<close>

theorem h5_window_end_to_end_witness:
  "\<exists>frames cs. transmitted (h5_wake_up h5_busy) = frames \<and>
     recv_data (snd (hci_h5_receive_msg (h5_boot\<lparr>rxseq_txack := 1\<rparr>) (concat frames))) = cs \<and>
     map rtb_bytes cs = [[3, 12]]"
proof -
  have "h5_inv (h5_boot\<lparr>rxseq_txack := 1\<rparr>)"
    using h5_boot_simps(3) by (simp add: h5_inv_def rx_inv_def rx_collecting_def)
  then obtain frames cs where f: "transmitted (h5_wake_up h5_busy) = frames"
    "recv_data (snd (hci_h5_receive_msg (h5_boot\<lparr>rxseq_txack := 1\<rparr>) (concat frames))) = cs"
    "map (\<lambda>c. (rb_PacketType c, rtb_bytes c)) cs = [(rb_PacketType cmd_pkt, rtb_bytes cmd_pkt)]"
    using h5_window_end_to_end [of h5_busy "h5_boot\<lparr>rxseq_txack := 1\<rparr>"]
    by (auto simp: rx_collecting_def Let_def)
  have "map rtb_bytes cs = map snd (map (\<lambda>c. (rb_PacketType c, rtb_bytes c)) cs)" by simp
  with f show ?thesis by simp
qed

end
